(* ===== verification/Go_Base.thy ===== *)
theory Go_Base
  imports Complex_Main "HOL-Library.AList" "HOL-Library.Sublist"
begin

text \<open>
  The vocabulary shared by every component: Go strings (byte sequences, so \<open>char list\<close>),
  the functions of the packages \<^verbatim>\<open>strings\<close> and \<^verbatim>\<open>time\<close> the program calls, Go maps as
  association lists, dynamically typed values (\<^verbatim>\<open>interface{}\<close>), and the generic lemmas on
  them. A Go map is an association list with distinct keys; its lookup is \<^const>\<open>map_of\<close>, a
  write is \<^const>\<open>AList.update\<close>, a delete is \<^const>\<open>AList.delete\<close>. The order of the list
  stands for the unspecified iteration order of Go.
\<close>

named_theorems go_map \<open>lookups after writes, deletes, sweeps and merges of Go maps\<close>
named_theorems go_str \<open>characterisations of the string functions\<close>

section \<open>Time\<close>

text \<open>
  Instants and durations are integers, in nanoseconds. Every call of \<^verbatim>\<open>time.Now()\<close> is a
  separate argument of the operation that makes it.
\<close>

type_synonym time = int
type_synonym duration = int

abbreviation (input) second :: duration where "second \<equiv> 1000000000"
abbreviation (input) minute :: duration where "minute \<equiv> 60 * second"
abbreviation (input) hour :: duration where "hour \<equiv> 60 * minute"

definition time_after :: "time \<Rightarrow> time \<Rightarrow> bool" where
  "time_after now t \<longleftrightarrow> t < now"

definition time_before :: "time \<Rightarrow> time \<Rightarrow> bool" where
  "time_before now t \<longleftrightarrow> now < t"

section \<open>Strings\<close>

definition has_prefix :: "string \<Rightarrow> string \<Rightarrow> bool" where
  "has_prefix p s \<longleftrightarrow> take (length p) s = p"

definition has_suffix :: "string \<Rightarrow> string \<Rightarrow> bool" where
  "has_suffix p s \<longleftrightarrow> has_prefix (rev p) (rev s)"

definition trim_prefix :: "string \<Rightarrow> string \<Rightarrow> string" where
  "trim_prefix p s = (if has_prefix p s then drop (length p) s else s)"

definition trim_suffix :: "string \<Rightarrow> string \<Rightarrow> string" where
  "trim_suffix p s = (if has_suffix p s then take (length s - length p) s else s)"

fun contains :: "string \<Rightarrow> string \<Rightarrow> bool" where
  "contains p [] = (p = [])"
| "contains p (c # s) = (has_prefix p (c # s) \<or> contains p s)"

text \<open>\<^verbatim>\<open>strings.Split\<close> with a separator of one byte, \<^verbatim>\<open>strings.SplitN(s, sep, 2)\<close>, and
  \<^verbatim>\<open>strings.Join\<close>.\<close>

fun split_on :: "char \<Rightarrow> string \<Rightarrow> string list" where
  "split_on c [] = [[]]"
| "split_on c (x # s) =
     (if x = c then [] # split_on c s
      else (case split_on c s of [] \<Rightarrow> [[x]] | w # ws \<Rightarrow> (x # w) # ws))"

definition split_two :: "char \<Rightarrow> string \<Rightarrow> string list" where
  "split_two c s =
     (let w = takeWhile (\<lambda>x. x \<noteq> c) s
      in if w = s then [s] else [w, drop (Suc (length w)) s])"

fun join :: "string \<Rightarrow> string list \<Rightarrow> string" where
  "join sep [] = []"
| "join sep [w] = w"
| "join sep (w # v # ws) = w @ sep @ join sep (v # ws)"

text \<open>\<^verbatim>\<open>strings.ReplaceAll(s, c, "")\<close> for one byte \<open>c\<close>.\<close>

definition remove_all :: "char \<Rightarrow> string \<Rightarrow> string" where
  "remove_all c s = filter (\<lambda>x. x \<noteq> c) s"

text \<open>
  \<^verbatim>\<open>strings.ToUpper\<close> has a fast path for strings of ASCII bytes, which is written out; the
  Unicode case tables behind the other path are the parameter \<open>up\<close>.
\<close>

definition is_ascii :: "char \<Rightarrow> bool" where
  "is_ascii c \<longleftrightarrow> (of_char c :: nat) < 128"

definition ascii_upper :: "char \<Rightarrow> char" where
  "ascii_upper c =
     (if 97 \<le> (of_char c :: nat) \<and> (of_char c :: nat) \<le> 122 then char_of ((of_char c :: nat) - 32) else c)"

definition to_upper :: "(string \<Rightarrow> string) \<Rightarrow> string \<Rightarrow> string" where
  "to_upper up s = (if list_all is_ascii s then map ascii_upper s else up s)"

text \<open>
  White space is what \<^verbatim>\<open>unicode.IsSpace\<close> accepts, as UTF-8 byte sequences. No such
  sequence starts inside another rune (the first byte is never a continuation byte), so a
  scan by bytes finds exactly the runs of white space that Go finds by runes.
\<close>

definition space_runes :: "string list" where
  "space_runes =
     [[CHR 0x20], [CHR 0x09], [CHR 0x0A], [CHR 0x0B], [CHR 0x0C], [CHR 0x0D],
      [CHR 0xC2, CHR 0x85], [CHR 0xC2, CHR 0xA0], [CHR 0xE1, CHR 0x9A, CHR 0x80],
      [CHR 0xE2, CHR 0x80, CHR 0x80], [CHR 0xE2, CHR 0x80, CHR 0x81],
      [CHR 0xE2, CHR 0x80, CHR 0x82], [CHR 0xE2, CHR 0x80, CHR 0x83],
      [CHR 0xE2, CHR 0x80, CHR 0x84], [CHR 0xE2, CHR 0x80, CHR 0x85],
      [CHR 0xE2, CHR 0x80, CHR 0x86], [CHR 0xE2, CHR 0x80, CHR 0x87],
      [CHR 0xE2, CHR 0x80, CHR 0x88], [CHR 0xE2, CHR 0x80, CHR 0x89],
      [CHR 0xE2, CHR 0x80, CHR 0x8A], [CHR 0xE2, CHR 0x80, CHR 0xA8],
      [CHR 0xE2, CHR 0x80, CHR 0xA9], [CHR 0xE2, CHR 0x80, CHR 0xAF],
      [CHR 0xE2, CHR 0x81, CHR 0x9F], [CHR 0xE3, CHR 0x80, CHR 0x80]]"

definition space_width :: "string list \<Rightarrow> string \<Rightarrow> nat" where
  "space_width qs s =
     (case find (\<lambda>q. has_prefix q s) qs of None \<Rightarrow> 0 | Some q \<Rightarrow> length q)"

definition flush :: "string \<Rightarrow> string list" where
  "flush w = (if w = [] then [] else [w])"

text \<open>\<open>words_from k w s\<close>: skip \<open>k\<close> bytes of a space rune; \<open>w\<close> is the field read so far.\<close>

fun words_from :: "nat \<Rightarrow> string \<Rightarrow> string \<Rightarrow> string list" where
  "words_from k w [] = flush w"
| "words_from (Suc k) w (c # s) = words_from k w s"
| "words_from 0 w (c # s) =
     (let n = space_width space_runes (c # s)
      in if n = 0 then words_from 0 (w @ [c]) s else flush w @ words_from (n - 1) [] s)"

definition str_fields :: "string \<Rightarrow> string list" where
  "str_fields s = words_from 0 [] s"

fun skip_spaces :: "string list \<Rightarrow> nat \<Rightarrow> string \<Rightarrow> string" where
  "skip_spaces qs k [] = []"
| "skip_spaces qs (Suc k) (c # s) = skip_spaces qs k s"
| "skip_spaces qs 0 (c # s) =
     (let n = space_width qs (c # s)
      in if n = 0 then c # s else skip_spaces qs (n - 1) s)"

definition trim_space :: "string \<Rightarrow> string" where
  "trim_space s =
     rev (skip_spaces (map rev space_runes) 0 (rev (skip_spaces space_runes 0 s)))"

section \<open>Dynamic values\<close>

text \<open>
  The dynamic types that occur behind \<^verbatim>\<open>interface{}\<close> in the program. \<open>GStrs\<close> is
  \<^verbatim>\<open>[]string\<close>, \<open>GArr\<close> is \<^verbatim>\<open>[]interface{}\<close>; a type assertion tells them apart. A float
  that comes out of JSON is finite, hence a rational.
\<close>

datatype goval =
    GNil
  | GBool bool
  | GInt int
  | GFloat rat
  | GStr string
  | GStrs "string list"
  | GArr "goval list"
  | GObj "(string \<times> goval) list"

type_synonym 'v gomap = "(string \<times> 'v) list"
type_synonym dict = "goval gomap"

definition as_str :: "goval option \<Rightarrow> string option" where
  "as_str v = (case v of Some (GStr s) \<Rightarrow> Some s | _ \<Rightarrow> None)"

definition as_bool :: "goval option \<Rightarrow> bool option" where
  "as_bool v = (case v of Some (GBool b) \<Rightarrow> Some b | _ \<Rightarrow> None)"

definition as_obj :: "goval option \<Rightarrow> dict option" where
  "as_obj v = (case v of Some (GObj m) \<Rightarrow> Some m | _ \<Rightarrow> None)"

definition str_or_empty :: "string option \<Rightarrow> string" where
  "str_or_empty v = (case v of None \<Rightarrow> [] | Some s \<Rightarrow> s)"

section \<open>Go maps\<close>

definition wf_map :: "('k \<times> 'v) list \<Rightarrow> bool" where
  "wf_map m \<longleftrightarrow> distinct (map fst m)"

text \<open>\<open>sweep P m\<close>: range over \<open>m\<close> and delete the entries whose value satisfies \<open>P\<close>.\<close>

definition sweep :: "('v \<Rightarrow> bool) \<Rightarrow> ('k \<times> 'v) list \<Rightarrow> ('k \<times> 'v) list" where
  "sweep P m = fold (\<lambda>(k, v) acc. if P v then AList.delete k acc else acc) m m"

text \<open>\<open>put_all b m\<close>: range over \<open>b\<close> and store each entry in \<open>m\<close>.\<close>

definition put_all :: "('k \<times> 'v) list \<Rightarrow> ('k \<times> 'v) list \<Rightarrow> ('k \<times> 'v) list" where
  "put_all b m = fold (\<lambda>(k, v) acc. AList.update k v acc) b m"

section \<open>Lemmas on strings\<close>

lemma has_prefix_iff [go_str]: "has_prefix p s \<longleftrightarrow> (\<exists>t. s = p @ t)"
  by (auto simp: has_prefix_def) (metis append_take_drop_id)

lemma has_prefix_Nil [simp]: "has_prefix [] s"
  by (simp add: has_prefix_def)

lemma has_prefix_append [simp]: "has_prefix p (p @ t)"
  by (simp add: has_prefix_def)

lemma has_suffix_iff [go_str]: "has_suffix p s \<longleftrightarrow> (\<exists>t. s = t @ p)"
  by (auto simp: has_suffix_def has_prefix_iff) (metis rev_append rev_rev_ident)

lemma has_suffix_append [simp]: "has_suffix p (t @ p)"
  by (auto simp: has_suffix_iff)

lemma trim_prefix_append [simp]: "trim_prefix p (p @ t) = t"
  by (simp add: trim_prefix_def)

lemma trim_suffix_append [simp]: "trim_suffix p (t @ p) = t"
  by (simp add: trim_suffix_def)

lemma trim_suffix_other: "\<not> has_suffix p s \<Longrightarrow> trim_suffix p s = s"
  by (simp add: trim_suffix_def)

lemma contains_iff [go_str]: "contains p s \<longleftrightarrow> sublist p s"
  by (induction s) (auto simp: has_prefix_iff prefix_def sublist_Cons_right)

lemma contains_trans: "contains p q \<Longrightarrow> contains q s \<Longrightarrow> contains p s"
  by (auto simp: contains_iff intro: sublist_order.order.trans)

lemma contains_refl [simp]: "contains s s"
  by (simp add: contains_iff)

lemma split_on_not_Nil [simp]: "split_on c s \<noteq> []"
  by (induction s) (auto split: list.splits)

lemma join_split_on [go_str]: "join [c] (split_on c s) = s"
proof (induction s)
  case Nil
  then show ?case by simp
next
  case (Cons x s)
  obtain w ws where "split_on c s = w # ws" by (cases "split_on c s") auto
  with Cons show ?case by (cases ws) auto
qed

lemma split_on_word: "c \<notin> set w \<Longrightarrow> split_on c w = [w]"
  by (induction w) auto

lemma split_on_append: "c \<notin> set w \<Longrightarrow> split_on c (w @ c # s) = w # split_on c s"
  by (induction w) auto

lemma split_on_join [go_str]:
  "ws \<noteq> [] \<Longrightarrow> \<forall>w\<in>set ws. c \<notin> set w \<Longrightarrow> split_on c (join [c] ws) = ws"
  by (induction "[c]" ws rule: join.induct) (auto simp: split_on_word split_on_append)

lemma to_upper_ascii: "list_all is_ascii s \<Longrightarrow> to_upper up s = map ascii_upper s"
  by (simp add: to_upper_def)

lemma remove_all_idem [simp]: "remove_all c (remove_all c s) = remove_all c s"
  by (simp add: remove_all_def)

section \<open>Lemmas on Go maps\<close>

lemma wf_map_Nil [simp]: "wf_map []"
  by (simp add: wf_map_def)

lemma wf_map_update [simp]: "wf_map m \<Longrightarrow> wf_map (AList.update k v m)"
  by (simp add: wf_map_def distinct_update)

lemma wf_map_delete [simp]: "wf_map m \<Longrightarrow> wf_map (AList.delete k m)"
  by (simp add: wf_map_def distinct_delete)

lemma map_of_update [simp, go_map]: "map_of (AList.update k v m) = (map_of m)(k \<mapsto> v)"
  by (rule update_conv')

lemma map_of_delete [simp, go_map]: "map_of (AList.delete k m) = (map_of m)(k := None)"
  by (rule delete_conv')

lemma fold_delete_filter:
  "fold (\<lambda>(k, v) acc. if P v then AList.delete k acc else acc) es m =
   filter (\<lambda>(k, v). \<not> (\<exists>u. (k, u) \<in> set es \<and> P u)) m"
proof (induction es arbitrary: m)
  case Nil
  then show ?case by simp
next
  case (Cons e es)
  obtain k v where e: "e = (k, v)" by (cases e)
  show ?case
    unfolding e fold.simps comp_def Cons.IH split_conv
    by (cases "P v") (auto simp: AList.delete_eq filter_filter intro!: filter_cong)
qed

lemma sweep_filter: "wf_map m \<Longrightarrow> sweep P m = filter (\<lambda>(k, v). \<not> P v) m"
  unfolding sweep_def fold_delete_filter wf_map_def
  by (rule filter_cong) (auto dest: eq_key_imp_eq_value)

lemma wf_map_sweep [simp]: "wf_map m \<Longrightarrow> wf_map (sweep P m)"
  by (simp add: sweep_filter) (simp add: wf_map_def distinct_map_filter)

lemma map_of_sweep [go_map]:
  assumes "wf_map m"
  shows "map_of (sweep P m) k =
    (case map_of m k of None \<Rightarrow> None | Some v \<Rightarrow> if P v then None else Some v)"
proof -
  have "map_of (filter (\<lambda>(k, v). \<not> P v) m) k =
      (case map_of m k of None \<Rightarrow> None | Some v \<Rightarrow> if P v then None else Some v)"
    using assms unfolding wf_map_def
    by (induction m) (auto split: option.splits simp: map_of_eq_None_iff)
  with assms show ?thesis by (simp add: sweep_filter)
qed

lemma map_of_sweep_SomeD: "wf_map m \<Longrightarrow> map_of (sweep P m) k = Some v \<Longrightarrow> map_of m k = Some v \<and> \<not> P v"
  by (auto simp: map_of_sweep split: option.splits if_splits)

lemma set_sweep: "wf_map m \<Longrightarrow> set (sweep P m) = {(k, v) \<in> set m. \<not> P v}"
  by (auto simp: sweep_filter)

lemma wf_map_put_all [simp]: "wf_map m \<Longrightarrow> wf_map (put_all b m)"
  unfolding put_all_def
  by (induction b arbitrary: m) (auto split: prod.splits)

lemma map_of_put_all [go_map]:
  "wf_map b \<Longrightarrow> map_of (put_all b m) k = (case map_of b k of None \<Rightarrow> map_of m k | Some v \<Rightarrow> Some v)"
  unfolding put_all_def wf_map_def
proof (induction b arbitrary: m)
  case Nil
  then show ?case by simp
next
  case (Cons e b)
  obtain k' v where e: "e = (k', v)" by (cases e)
  with Cons.prems have "map_of b k' = None" by (simp add: map_of_eq_None_iff)
  with Cons e show ?case by (auto split: option.splits)
qed

lemma put_all_Nil [simp]: "put_all [] m = m"
  by (simp add: put_all_def)

text \<open>A loop leaves what each of its iterations leaves.\<close>

lemma fold_preserves: "(\<And>e s. f (g e s) = f s) \<Longrightarrow> f (fold g es s) = f s"
  by (induction es arbitrary: s) simp_all

end
