(* ===== verification/Url.thy ===== *)
theory Url
  imports Go_Base "HOL-Library.Char_ord" "HOL-Library.List_Lexorder"
begin

text \<open>
  What the handlers use of \<^verbatim>\<open>net/url\<close>: query escaping, the parsing and encoding of query
  strings, and the type \<^verbatim>\<open>url.Values\<close>. Parsing a whole URL and printing it
  (\<^verbatim>\<open>url.Parse\<close>, \<^verbatim>\<open>URL.String\<close>) are parameters of the handlers; of a parsed URL they read and
  write the path, the raw query and the raw fragment only.
\<close>

section \<open>Escaping\<close>

definition unreserved :: "char \<Rightarrow> bool" where
  "unreserved c \<longleftrightarrow>
     c \<in> set ''ABCDEFGHIJKLMNOPQRSTUVWXYZabcdefghijklmnopqrstuvwxyz0123456789-_.~''"

definition upper_hex :: "nat \<Rightarrow> char" where
  "upper_hex n = ''0123456789ABCDEF'' ! n"

fun QueryEscape :: "string \<Rightarrow> string" where
  "QueryEscape [] = []"
| "QueryEscape (c # s) =
     (if c = CHR '' '' then CHR ''+'' # QueryEscape s
      else if unreserved c then c # QueryEscape s
      else CHR ''%'' # upper_hex (of_char c div 16) # upper_hex (of_char c mod 16) # QueryEscape s)"

definition hex_value :: "char \<Rightarrow> nat option" where
  "hex_value c =
     (let n = of_char c :: nat
      in if 48 \<le> n \<and> n \<le> 57 then Some (n - 48)
         else if 97 \<le> n \<and> n \<le> 102 then Some (n - 87)
         else if 65 \<le> n \<and> n \<le> 70 then Some (n - 55)
         else None)"

fun QueryUnescape :: "string \<Rightarrow> string option" where
  "QueryUnescape [] = Some []"
| "QueryUnescape (c # s) =
     (if c = CHR ''%'' then
        (case s of
           a # b # r \<Rightarrow>
             (case (hex_value a, hex_value b) of
                (Some x, Some y) \<Rightarrow> map_option (Cons (char_of (x * 16 + y))) (QueryUnescape r)
              | _ \<Rightarrow> None)
         | _ \<Rightarrow> None)
      else map_option (Cons (if c = CHR ''+'' then CHR '' '' else c)) (QueryUnescape s))"

section \<open>Values\<close>

type_synonym url_values = "string list gomap"

definition values_get :: "url_values \<Rightarrow> string \<Rightarrow> string" where
  "values_get v key =
     (case map_of v key of None \<Rightarrow> [] | Some vs \<Rightarrow> (if vs = [] then [] else hd vs))"

definition values_set :: "string \<Rightarrow> string \<Rightarrow> url_values \<Rightarrow> url_values" where
  "values_set key x v = AList.update key [x] v"

definition values_add :: "string \<Rightarrow> string \<Rightarrow> url_values \<Rightarrow> url_values" where
  "values_add key x v =
     AList.update key ((case map_of v key of None \<Rightarrow> [] | Some vs \<Rightarrow> vs) @ [x]) v"

definition values_encode :: "url_values \<Rightarrow> string" where
  "values_encode v =
     join ''&'' (concat (map (\<lambda>k. map (\<lambda>x. QueryEscape k @ ''='' @ QueryEscape x) (the (map_of v k)))
       (sort (map fst v))))"

definition parse_pair :: "string \<Rightarrow> url_values \<Rightarrow> url_values" where
  "parse_pair key m =
     (if contains '';'' key then m
      else if key = [] then m
      else let k = takeWhile (\<lambda>c. c \<noteq> CHR ''='') key;
               x = drop (Suc (length k)) key
           in case QueryUnescape k of
                None \<Rightarrow> m
              | Some k \<Rightarrow> (case QueryUnescape x of None \<Rightarrow> m | Some x \<Rightarrow> values_add k x m))"

definition ParseQuery :: "string \<Rightarrow> url_values" where
  "ParseQuery query = fold parse_pair (split_on (CHR ''&'') query) []"

record url =
  urlPath :: string
  urlRawQuery :: string
  urlRawFragment :: string
  urlRest :: string

definition url_query :: "url \<Rightarrow> url_values" where
  "url_query u = ParseQuery (urlRawQuery u)"

section \<open>Round trips\<close>

lemma hex_digits_read_back: "list_all (\<lambda>n. hex_value (upper_hex n) = Some n) [0..<16]"
  by code_simp

lemma hex_value_upper_hex: "n < 16 \<Longrightarrow> hex_value (upper_hex n) = Some n"
  using hex_digits_read_back by (simp add: list_all_iff)

lemma char_of_parts: "char_of (of_char c div 16 * 16 + of_char c mod 16 :: nat) = c"
  by (simp only: div_mult_mod_eq char_of_char)

lemma of_char_lt [simp]: "(of_char c :: nat) < 256"
  using nat_of_char_less_256 [of c] by simp

lemma QueryUnescape_QueryEscape [go_str]: "QueryUnescape (QueryEscape s) = Some s"
proof (induction s)
  case Nil
  then show ?case by simp
next
  case (Cons c s)
  have "(of_char c :: nat) div 16 < 16" by (simp add: less_mult_imp_div_less)
  moreover have "\<not> unreserved (CHR ''%'')" "\<not> unreserved (CHR ''+'')"
    by (simp_all add: unreserved_def)
  ultimately show ?case
    using Cons by (auto simp: hex_value_upper_hex char_of_parts simp del: of_char_of)
qed

text \<open>Escaped text is free of the separators of a query string.\<close>

lemma separators_reserved [simp]:
  "\<not> unreserved (CHR ''&'')" "\<not> unreserved (CHR ''='')" "\<not> unreserved (CHR '';'')"
  by (simp_all add: unreserved_def)

lemma upper_hex_clean:
  "n < 16 \<Longrightarrow> upper_hex n \<noteq> CHR ''&'' \<and> upper_hex n \<noteq> CHR ''='' \<and> upper_hex n \<noteq> CHR '';''"
proof -
  have "list_all (\<lambda>n. upper_hex n \<noteq> CHR ''&'' \<and> upper_hex n \<noteq> CHR ''='' \<and> upper_hex n \<noteq> CHR '';'') [0..<16]"
    by code_simp
  then show "n < 16 \<Longrightarrow> ?thesis" by (simp add: list_all_iff)
qed

lemma QueryEscape_clean: "c \<in> set (QueryEscape s) \<Longrightarrow> c \<noteq> CHR ''&'' \<and> c \<noteq> CHR ''='' \<and> c \<noteq> CHR '';''"
proof (induction s)
  case Nil
  then show ?case by simp
next
  case (Cons a s)
  have lt: "(of_char a :: nat) div 16 < 16" "(of_char a :: nat) mod 16 < 16"
    by (simp_all add: less_mult_imp_div_less)
  note hex = upper_hex_clean [OF lt(1)] upper_hex_clean [OF lt(2)]
  consider "a = CHR '' ''" | "a \<noteq> CHR '' ''" "unreserved a" | "a \<noteq> CHR '' ''" "\<not> unreserved a" by blast
  then show ?case
  proof cases
    case 2
    then have "a \<noteq> CHR ''&'' \<and> a \<noteq> CHR ''='' \<and> a \<noteq> CHR '';''" by auto
    with 2 Cons show ?thesis by auto
  qed (use Cons hex in auto)
qed

lemma QueryEscape_Nil [simp]: "QueryEscape s = [] \<longleftrightarrow> s = []"
  by (cases s) simp_all

lemma takeWhile_escaped:
  "takeWhile (\<lambda>c. c \<noteq> CHR ''='') (QueryEscape k @ ''='' @ x) = QueryEscape k"
  by (subst takeWhile_append2) (auto dest: QueryEscape_clean)

lemma contains_char: "contains [c] s \<longleftrightarrow> c \<in> set s"
  by (induction s) (auto simp: has_prefix_def)

lemma parse_pair_escaped: "parse_pair (QueryEscape k @ ''='' @ QueryEscape x) m = values_add k x m"
proof -
  have "\<not> contains '';'' (QueryEscape k @ ''='' @ QueryEscape x)"
    unfolding contains_char by (auto dest: QueryEscape_clean)
  then show ?thesis
    unfolding parse_pair_def Let_def takeWhile_escaped
    by (simp add: QueryUnescape_QueryEscape)
qed

text \<open>The name/value pairs of a query string, in the order they are written.\<close>

definition value_pairs :: "url_values \<Rightarrow> (string \<times> string) list" where
  "value_pairs v = concat (map (\<lambda>k. map (Pair k) (the (map_of v k))) (sort (map fst v)))"

definition pair_text :: "string \<times> string \<Rightarrow> string" where
  "pair_text p = QueryEscape (fst p) @ ''='' @ QueryEscape (snd p)"

lemma values_encode_pairs: "values_encode v = join ''&'' (map pair_text (value_pairs v))"
  by (simp add: values_encode_def value_pairs_def pair_text_def map_concat comp_def)

lemma ParseQuery_pairs:
  "ParseQuery (join ''&'' (map pair_text ps)) = fold (\<lambda>(k, x). values_add k x) ps []"
proof (cases "ps = []")
  case True
  then show ?thesis by (simp add: ParseQuery_def parse_pair_def)
next
  case False
  have "\<forall>w\<in>set (map pair_text ps). CHR ''&'' \<notin> set w"
    by (auto simp: pair_text_def dest: QueryEscape_clean)
  with False have "split_on (CHR ''&'') (join ''&'' (map pair_text ps)) = map pair_text ps"
    by (intro split_on_join) auto
  moreover have "fold parse_pair (map pair_text ps) m = fold (\<lambda>(k, x). values_add k x) ps m" for m
    by (induction ps arbitrary: m) (simp_all add: pair_text_def parse_pair_escaped [simplified] split_beta)
  ultimately show ?thesis by (simp add: ParseQuery_def)
qed

definition values_of :: "url_values \<Rightarrow> string \<Rightarrow> string list" where
  "values_of v k = (case map_of v k of None \<Rightarrow> [] | Some vs \<Rightarrow> vs)"

lemma values_of_add: "values_of (values_add k x v) k' = (if k' = k then values_of v k @ [x] else values_of v k')"
  by (simp add: values_of_def values_add_def)

lemma values_of_fold_add:
  "values_of (fold (\<lambda>(k, x). values_add k x) ps m) k = values_of m k @ map snd (filter (\<lambda>p. fst p = k) ps)"
  by (induction ps arbitrary: m) (auto simp: values_of_add)

lemma value_pairs_of:
  assumes "wf_map v"
  shows "map snd (filter (\<lambda>p. fst p = k) (value_pairs v)) = values_of v k"
proof -
  have "map snd (filter (\<lambda>p. fst p = k) (concat (map (\<lambda>k. map (Pair k) (the (map_of v k))) ks))) =
      (if k \<in> set ks then the (map_of v k) else [])" if "distinct ks" for ks
    using that by (induction ks) (auto simp: filter_map comp_def intro: filter_False)
  from this [of "sort (map fst v)"] assms
  have "map snd (filter (\<lambda>p. fst p = k) (value_pairs v)) =
      (if k \<in> fst ` set v then the (map_of v k) else [])"
    by (simp add: value_pairs_def wf_map_def)
  moreover have "k \<in> fst ` set v \<longleftrightarrow> map_of v k \<noteq> None"
    by (simp add: map_of_eq_None_iff)
  ultimately show ?thesis by (auto simp: values_of_def)
qed

lemma values_of_ParseQuery_encode [go_str]:
  "wf_map v \<Longrightarrow> values_of (ParseQuery (values_encode v)) k = values_of v k"
  unfolding values_encode_pairs ParseQuery_pairs values_of_fold_add
  by (simp add: value_pairs_of) (simp add: values_of_def)

lemma values_get_of: "values_get v k = (case values_of v k of [] \<Rightarrow> [] | x # _ \<Rightarrow> x)"
  by (auto simp: values_get_def values_of_def split: option.split list.split)

lemma wf_parse_pair [simp]: "wf_map m \<Longrightarrow> wf_map (parse_pair p m)"
  by (auto simp: parse_pair_def Let_def values_add_def split: option.split)

lemma wf_ParseQuery [simp]: "wf_map (ParseQuery q)"
proof -
  have "wf_map (fold parse_pair ps m)" if "wf_map m" for ps m
    using that by (induction ps arbitrary: m) simp_all
  then show ?thesis by (simp add: ParseQuery_def)
qed

lemma wf_values_set [simp]: "wf_map v \<Longrightarrow> wf_map (values_set k x v)"
  by (simp add: values_set_def)

lemma values_get_set [simp]: "values_get (values_set k x v) k' = (if k' = k then x else values_get v k')"
  by (simp add: values_get_def values_set_def)

lemma values_get_ParseQuery_encode:
  "wf_map v \<Longrightarrow> values_get (ParseQuery (values_encode v)) k = values_get v k"
  by (simp add: values_get_of values_of_ParseQuery_encode)

section \<open>Properties\<close>

text \<open>Escaping is reversible on every string, and its result contains none of the separators
  of a query string.\<close>

lemma query_escape_roundtrip:
  "QueryUnescape (QueryEscape s) = Some s
   \<and> set (QueryEscape s) \<inter> {CHR ''&'', CHR ''='', CHR '';''} = {}"
  using QueryEscape_clean by (auto simp: QueryUnescape_QueryEscape)

text \<open>A query string that is encoded and parsed again has, under every name, the same list of
  values in the same order, whatever bytes names and values contain.\<close>

lemma query_roundtrip:
  assumes "wf_map v"
  shows "(case map_of (ParseQuery (values_encode v)) k of None \<Rightarrow> [] | Some xs \<Rightarrow> xs) =
    (case map_of v k of None \<Rightarrow> [] | Some xs \<Rightarrow> xs)"
  using values_of_ParseQuery_encode [OF assms] by (simp add: values_of_def)

end
