(* ===== verification/Grants.thy ===== *)
theory Grants
  imports Go_Base
begin

text \<open>
  \<^verbatim>\<open>internal/grants/store.go\<close>: authorization codes, refresh tokens and device codes, each with
  an expiry. Every method holds the store's mutex for its whole body, so it is one step on
  \<open>grant_store\<close> and any concurrent use is a sequence of such steps. Each call of
  \<^verbatim>\<open>time.Now()\<close> is an argument of its own, in the order of the calls. The map values are
  pointers that only the store keeps after a save; a write through one
  (\<^verbatim>\<open>dc.UserAuthorized = true\<close>) is an update of the map. The parameter \<open>up\<close> is the Unicode
  path of \<^verbatim>\<open>strings.ToUpper\<close>.
\<close>

section \<open>State\<close>

record auth_code =
  acUserID :: string
  acClientID :: string
  acRedirectURI :: string
  acScope :: string
  acAudience :: string
  acNonce :: string
  acSessionID :: string
  acCodeChallenge :: string
  acCodeChallengeMethod :: string
  acExpiresAt :: time

record refresh_grant =
  rgUserID :: string
  rgClientID :: string
  rgScope :: string
  rgAudience :: string
  rgSessionID :: string
  rgExpiresAt :: time

record device_code =
  dcDeviceCode :: string
  dcUserCode :: string
  dcUserID :: string
  dcClientID :: string
  dcScope :: string
  dcAudience :: string
  dcExpiresAt :: time
  dcInterval :: int
  dcUserAuthorized :: bool
  dcAccessDenied :: bool
  dcExpired :: bool

record grant_store =
  codes :: "auth_code gomap"
  refresh :: "refresh_grant gomap"
  devices :: "device_code gomap"
  userCodes :: "string gomap"
  codeTTL :: duration
  refreshTTL :: duration
  deviceTTL :: duration

definition NewStore :: "duration \<Rightarrow> duration \<Rightarrow> duration list \<Rightarrow> grant_store" where
  "NewStore codeTTL0 refreshTTL0 deviceTTLs =
     (let cTTL = (if codeTTL0 \<le> 0 then 5 * minute else codeTTL0);
          rTTL = (if refreshTTL0 \<le> 0 then 30 * 24 * hour else refreshTTL0);
          dt = (case deviceTTLs of
                  [] \<Rightarrow> 15 * minute
                | d # _ \<Rightarrow> if 0 < d then d else 15 * minute)
      in \<lparr>codes = [], refresh = [], devices = [], userCodes = [],
          codeTTL = cTTL, refreshTTL = rTTL, deviceTTL = dt\<rparr>)"

section \<open>Authorization codes\<close>

definition cleanExpiredCodesLocked :: "time \<Rightarrow> grant_store \<Rightarrow> grant_store" where
  "cleanExpiredCodesLocked now s =
     s\<lparr>codes := sweep (\<lambda>v. time_after now (acExpiresAt v)) (codes s)\<rparr>"

definition SaveCode :: "time \<Rightarrow> time \<Rightarrow> string \<Rightarrow> auth_code \<Rightarrow> grant_store \<Rightarrow> grant_store" where
  "SaveCode now0 now1 code ac s =
     (let ac = ac\<lparr>acExpiresAt := now0 + codeTTL s\<rparr>;
          s = cleanExpiredCodesLocked now1 s
      in s\<lparr>codes := AList.update code ac (codes s)\<rparr>)"

definition ConsumeCode :: "time \<Rightarrow> string \<Rightarrow> grant_store \<Rightarrow> auth_code option \<times> grant_store" where
  "ConsumeCode now code s =
     (case map_of (codes s) code of
        None \<Rightarrow> (None, s)
      | Some ac \<Rightarrow>
          if time_after now (acExpiresAt ac)
          then (None, s\<lparr>codes := AList.delete code (codes s)\<rparr>)
          else (Some ac, s\<lparr>codes := AList.delete code (codes s)\<rparr>))"

section \<open>Refresh tokens\<close>

definition cleanExpiredRefreshLocked :: "time \<Rightarrow> grant_store \<Rightarrow> grant_store" where
  "cleanExpiredRefreshLocked now s =
     s\<lparr>refresh := sweep (\<lambda>v. time_after now (rgExpiresAt v)) (refresh s)\<rparr>"

definition SaveRefreshToken ::
  "time \<Rightarrow> time \<Rightarrow> string \<Rightarrow> refresh_grant \<Rightarrow> grant_store \<Rightarrow> grant_store" where
  "SaveRefreshToken now0 now1 tok rg s =
     (let rg = rg\<lparr>rgExpiresAt := now0 + refreshTTL s\<rparr>;
          s = cleanExpiredRefreshLocked now1 s
      in s\<lparr>refresh := AList.update tok rg (refresh s)\<rparr>)"

definition ConsumeRefreshToken ::
  "time \<Rightarrow> string \<Rightarrow> grant_store \<Rightarrow> refresh_grant option \<times> grant_store" where
  "ConsumeRefreshToken now tok s =
     (case map_of (refresh s) tok of
        None \<Rightarrow> (None, s)
      | Some rg \<Rightarrow>
          if time_after now (rgExpiresAt rg)
          then (None, s\<lparr>refresh := AList.delete tok (refresh s)\<rparr>)
          else (Some rg, s\<lparr>refresh := AList.delete tok (refresh s)\<rparr>))"

definition RevokeRefreshToken :: "string \<Rightarrow> grant_store \<Rightarrow> bool \<times> grant_store" where
  "RevokeRefreshToken tok s =
     (case map_of (refresh s) tok of
        None \<Rightarrow> (False, s)
      | Some _ \<Rightarrow> (True, s\<lparr>refresh := AList.delete tok (refresh s)\<rparr>))"

section \<open>Device codes\<close>

definition normalize_code :: "(string \<Rightarrow> string) \<Rightarrow> string \<Rightarrow> string" where
  "normalize_code up userCode = to_upper up (remove_all (CHR ''-'') userCode)"

definition dead_device :: "time \<Rightarrow> device_code \<Rightarrow> bool" where
  "dead_device now v \<longleftrightarrow> time_after now (dcExpiresAt v) \<or> dcExpired v"

definition cleanExpiredDevicesLocked ::
  "(string \<Rightarrow> string) \<Rightarrow> time \<Rightarrow> grant_store \<Rightarrow> grant_store" where
  "cleanExpiredDevicesLocked up now s =
     fold (\<lambda>(k, v) s.
         if dead_device now v
         then s\<lparr>devices := AList.delete k (devices s),
                userCodes := AList.delete (normalize_code up (dcUserCode v)) (userCodes s)\<rparr>
         else s)
       (devices s) s"

definition SaveDeviceCode ::
  "(string \<Rightarrow> string) \<Rightarrow> time \<Rightarrow> time \<Rightarrow> string \<Rightarrow> string \<Rightarrow> device_code \<Rightarrow> grant_store \<Rightarrow> grant_store"
where
  "SaveDeviceCode up now0 now1 deviceCode userCode dc s =
     (let dc = dc\<lparr>dcExpiresAt := now0 + deviceTTL s, dcInterval := 5\<rparr>;
          s = cleanExpiredDevicesLocked up now1 s;
          s = s\<lparr>devices := AList.update deviceCode dc (devices s)\<rparr>
      in s\<lparr>userCodes := AList.update (normalize_code up userCode) deviceCode (userCodes s)\<rparr>)"

definition GetDeviceCode ::
  "(string \<Rightarrow> string) \<Rightarrow> time \<Rightarrow> time \<Rightarrow> string \<Rightarrow> grant_store \<Rightarrow> device_code option \<times> grant_store"
where
  "GetDeviceCode up now0 now1 deviceCode s =
     (let s = cleanExpiredDevicesLocked up now0 s
      in case map_of (devices s) deviceCode of
           None \<Rightarrow> (None, s)
         | Some dc \<Rightarrow>
             if dcExpired dc \<or> time_after now1 (dcExpiresAt dc) then (None, s) else (Some dc, s))"

definition AuthorizeDeviceCode ::
  "(string \<Rightarrow> string) \<Rightarrow> time \<Rightarrow> string \<Rightarrow> string \<Rightarrow> grant_store \<Rightarrow> bool \<times> grant_store" where
  "AuthorizeDeviceCode up now userCode userID s =
     (case map_of (userCodes s) (normalize_code up userCode) of
        None \<Rightarrow> (False, s)
      | Some deviceCode \<Rightarrow>
          (case map_of (devices s) deviceCode of
             None \<Rightarrow> (False, s)
           | Some dc \<Rightarrow>
               if dcExpired dc \<or> time_after now (dcExpiresAt dc) then (False, s)
               else (True, s\<lparr>devices := AList.update deviceCode
                                (dc\<lparr>dcUserAuthorized := True, dcUserID := userID\<rparr>) (devices s)\<rparr>)))"

definition DenyDeviceCode ::
  "(string \<Rightarrow> string) \<Rightarrow> string \<Rightarrow> grant_store \<Rightarrow> bool \<times> grant_store" where
  "DenyDeviceCode up userCode s =
     (case map_of (userCodes s) (normalize_code up userCode) of
        None \<Rightarrow> (False, s)
      | Some deviceCode \<Rightarrow>
          (case map_of (devices s) deviceCode of
             None \<Rightarrow> (False, s)
           | Some dc \<Rightarrow>
               (True, s\<lparr>devices := AList.update deviceCode (dc\<lparr>dcAccessDenied := True\<rparr>) (devices s)\<rparr>)))"

definition ConsumeDeviceCode ::
  "(string \<Rightarrow> string) \<Rightarrow> time \<Rightarrow> string \<Rightarrow> grant_store \<Rightarrow> device_code option \<times> grant_store" where
  "ConsumeDeviceCode up now deviceCode s =
     (case map_of (devices s) deviceCode of
        None \<Rightarrow> (None, s)
      | Some dc \<Rightarrow>
          if \<not> dcUserAuthorized dc \<or> dcExpired dc \<or> time_after now (dcExpiresAt dc) then (None, s)
          else (Some dc,
                s\<lparr>devices := AList.delete deviceCode (devices s),
                  userCodes := AList.delete (normalize_code up (dcUserCode dc)) (userCodes s)\<rparr>))"

section \<open>Operations as steps\<close>

text \<open>
  One constructor per method; \<open>grant_step\<close> is the state the method leaves, \<open>grant_run\<close> a
  sequence of calls by any number of concurrent clients.
\<close>

datatype grant_op =
    OpSaveCode time time string auth_code
  | OpConsumeCode time string
  | OpSaveRefresh time time string refresh_grant
  | OpConsumeRefresh time string
  | OpRevokeRefresh string
  | OpSaveDevice time time string string device_code
  | OpGetDevice time time string
  | OpAuthorizeDevice time string string
  | OpDenyDevice string
  | OpConsumeDevice time string

fun grant_step :: "(string \<Rightarrow> string) \<Rightarrow> grant_op \<Rightarrow> grant_store \<Rightarrow> grant_store" where
  "grant_step up (OpSaveCode t0 t1 c ac) s = SaveCode t0 t1 c ac s"
| "grant_step up (OpConsumeCode t c) s = snd (ConsumeCode t c s)"
| "grant_step up (OpSaveRefresh t0 t1 k rg) s = SaveRefreshToken t0 t1 k rg s"
| "grant_step up (OpConsumeRefresh t k) s = snd (ConsumeRefreshToken t k s)"
| "grant_step up (OpRevokeRefresh k) s = snd (RevokeRefreshToken k s)"
| "grant_step up (OpSaveDevice t0 t1 d u dc) s = SaveDeviceCode up t0 t1 d u dc s"
| "grant_step up (OpGetDevice t0 t1 d) s = snd (GetDeviceCode up t0 t1 d s)"
| "grant_step up (OpAuthorizeDevice t u i) s = snd (AuthorizeDeviceCode up t u i s)"
| "grant_step up (OpDenyDevice u) s = snd (DenyDeviceCode up u s)"
| "grant_step up (OpConsumeDevice t d) s = snd (ConsumeDeviceCode up t d s)"

definition grant_run :: "(string \<Rightarrow> string) \<Rightarrow> grant_op list \<Rightarrow> grant_store \<Rightarrow> grant_store" where
  "grant_run up ops s = fold (grant_step up) ops s"

end
