(* ===== verification/Sessions.thy ===== *)
theory Sessions
  imports Go_Base
begin

text \<open>
  \<^verbatim>\<open>internal/sessions/sessions.go\<close>: server-side sessions with a lifetime that each access
  extends. Each method holds the mutex for all its accesses to the table. The random bytes of
  a session ID (or the error of \<^verbatim>\<open>rand.Read\<close>) and the clock readings are arguments.
\<close>

record session =
  SessionID :: string
  sUserID :: string
  sEmail :: string
  ExpiresAt :: time

record session_store =
  sessions :: "session gomap"
  ttl :: duration

definition NewSessionStore :: "duration \<Rightarrow> session_store" where
  "NewSessionStore ttl0 =
     (let t = (if ttl0 \<le> 0 then 24 * hour else ttl0) in \<lparr>sessions = [], ttl = t\<rparr>)"

definition hex_digit :: "nat \<Rightarrow> char" where
  "hex_digit n = ''0123456789abcdef'' ! n"

definition hex_encode :: "nat list \<Rightarrow> string" where
  "hex_encode bs = concat (map (\<lambda>b. [hex_digit (b div 16), hex_digit (b mod 16)]) bs)"

definition cleanExpiredLocked :: "time \<Rightarrow> session_store \<Rightarrow> session_store" where
  "cleanExpiredLocked now s = s\<lparr>sessions := sweep (\<lambda>v. time_after now (ExpiresAt v)) (sessions s)\<rparr>"

definition Create ::
  "string + nat list \<Rightarrow> time \<Rightarrow> time \<Rightarrow> string \<Rightarrow> string \<Rightarrow> session_store
   \<Rightarrow> (string + string) \<times> session_store" where
  "Create rnd now0 now1 userID email s =
     (case rnd of
        Inl err \<Rightarrow> (Inl err, s)
      | Inr b \<Rightarrow>
          (let sid = ''sid_'' @ hex_encode b;
               sess = \<lparr>SessionID = sid, sUserID = userID, sEmail = email, ExpiresAt = now0 + ttl s\<rparr>;
               s = cleanExpiredLocked now1 s
           in (Inr sid, s\<lparr>sessions := AList.update sid sess (sessions s)\<rparr>)))"

definition GetSession ::
  "time \<Rightarrow> time \<Rightarrow> time \<Rightarrow> string \<Rightarrow> session_store \<Rightarrow> session option \<times> session_store" where
  "GetSession now0 now1 now2 sessionID s =
     (let s = cleanExpiredLocked now0 s
      in case map_of (sessions s) sessionID of
           None \<Rightarrow> (None, s)
         | Some sess \<Rightarrow>
             if time_after now1 (ExpiresAt sess)
             then (None, s\<lparr>sessions := AList.delete sessionID (sessions s)\<rparr>)
             else (let sess = sess\<lparr>ExpiresAt := now2 + ttl s\<rparr>
                   in (Some sess, s\<lparr>sessions := AList.update sessionID sess (sessions s)\<rparr>)))"

definition Revoke :: "string \<Rightarrow> session_store \<Rightarrow> session_store" where
  "Revoke sessionID s = s\<lparr>sessions := AList.delete sessionID (sessions s)\<rparr>"

section \<open>The contract\<close>

text \<open>
  What the authorization endpoint relies on. \<open>owner st sid\<close> is the user a session belongs to,
  \<open>expires\<close> its expiry; \<open>get\<close> takes the three clock readings of \<^verbatim>\<open>Get\<close> (sweep, check,
  extension). It answers with the owner exactly while the session lives, an access moves the
  expiry of this session and nothing else, revocation is final.
\<close>

fun visited_in_time ::
  "duration \<Rightarrow> string \<Rightarrow> time \<Rightarrow> (time \<times> time \<times> time \<times> string) list \<Rightarrow> bool" where
  "visited_in_time d sid e [] = True"
| "visited_in_time d sid e ((t0, t1, t2, s) # vs) =
     (t0 \<le> t1 \<and> t1 \<le> e + d \<and> visited_in_time d sid (if s = sid then t2 else e) vs)"

locale session_contract =

  fixes owner :: "'st \<Rightarrow> string \<Rightarrow> string option"
    and expires :: "'st \<Rightarrow> string \<Rightarrow> time"
    and get :: "time \<Rightarrow> time \<Rightarrow> time \<Rightarrow> string \<Rightarrow> 'st \<Rightarrow> string option \<times> 'st"
    and revoke :: "string \<Rightarrow> 'st \<Rightarrow> 'st"
    and life :: "'st \<Rightarrow> duration"
    and inv :: "'st \<Rightarrow> bool"
  assumes get_answer:
      "inv st \<Longrightarrow> t0 \<le> t1 \<Longrightarrow>
       fst (get t0 t1 t2 sid st) = (if t1 \<le> expires st sid then owner st sid else None)"
    and get_kept:
      "inv st \<Longrightarrow> t0 \<le> t1 \<Longrightarrow> owner st sid' = Some u \<Longrightarrow> t1 \<le> expires st sid' \<Longrightarrow>
       owner (snd (get t0 t1 t2 sid st)) sid' = Some u"
    and get_expiry:
      "inv st \<Longrightarrow> t0 \<le> t1 \<Longrightarrow> owner st sid' = Some u \<Longrightarrow> t1 \<le> expires st sid' \<Longrightarrow>
       expires (snd (get t0 t1 t2 sid st)) sid' = (if sid' = sid then t2 + life st else expires st sid')"
    and get_no_new:
      "inv st \<Longrightarrow> owner st sid' = None \<Longrightarrow> owner (snd (get t0 t1 t2 sid st)) sid' = None"
    and get_none: "inv st \<Longrightarrow> owner st sid = None \<Longrightarrow> fst (get t0 t1 t2 sid st) = None"
    and get_life: "life (snd (get t0 t1 t2 sid st)) = life st"
    and get_inv: "inv st \<Longrightarrow> inv (snd (get t0 t1 t2 sid st))"
    and revoke_owner: "owner (revoke sid st) = (owner st)(sid := None)"
    and revoke_inv: "inv st \<Longrightarrow> inv (revoke sid st)"
begin

text \<open>Successive accesses to sessions, each with its three readings of the clock.\<close>

definition visits :: "(time \<times> time \<times> time \<times> string) list \<Rightarrow> 'st \<Rightarrow> 'st" where
  "visits vs st = fold (\<lambda>(t0, t1, t2, sid) st. snd (get t0 t1 t2 sid st)) vs st"

lemma visits_Cons [simp]: "visits ((t0, t1, t2, sid) # vs) st = visits vs (snd (get t0 t1 t2 sid st))"
  by (simp add: visits_def)

lemma visits_Nil [simp]: "visits [] st = st"
  by (simp add: visits_def)

text \<open>Sliding expiry: a session visited at least once per lifetime never ends.\<close>

lemma sliding:
  assumes "inv st" and "owner st sid = Some u" and "expires st sid = e + life st"
    and "visited_in_time (life st) sid e (vs @ [(t0, t1, t2, sid)])"
  shows "fst (get t0 t1 t2 sid (visits vs st)) = Some u"
  using assms
proof (induction vs arbitrary: st e)
  case Nil
  then show ?case by (simp add: get_answer)
next
  case (Cons v vs)
  obtain s0 s1 s2 sid' where v: "v = (s0, s1, s2, sid')" by (cases v)
  let ?st = "snd (get s0 s1 s2 sid' st)"
  have in_time: "s0 \<le> s1" "s1 \<le> expires st sid"
    using Cons.prems(3,4) by (simp_all add: v)
  have "owner ?st sid = Some u" "inv ?st" "life ?st = life st"
    "expires ?st sid = (if sid = sid' then s2 else e) + life ?st"
    using Cons.prems(1-3) in_time by (simp_all add: get_kept get_expiry get_inv get_life)
  with Cons.IH [of ?st "if sid = sid' then s2 else e"] Cons.prems(4) show ?case
    by (simp add: v eq_commute)
qed

lemma visits_absent: "inv st \<Longrightarrow> owner st sid = None \<Longrightarrow> owner (visits vs st) sid = None \<and> inv (visits vs st)"
  by (induction vs arbitrary: st) (auto simp: get_no_new get_inv)

lemma revoked_for_good: "inv st \<Longrightarrow> fst (get t0 t1 t2 sid (visits vs (revoke sid st))) = None"
  using visits_absent [of "revoke sid st" sid vs] by (simp add: get_none revoke_owner revoke_inv)

end

section \<open>Lemmas\<close>

definition wf_sessions :: "session_store \<Rightarrow> bool" where
  "wf_sessions s \<longleftrightarrow> wf_map (sessions s) \<and> 0 < ttl s
     \<and> (\<forall>(k, v) \<in> set (sessions s). SessionID v = k)"

lemma wf_NewSessionStore [simp]: "wf_sessions (NewSessionStore d)"
  by (simp add: wf_sessions_def NewSessionStore_def Let_def)

lemma set_alist_update: "set (AList.update k v m) \<subseteq> insert (k, v) (set m)"
  by (induction m) auto

lemma set_alist_delete: "set (AList.delete k m) \<subseteq> set m"
  by (auto simp: AList.delete_eq)

lemma wf_cleanExpiredLocked [simp]: "wf_sessions s \<Longrightarrow> wf_sessions (cleanExpiredLocked t s)"
  by (auto simp: wf_sessions_def cleanExpiredLocked_def set_sweep)

lemma wf_put_session:
  "wf_sessions s \<Longrightarrow> SessionID v = k \<Longrightarrow> wf_sessions (s\<lparr>sessions := AList.update k v (sessions s)\<rparr>)"
  using set_alist_update [of k v "sessions s"] by (fastforce simp: wf_sessions_def)

lemma wf_Revoke [simp]: "wf_sessions s \<Longrightarrow> wf_sessions (Revoke sid s)"
  using set_alist_delete [of sid "sessions s"] by (fastforce simp: wf_sessions_def Revoke_def)

lemma wf_Create [simp]: "wf_sessions s \<Longrightarrow> wf_sessions (snd (Create rnd t0 t1 uid em s))"
  by (simp add: Create_def Let_def wf_put_session split: sum.split)

lemma wf_session_id: "wf_sessions s \<Longrightarrow> map_of (sessions s) k = Some v \<Longrightarrow> SessionID v = k"
  by (auto simp: wf_sessions_def dest: map_of_SomeD)

lemma wf_GetSession [simp]:
  assumes "wf_sessions s"
  shows "wf_sessions (snd (GetSession t0 t1 t2 sid s))"
proof -
  have c: "wf_sessions (cleanExpiredLocked t0 s)" using assms by simp
  then show ?thesis
    using wf_Revoke [OF c, of sid] wf_session_id [OF c]
    by (auto simp: GetSession_def Let_def Revoke_def intro: wf_put_session split: option.split)
qed

definition session_owner :: "session_store \<Rightarrow> string \<Rightarrow> string option" where
  "session_owner s sid = map_option sUserID (map_of (sessions s) sid)"

definition session_expiry :: "session_store \<Rightarrow> string \<Rightarrow> time" where
  "session_expiry s sid = (case map_of (sessions s) sid of None \<Rightarrow> 0 | Some v \<Rightarrow> ExpiresAt v)"

definition get_owner ::
  "time \<Rightarrow> time \<Rightarrow> time \<Rightarrow> string \<Rightarrow> session_store \<Rightarrow> string option \<times> session_store" where
  "get_owner t0 t1 t2 sid s = map_prod (map_option sUserID) id (GetSession t0 t1 t2 sid s)"

lemma wf_sessions_map: "wf_sessions s \<Longrightarrow> wf_map (sessions s)"
  by (simp add: wf_sessions_def)

lemmas get_owner_defs = get_owner_def GetSession_def cleanExpiredLocked_def Let_def
  session_owner_def session_expiry_def time_after_def

interpretation sess: session_contract session_owner session_expiry get_owner Revoke ttl wf_sessions
proof unfold_locales
  fix st t0 t1 t2 sid
  assume "wf_sessions st" "t0 \<le> (t1 :: time)"
  then show "fst (get_owner t0 t1 t2 sid st) =
      (if t1 \<le> session_expiry st sid then session_owner st sid else None)"
    by (auto simp: get_owner_defs map_of_sweep wf_sessions_map split: option.split)
next
  fix st t0 t1 t2 sid sid' u
  assume "wf_sessions st" "t0 \<le> (t1 :: time)" "session_owner st sid' = Some u"
    "t1 \<le> session_expiry st sid'"
  then show "session_owner (snd (get_owner t0 t1 t2 sid st)) sid' = Some u"
    and "session_expiry (snd (get_owner t0 t1 t2 sid st)) sid' =
      (if sid' = sid then t2 + ttl st else session_expiry st sid')"
    by (auto simp: get_owner_defs map_of_sweep wf_sessions_map split: option.splits)
next
  fix st t0 t1 t2 sid sid'
  assume "wf_sessions st" "session_owner st sid' = None"
  then show "session_owner (snd (get_owner t0 t1 t2 sid st)) sid' = None"
    by (auto simp: get_owner_defs map_of_sweep wf_sessions_map split: option.splits)
next
  fix st t0 t1 t2 sid
  assume "wf_sessions st" "session_owner st sid = None"
  then show "fst (get_owner t0 t1 t2 sid st) = None"
    by (auto simp: get_owner_defs map_of_sweep wf_sessions_map split: option.splits)
next
  fix st t0 t1 t2 sid
  show "ttl (snd (get_owner t0 t1 t2 sid st)) = ttl st"
    by (simp add: get_owner_defs split: option.split)
next
  fix st sid
  show "session_owner (Revoke sid st) = (session_owner st)(sid := None)"
    by (simp add: session_owner_def Revoke_def fun_eq_iff)
qed (simp_all add: get_owner_def)

definition session_visits ::
  "(time \<times> time \<times> time \<times> string) list \<Rightarrow> session_store \<Rightarrow> session_store" where
  "session_visits vs s = fold (\<lambda>(t0, t1, t2, sid) s. snd (GetSession t0 t1 t2 sid s)) vs s"

lemma sess_visits: "sess.visits vs s = session_visits vs s"
  by (simp add: sess.visits_def session_visits_def get_owner_def)

lemma hex_digit_inj: "a < 16 \<Longrightarrow> b < 16 \<Longrightarrow> hex_digit a = hex_digit b \<Longrightarrow> a = b"
proof -
  assume "a < 16" "b < 16" "hex_digit a = hex_digit b"
  moreover have "distinct ''0123456789abcdef''" by simp
  ultimately show "a = b" by (simp only: hex_digit_def) (subst (asm) nth_eq_iff_index_eq; simp)
qed

lemma hex_encode_inj:
  assumes "\<forall>x\<in>set bs. x < 256" and "\<forall>x\<in>set cs. x < 256" and "hex_encode bs = hex_encode cs"
  shows "bs = cs"
  using assms
proof (induction bs arbitrary: cs)
  case Nil
  then show ?case by (cases cs) (simp_all add: hex_encode_def)
next
  case (Cons b bs)
  then obtain c cs' where cs: "cs = c # cs'" by (cases cs) (auto simp: hex_encode_def)
  from Cons.prems have "b < 256" "c < 256" by (simp_all add: cs)
  then have "b div 16 < 16" "c div 16 < 16" by (simp_all add: less_mult_imp_div_less)
  with Cons.prems(3) have "b div 16 = c div 16" "b mod 16 = c mod 16" "hex_encode bs = hex_encode cs'"
    by (auto simp: cs hex_encode_def intro: hex_digit_inj)
  with Cons cs show ?case by (metis div_mult_mod_eq list.set_intros(2))
qed

section \<open>Properties\<close>

text \<open>Sliding expiry: a session created for a user stays valid, and stays that user's, through
  any sequence of accesses (to it or to other sessions) in which it is itself accessed at
  least once per lifetime.\<close>

lemma session_slides:
  assumes "wf_sessions s" and "Create (Inr b) e e' uid em s = (Inr sid, s1)"
    and "visited_in_time (ttl s) sid e (vs @ [(t0, t1, t2, sid)])"
  shows "map_option sUserID (fst (GetSession t0 t1 t2 sid (session_visits vs s1))) = Some uid"
proof -
  have "wf_sessions s1" using wf_Create [OF assms(1), of "Inr b" e e' uid em] assms(2) by simp
  moreover have "session_owner s1 sid = Some uid" "ttl s1 = ttl s" "session_expiry s1 sid = e + ttl s1"
    using assms(2)
    by (auto simp: Create_def Let_def session_owner_def session_expiry_def cleanExpiredLocked_def)
  ultimately have "fst (get_owner t0 t1 t2 sid (sess.visits vs s1)) = Some uid"
    using assms(3) by (intro sess.sliding) simp_all
  then show ?thesis by (simp add: get_owner_def sess_visits)
qed

text \<open>Logout is final: after \<^verbatim>\<open>Revoke\<close> no access finds the session again, whatever accesses
  happen in between.\<close>

lemma session_revoked_for_good:
  assumes "wf_sessions s"
  shows "fst (GetSession t0 t1 t2 sid (session_visits vs (Revoke sid s))) = None"
  using sess.revoked_for_good [OF assms, of t0 t1 t2 sid vs]
  by (simp add: get_owner_def sess_visits)

end
