(* ===== verification/Clients.thy ===== *)
theory Clients
  imports Go_Base
begin

text \<open>
  \<^verbatim>\<open>internal/clients/config.go\<close>: the registry of OAuth clients. A map value is a pointer that
  may be nil, hence an option. Every method holds the registry's lock for its whole body, so
  it is one step on the state. \<^verbatim>\<open>json.Unmarshal\<close> of the environment variable is the parameter
  \<open>unmarshal\<close>.
\<close>

record client_config =
  ClientSecret :: string
  RedirectURIs :: "string list"
  AllowedScopes :: "string list"

record registry =
  clients :: "client_config option gomap"
  RequireSecretForCodes :: bool

definition NewRegistry :: registry where
  "NewRegistry = \<lparr>clients = [], RequireSecretForCodes = False\<rparr>"

definition LoadFromEnv ::
  "(string \<Rightarrow> string + client_config option gomap) \<Rightarrow> string \<Rightarrow> registry \<Rightarrow> string option \<times> registry"
where
  "LoadFromEnv unmarshal raw r =
     (if raw = [] then (None, r)
      else case unmarshal raw of
        Inl err \<Rightarrow> (Some err, r)
      | Inr m \<Rightarrow>
          (None, r\<lparr>clients :=
             fold (\<lambda>(i, cfg) cs. case cfg of None \<Rightarrow> cs | Some c \<Rightarrow> AList.update i cfg cs)
               m (clients r)\<rparr>))"

definition Add :: "string \<Rightarrow> client_config option \<Rightarrow> registry \<Rightarrow> registry" where
  "Add clientID cfg r = r\<lparr>clients := AList.update clientID cfg (clients r)\<rparr>"

definition Get :: "string \<Rightarrow> registry \<Rightarrow> client_config option" where
  "Get clientID r = (case map_of (clients r) clientID of None \<Rightarrow> None | Some cfg \<Rightarrow> cfg)"

definition ValidateSecret :: "string \<Rightarrow> string \<Rightarrow> registry \<Rightarrow> bool" where
  "ValidateSecret clientID secret r =
     (case Get clientID r of
        None \<Rightarrow> True
      | Some cfg \<Rightarrow> if ClientSecret cfg = [] then True else secret = ClientSecret cfg)"

definition IsConfidential :: "string \<Rightarrow> registry \<Rightarrow> bool" where
  "IsConfidential clientID r =
     (case Get clientID r of None \<Rightarrow> False | Some cfg \<Rightarrow> ClientSecret cfg \<noteq> [])"

fun uri_listed :: "string list \<Rightarrow> string \<Rightarrow> bool" where
  "uri_listed [] redirectURI = False"
| "uri_listed (u # us) redirectURI = (if u = redirectURI then True else uri_listed us redirectURI)"

definition ValidateRedirectURI :: "string \<Rightarrow> string \<Rightarrow> registry \<Rightarrow> bool" where
  "ValidateRedirectURI clientID redirectURI r =
     (case Get clientID r of
        None \<Rightarrow> True
      | Some cfg \<Rightarrow>
          if RedirectURIs cfg = [] then True else uri_listed (RedirectURIs cfg) redirectURI)"

fun all_allowed :: "bool gomap \<Rightarrow> string list \<Rightarrow> bool" where
  "all_allowed allowedSet [] = True"
| "all_allowed allowedSet (s # ss) =
     (if map_of allowedSet s \<noteq> Some True then False else all_allowed allowedSet ss)"

definition ValidateScope :: "string \<Rightarrow> string \<Rightarrow> registry \<Rightarrow> bool" where
  "ValidateScope clientID requestedScope r =
     (case Get clientID r of
        None \<Rightarrow> True
      | Some cfg \<Rightarrow>
          if AllowedScopes cfg = [] then True
          else let requested = str_fields requestedScope;
                   allowedSet = fold (\<lambda>s m. AList.update s True m) (AllowedScopes cfg) []
               in all_allowed allowedSet requested)"

section \<open>Lemmas\<close>

lemma uri_listed_iff [simp]: "uri_listed us u \<longleftrightarrow> u \<in> set us"
  by (induction us) auto

lemma map_of_bool_set:
  "map_of (fold (\<lambda>s m. AList.update s True m) ss m) k =
   (if k \<in> set ss then Some True else map_of m k)"
  by (induction ss arbitrary: m) auto

lemma all_allowed_iff: "all_allowed m ss \<longleftrightarrow> (\<forall>s\<in>set ss. map_of m s = Some True)"
  by (induction ss) auto

lemma Get_Add [simp]: "Get c (Add c' cfg r) = (if c = c' then cfg else Get c r)"
  by (simp add: Get_def Add_def)

lemma Get_NewRegistry [simp]: "Get c NewRegistry = None"
  by (simp add: Get_def NewRegistry_def)

lemma map_of_load:
  "wf_map m \<Longrightarrow>
   map_of (fold (\<lambda>(i, cfg) cs. case cfg of None \<Rightarrow> cs | Some c \<Rightarrow> AList.update i cfg cs) m cs) k =
   (case map_of m k of Some (Some c) \<Rightarrow> Some (Some c) | _ \<Rightarrow> map_of cs k)"
  unfolding wf_map_def
proof (induction m arbitrary: cs)
  case Nil
  then show ?case by simp
next
  case (Cons e m)
  obtain i cfg where e: "e = (i, cfg)" by (cases e)
  with Cons.prems have "map_of m i = None" by (simp add: map_of_eq_None_iff)
  with Cons e show ?case by (auto split: option.splits)
qed

text \<open>A scope request passes exactly when the client is not configured, lists no scopes, or
  lists every blank-separated scope of the request.\<close>

lemma ValidateScope_iff:
  "ValidateScope cid sc r \<longleftrightarrow>
   (case Get cid r of None \<Rightarrow> True
    | Some cfg \<Rightarrow> AllowedScopes cfg = [] \<or> set (str_fields sc) \<subseteq> set (AllowedScopes cfg))"
  by (auto simp: ValidateScope_def Let_def all_allowed_iff map_of_bool_set split: option.splits)

lemma ValidateRedirectURI_iff:
  "ValidateRedirectURI cid u r \<longleftrightarrow>
   (case Get cid r of None \<Rightarrow> True
    | Some cfg \<Rightarrow> RedirectURIs cfg = [] \<or> u \<in> set (RedirectURIs cfg))"
  by (auto simp: ValidateRedirectURI_def split: option.splits)

lemma ValidateSecret_iff:
  "ValidateSecret cid s r \<longleftrightarrow>
   (IsConfidential cid r \<longrightarrow> (\<exists>cfg. Get cid r = Some cfg \<and> s = ClientSecret cfg))"
  by (auto simp: ValidateSecret_def IsConfidential_def split: option.splits)

section \<open>The environment\<close>

text \<open>Loading the environment installs every entry that is not null, over what was there, and
  changes nothing else; a parse error or an empty variable changes nothing.\<close>

lemma LoadFromEnv_Get:
  assumes "\<And>m. unmarshal raw = Inr m \<Longrightarrow> wf_map m"
  shows "Get c (snd (LoadFromEnv unmarshal raw r)) =
    (if raw = [] then Get c r
     else case unmarshal raw of
       Inl _ \<Rightarrow> Get c r
     | Inr m \<Rightarrow> (case map_of m c of Some (Some cfg) \<Rightarrow> Some cfg | _ \<Rightarrow> Get c r))"
  using assms
  by (auto simp: LoadFromEnv_def Get_def map_of_load split: sum.splits option.splits)

end
