(* ===== verification/Merging.thy ===== *)
theory Merging
  imports Go_Base
begin

text \<open>
  The program merges two maps into a new one in two places (audit details, token claims),
  with the second map winning. The contract of such a merge is stated once.
\<close>

locale right_biased_merge =
  fixes merge :: "(string \<times> 'v) list \<Rightarrow> (string \<times> 'v) list \<Rightarrow> (string \<times> 'v) list"
  assumes merge_lookup:
      "wf_map a \<Longrightarrow> wf_map b \<Longrightarrow> map_of (merge a b) = map_of a ++ map_of b"
    and merge_wf: "wf_map (merge a b)"
begin

lemma merge_assoc:
  "wf_map a \<Longrightarrow> wf_map b \<Longrightarrow> wf_map c \<Longrightarrow>
   map_of (merge (merge a b) c) = map_of (merge a (merge b c))"
  by (simp add: merge_lookup merge_wf)

lemma merge_right_wins:
  "wf_map a \<Longrightarrow> wf_map b \<Longrightarrow> map_of b k = Some v \<Longrightarrow> map_of (merge a b) k = Some v"
  by (simp add: merge_lookup)

lemma merge_left_kept:
  "wf_map a \<Longrightarrow> wf_map b \<Longrightarrow> map_of b k = None \<Longrightarrow> map_of (merge a b) k = map_of a k"
  by (simp add: merge_lookup map_add_def)

lemma merge_keys:
  "wf_map a \<Longrightarrow> wf_map b \<Longrightarrow> dom (map_of (merge a b)) = dom (map_of a) \<union> dom (map_of b)"
  by (auto simp: merge_lookup)

end

text \<open>Copying two maps into an empty one, entry by entry, is such a merge.\<close>

lemma put_all_both_lookup:
  "wf_map a \<Longrightarrow> wf_map b \<Longrightarrow> map_of (put_all b (put_all a [])) = map_of a ++ map_of b"
  by (rule ext) (simp add: map_of_put_all map_add_def split: option.split)

end
