(* ===== verification/Audit_Events.thy ===== *)
theory Audit_Events
  imports Merging
begin

text \<open>
  \<^verbatim>\<open>internal/audit/audit.go\<close> and \<^verbatim>\<open>internal/metrics/metrics.go\<close>: the audit trail is the list of
  the events written to the logger, oldest first; the counters are a map from the labelled
  metric to its value. A nil details map and an empty one are both omitted from the line that
  is written, so both are \<open>[]\<close>.
\<close>

section \<open>Audit events\<close>

record event =
  evTime :: time
  evType :: string
  evUserID :: string
  evEmail :: string
  evClientID :: string
  evSuccess :: bool
  evDetails :: dict
  evIP :: string
  evUserAgent :: string

type_synonym audit_trail = "event list"

definition empty_event :: event where
  "empty_event = \<lparr>evTime = 0, evType = [], evUserID = [], evEmail = [], evClientID = [],
     evSuccess = False, evDetails = [], evIP = [], evUserAgent = []\<rparr>"

definition Log :: "time \<Rightarrow> event \<Rightarrow> audit_trail \<Rightarrow> audit_trail" where
  "Log now evt trail = trail @ [evt\<lparr>evTime := now\<rparr>]"

definition mergeMap :: "dict \<Rightarrow> dict \<Rightarrow> dict" where
  "mergeMap a b = (let out = []; out = put_all a out; out = put_all b out in out)"

definition LogLogin :: "time \<Rightarrow> string \<Rightarrow> string \<Rightarrow> string \<Rightarrow> bool \<Rightarrow> dict \<Rightarrow> audit_trail \<Rightarrow> audit_trail" where
  "LogLogin now userID email clientID success details =
     Log now (empty_event\<lparr>evType := ''login'', evUserID := userID, evEmail := email,
       evClientID := clientID, evSuccess := success, evDetails := details\<rparr>)"

definition LogSignup :: "time \<Rightarrow> string \<Rightarrow> string \<Rightarrow> dict \<Rightarrow> audit_trail \<Rightarrow> audit_trail" where
  "LogSignup now userID email details =
     Log now (empty_event\<lparr>evType := ''signup'', evUserID := userID, evEmail := email,
       evSuccess := True, evDetails := details\<rparr>)"

definition LogToken :: "time \<Rightarrow> string \<Rightarrow> string \<Rightarrow> string \<Rightarrow> bool \<Rightarrow> dict \<Rightarrow> audit_trail \<Rightarrow> audit_trail" where
  "LogToken now grantType userID clientID success details =
     Log now (empty_event\<lparr>evType := ''token'', evUserID := userID, evClientID := clientID,
       evSuccess := success, evDetails := mergeMap details [(''grant_type'', GStr grantType)]\<rparr>)"

definition LogUserChange :: "time \<Rightarrow> string \<Rightarrow> string \<Rightarrow> bool \<Rightarrow> dict \<Rightarrow> audit_trail \<Rightarrow> audit_trail" where
  "LogUserChange now action userID success details =
     Log now (empty_event\<lparr>evType := ''user_change'', evUserID := userID, evSuccess := success,
       evDetails := mergeMap details [(''action'', GStr action)]\<rparr>)"

lemma wf_put_all_Nil: "wf_map (put_all b [])"
  by simp

interpretation audit_merge: right_biased_merge mergeMap
  by unfold_locales (simp_all add: mergeMap_def put_all_both_lookup)

text \<open>The details of a token event always carry the grant type, whatever details the caller
  passes, and everything else the caller passes is kept.\<close>

lemma token_event_details:
  assumes "wf_map details"
  shows "map_of (evDetails (last (LogToken now g uid cid ok details trail))) =
    (map_of details)(''grant_type'' \<mapsto> GStr g)"
proof -
  have "wf_map [(''grant_type'', GStr g)]" by (simp add: wf_map_def)
  from audit_merge.merge_lookup [OF assms this] show ?thesis
    by (simp add: LogToken_def Log_def)
qed

section \<open>Metrics\<close>

datatype metric =
    AuthRequests string
  | TokenRequests string string
  | LoginAttempts string
  | Signups

type_synonym metrics = "(metric \<times> nat) list"

definition metric_value :: "metrics \<Rightarrow> metric \<Rightarrow> nat" where
  "metric_value ms m = (case map_of ms m of None \<Rightarrow> 0 | Some n \<Rightarrow> n)"

definition Inc :: "metric \<Rightarrow> metrics \<Rightarrow> metrics" where
  "Inc m ms = AList.update m (Suc (metric_value ms m)) ms"

lemma metric_value_Inc [simp]:
  "metric_value (Inc m ms) m' = (if m' = m then Suc (metric_value ms m) else metric_value ms m')"
  by (simp add: metric_value_def Inc_def)

end
