(* ===== verification/Rules.thy ===== *)
theory Rules
  imports Go_Base
begin

text \<open>
  \<^verbatim>\<open>internal/rules/runner.go\<close>: the Auth0 rules, JavaScript files run one after the other on the
  user. The directory listing and the file contents are parameters, and so is the JavaScript
  engine (the package goja, not part of the program): \<open>vm source user context\<close> is what one
  run of a program text does, namely the calls it makes of \<^verbatim>\<open>callback\<close> with their exported
  arguments as they are when the script has ended, the error it ends with, and the contents
  of the four nested maps of the user, which the script can change in place since the engine
  is handed the Go maps themselves.
\<close>

section \<open>Users and contexts\<close>

record rule_user =
  ruUserID :: string
  ruEmail :: string
  ruEmailVerified :: bool
  ruName :: string
  ruNickname :: string
  ruUserMetadata :: "dict option"
  ruAppMetadata :: "dict option"
  ruIDTokenClaims :: "dict option"
  ruAccessTokenClaims :: "dict option"

record rule_context =
  rcClientID :: string
  rcClientName :: string
  rcConnection :: string
  rcProtocol :: string
  rcRedirectURI :: string

definition empty_user :: rule_user where
  "empty_user = \<lparr>ruUserID = [], ruEmail = [], ruEmailVerified = False, ruName = [], ruNickname = [],
     ruUserMetadata = None, ruAppMetadata = None, ruIDTokenClaims = None, ruAccessTokenClaims = None\<rparr>"

definition empty_context :: rule_context where
  "empty_context = \<lparr>rcClientID = [], rcClientName = [], rcConnection = [], rcProtocol = [],
     rcRedirectURI = []\<rparr>"

text \<open>A nil map is written as an empty one.\<close>

definition nested :: "dict option \<Rightarrow> goval" where
  "nested m = (case m of None \<Rightarrow> GObj [] | Some d \<Rightarrow> GObj d)"

definition userToMap :: "rule_user \<Rightarrow> dict" where
  "userToMap u =
     [(''user_id'', GStr (ruUserID u)),
      (''email'', GStr (ruEmail u)),
      (''email_verified'', GBool (ruEmailVerified u)),
      (''name'', GStr (ruName u)),
      (''nickname'', GStr (ruNickname u)),
      (''user_metadata'', nested (ruUserMetadata u)),
      (''app_metadata'', nested (ruAppMetadata u)),
      (''id_token_claims'', nested (ruIDTokenClaims u)),
      (''access_token_claims'', nested (ruAccessTokenClaims u))]"

definition contextToMap :: "rule_context \<Rightarrow> dict" where
  "contextToMap c =
     [(''clientID'', GStr (rcClientID c)),
      (''clientName'', GStr (rcClientName c)),
      (''connection'', GStr (rcConnection c)),
      (''protocol'', GStr (rcProtocol c)),
      (''redirect_uri'', GStr (rcRedirectURI c))]"

definition mapToUser :: "dict \<Rightarrow> rule_user" where
  "mapToUser m =
     (let u = empty_user;
          u = (case as_str (map_of m ''user_id'') of Some v \<Rightarrow> u\<lparr>ruUserID := v\<rparr> | None \<Rightarrow> u);
          u = (case as_str (map_of m ''email'') of Some v \<Rightarrow> u\<lparr>ruEmail := v\<rparr> | None \<Rightarrow> u);
          u = (case as_bool (map_of m ''email_verified'') of Some v \<Rightarrow> u\<lparr>ruEmailVerified := v\<rparr> | None \<Rightarrow> u);
          u = (case as_str (map_of m ''name'') of Some v \<Rightarrow> u\<lparr>ruName := v\<rparr> | None \<Rightarrow> u);
          u = (case as_str (map_of m ''nickname'') of Some v \<Rightarrow> u\<lparr>ruNickname := v\<rparr> | None \<Rightarrow> u);
          u = (case as_obj (map_of m ''user_metadata'') of Some v \<Rightarrow> u\<lparr>ruUserMetadata := Some v\<rparr> | None \<Rightarrow> u);
          u = (case as_obj (map_of m ''app_metadata'') of Some v \<Rightarrow> u\<lparr>ruAppMetadata := Some v\<rparr> | None \<Rightarrow> u);
          u = (case as_obj (map_of m ''id_token_claims'') of Some v \<Rightarrow> u\<lparr>ruIDTokenClaims := Some v\<rparr> | None \<Rightarrow> u);
          u = (case as_obj (map_of m ''access_token_claims'') of Some v \<Rightarrow> u\<lparr>ruAccessTokenClaims := Some v\<rparr> | None \<Rightarrow> u)
      in u)"

definition ToStoreFormat :: "rule_user \<Rightarrow> string \<times> string \<times> string" where
  "ToStoreFormat u =
     (let userID = ruUserID u; email = ruEmail u;
          name = (if ruName u \<noteq> [] then ruName u else ruNickname u);
          name = (if name = [] then email else name)
      in (userID, email, name))"

section \<open>Running one rule\<close>

datatype js_value = JsUndefined | JsExport goval

record vm_result =
  vmCalls :: "js_value list list"
  vmError :: "string option"
  vmNested :: "string \<Rightarrow> dict"

type_synonym vm = "string \<Rightarrow> dict \<Rightarrow> dict \<Rightarrow> vm_result"

text \<open>The closure passed as \<^verbatim>\<open>callback\<close>: it keeps the last second argument that is an object.\<close>

definition callback :: "js_value list \<Rightarrow> dict option \<Rightarrow> dict option" where
  "callback args resultUser =
     (if 2 \<le> length args then
        (case args ! 1 of
           JsUndefined \<Rightarrow> resultUser
         | JsExport v \<Rightarrow> (case as_obj (Some v) of Some o' \<Rightarrow> Some o' | None \<Rightarrow> resultUser))
      else resultUser)"

text \<open>The user after the run: its maps, where it has any, are the ones the script has seen.\<close>

definition seen_by_script :: "(string \<Rightarrow> dict) \<Rightarrow> rule_user \<Rightarrow> rule_user" where
  "seen_by_script f u =
     u\<lparr>ruUserMetadata := map_option (\<lambda>_. f ''user_metadata'') (ruUserMetadata u),
       ruAppMetadata := map_option (\<lambda>_. f ''app_metadata'') (ruAppMetadata u),
       ruIDTokenClaims := map_option (\<lambda>_. f ''id_token_claims'') (ruIDTokenClaims u),
       ruAccessTokenClaims := map_option (\<lambda>_. f ''access_token_claims'') (ruAccessTokenClaims u)\<rparr>"

definition rule_source :: "string \<Rightarrow> string" where
  "rule_source script =
     (let trimmed = trim_space script
      in if 8 < length trimmed \<and> take 8 trimmed = ''function''
         then ''('' @ script @ '')(user, context, callback);''
         else ''(function(u,c,cb){ '' @ script @ '' })(user,context,callback);'')"

definition runRule :: "vm \<Rightarrow> string \<Rightarrow> rule_user \<Rightarrow> rule_context \<Rightarrow> rule_user \<times> string option" where
  "runRule vm script user ctx =
     (let res = vm (rule_source script) (userToMap user) (contextToMap ctx);
          user = seen_by_script (vmNested res) user;
          resultUser = fold callback (vmCalls res) None
      in case vmError res of
           Some err \<Rightarrow> (user, Some err)
         | None \<Rightarrow>
             (case resultUser of
                Some m \<Rightarrow> (mapToUser m, None)
              | None \<Rightarrow> (user, None)))"

section \<open>Running the directory\<close>

record dir_entry =
  deName :: string
  deIsDir :: bool

record file_system =
  fsReadDir :: "string \<Rightarrow> dir_entry list option"
  fsReadFile :: "string \<Rightarrow> string \<Rightarrow> string option"

definition NewRunner :: "string \<Rightarrow> string option" where
  "NewRunner rulesDir = (if rulesDir = [] then None else Some rulesDir)"

fun run_entries ::
  "vm \<Rightarrow> (string \<Rightarrow> string option) \<Rightarrow> dir_entry list \<Rightarrow> rule_user \<Rightarrow> rule_context
   \<Rightarrow> rule_user \<times> string option" where
  "run_entries vm read [] user ctx = (user, None)"
| "run_entries vm read (e # es) user ctx =
     (if deIsDir e \<or> \<not> has_suffix ''.js'' (deName e) then run_entries vm read es user ctx
      else case read (deName e) of
        None \<Rightarrow> run_entries vm read es user ctx
      | Some b \<Rightarrow>
          (case runRule vm b user ctx of
             (user, Some err) \<Rightarrow> (user, Some (''rule '' @ deName e @ '': '' @ err))
           | (user, None) \<Rightarrow> run_entries vm read es user ctx))"

text \<open>The receiver is a pointer that may be nil.\<close>

definition Run ::
  "vm \<Rightarrow> file_system \<Rightarrow> string option \<Rightarrow> rule_user \<Rightarrow> rule_context \<Rightarrow> rule_user \<times> string option" where
  "Run vm fs r user ctx =
     (case r of
        None \<Rightarrow> (user, None)
      | Some dir \<Rightarrow>
          if dir = [] then (user, None)
          else case fsReadDir fs dir of
            None \<Rightarrow> (user, None)
          | Some entries \<Rightarrow> run_entries vm (fsReadFile fs dir) entries user ctx)"

section \<open>Lemmas\<close>

definition no_nil_maps :: "rule_user \<Rightarrow> rule_user" where
  "no_nil_maps u =
     u\<lparr>ruUserMetadata := Some (case ruUserMetadata u of None \<Rightarrow> [] | Some m \<Rightarrow> m),
       ruAppMetadata := Some (case ruAppMetadata u of None \<Rightarrow> [] | Some m \<Rightarrow> m),
       ruIDTokenClaims := Some (case ruIDTokenClaims u of None \<Rightarrow> [] | Some m \<Rightarrow> m),
       ruAccessTokenClaims := Some (case ruAccessTokenClaims u of None \<Rightarrow> [] | Some m \<Rightarrow> m)\<rparr>"

lemma as_obj_nested [simp]: "as_obj (Some (nested m)) = Some (case m of None \<Rightarrow> [] | Some d \<Rightarrow> d)"
  by (simp add: as_obj_def nested_def split: option.split)

lemma mapToUser_userToMap: "mapToUser (userToMap u) = no_nil_maps u"
  by (simp add: mapToUser_def userToMap_def no_nil_maps_def empty_user_def Let_def
      as_str_def as_bool_def)

section \<open>Properties\<close>

text \<open>Writing a user for the engine and reading it back is the identity, except that nil maps
  come back as empty ones.\<close>

lemma rule_user_roundtrip:
  "mapToUser (userToMap u) =
     u\<lparr>ruUserMetadata := Some (case ruUserMetadata u of None \<Rightarrow> [] | Some m \<Rightarrow> m),
       ruAppMetadata := Some (case ruAppMetadata u of None \<Rightarrow> [] | Some m \<Rightarrow> m),
       ruIDTokenClaims := Some (case ruIDTokenClaims u of None \<Rightarrow> [] | Some m \<Rightarrow> m),
       ruAccessTokenClaims := Some (case ruAccessTokenClaims u of None \<Rightarrow> [] | Some m \<Rightarrow> m)\<rparr>"
  unfolding mapToUser_userToMap no_nil_maps_def by (rule refl)

text \<open>The scripts a directory holds, with their names.\<close>

definition rule_scripts :: "(string \<Rightarrow> string option) \<Rightarrow> dir_entry list \<Rightarrow> (string \<times> string) list" where
  "rule_scripts read es =
     map (\<lambda>e. (deName e, the (read (deName e))))
       (filter (\<lambda>e. \<not> deIsDir e \<and> has_suffix ''.js'' (deName e) \<and> read (deName e) \<noteq> None) es)"

text \<open>The first \<open>k\<close> rules succeed, and \<open>us\<close> are the users before, between and after them.\<close>

definition rules_succeed ::
  "vm \<Rightarrow> rule_context \<Rightarrow> (string \<times> string) list \<Rightarrow> nat \<Rightarrow> rule_user list \<Rightarrow> bool" where
  "rules_succeed vm ctx rules k us \<longleftrightarrow> k \<le> length rules \<and> length us = Suc k
     \<and> (\<forall>i<k. runRule vm (snd (rules ! i)) (us ! i) ctx = (us ! Suc i, None))"

lemma rules_succeed_Cons:
  assumes "runRule vm (snd s) user ctx = (user', None)" and "rules_succeed vm ctx rules k us" and "us ! 0 = user'"
  shows "rules_succeed vm ctx (s # rules) (Suc k) (user # us)"
  using assms by (auto simp: rules_succeed_def nth_Cons split: nat.split)

lemma entries_in_order:
  "\<exists>k us. rules_succeed vm ctx (rule_scripts read es) k us \<and> us ! 0 = user
    \<and> (if k = length (rule_scripts read es) then run_entries vm read es user ctx = (us ! k, None)
       else \<exists>user' err. runRule vm (snd (rule_scripts read es ! k)) (us ! k) ctx = (user', Some err)
         \<and> run_entries vm read es user ctx = (user', Some (''rule '' @ fst (rule_scripts read es ! k) @ '': '' @ err)))"
proof (induction es arbitrary: user)
  case Nil
  show ?case by (rule exI [of _ 0], rule exI [of _ "[user]"]) (simp add: rules_succeed_def rule_scripts_def)
next
  case (Cons e es)
  show ?case
  proof (cases "\<not> deIsDir e \<and> has_suffix ''.js'' (deName e) \<and> read (deName e) \<noteq> None")
    case False
    then have "rule_scripts read (e # es) = rule_scripts read es"
      "run_entries vm read (e # es) user ctx = run_entries vm read es user ctx"
      by (auto simp: rule_scripts_def split: option.split)
    with Cons.IH [of user] show ?thesis by (simp only:)
  next
    case True
    then obtain src where src: "read (deName e) = Some src" by blast
    let ?s = "(deName e, src)"
    have scripts: "rule_scripts read (e # es) = ?s # rule_scripts read es"
      using True src by (simp add: rule_scripts_def)
    obtain user' res where rule: "runRule vm src user ctx = (user', res)" by (cases "runRule vm src user ctx")
    show ?thesis
    proof (cases res)
      case (Some err)
      with True src rule show ?thesis
        by (intro exI [of _ 0] exI [of _ "[user]"]) (simp add: rules_succeed_def scripts)
    next
      case None
      with True src rule have run: "run_entries vm read (e # es) user ctx = run_entries vm read es user' ctx" by simp
      from Cons.IH [of user'] obtain k us where us: "rules_succeed vm ctx (rule_scripts read es) k us" "us ! 0 = user'"
        and res: "if k = length (rule_scripts read es) then run_entries vm read es user' ctx = (us ! k, None)
          else \<exists>user2 err. runRule vm (snd (rule_scripts read es ! k)) (us ! k) ctx = (user2, Some err)
            \<and> run_entries vm read es user' ctx = (user2, Some (''rule '' @ fst (rule_scripts read es ! k) @ '': '' @ err))"
        by blast
      have "rules_succeed vm ctx (?s # rule_scripts read es) (Suc k) (user # us)"
        using us rule None by (intro rules_succeed_Cons) simp_all
      with res show ?thesis unfolding scripts run
        by (intro exI [of _ "Suc k"] exI [of _ "user # us"]) (simp only: length_Cons nat.inject nth_Cons_Suc nth_Cons_0 simp_thms)
    qed
  qed
qed

text \<open>C33: The rules run in directory order over the readable \<^verbatim>\<open>.js\<close> files only, and the first
  error ends the run: the rules before some \<open>k\<close> each succeed on the user the one before has made,
  and then either there is no rule left, and the result is the user of the last, or rule \<open>k\<close> fails,
  and the result is the user it leaves with its error under its file name; no later rule runs.\<close>

theorem rules_run_in_order:
  assumes "r = Some dir" and "dir \<noteq> []" and "fsReadDir fs dir = Some es"
    and "rules = rule_scripts (fsReadFile fs dir) es"
  shows "\<exists>k us. rules_succeed vm ctx rules k us \<and> us ! 0 = user
    \<and> (if k = length rules then Run vm fs r user ctx = (us ! k, None)
       else \<exists>user' err. runRule vm (snd (rules ! k)) (us ! k) ctx = (user', Some err)
         \<and> Run vm fs r user ctx = (user', Some (''rule '' @ fst (rules ! k) @ '': '' @ err)))"
proof -
  have run: "Run vm fs r user ctx = run_entries vm (fsReadFile fs dir) es user ctx"
    using assms(1-3) by (simp add: Run_def)
  show ?thesis unfolding run assms(4) by (rule entries_in_order)
qed

text \<open>A sample engine: a script that ends in an error, and one that sets the nickname.\<close>

definition sample_vm :: vm where
  "sample_vm src u c =
     (if contains ''bad'' src then \<lparr>vmCalls = [], vmError = Some ''SyntaxError'', vmNested = \<lambda>_. []\<rparr>
      else \<lparr>vmCalls = [[JsExport GNil, JsExport (GObj (AList.update ''nickname'' (GStr ''modified'') u))]],
            vmError = None, vmNested = \<lambda>_. []\<rparr>)"

definition sample_fs :: file_system where
  "sample_fs = \<lparr>fsReadDir = (\<lambda>d. Some [\<lparr>deName = ''a.js'', deIsDir = False\<rparr>, \<lparr>deName = ''b.js'', deIsDir = False\<rparr>]),
     fsReadFile = (\<lambda>d n. if n = ''a.js'' then Some ''ok'' else Some ''bad'')\<rparr>"

lemmas sample_defs = runRule_def rule_source_def sample_vm_def userToMap_def mapToUser_def empty_user_def
  callback_def as_str_def as_bool_def as_obj_def nested_def trim_space_def space_width_def space_runes_def
  seen_by_script_def

lemma sample_ok:
  "runRule sample_vm ''ok'' (empty_user\<lparr>ruUserID := ''u1''\<rparr>) ctx = (user, res) \<Longrightarrow>
   res = None \<and> ruNickname user = ''modified''"
  by (auto simp: sample_defs has_prefix_def Let_def)

lemma sample_bad: "runRule sample_vm ''bad'' user ctx = (user', res) \<Longrightarrow>
   res = Some ''SyntaxError'' \<and> ruNickname user' = ruNickname user"
  by (auto simp: sample_defs has_prefix_def Let_def)

lemma sample_rules:
  "rule_scripts (fsReadFile sample_fs dir) [\<lparr>deName = ''a.js'', deIsDir = False\<rparr>, \<lparr>deName = ''b.js'', deIsDir = False\<rparr>]
   = [(''a.js'', ''ok''), (''b.js'', ''bad'')]"
  by (simp add: rule_scripts_def sample_fs_def has_suffix_def has_prefix_def)

theorem rules_run_in_order_witness:
  "let (u, e) = Run sample_vm sample_fs (Some ''rules'') (empty_user\<lparr>ruUserID := ''u1''\<rparr>) empty_context
   in ruNickname u = ''modified'' \<and> e = Some ''rule b.js: SyntaxError''"
proof -
  let ?u = "empty_user\<lparr>ruUserID := ''u1''\<rparr>"
  have "fsReadDir sample_fs ''rules'' =
      Some [\<lparr>deName = ''a.js'', deIsDir = False\<rparr>, \<lparr>deName = ''b.js'', deIsDir = False\<rparr>]"
    by (simp add: sample_fs_def)
  from rules_run_in_order [OF refl _ this sample_rules [symmetric], of sample_vm empty_context ?u]
  obtain k us where us: "rules_succeed sample_vm empty_context [(''a.js'', ''ok''), (''b.js'', ''bad'')] k us" "us ! 0 = ?u"
    and res: "if k = 2 then Run sample_vm sample_fs (Some ''rules'') ?u empty_context = (us ! k, None)
       else \<exists>user' err. runRule sample_vm (snd ([(''a.js'', ''ok''), (''b.js'', ''bad'')] ! k)) (us ! k) empty_context = (user', Some err)
         \<and> Run sample_vm sample_fs (Some ''rules'') ?u empty_context
           = (user', Some (''rule '' @ fst ([(''a.js'', ''ok''), (''b.js'', ''bad'')] ! k) @ '': '' @ err))"
    by (auto simp: numeral_2_eq_2)
  have step: "i < k \<Longrightarrow> runRule sample_vm (snd ([(''a.js'', ''ok''), (''b.js'', ''bad'')] ! i)) (us ! i) empty_context
      = (us ! Suc i, None)" for i
    using us(1) by (simp add: rules_succeed_def)
  have "k \<noteq> 0"
  proof
    assume "k = 0"
    with res us(2) obtain user err where "runRule sample_vm ''ok'' ?u empty_context = (user, Some err)" by auto
    from sample_ok [OF this] show False by simp
  qed
  moreover have "k \<noteq> 2"
  proof
    assume "k = 2"
    with step [of 1] have "runRule sample_vm ''bad'' (us ! 1) empty_context = (us ! 2, None)" by (simp add: numeral_2_eq_2)
    then show False by (auto dest: sample_bad)
  qed
  moreover have "k \<le> 2" using us(1) by (simp add: rules_succeed_def)
  ultimately have k: "k = 1" by linarith
  with step [of 0] us(2) have "runRule sample_vm ''ok'' ?u empty_context = (us ! 1, None)" by simp
  from sample_ok [OF this] have nick: "ruNickname (us ! 1) = ''modified''" ..
  from res k obtain user err where bad: "runRule sample_vm ''bad'' (us ! 1) empty_context = (user, Some err)"
    and run: "Run sample_vm sample_fs (Some ''rules'') ?u empty_context = (user, Some (''rule b.js: '' @ err))"
    by auto
  from sample_bad [OF bad] nick run show ?thesis by simp
qed

end
