(* ===== verification/Base64.thy ===== *)
theory Base64
  imports Sha256
begin

text \<open>
  \<^verbatim>\<open>base64.RawURLEncoding.EncodeToString\<close>: three bytes become four characters of the
  URL alphabet of RFC 4648, a rest of one or two bytes becomes two or three, without
  padding. The decoder is not part of the program; it gives the round trip, and with it the
  injectivity that the PKCE comparison relies on.
\<close>

definition b64_alphabet :: string where
  "b64_alphabet = ''ABCDEFGHIJKLMNOPQRSTUVWXYZabcdefghijklmnopqrstuvwxyz0123456789-_''"

definition b64_char :: "nat \<Rightarrow> char" where
  "b64_char n = b64_alphabet ! n"

fun b64_encode :: "nat list \<Rightarrow> string" where
  "b64_encode (a # b # c # r) =
     b64_char (a div 4) # b64_char (a mod 4 * 16 + b div 16)
     # b64_char (b mod 16 * 4 + c div 64) # b64_char (c mod 64) # b64_encode r"
| "b64_encode [a, b] =
     [b64_char (a div 4), b64_char (a mod 4 * 16 + b div 16), b64_char (b mod 16 * 4)]"
| "b64_encode [a] = [b64_char (a div 4), b64_char (a mod 4 * 16)]"
| "b64_encode [] = []"

definition raw_url_encode :: "byte list \<Rightarrow> string" where
  "raw_url_encode bs = b64_encode (map unat bs)"

section \<open>Decoding\<close>

definition b64_index :: "char \<Rightarrow> nat" where
  "b64_index c = length (takeWhile (\<lambda>x. x \<noteq> c) b64_alphabet)"

fun b64_decode :: "string \<Rightarrow> nat list" where
  "b64_decode (w # x # y # z # r) =
     (b64_index w * 4 + b64_index x div 16)
     # (b64_index x mod 16 * 16 + b64_index y div 4)
     # (b64_index y mod 4 * 64 + b64_index z) # b64_decode r"
| "b64_decode [w, x, y] =
     [b64_index w * 4 + b64_index x div 16, b64_index x mod 16 * 16 + b64_index y div 4]"
| "b64_decode [w, x] = [b64_index w * 4 + b64_index x div 16]"
| "b64_decode _ = []"

lemma b64_alphabet_distinct: "distinct b64_alphabet"
  unfolding b64_alphabet_def by code_simp

lemma b64_alphabet_length: "length b64_alphabet = 64"
  by (simp add: b64_alphabet_def)

lemma takeWhile_nth:
  "distinct xs \<Longrightarrow> n < length xs \<Longrightarrow> takeWhile (\<lambda>x. x \<noteq> xs ! n) xs = take n xs"
  by (induction xs arbitrary: n) (auto simp: nth_Cons split: nat.splits)

lemma b64_index_char [simp]: "n < 64 \<Longrightarrow> b64_index (b64_char n) = n"
  unfolding b64_index_def b64_char_def
  by (subst takeWhile_nth) (simp_all add: b64_alphabet_distinct b64_alphabet_length)

lemma b64_char_in: "n < 64 \<Longrightarrow> b64_char n \<in> set b64_alphabet"
  by (simp add: b64_char_def b64_alphabet_length)

lemma b64_bounds:
  fixes a b c :: nat
  assumes "a < 256" "b < 256" "c < 256"
  shows "a div 4 < 64" "a mod 4 * 16 + b div 16 < 64" "b mod 16 * 4 + c div 64 < 64"
    "c mod 64 < 64" "a mod 4 * 16 < 64" "b mod 16 * 4 < 64"
proof -
  have a: "a div 4 < 64" "a mod 4 < 4" and b: "b div 16 < 16" "b mod 16 < 16"
    and c: "c div 64 < 4"
    using assms by (simp_all add: less_mult_imp_div_less)
  show "a mod 4 * 16 + b div 16 < 64" "b mod 16 * 4 + c div 64 < 64"
    "a mod 4 * 16 < 64" "b mod 16 * 4 < 64"
    using a(2) b c by linarith+
  show "a div 4 < 64" "c mod 64 < 64" using a(1) by simp_all
qed

text \<open>Splitting a six-bit group into its two parts.\<close>

lemma b64_group:
  fixes x y k :: nat
  assumes "y < k"
  shows "(x * k + y) div k = x" "(x * k + y) mod k = y"
  using assms by simp_all

lemma b64_recombine:
  fixes a b c :: nat
  assumes "a < 256" "b < 256" "c < 256"
  shows "a div 4 * 4 + (a mod 4 * 16 + b div 16) div 16 = a"
    "(a mod 4 * 16 + b div 16) mod 16 * 16 + (b mod 16 * 4 + c div 64) div 4 = b"
    "(b mod 16 * 4 + c div 64) mod 4 * 64 + c mod 64 = c"
    "a div 4 * 4 + (a mod 4 * 16) div 16 = a"
    "(a mod 4 * 16 + b div 16) mod 16 * 16 + (b mod 16 * 4) div 4 = b"
proof -
  have b: "b div 16 < 16" and c: "c div 64 < 4"
    using assms by (simp_all add: less_mult_imp_div_less)
  show "a div 4 * 4 + (a mod 4 * 16 + b div 16) div 16 = a"
    "(a mod 4 * 16 + b div 16) mod 16 * 16 + (b mod 16 * 4 + c div 64) div 4 = b"
    "(b mod 16 * 4 + c div 64) mod 4 * 64 + c mod 64 = c"
    "(a mod 4 * 16 + b div 16) mod 16 * 16 + (b mod 16 * 4) div 4 = b"
    by (simp_all only: b64_group [OF b] b64_group [OF c] div_mult_mod_eq
        nonzero_mult_div_cancel_right zero_neq_numeral not_False_eq_True)
  show "a div 4 * 4 + (a mod 4 * 16) div 16 = a" by simp
qed

lemma b64_decode_encode:
  "\<forall>b\<in>set bs. b < 256 \<Longrightarrow> b64_decode (b64_encode bs) = bs"
proof (induction bs rule: b64_encode.induct)
  case (1 a b c r)
  then have "a < 256" "b < 256" "c < 256" by auto
  with 1 show ?case by (simp add: b64_bounds b64_recombine)
next
  case (2 a b)
  then have "a < 256" "b < 256" "0 < (256::nat)" by auto
  then show ?case by (simp add: b64_bounds b64_recombine)
next
  case (3 a)
  then have "a < 256" "0 < (256::nat)" by auto
  then show ?case by (simp add: b64_bounds b64_recombine)
qed simp

lemma b64_encode_length: "length (b64_encode bs) = (4 * length bs + 2) div 3"
  by (induction bs rule: b64_encode.induct) simp_all

lemma b64_encode_set: "\<forall>b\<in>set bs. b < 256 \<Longrightarrow> set (b64_encode bs) \<subseteq> set b64_alphabet"
proof (induction bs rule: b64_encode.induct)
  case (1 a b c r)
  then have "a < 256" "b < 256" "c < 256" by auto
  with 1 show ?case by (simp add: b64_bounds b64_char_in)
next
  case (2 a b)
  then have "a < 256" "b < 256" "0 < (256::nat)" by auto
  then show ?case by (simp add: b64_bounds b64_char_in)
next
  case (3 a)
  then have "a < 256" "0 < (256::nat)" by auto
  then show ?case by (simp add: b64_bounds b64_char_in)
qed simp

lemma unat_byte_bound: "unat (b :: byte) < 256"
  using unsigned_less [of b, where ?'a = nat] by simp

lemma raw_url_encode_inj: "raw_url_encode bs = raw_url_encode cs \<Longrightarrow> bs = cs"
proof -
  assume "raw_url_encode bs = raw_url_encode cs"
  then have "b64_decode (b64_encode (map unat bs)) = b64_decode (b64_encode (map unat cs))"
    by (simp add: raw_url_encode_def)
  then have "map unat bs = map unat cs"
    by (simp add: b64_decode_encode unat_byte_bound)
  then show ?thesis
    by (rule map_injective) (simp add: inj_def word_unat_eq_iff)
qed

lemma raw_url_encode_set: "set (raw_url_encode bs) \<subseteq> set b64_alphabet"
  unfolding raw_url_encode_def by (rule b64_encode_set) (simp add: unat_byte_bound)

lemma raw_url_encode_length: "length (raw_url_encode bs) = (4 * length bs + 2) div 3"
  by (simp add: raw_url_encode_def b64_encode_length)

section \<open>The length of a digest\<close>

lemma length_be_bytes [simp]: "length (be_bytes n x) = n"
  by (simp add: be_bytes_def)

lemma length_sha_round [simp]: "length (sha_round kw hs) = length hs"
  by (cases "(kw, hs)" rule: sha_round.cases) (simp_all add: Let_def)

lemma length_fold_sha_round: "length (fold sha_round kws hs) = length hs"
  by (induction kws arbitrary: hs) auto

lemma length_sha_block [simp]: "length (sha_block blk hs) = length hs"
  by (simp add: sha_block_def Let_def length_fold_sha_round)

lemma length_fold_sha_block: "length (fold sha_block bs hs) = length hs"
  by (induction bs arbitrary: hs) auto

lemma length_concat_be_bytes: "length (concat (map (\<lambda>w. be_bytes 4 (f w)) ws)) = 4 * length ws"
  by (induction ws) auto

lemma length_sha256 [simp]: "length (sha256 m) = 32"
  by (simp add: sha256_def Let_def length_concat_be_bytes length_fold_sha_block sha_init_def)

text \<open>The padded message is a whole number of blocks, so no byte of it is dropped.\<close>

lemma length_sha_pad: "64 dvd length (sha_pad m)"
proof -
  have "(k + 1 + (119 - k mod 64) mod 64 + 8) mod 64 = 0" for k :: nat
  proof -
    obtain q r where k: "k = 64 * q + r" and r: "r < 64"
      by (metis mod_less_divisor mult_div_mod_eq zero_less_numeral)
    have "(k + 1 + (119 - k mod 64) mod 64 + 8) mod 64 = (k + 9 + (119 - k mod 64)) mod 64"
      using mod_add_right_eq [of "k + 9" "119 - k mod 64" 64] by (simp add: ac_simps)
    also have "k + 9 + (119 - k mod 64) = 64 * (q + 2)"
      using k r by simp
    finally show ?thesis by simp
  qed
  from this [of "length m"] show ?thesis
    unfolding dvd_eq_mod_eq_0 sha_pad_def by (simp add: ac_simps)
qed

end
