(* ===== verification/Go_Int.thy ===== *)
theory Go_Int
  imports Go_Base "HOL-Library.Word"
begin

text \<open>
  Go's \<^verbatim>\<open>int\<close> and \<^verbatim>\<open>time.Duration\<close> are 64 bits wide: \<open>int64\<close> is the value an arithmetic
  result is wrapped to.
\<close>

definition int64 :: "int \<Rightarrow> int" where
  "int64 n = sint (word_of_int n :: 64 word)"

lemma int64_eq: "int64 n = (n + 2 ^ 63) mod 2 ^ 64 - 2 ^ 63"
  by (simp add: int64_def int_word_sint)

lemma int64_id: "- (2 ^ 63) \<le> n \<Longrightarrow> n < 2 ^ 63 \<Longrightarrow> int64 n = n"
  by (simp add: int64_eq)

lemma int64_wrap:
  assumes "2 ^ 63 \<le> n" and "n < 2 ^ 64"
  shows "int64 n = n - 2 ^ 64"
proof -
  have "(n + 2 ^ 63) mod 2 ^ 64 = (n + 2 ^ 63 - 2 ^ 64) mod 2 ^ 64"
    using mod_diff_right_eq [of "n + 2 ^ 63" "2 ^ 64" "2 ^ 64"] by simp
  also have "\<dots> = n + 2 ^ 63 - 2 ^ 64"
    using assms by (intro mod_pos_pos_trivial) simp_all
  finally show ?thesis by (simp add: int64_eq)
qed

end
