(* ===== verification/Token.thy ===== *)
theory Token
  imports Base64 Go_Int
begin

text \<open>
  \<^verbatim>\<open>internal/token/jwt.go\<close>: the claims of access and ID tokens, their validation, and the key
  set. Signing and parsing of JWTs are the package golang-jwt, not part of the program: the
  parameter \<open>jwt_lib\<close>. A claims map is a Go map; \<^verbatim>\<open>time.Duration\<close> is a signed 64-bit count of
  nanoseconds, so the product with \<^verbatim>\<open>time.Second\<close> wraps.
\<close>

section \<open>Issuer and library\<close>

record rsa_key =
  rsaN :: nat
  rsaE :: nat
  rsaPrivate :: string

record issuer =
  iIssuer :: string
  iKey :: rsa_key
  iKid :: string

text \<open>
  \<open>jwtSign key kid claims\<close> is \<^verbatim>\<open>SignedString\<close> of an RS256 token with this key ID;
  \<open>jwtParse key now s\<close> is \<^verbatim>\<open>jwt.Parse\<close> with the public half of the key: an error, or the claims
  (when they are a claims map) and the flag \<^verbatim>\<open>Valid\<close>.
\<close>

record jwt_lib =
  jwtSign :: "rsa_key \<Rightarrow> string \<Rightarrow> dict \<Rightarrow> string + string"
  jwtParse :: "rsa_key \<Rightarrow> time \<Rightarrow> string \<Rightarrow> string + (dict option \<times> bool)"

definition defaultKid :: string where
  "defaultKid = ''default''"

definition NewIssuerWithKey :: "string option \<Rightarrow> string \<Rightarrow> rsa_key \<Rightarrow> issuer" where
  "NewIssuerWithKey uuid iss key =
     (let kid = (case uuid of None \<Rightarrow> defaultKid | Some i \<Rightarrow> take 8 i)
      in \<lparr>iIssuer = iss, iKey = key, iKid = kid\<rparr>)"

definition NewIssuer :: "string + rsa_key \<Rightarrow> string option \<Rightarrow> string \<Rightarrow> string + issuer" where
  "NewIssuer gen uuid iss =
     (case gen of
        Inl err \<Rightarrow> Inl err
      | Inr key \<Rightarrow>
          (let kid = (case uuid of None \<Rightarrow> defaultKid | Some i \<Rightarrow> take 8 i)
           in Inr \<lparr>iIssuer = iss, iKey = key, iKid = kid\<rparr>))"

definition SetKid :: "string \<Rightarrow> issuer \<Rightarrow> issuer" where
  "SetKid kid i = i\<lparr>iKid := kid\<rparr>"

section \<open>Time arithmetic\<close>

definition duration_seconds :: "int \<Rightarrow> duration" where
  "duration_seconds n = int64 (n * second)"

definition unix :: "time \<Rightarrow> int" where
  "unix t = t div second"

section \<open>Access tokens\<close>

definition issue_claims :: "time \<Rightarrow> issuer \<Rightarrow> string \<Rightarrow> string \<Rightarrow> string \<Rightarrow> int \<Rightarrow> dict \<Rightarrow> dict" where
  "issue_claims now i sub aud clientID expiresIn customClaims =
     (let expiresIn = (if expiresIn \<le> 0 then 3600 else expiresIn);
          claims = [(''sub'', GStr sub), (''iss'', GStr (iIssuer i)), (''aud'', GStr aud),
                    (''exp'', GInt (unix (now + duration_seconds expiresIn))),
                    (''iat'', GInt (unix now))];
          claims = (if clientID \<noteq> [] then AList.update ''azp'' (GStr clientID) claims else claims)
      in put_all customClaims claims)"

definition Issue ::
  "jwt_lib \<Rightarrow> time \<Rightarrow> issuer \<Rightarrow> string \<Rightarrow> string \<Rightarrow> string \<Rightarrow> int \<Rightarrow> dict \<Rightarrow> string + string" where
  "Issue lib now i sub aud clientID expiresIn customClaims =
     jwtSign lib (iKey i) (iKid i) (issue_claims now i sub aud clientID expiresIn customClaims)"

section \<open>ID tokens\<close>

record id_token_options =
  optNonce :: string
  optAMR :: "string list"
  optAccessToken :: string
  optAuthCode :: string
  optSessionID :: string
  optCustomClaims :: dict

definition leftHalfHash :: "string \<Rightarrow> string" where
  "leftHalfHash input = (let h = sha256 (bytes_of input) in raw_url_encode (take 16 h))"

definition option_claims :: "id_token_options \<Rightarrow> dict \<Rightarrow> dict" where
  "option_claims opts claims =
     (let claims = (if optNonce opts \<noteq> [] then AList.update ''nonce'' (GStr (optNonce opts)) claims else claims);
          claims = (if 0 < length (optAMR opts) then AList.update ''amr'' (GStrs (optAMR opts)) claims else claims);
          claims = (if optAccessToken opts \<noteq> []
                    then AList.update ''at_hash'' (GStr (leftHalfHash (optAccessToken opts))) claims else claims);
          claims = (if optAuthCode opts \<noteq> []
                    then AList.update ''c_hash'' (GStr (leftHalfHash (optAuthCode opts))) claims else claims);
          claims = (if optSessionID opts \<noteq> [] then AList.update ''sid'' (GStr (optSessionID opts)) claims else claims)
      in put_all (optCustomClaims opts) claims)"

definition email_claims :: "string \<Rightarrow> string \<Rightarrow> dict \<Rightarrow> dict" where
  "email_claims scope email claims =
     (if contains ''email'' scope \<and> email \<noteq> []
      then AList.update ''email_verified'' (GBool True) (AList.update ''email'' (GStr email) claims)
      else claims)"

definition profile_claims :: "string \<Rightarrow> string \<Rightarrow> string \<Rightarrow> dict \<Rightarrow> dict" where
  "profile_claims scope name picture claims =
     (if (contains ''profile'' scope \<or> contains ''openid'' scope) \<and> name \<noteq> []
      then let claims = AList.update ''name'' (GStr name) claims;
               parts = split_two (CHR '' '') name;
               claims = (if 0 < length parts then AList.update ''given_name'' (GStr (parts ! 0)) claims else claims);
               claims = (if 1 < length parts then AList.update ''family_name'' (GStr (parts ! 1)) claims else claims);
               claims = AList.update ''nickname'' (GStr name) claims
           in (if picture \<noteq> [] then AList.update ''picture'' (GStr picture) claims else claims)
      else claims)"

definition id_token_base :: "time \<Rightarrow> issuer \<Rightarrow> string \<Rightarrow> string \<Rightarrow> string \<Rightarrow> int \<Rightarrow> dict" where
  "id_token_base now i sub aud clientID expiresIn =
     (let expiresIn = (if expiresIn \<le> 0 then 3600 else expiresIn);
          claims = [(''sub'', GStr sub), (''iss'', GStr (iIssuer i)), (''aud'', GStr aud),
                    (''exp'', GInt (unix (now + duration_seconds expiresIn))),
                    (''iat'', GInt (unix now)), (''auth_time'', GInt (unix now))]
      in if clientID \<noteq> [] then AList.update ''azp'' (GStr clientID) claims else claims)"

definition id_token_claims ::
  "time \<Rightarrow> issuer \<Rightarrow> string \<Rightarrow> string \<Rightarrow> string \<Rightarrow> int \<Rightarrow> string \<Rightarrow> string \<Rightarrow> string \<Rightarrow> string
   \<Rightarrow> id_token_options option \<Rightarrow> dict" where
  "id_token_claims now i sub aud clientID expiresIn scope email name picture opts =
     (let claims = id_token_base now i sub aud clientID expiresIn;
          claims = (case opts of None \<Rightarrow> claims | Some opts \<Rightarrow> option_claims opts claims);
          scope = (if scope = [] then ''openid profile email'' else scope);
          claims = email_claims scope email claims
      in profile_claims scope name picture claims)"

definition IssueIDToken ::
  "jwt_lib \<Rightarrow> time \<Rightarrow> issuer \<Rightarrow> string \<Rightarrow> string \<Rightarrow> string \<Rightarrow> int \<Rightarrow> string \<Rightarrow> string \<Rightarrow> string \<Rightarrow> string
   \<Rightarrow> id_token_options option \<Rightarrow> string + string" where
  "IssueIDToken lib now i sub aud clientID expiresIn scope email name picture opts =
     jwtSign lib (iKey i) (iKid i)
       (id_token_claims now i sub aud clientID expiresIn scope email name picture opts)"

section \<open>Validation\<close>

definition Validate :: "jwt_lib \<Rightarrow> time \<Rightarrow> issuer \<Rightarrow> string \<Rightarrow> string + dict" where
  "Validate lib now i tokenStr =
     (case jwtParse lib (iKey i) now tokenStr of
        Inl err \<Rightarrow> Inl err
      | Inr (None, _) \<Rightarrow> Inl ''invalid token''
      | Inr (Some claims, valid) \<Rightarrow>
          if \<not> valid then Inl ''invalid token''
          else let iss = str_or_empty (as_str (map_of claims ''iss''));
                   expected = trim_suffix ''/'' (iIssuer i);
                   expectedWithSlash = expected @ ''/''
               in if iss \<noteq> expected \<and> iss \<noteq> expectedWithSlash then Inl ''invalid issuer''
                  else Inr claims)"

section \<open>Key set\<close>

text \<open>\<^verbatim>\<open>big.Int.Bytes\<close>: big-endian, without leading zeros.\<close>

fun big_bytes :: "nat \<Rightarrow> nat list" where
  "big_bytes n = (if n = 0 then [] else big_bytes (n div 256) @ [n mod 256])"

declare big_bytes.simps [simp del]

definition JWKS :: "issuer \<Rightarrow> goval" where
  "JWKS i =
     (let n = b64_encode (big_bytes (rsaN (iKey i)));
          e = b64_encode (big_bytes (rsaE (iKey i)));
          jwk = [(''kty'', GStr ''RSA''), (''use'', GStr ''sig''), (''alg'', GStr ''RS256''),
                 (''kid'', GStr (iKid i)), (''n'', GStr n), (''e'', GStr e)]
      in GObj [(''keys'', GArr [GObj jwk])])"

end
