(* ===== verification/Sqlite.thy ===== *)
theory Sqlite
  imports Go_Int
begin

text \<open>
  \<^verbatim>\<open>internal/store/store.go\<close> and \<^verbatim>\<open>internal/store/sqlite.go\<close>: the database, one list of rows
  per table in insertion order, and the SQL statements of the program as functions on it. A
  nullable column is an option; scanning NULL into a string is an error. Foreign keys are not
  enforced (SQLite's default, which the program does not change). A connection that fails
  (for instance after \<^verbatim>\<open>Close\<close>) is \<open>dbFault\<close>: then every statement returns this error and
  changes nothing. Parameters are the code outside of the program: bcrypt, the JSON codec, what SQLite decides
  (the \<^verbatim>\<open>LIKE\<close> operator, the order of the rows a statement does not fully order), and the file read at startup.
\<close>

section \<open>Types of store.go\<close>

record user =
  uID :: string
  uEmail :: string
  uPasswordHash :: string
  uDisplayName :: string
  uAppMetadata :: "dict option"
  uUserMetadata :: "dict option"
  uOrganizationID :: int
  uEnterpriseID :: int
  uRole :: string

record role =
  roleID :: string
  roleName :: string
  roleDescription :: string

record permission =
  permID :: string
  permName :: string
  permResourceServerIdentifier :: string
  permDescription :: string

record client =
  clID :: string
  clName :: string
  clAppType :: string
  clCallbacks :: "string list"
  clAllowedOrigins :: "string list"

record connection =
  connID :: string
  connName :: string
  connStrategy :: string

record audit_log =
  logID :: int
  logEventType :: string
  logUserID :: string
  logClientID :: string
  logPayload :: string

section \<open>Tables\<close>

record user_row =
  urID :: string
  urEmail :: string
  urPasswordHash :: string
  urDisplayName :: "string option"
  urOrganizationID :: int
  urEnterpriseID :: int
  urRole :: "string option"
  urAppMetadata :: "string option"
  urUserMetadata :: "string option"
  urCreatedAt :: int

record role_row =
  rrID :: string
  rrName :: string
  rrDescription :: "string option"

record perm_row =
  prID :: string
  prName :: string
  prResourceServerIdentifier :: "string option"
  prDescription :: "string option"

record client_row =
  crID :: string
  crName :: "string option"
  crAppType :: "string option"
  crCallbacks :: "string option"
  crAllowedOrigins :: "string option"

record conn_row =
  cnID :: string
  cnName :: string
  cnStrategy :: "string option"

record log_row =
  lgID :: int
  lgEventType :: "string option"
  lgUserID :: "string option"
  lgClientID :: "string option"
  lgPayload :: "string option"

record db =
  dbUsers :: "user_row list"
  dbRoles :: "role_row list"
  dbPermissions :: "perm_row list"
  dbUserRoles :: "(string \<times> string) list"
  dbRolePermissions :: "(string \<times> string) list"
  dbClients :: "client_row list"
  dbConnections :: "conn_row list"
  dbUserBlocks :: "string list"
  dbAuditLogs :: "log_row list"
  dbNextLog :: int
  dbFault :: "string option"

definition empty_db :: db where
  "empty_db = \<lparr>dbUsers = [], dbRoles = [], dbPermissions = [], dbUserRoles = [],
     dbRolePermissions = [], dbClients = [], dbConnections = [], dbUserBlocks = [],
     dbAuditLogs = [], dbNextLog = 1, dbFault = None\<rparr>"

section \<open>Statements\<close>

text \<open>A statement that writes, and one that reads.\<close>

definition exec :: "(db \<Rightarrow> string + db) \<Rightarrow> db \<Rightarrow> string option \<times> db" where
  "exec f d =
     (case dbFault d of
        Some e \<Rightarrow> (Some e, d)
      | None \<Rightarrow> (case f d of Inl e \<Rightarrow> (Some e, d) | Inr d' \<Rightarrow> (None, d')))"

definition query :: "(db \<Rightarrow> string + 'a) \<Rightarrow> db \<Rightarrow> string + 'a" where
  "query f d = (case dbFault d of Some e \<Rightarrow> Inl e | None \<Rightarrow> f d)"

definition insert_ignore :: "('r \<Rightarrow> 'r \<Rightarrow> bool) \<Rightarrow> 'r \<Rightarrow> 'r list \<Rightarrow> 'r list" where
  "insert_ignore conflict r rows = (if list_ex (conflict r) rows then rows else rows @ [r])"

definition insert_strict ::
  "string \<Rightarrow> ('r \<Rightarrow> 'r \<Rightarrow> bool) \<Rightarrow> 'r \<Rightarrow> 'r list \<Rightarrow> string + 'r list" where
  "insert_strict table conflict r rows =
     (if list_ex (conflict r) rows then Inl (''UNIQUE constraint failed: '' @ table)
      else Inr (rows @ [r]))"

definition user_conflict :: "user_row \<Rightarrow> user_row \<Rightarrow> bool" where
  "user_conflict r s \<longleftrightarrow> urID r = urID s \<or> urEmail r = urEmail s"

definition role_conflict :: "role_row \<Rightarrow> role_row \<Rightarrow> bool" where
  "role_conflict r s \<longleftrightarrow> rrID r = rrID s \<or> rrName r = rrName s"

definition perm_conflict :: "perm_row \<Rightarrow> perm_row \<Rightarrow> bool" where
  "perm_conflict r s \<longleftrightarrow> prID r = prID s"

definition client_conflict :: "client_row \<Rightarrow> client_row \<Rightarrow> bool" where
  "client_conflict r s \<longleftrightarrow> crID r = crID s"

definition conn_conflict :: "conn_row \<Rightarrow> conn_row \<Rightarrow> bool" where
  "conn_conflict r s \<longleftrightarrow> cnID r = cnID s"

text \<open>Scanning columns: into a string, and into a \<^verbatim>\<open>sql.NullString\<close> of which only a valid one is
  kept.\<close>

definition scan_string :: "string option \<Rightarrow> string + string" where
  "scan_string c =
     (case c of None \<Rightarrow> Inl ''sql: Scan error: converting NULL to string is unsupported'' | Some s \<Rightarrow> Inr s)"

definition null_string :: "string option \<Rightarrow> string" where
  "null_string c = (case c of None \<Rightarrow> [] | Some s \<Rightarrow> s)"

text \<open>\<^verbatim>\<open>rows.Next\<close>: scan the rows in turn, the first error ends the loop.\<close>

fun scan_rows :: "('r \<Rightarrow> string + 'a) \<Rightarrow> 'r list \<Rightarrow> string + 'a list" where
  "scan_rows f [] = Inr []"
| "scan_rows f (r # rs) =
     (case f r of
        Inl e \<Rightarrow> Inl e
      | Inr a \<Rightarrow> (case scan_rows f rs of Inl e \<Rightarrow> Inl e | Inr as \<Rightarrow> Inr (a # as)))"

section \<open>Migration and seeds\<close>

definition seedRoles :: "db \<Rightarrow> string option \<times> db" where
  "seedRoles = exec (\<lambda>d. Inr (d\<lparr>
     dbRoles :=
       insert_ignore role_conflict \<lparr>rrID = ''rol_admin'', rrName = ''admin'', rrDescription = Some ''Administrator role''\<rparr>
       (insert_ignore role_conflict \<lparr>rrID = ''rol_default'', rrName = ''user'', rrDescription = Some ''Default user role''\<rparr>
          (dbRoles d)),
     dbPermissions :=
       insert_ignore perm_conflict \<lparr>prID = ''perm_write'', prName = ''write:users'',
         prResourceServerIdentifier = Some ''https://api.example.com'', prDescription = Some ''Write users''\<rparr>
       (insert_ignore perm_conflict \<lparr>prID = ''perm_read'', prName = ''read:users'',
         prResourceServerIdentifier = Some ''https://api.example.com'', prDescription = Some ''Read users''\<rparr>
          (dbPermissions d)),
     dbRolePermissions :=
       insert_ignore (=) (''rol_admin'', ''perm_write'')
       (insert_ignore (=) (''rol_admin'', ''perm_read'')
       (insert_ignore (=) (''rol_default'', ''perm_read'') (dbRolePermissions d)))\<rparr>))"

definition seedClientsAndConnections :: "db \<Rightarrow> string option \<times> db" where
  "seedClientsAndConnections = exec (\<lambda>d. Inr (d\<lparr>
     dbClients :=
       insert_ignore client_conflict \<lparr>crID = ''default'', crName = Some ''auth0'', crAppType = Some ''regular_web'',
         crCallbacks = Some ''http://localhost/callback'', crAllowedOrigins = Some []\<rparr>
       (insert_ignore client_conflict \<lparr>crID = ''e2e-test'', crName = Some ''E2E Test'', crAppType = Some ''spa'',
         crCallbacks = Some ''http://localhost:3000/callback,http://localhost/callback'',
         crAllowedOrigins = Some ''http://localhost:3000,http://localhost''\<rparr>
          (dbClients d)),
     dbConnections :=
       insert_ignore conn_conflict \<lparr>cnID = ''con_db_main'', cnName = ''Username-Password-Authentication'',
         cnStrategy = Some ''auth0''\<rparr> (dbConnections d)\<rparr>))"

definition migrate :: "db \<Rightarrow> string option \<times> db" where
  "migrate d =
     (case exec Inr d of
        (Some e, d) \<Rightarrow> (Some e, d)
      | (None, d) \<Rightarrow>
          (case seedRoles d of
             (Some e, d) \<Rightarrow> (Some e, d)
           | (None, d) \<Rightarrow>
               (case seedClientsAndConnections d of
                  (Some e, d) \<Rightarrow> (Some e, d)
                | (None, d) \<Rightarrow> (None, d))))"

definition Close :: "db \<Rightarrow> db" where
  "Close d = d\<lparr>dbFault := Some ''sql: database is closed''\<rparr>"

definition NewSQLite :: "string + db \<Rightarrow> string + db" where
  "NewSQLite opened =
     (case opened of
        Inl e \<Rightarrow> Inl e
      | Inr d \<Rightarrow> (case migrate d of (Some e, d) \<Rightarrow> Inl e | (None, d) \<Rightarrow> Inr d))"

section \<open>Users\<close>

record json_codec =
  jsEnc :: "dict \<Rightarrow> string + string"
  jsDec :: "string \<Rightarrow> string + dict option"

record bcrypt =
  bcGenerate :: "nat \<Rightarrow> string \<Rightarrow> string + string"
  bcCompare :: "string \<Rightarrow> string \<Rightarrow> bool"

definition parseJSONMap :: "json_codec \<Rightarrow> string option \<Rightarrow> dict option" where
  "parseJSONMap js s =
     (case s of
        None \<Rightarrow> None
      | Some str \<Rightarrow> if str = [] then None else (case jsDec js str of Inl _ \<Rightarrow> None | Inr m \<Rightarrow> m))"

definition jsonBytes :: "json_codec \<Rightarrow> dict option \<Rightarrow> string" where
  "jsonBytes js m =
     (case m of None \<Rightarrow> ''{}'' | Some d \<Rightarrow> (case jsEnc js d of Inl _ \<Rightarrow> [] | Inr b \<Rightarrow> b))"

definition scan_user :: "json_codec \<Rightarrow> user_row \<Rightarrow> string + user" where
  "scan_user js r =
     (case scan_string (urDisplayName r) of
        Inl e \<Rightarrow> Inl e
      | Inr displayName \<Rightarrow>
          Inr \<lparr>uID = urID r, uEmail = urEmail r, uPasswordHash = urPasswordHash r,
               uDisplayName = displayName, uAppMetadata = parseJSONMap js (urAppMetadata r),
               uUserMetadata = parseJSONMap js (urUserMetadata r),
               uOrganizationID = urOrganizationID r, uEnterpriseID = urEnterpriseID r,
               uRole = null_string (urRole r)\<rparr>)"

definition GetByEmail :: "json_codec \<Rightarrow> string \<Rightarrow> db \<Rightarrow> string + user option" where
  "GetByEmail js email = query (\<lambda>d.
     case find (\<lambda>r. urEmail r = email) (dbUsers d) of
       None \<Rightarrow> Inr None
     | Some r \<Rightarrow> (case scan_user js r of Inl e \<Rightarrow> Inl e | Inr u \<Rightarrow> Inr (Some u)))"

definition GetByID :: "json_codec \<Rightarrow> string \<Rightarrow> db \<Rightarrow> string + user option" where
  "GetByID js uid = query (\<lambda>d.
     case find (\<lambda>r. urID r = uid) (dbUsers d) of
       None \<Rightarrow> Inr None
     | Some r \<Rightarrow> (case scan_user js r of Inl e \<Rightarrow> Inl e | Inr u \<Rightarrow> Inr (Some u)))"

definition VerifyPassword :: "bcrypt \<Rightarrow> string \<Rightarrow> string \<Rightarrow> bool" where
  "VerifyPassword bc hash password = bcCompare bc hash password"

definition HashPassword :: "bcrypt \<Rightarrow> nat \<Rightarrow> string \<Rightarrow> string + string" where
  "HashPassword bc n password = (case bcGenerate bc n password of Inl e \<Rightarrow> Inl e | Inr h \<Rightarrow> Inr h)"

definition UserVerifyPassword :: "bcrypt \<Rightarrow> user \<Rightarrow> string \<Rightarrow> bool" where
  "UserVerifyPassword bc u password = bcCompare bc (uPasswordHash u) password"

definition assign_role :: "string \<Rightarrow> string \<Rightarrow> db \<Rightarrow> string option \<times> db" where
  "assign_role userID roleId =
     exec (\<lambda>d. Inr (d\<lparr>dbUserRoles := insert_ignore (=) (userID, roleId) (dbUserRoles d)\<rparr>))"

text \<open>The result is the error, the user with its hash (the code writes through the pointer), and
  the database; \<open>n\<close> numbers the call of bcrypt, \<open>created\<close> is \<^verbatim>\<open>CURRENT_TIMESTAMP\<close>.\<close>

definition CreateUser ::
  "json_codec \<Rightarrow> bcrypt \<Rightarrow> nat \<Rightarrow> int \<Rightarrow> user \<Rightarrow> string \<Rightarrow> db \<Rightarrow> string option \<times> user \<times> db" where
  "CreateUser js bc n created u password d =
     (case bcGenerate bc n password of
        Inl e \<Rightarrow> (Some e, u, d)
      | Inr hash \<Rightarrow>
          (let u = u\<lparr>uPasswordHash := hash\<rparr>;
               row = \<lparr>urID = uID u, urEmail = uEmail u, urPasswordHash = uPasswordHash u,
                      urDisplayName = Some (uDisplayName u), urOrganizationID = uOrganizationID u,
                      urEnterpriseID = uEnterpriseID u, urRole = Some (uRole u),
                      urAppMetadata = Some (jsonBytes js (uAppMetadata u)),
                      urUserMetadata = Some (jsonBytes js (uUserMetadata u)), urCreatedAt = created\<rparr>
           in case exec (\<lambda>d. case insert_strict ''users'' user_conflict row (dbUsers d) of
                            Inl e \<Rightarrow> Inl e | Inr rows \<Rightarrow> Inr (d\<lparr>dbUsers := rows\<rparr>)) d of
                (Some e, d) \<Rightarrow> (Some (''create user: '' @ e), u, d)
              | (None, d) \<Rightarrow>
                  (let roleId = (if uRole u = ''admin'' then ''rol_admin'' else ''rol_default'');
                       d = snd (assign_role (uID u) roleId d)
                   in (None, u, d))))"

definition CreateStore ::
  "json_codec \<Rightarrow> bcrypt \<Rightarrow> nat \<Rightarrow> int \<Rightarrow> user \<Rightarrow> db \<Rightarrow> string option \<times> user \<times> db" where
  "CreateStore js bc n created u d = CreateUser js bc n created u (uPasswordHash u) d"

definition update_users :: "(user_row \<Rightarrow> user_row) \<Rightarrow> string \<Rightarrow> db \<Rightarrow> string + db" where
  "update_users f uid d =
     (case find (\<lambda>r. urID r = uid) (dbUsers d) of
        None \<Rightarrow> Inr d
      | Some r \<Rightarrow>
          if list_ex (\<lambda>s. urID s \<noteq> uid \<and> user_conflict (f r) s) (dbUsers d)
          then Inl ''UNIQUE constraint failed: users''
          else Inr (d\<lparr>dbUsers := map (\<lambda>s. if urID s = uid then f s else s) (dbUsers d)\<rparr>))"

definition UpdateAppMetadata :: "json_codec \<Rightarrow> string \<Rightarrow> dict \<Rightarrow> db \<Rightarrow> string option \<times> db" where
  "UpdateAppMetadata js uid meta d =
     (case jsEnc js meta of
        Inl e \<Rightarrow> (Some e, d)
      | Inr b \<Rightarrow> exec (update_users (\<lambda>r. r\<lparr>urAppMetadata := Some b\<rparr>) uid) d)"

text \<open>The \<^verbatim>\<open>SET\<close> list is a list of assignments; of two assignments to a column SQLite performs
  the last one.\<close>

definition user_assignments :: "json_codec \<Rightarrow> dict \<Rightarrow> (user_row \<Rightarrow> user_row) list" where
  "user_assignments js updates =
     (case as_str (map_of updates ''email'') of Some v \<Rightarrow> [\<lambda>r. r\<lparr>urEmail := v\<rparr>] | None \<Rightarrow> [])
     @ (case as_str (map_of updates ''name'') of Some v \<Rightarrow> [\<lambda>r. r\<lparr>urDisplayName := Some v\<rparr>] | None \<Rightarrow> [])
     @ (case as_str (map_of updates ''display_name'') of Some v \<Rightarrow> [\<lambda>r. r\<lparr>urDisplayName := Some v\<rparr>] | None \<Rightarrow> [])
     @ (case as_obj (map_of updates ''user_metadata'') of
          Some v \<Rightarrow> [\<lambda>r. r\<lparr>urUserMetadata := Some (jsonBytes js (Some v))\<rparr>] | None \<Rightarrow> [])
     @ (case as_obj (map_of updates ''app_metadata'') of
          Some v \<Rightarrow> [\<lambda>r. r\<lparr>urAppMetadata := Some (jsonBytes js (Some v))\<rparr>] | None \<Rightarrow> [])"

definition UpdateUser :: "json_codec \<Rightarrow> string \<Rightarrow> dict \<Rightarrow> db \<Rightarrow> string option \<times> db" where
  "UpdateUser js uid updates d =
     (let set_list = user_assignments js updates
      in if length set_list = 0 then (None, d)
         else exec (update_users (fold (\<lambda>f r. f r) set_list) uid) d)"

definition DeleteUser :: "string \<Rightarrow> db \<Rightarrow> string option \<times> db" where
  "DeleteUser uid d =
     (case exec (\<lambda>d. Inr (d\<lparr>dbUserRoles := filter (\<lambda>(u, r). u \<noteq> uid) (dbUserRoles d)\<rparr>)) d of
        (Some e, d) \<Rightarrow> (Some e, d)
      | (None, d) \<Rightarrow>
          (case exec (\<lambda>d. Inr (d\<lparr>dbUserBlocks := filter (\<lambda>u. u \<noteq> uid) (dbUserBlocks d)\<rparr>)) d of
             (Some e, d) \<Rightarrow> (Some e, d)
           | (None, d) \<Rightarrow>
               exec (\<lambda>d. Inr (d\<lparr>dbUsers := filter (\<lambda>r. urID r \<noteq> uid) (dbUsers d)\<rparr>)) d))"

section \<open>Seeding from a file\<close>

record seed_user =
  suID :: string
  suEmail :: string
  suPassword :: string
  suDisplayName :: string
  suRole :: string

text \<open>One iteration of the loop; \<open>n\<close> numbers the calls of bcrypt.\<close>

definition seed_one ::
  "bcrypt \<Rightarrow> int \<Rightarrow> seed_user \<Rightarrow> nat \<Rightarrow> db \<Rightarrow> string option \<times> nat \<times> db" where
  "seed_one bc created u n d =
     (if suID u = [] \<or> suEmail u = [] then (None, n, d)
      else
        let pass = (if suPassword u = [] then ''password123'' else suPassword u)
        in case HashPassword bc n pass of
             Inl e \<Rightarrow> (Some e, Suc n, d)
           | Inr hash \<Rightarrow>
               (let displayName = (if suDisplayName u = [] then suEmail u else suDisplayName u);
                    role = (if suRole u = [] then ''user'' else suRole u);
                    roleId = (if role = ''admin'' then ''rol_admin'' else ''rol_default'');
                    row = \<lparr>urID = suID u, urEmail = suEmail u, urPasswordHash = hash,
                           urDisplayName = Some displayName, urOrganizationID = 1, urEnterpriseID = 1,
                           urRole = Some role, urAppMetadata = None, urUserMetadata = None,
                           urCreatedAt = created\<rparr>
                in case exec (\<lambda>d. Inr (d\<lparr>dbUsers := insert_ignore user_conflict row (dbUsers d)\<rparr>)) d of
                     (Some e, d) \<Rightarrow> (Some e, Suc n, d)
                   | (None, d) \<Rightarrow> (None, Suc n, snd (assign_role (suID u) roleId d))))"

fun seed_loop :: "bcrypt \<Rightarrow> int \<Rightarrow> seed_user list \<Rightarrow> nat \<Rightarrow> db \<Rightarrow> string option \<times> db" where
  "seed_loop bc created [] n d = (None, d)"
| "seed_loop bc created (u # us) n d =
     (case seed_one bc created u n d of
        (Some e, n, d) \<Rightarrow> (Some e, d)
      | (None, n, d) \<Rightarrow> seed_loop bc created us n d)"

text \<open>\<open>file\<close> is the result of reading the file, \<open>unmarshal\<close> the decoder into the \<^verbatim>\<open>cfg\<close> struct.\<close>

definition SeedFromConfigFile ::
  "bcrypt \<Rightarrow> (string \<Rightarrow> string + seed_user list) \<Rightarrow> int \<Rightarrow> string + string \<Rightarrow> db \<Rightarrow> string option \<times> db" where
  "SeedFromConfigFile bc unmarshal created file d =
     (case file of
        Inl e \<Rightarrow> (Some (''read seed config: '' @ e), d)
      | Inr data \<Rightarrow>
          (case unmarshal data of
             Inl e \<Rightarrow> (Some (''parse seed config: '' @ e), d)
           | Inr us \<Rightarrow> seed_loop bc created us 0 d))"

section \<open>Roles and permissions\<close>

text \<open>What SQLite decides: \<^verbatim>\<open>text LIKE pattern\<close>, the order \<^verbatim>\<open>ORDER BY created_at DESC\<close> gives
  to rows of the same second, and the order in which a join visits its matches.\<close>

record sql_engine =
  sqLike :: "string \<Rightarrow> string \<Rightarrow> bool"
  sqNewestFirst :: "user_row list \<Rightarrow> user_row list"
  sqRoleOrder :: "role_row list \<Rightarrow> role_row list"
  sqPermOrder :: "perm_row list \<Rightarrow> perm_row list"

text \<open>\<^verbatim>\<open>roles JOIN user_roles\<close>: a row for each pair that matches. \<^verbatim>\<open>Description\<close> is scanned into a
  string here, so NULL is an error, while \<^verbatim>\<open>ListRoles\<close> and \<^verbatim>\<open>GetRoleByID\<close> accept it.\<close>

definition roles_of_user :: "string \<Rightarrow> db \<Rightarrow> role_row list" where
  "roles_of_user userID d =
     concat (map (\<lambda>r. map (\<lambda>_. r) (filter (\<lambda>(u, rid). rid = rrID r \<and> u = userID) (dbUserRoles d)))
       (dbRoles d))"

definition scan_role_strict :: "role_row \<Rightarrow> string + role" where
  "scan_role_strict r =
     (case scan_string (rrDescription r) of
        Inl e \<Rightarrow> Inl e
      | Inr desc \<Rightarrow> Inr \<lparr>roleID = rrID r, roleName = rrName r, roleDescription = desc\<rparr>)"

definition scan_role :: "role_row \<Rightarrow> string + role" where
  "scan_role r = Inr \<lparr>roleID = rrID r, roleName = rrName r, roleDescription = null_string (rrDescription r)\<rparr>"

definition GetUserRoles :: "sql_engine \<Rightarrow> string \<Rightarrow> db \<Rightarrow> string + role list" where
  "GetUserRoles sq userID =
     query (\<lambda>d. scan_rows scan_role_strict (sqRoleOrder sq (roles_of_user userID d)))"

text \<open>\<^verbatim>\<open>SELECT DISTINCT\<close> over the two joins: each permission some role of the user has, once. The
  primary key is among the selected columns, so distinct rows are distinct permissions.\<close>

definition perms_of_user :: "string \<Rightarrow> db \<Rightarrow> perm_row list" where
  "perms_of_user userID d =
     filter (\<lambda>p. list_ex (\<lambda>(rid, pid). pid = prID p \<and> list_ex (\<lambda>(u, r). r = rid \<and> u = userID) (dbUserRoles d))
       (dbRolePermissions d)) (dbPermissions d)"

definition scan_perm :: "perm_row \<Rightarrow> string + permission" where
  "scan_perm p = Inr \<lparr>permID = prID p, permName = prName p,
     permResourceServerIdentifier = null_string (prResourceServerIdentifier p),
     permDescription = null_string (prDescription p)\<rparr>"

definition GetUserPermissions :: "sql_engine \<Rightarrow> string \<Rightarrow> db \<Rightarrow> string + permission list" where
  "GetUserPermissions sq userID =
     query (\<lambda>d. scan_rows scan_perm (sqPermOrder sq (perms_of_user userID d)))"

definition ListRoles :: "db \<Rightarrow> string + role list" where
  "ListRoles = query (\<lambda>d. scan_rows scan_role (dbRoles d))"

definition AssignRoleToUser :: "string \<Rightarrow> string \<Rightarrow> db \<Rightarrow> string option \<times> db" where
  "AssignRoleToUser userID roleId =
     exec (\<lambda>d. Inr (d\<lparr>dbUserRoles := insert_ignore (=) (userID, roleId) (dbUserRoles d)\<rparr>))"

definition RemoveRoleFromUser :: "string \<Rightarrow> string \<Rightarrow> db \<Rightarrow> string option \<times> db" where
  "RemoveRoleFromUser userID roleId =
     exec (\<lambda>d. Inr (d\<lparr>dbUserRoles := filter (\<lambda>(u, r). \<not> (u = userID \<and> r = roleId)) (dbUserRoles d)\<rparr>))"

definition GetRoleByID :: "string \<Rightarrow> db \<Rightarrow> string + role option" where
  "GetRoleByID i = query (\<lambda>d.
     case find (\<lambda>r. rrID r = i) (dbRoles d) of
       None \<Rightarrow> Inr None
     | Some r \<Rightarrow> (case scan_role r of Inl e \<Rightarrow> Inl e | Inr ro \<Rightarrow> Inr (Some ro)))"

definition CreateRole :: "role \<Rightarrow> db \<Rightarrow> string option \<times> db" where
  "CreateRole r = exec (\<lambda>d.
     case insert_strict ''roles'' role_conflict
            \<lparr>rrID = roleID r, rrName = roleName r, rrDescription = Some (roleDescription r)\<rparr> (dbRoles d) of
       Inl e \<Rightarrow> Inl e | Inr rows \<Rightarrow> Inr (d\<lparr>dbRoles := rows\<rparr>))"

definition UpdateRole :: "string \<Rightarrow> string \<Rightarrow> string \<Rightarrow> db \<Rightarrow> string option \<times> db" where
  "UpdateRole i name description = exec (\<lambda>d.
     case find (\<lambda>r. rrID r = i) (dbRoles d) of
       None \<Rightarrow> Inr d
     | Some r \<Rightarrow>
         if list_ex (\<lambda>s. rrID s \<noteq> i \<and> rrName s = name) (dbRoles d) then Inl ''UNIQUE constraint failed: roles''
         else Inr (d\<lparr>dbRoles := map (\<lambda>s. if rrID s = i
                then s\<lparr>rrName := name, rrDescription := Some description\<rparr> else s) (dbRoles d)\<rparr>))"

definition DeleteRole :: "string \<Rightarrow> db \<Rightarrow> string option \<times> db" where
  "DeleteRole i d =
     (let d = snd (exec (\<lambda>d. Inr (d\<lparr>dbRolePermissions := filter (\<lambda>(r, p). r \<noteq> i) (dbRolePermissions d)\<rparr>)) d);
          d = snd (exec (\<lambda>d. Inr (d\<lparr>dbUserRoles := filter (\<lambda>(u, r). r \<noteq> i) (dbUserRoles d)\<rparr>)) d)
      in exec (\<lambda>d. Inr (d\<lparr>dbRoles := filter (\<lambda>r. rrID r \<noteq> i) (dbRoles d)\<rparr>)) d)"

section \<open>Listing users\<close>

record list_users_opts =
  luPage :: int
  luPerPage :: int
  luQuery :: string

definition trim_quotes :: "string \<Rightarrow> string" where
  "trim_quotes s =
     (let q = (\<lambda>c. c = CHR 0x22) in rev (dropWhile q (rev (dropWhile q s))))"

definition user_search :: "string \<Rightarrow> string" where
  "user_search q =
     (let q = trim_space (trim_prefix ''email:'' q)
      in trim_quotes (trim_prefix [CHR 0x22] q))"

definition user_matches :: "sql_engine \<Rightarrow> string \<Rightarrow> user_row \<Rightarrow> bool" where
  "user_matches sq q r \<longleftrightarrow>
     q = [] \<or> sqLike sq (''%'' @ q @ ''%'') (urEmail r)
     \<or> (case urDisplayName r of None \<Rightarrow> False | Some n \<Rightarrow> sqLike sq (''%'' @ q @ ''%'') n)"

definition scan_user_brief :: "user_row \<Rightarrow> string + user" where
  "scan_user_brief r =
     (case scan_string (urDisplayName r) of
        Inl e \<Rightarrow> Inl e
      | Inr displayName \<Rightarrow>
          Inr \<lparr>uID = urID r, uEmail = urEmail r, uPasswordHash = urPasswordHash r,
               uDisplayName = displayName, uAppMetadata = None, uUserMetadata = None,
               uOrganizationID = urOrganizationID r, uEnterpriseID = urEnterpriseID r,
               uRole = null_string (urRole r)\<rparr>)"

text \<open>The page size the code settles on; \<^verbatim>\<open>LIMIT\<close> and \<^verbatim>\<open>OFFSET\<close> of the statement, of which
  SQLite reads a negative offset as 0.\<close>

definition page_size :: "int \<Rightarrow> int" where
  "page_size n = (let n = (if n \<le> 0 then 50 else n) in if 100 < n then 100 else n)"

definition ListUsers :: "sql_engine \<Rightarrow> list_users_opts \<Rightarrow> db \<Rightarrow> string + (user list \<times> nat)" where
  "ListUsers sq opts = query (\<lambda>d.
     let perPage = page_size (luPerPage opts);
         offset = int64 (luPage opts * perPage);
         q = user_search (luQuery opts);
         hits = filter (user_matches sq q) (dbUsers d)
     in case scan_rows scan_user_brief (take (nat perPage) (drop (nat offset) (sqNewestFirst sq hits))) of
          Inl e \<Rightarrow> Inl e
        | Inr users \<Rightarrow> Inr (users, length hits))"

section \<open>Clients and connections\<close>

definition comma_list :: "string option \<Rightarrow> string list" where
  "comma_list c =
     (case c of
        None \<Rightarrow> []
      | Some s \<Rightarrow> if s \<noteq> [] then map trim_space (split_on (CHR '','') s) else [])"

definition scan_client :: "client_row \<Rightarrow> string + client" where
  "scan_client r = Inr \<lparr>clID = crID r, clName = null_string (crName r), clAppType = null_string (crAppType r),
     clCallbacks = comma_list (crCallbacks r), clAllowedOrigins = comma_list (crAllowedOrigins r)\<rparr>"

definition ListClients :: "db \<Rightarrow> string + client list" where
  "ListClients = query (\<lambda>d. scan_rows scan_client (dbClients d))"

definition GetClientByID :: "string \<Rightarrow> db \<Rightarrow> string + client option" where
  "GetClientByID i = query (\<lambda>d.
     case find (\<lambda>r. crID r = i) (dbClients d) of
       None \<Rightarrow> Inr None
     | Some r \<Rightarrow> (case scan_client r of Inl e \<Rightarrow> Inl e | Inr c \<Rightarrow> Inr (Some c)))"

definition as_strs :: "goval option \<Rightarrow> string list option" where
  "as_strs v = (case v of Some (GStrs ss) \<Rightarrow> Some ss | _ \<Rightarrow> None)"

definition client_assignments :: "dict \<Rightarrow> (client_row \<Rightarrow> client_row) list" where
  "client_assignments updates =
     (case as_str (map_of updates ''name'') of Some v \<Rightarrow> [\<lambda>r. r\<lparr>crName := Some v\<rparr>] | None \<Rightarrow> [])
     @ (case as_strs (map_of updates ''callbacks'') of
          Some v \<Rightarrow> [\<lambda>r. r\<lparr>crCallbacks := Some (join '','' v)\<rparr>] | None \<Rightarrow> [])
     @ (case as_strs (map_of updates ''allowed_origins'') of
          Some v \<Rightarrow> [\<lambda>r. r\<lparr>crAllowedOrigins := Some (join '','' v)\<rparr>] | None \<Rightarrow> [])
     @ (case as_str (map_of updates ''callbacks'') of
          Some v \<Rightarrow> [\<lambda>r. r\<lparr>crCallbacks := Some v\<rparr>] | None \<Rightarrow> [])
     @ (case as_str (map_of updates ''allowed_origins'') of
          Some v \<Rightarrow> [\<lambda>r. r\<lparr>crAllowedOrigins := Some v\<rparr>] | None \<Rightarrow> [])"

definition UpdateClient :: "string \<Rightarrow> dict \<Rightarrow> db \<Rightarrow> string option \<times> db" where
  "UpdateClient i updates d =
     (let set_list = client_assignments updates
      in if length set_list = 0 then (None, d)
         else exec (\<lambda>d. Inr (d\<lparr>dbClients :=
                map (\<lambda>r. if crID r = i then fold (\<lambda>f r. f r) set_list r else r) (dbClients d)\<rparr>)) d)"

definition scan_connection :: "conn_row \<Rightarrow> string + connection" where
  "scan_connection r = Inr \<lparr>connID = cnID r, connName = cnName r, connStrategy = null_string (cnStrategy r)\<rparr>"

definition ListConnections :: "db \<Rightarrow> string + connection list" where
  "ListConnections = query (\<lambda>d. scan_rows scan_connection (dbConnections d))"

definition GetConnectionByID :: "string \<Rightarrow> db \<Rightarrow> string + connection option" where
  "GetConnectionByID i = query (\<lambda>d.
     case find (\<lambda>r. cnID r = i) (dbConnections d) of
       None \<Rightarrow> Inr None
     | Some r \<Rightarrow> (case scan_connection r of Inl e \<Rightarrow> Inl e | Inr c \<Rightarrow> Inr (Some c)))"

section \<open>Blocks and logs\<close>

text \<open>\<^verbatim>\<open>INSERT OR REPLACE\<close>: the conflicting row goes, the new one is added.\<close>

definition BlockUser :: "string \<Rightarrow> db \<Rightarrow> string option \<times> db" where
  "BlockUser userID = exec (\<lambda>d. Inr (d\<lparr>dbUserBlocks := filter (\<lambda>u. u \<noteq> userID) (dbUserBlocks d) @ [userID]\<rparr>))"

definition UnblockUser :: "string \<Rightarrow> db \<Rightarrow> string option \<times> db" where
  "UnblockUser userID = exec (\<lambda>d. Inr (d\<lparr>dbUserBlocks := filter (\<lambda>u. u \<noteq> userID) (dbUserBlocks d)\<rparr>))"

definition IsUserBlocked :: "string \<Rightarrow> db \<Rightarrow> string + bool" where
  "IsUserBlocked userID = query (\<lambda>d. Inr (list_ex (\<lambda>u. u = userID) (dbUserBlocks d)))"

definition AppendLog :: "string \<Rightarrow> string \<Rightarrow> string \<Rightarrow> string \<Rightarrow> db \<Rightarrow> string option \<times> db" where
  "AppendLog eventType userID clientID payload = exec (\<lambda>d. Inr (d\<lparr>
     dbAuditLogs := dbAuditLogs d @ [\<lparr>lgID = dbNextLog d, lgEventType = Some eventType, lgUserID = Some userID,
       lgClientID = Some clientID, lgPayload = Some payload\<rparr>],
     dbNextLog := dbNextLog d + 1\<rparr>))"

definition scan_log :: "log_row \<Rightarrow> string + audit_log" where
  "scan_log r =
     (case scan_string (lgEventType r) of
        Inl e \<Rightarrow> Inl e
      | Inr eventType \<Rightarrow>
          Inr \<lparr>logID = lgID r, logEventType = eventType, logUserID = null_string (lgUserID r),
               logClientID = null_string (lgClientID r), logPayload = null_string (lgPayload r)\<rparr>)"

definition ListLogs :: "int \<Rightarrow> db \<Rightarrow> string + audit_log list" where
  "ListLogs limit = query (\<lambda>d.
     let limit = (if limit \<le> 0 then 50 else limit)
     in scan_rows scan_log (take (nat limit) (rev (sort_key lgID (dbAuditLogs d)))))"

end
