(* ===== verification/Pkce.thy ===== *)
theory Pkce
  imports Base64
begin

text \<open>
  \<^verbatim>\<open>internal/pkce/pkce.go\<close>: the comparison of a code verifier with the challenge stored
  beside an authorization code. The Go errors become constructors of \<open>pkce_error\<close>;
  \<open>pkce_message\<close> is their text, which the token endpoint sends to the client.
\<close>

datatype pkce_error =
    Missing_verifier
  | Missing_challenge
  | Invalid_S256
  | Invalid_plain
  | Unsupported_method

fun pkce_message :: "pkce_error \<Rightarrow> string" where
  "pkce_message Missing_verifier = ''missing code_verifier''"
| "pkce_message Missing_challenge = ''missing code_challenge''"
| "pkce_message Invalid_S256 = ''invalid code_verifier for S256 challenge''"
| "pkce_message Invalid_plain = ''invalid code_verifier for plain challenge''"
| "pkce_message Unsupported_method = ''unsupported code_challenge_method''"

definition VerifyS256 :: "string \<Rightarrow> string \<Rightarrow> bool" where
  "VerifyS256 verifier challenge =
     (if verifier = [] \<or> challenge = [] then False
      else let hash = sha256 (bytes_of verifier);
               computed = raw_url_encode hash
           in computed = challenge)"

definition VerifyPlain :: "string \<Rightarrow> string \<Rightarrow> bool" where
  "VerifyPlain verifier challenge \<longleftrightarrow> verifier \<noteq> [] \<and> verifier = challenge"

definition Verify :: "string \<Rightarrow> string \<Rightarrow> string \<Rightarrow> pkce_error + unit" where
  "Verify verifier challenge meth =
     (if verifier = [] then Inl Missing_verifier
      else if challenge = [] then Inl Missing_challenge
      else let m = (if meth = [] then ''S256'' else meth)
           in if m = ''S256'' then
                (if \<not> VerifyS256 verifier challenge then Inl Invalid_S256 else Inr ())
              else if m = ''plain'' then
                (if \<not> VerifyPlain verifier challenge then Inl Invalid_plain else Inr ())
              else Inl Unsupported_method)"

text \<open>The challenge RFC 7636 derives from a verifier under each method.\<close>

definition challenge_of :: "string \<Rightarrow> string \<Rightarrow> string option" where
  "challenge_of meth verifier =
     (if meth = [] \<or> meth = ''S256'' then Some (raw_url_encode (sha256 (bytes_of verifier)))
      else if meth = ''plain'' then Some verifier else None)"

lemma challenge_not_empty: "raw_url_encode (sha256 m) \<noteq> []"
  using raw_url_encode_length [of "sha256 m"] by (auto simp del: length_0_conv)

lemma Verify_ok_eq:
  "Verify v c m = Inr () \<longleftrightarrow> v \<noteq> [] \<and> challenge_of m v = Some c"
  by (auto simp: Verify_def VerifyS256_def VerifyPlain_def challenge_of_def Let_def
      challenge_not_empty)

lemma sha_challenge_shape:
  "length (raw_url_encode (sha256 m)) = 43 \<and> set (raw_url_encode (sha256 m)) \<subseteq> set b64_alphabet"
  using raw_url_encode_set by (simp add: raw_url_encode_length)

section \<open>Properties\<close>

text \<open>C30: \<open>Verify\<close> accepts exactly the verifiers from which RFC 7636 derives the stored
  challenge under the stored method (no method means S256).\<close>

theorem Verify_iff_challenge:
  "(Verify v c m = Inr ()) = (v \<noteq> [] \<and> challenge_of m v = Some c)"
  by (rule Verify_ok_eq)

text \<open>Two verifiers accepted for the same S256 challenge have the same SHA-256 digest: the
  base64url comparison loses nothing, so a challenge is bound to its verifier up to a
  collision of the hash.\<close>

lemma Verify_S256_binding:
  assumes "Verify v c ''S256'' = Inr ()" and "Verify v' c ''S256'' = Inr ()"
  shows "sha256 (bytes_of v) = sha256 (bytes_of v')"
proof -
  from assms have "raw_url_encode (sha256 (bytes_of v)) = raw_url_encode (sha256 (bytes_of v'))"
    by (auto simp: Verify_ok_eq challenge_of_def)
  then show ?thesis by (rule raw_url_encode_inj)
qed

end
