(* ===== verification/Http.thy ===== *)
theory Http
  imports Url Grants Sessions Clients Audit_Events Rules Token Sqlite Pkce
begin

text \<open>
  What the handlers of \<^verbatim>\<open>internal/handlers/handlers.go\<close> run on: the request as net/http hands
  it over, the response they write, the state of the server (the struct \<^verbatim>\<open>Handlers\<close>, its stores,
  the database, the replay cache, the counters, the audit trail) and the outside world (clock,
  randomness, JavaScript engine, JWT library, bcrypt, JSON and URL parsers).
\<close>

section \<open>Requests\<close>

text \<open>
  \<open>rqPostForm\<close> is what \<^verbatim>\<open>ParseForm\<close> reads from the body (nothing unless the body is an
  urlencoded form of a POST, PUT or PATCH), \<open>rqMultipart\<close> what \<^verbatim>\<open>FormValue\<close> reads in addition
  from a multipart body. A missing header is the empty string, a missing cookie is None.
\<close>

record request =
  rqMethod :: string
  rqPath :: string
  rqRawQuery :: string
  rqContentType :: string
  rqAuthorization :: string
  rqCookie :: "string option"
  rqBody :: string
  rqPostForm :: url_values
  rqMultipart :: url_values

definition query_get :: "request \<Rightarrow> string \<Rightarrow> string" where
  "query_get r key = values_get (ParseQuery (rqRawQuery r)) key"

definition copy_values :: "url_values \<Rightarrow> url_values \<Rightarrow> url_values" where
  "copy_values src dst =
     fold (\<lambda>(k, vs) m. AList.update k ((case map_of m k of None \<Rightarrow> [] | Some old \<Rightarrow> old) @ vs) m) src dst"

definition ParseForm :: "request \<Rightarrow> url_values" where
  "ParseForm r = copy_values (ParseQuery (rqRawQuery r)) (copy_values (rqPostForm r) [])"

definition FormValue :: "request \<Rightarrow> string \<Rightarrow> string" where
  "FormValue r key = values_get (copy_values (rqMultipart r) (ParseForm r)) key"

text \<open>
  \<^verbatim>\<open>FormValue\<close> parses a multipart body only when the form has not been parsed before: the request as it
  is read after a call of \<^verbatim>\<open>ParseForm\<close>.
\<close>

definition form_parsed :: "request \<Rightarrow> request" where
  "form_parsed r = r\<lparr>rqMultipart := []\<rparr>"

definition getParam :: "request \<Rightarrow> string \<Rightarrow> string" where
  "getParam r key = (let v = query_get r key in if v \<noteq> [] then v else FormValue r key)"

section \<open>Responses\<close>

text \<open>
  \<open>JsonLine\<close> is what an Encoder writes, \<open>JsonDoc\<close> the bytes of \<^verbatim>\<open>json.Marshal\<close>, \<open>RedirectTo\<close>
  the URL given to \<^verbatim>\<open>http.Redirect\<close>, \<open>ErrorText\<close> the message given to \<^verbatim>\<open>http.Error\<close>,
  \<open>NotFoundPage\<close> and \<open>MetricsPage\<close> the pages of net/http and of the Prometheus handler.
  \<open>Panicked\<close> is a handler that ends in a run-time panic, which net/http answers by closing the
  connection; what the handler had changed before stays changed.
\<close>

datatype body =
    NoBody
  | JsonLine goval
  | JsonDoc goval
  | Html string
  | RedirectTo string
  | ErrorText string
  | NotFoundPage
  | MetricsPage metrics
  | Panicked

record cookie =
  ckName :: string
  ckValue :: string
  ckPath :: string
  ckMaxAge :: int
  ckHttpOnly :: bool
  ckSameSiteLax :: bool

record response =
  rsStatus :: nat
  rsHeaders :: "string gomap"
  rsCookies :: "cookie list"
  rsBody :: body

definition new_response :: response where
  "new_response = \<lparr>rsStatus = 200, rsHeaders = [], rsCookies = [], rsBody = NoBody\<rparr>"

definition set_header :: "string \<Rightarrow> string \<Rightarrow> response \<Rightarrow> response" where
  "set_header k v rs = rs\<lparr>rsHeaders := AList.update k v (rsHeaders rs)\<rparr>"

definition WriteHeader :: "nat \<Rightarrow> response \<Rightarrow> response" where
  "WriteHeader status rs = rs\<lparr>rsStatus := status\<rparr>"

definition sendJSON :: "nat \<Rightarrow> goval \<Rightarrow> response \<Rightarrow> response" where
  "sendJSON status v rs =
     (let rs = set_header ''Content-Type'' ''application/json'' rs;
          rs = WriteHeader status rs
      in rs\<lparr>rsBody := JsonLine v\<rparr>)"

definition http_error :: "string \<Rightarrow> nat \<Rightarrow> response \<Rightarrow> response" where
  "http_error msg status rs = rs\<lparr>rsStatus := status, rsBody := ErrorText msg\<rparr>"

definition http_redirect :: "string \<Rightarrow> response \<Rightarrow> response" where
  "http_redirect dest rs = rs\<lparr>rsStatus := 302, rsBody := RedirectTo dest\<rparr>"

definition send_html :: "string \<Rightarrow> response \<Rightarrow> response" where
  "send_html page rs =
     (let rs = set_header ''Content-Type'' ''text/html; charset=utf-8'' rs in rs\<lparr>rsBody := Html page\<rparr>)"

definition panicked :: "response \<Rightarrow> response" where
  "panicked rs = rs\<lparr>rsBody := Panicked\<rparr>"

definition set_cookie :: "cookie \<Rightarrow> response \<Rightarrow> response" where
  "set_cookie c rs = rs\<lparr>rsCookies := rsCookies rs @ [c]\<rparr>"

definition corsHeaders :: "response \<Rightarrow> response" where
  "corsHeaders rs =
     (let rs = set_header ''Access-Control-Allow-Origin'' ''*'' rs;
          rs = set_header ''Access-Control-Allow-Methods'' ''POST, GET, OPTIONS, DELETE, PATCH'' rs
      in set_header ''Access-Control-Allow-Headers'' ''Content-Type, Authorization, auth0-client'' rs)"

definition setRateLimitHeaders :: "response \<Rightarrow> response" where
  "setRateLimitHeaders rs =
     (let rs = set_header ''x-ratelimit-limit'' ''1000'' rs;
          rs = set_header ''x-ratelimit-remaining'' ''999'' rs
      in set_header ''x-ratelimit-reset'' ''9999999999'' rs)"

text \<open>\<^verbatim>\<open>html.EscapeString\<close>.\<close>

fun EscapeString :: "string \<Rightarrow> string" where
  "EscapeString [] = []"
| "EscapeString (c # s) =
     (if c = CHR ''&'' then ''&amp;''
      else if c = CHR 0x27 then ''&#39;''
      else if c = CHR ''<'' then ''&lt;''
      else if c = CHR ''>'' then ''&gt;''
      else if c = CHR 0x22 then ''&#34;''
      else [c]) @ EscapeString s"

section \<open>The server\<close>

text \<open>The fields of \<^verbatim>\<open>Handlers\<close> that do not change. \<open>hExtraAccessTokenClaims\<close> is a map that may
  be nil.\<close>

record handlers =
  hIssuer :: issuer
  hIssuerURL :: string
  hRulesRunner :: "string option"
  hClientRegistry :: "registry option"
  hAccessTokenLifetime :: int
  hIDTokenLifetime :: int
  hExtraAccessTokenClaims :: "dict option"

definition accessTokenLifetime :: "handlers \<Rightarrow> int" where
  "accessTokenLifetime h = (if 0 < hAccessTokenLifetime h then hAccessTokenLifetime h else 86400)"

definition idTokenLifetime :: "handlers \<Rightarrow> int" where
  "idTokenLifetime h = (if 0 < hIDTokenLifetime h then hIDTokenLifetime h else 86400)"

definition issuerURL :: "handlers \<Rightarrow> string" where
  "issuerURL h = (if hIssuerURL h \<noteq> [] then trim_suffix ''/'' (hIssuerURL h) else ''https://fake-auth.example.com'')"

text \<open>
  The outside: the readings of the clock, the UUIDs and the random numbers in the order they are
  asked for (a counter of the state says which one is next), and the libraries. The JSON decoder
  is given once per type the handlers decode into; \<open>xHugeFloat\<close> is the conversion of a float that
  no \<^verbatim>\<open>int\<close> can hold, which Go leaves to the implementation.
\<close>

record signup_req =
  sgEmail :: string
  sgPassword :: string
  sgConnection :: string
  sgUserMetadata :: "dict option"

record create_user_req =
  cuConnection :: string
  cuEmail :: string
  cuPassword :: string
  cuName :: string
  cuUserID :: string
  cuUserMetadata :: "dict option"
  cuAppMetadata :: "dict option"

record role_req =
  rqRoleName :: string
  rqRoleDescription :: string

record env =
  xClock :: "nat \<Rightarrow> time"
  xUuid :: "nat \<Rightarrow> string"
  xRandInt :: "nat \<Rightarrow> nat"
  xRandBytes :: "nat \<Rightarrow> string + nat list"
  xUpper :: "string \<Rightarrow> string"
  xJwt :: jwt_lib
  xVm :: vm
  xFs :: file_system
  xBcrypt :: bcrypt
  xCodec :: json_codec
  xSql :: sql_engine
  xUrlParse :: "string \<Rightarrow> string + url"
  xUrlString :: "url \<Rightarrow> string"
  xJsonMap :: "string \<Rightarrow> string + dict"
  xJsonSignup :: "string \<Rightarrow> string + signup_req"
  xJsonCreateUser :: "string \<Rightarrow> string + create_user_req"
  xJsonRole :: "string \<Rightarrow> string + role_req"
  xHugeFloat :: "rat \<Rightarrow> int"

record world =
  wGrants :: "grant_store option"
  wSessions :: "session_store option"
  wDb :: db
  wReplay :: "(goval \<times> time) gomap"
  wMetrics :: metrics
  wAudit :: audit_trail
  wTicks :: nat
  wUuids :: nat
  wRands :: nat
  wSids :: nat
  wHashes :: nat

definition time_now :: "env \<Rightarrow> world \<Rightarrow> time \<times> world" where
  "time_now e w = (xClock e (wTicks w), w\<lparr>wTicks := Suc (wTicks w)\<rparr>)"

definition new_uuid :: "env \<Rightarrow> world \<Rightarrow> string \<times> world" where
  "new_uuid e w = (xUuid e (wUuids w), w\<lparr>wUuids := Suc (wUuids w)\<rparr>)"

definition count_metric :: "metric \<Rightarrow> world \<Rightarrow> world" where
  "count_metric m w = w\<lparr>wMetrics := Inc m (wMetrics w)\<rparr>"

definition audit_token :: "env \<Rightarrow> string \<Rightarrow> string \<Rightarrow> string \<Rightarrow> bool \<Rightarrow> dict \<Rightarrow> world \<Rightarrow> world" where
  "audit_token e g uid cid success details w =
     (let (now, w) = time_now e w in w\<lparr>wAudit := LogToken now g uid cid success details (wAudit w)\<rparr>)"

definition audit_login :: "env \<Rightarrow> string \<Rightarrow> string \<Rightarrow> string \<Rightarrow> bool \<Rightarrow> dict \<Rightarrow> world \<Rightarrow> world" where
  "audit_login e uid email cid success details w =
     (let (now, w) = time_now e w in w\<lparr>wAudit := LogLogin now uid email cid success details (wAudit w)\<rparr>)"

definition audit_signup :: "env \<Rightarrow> string \<Rightarrow> string \<Rightarrow> dict \<Rightarrow> world \<Rightarrow> world" where
  "audit_signup e uid email details w =
     (let (now, w) = time_now e w in w\<lparr>wAudit := LogSignup now uid email details (wAudit w)\<rparr>)"

definition audit_change :: "env \<Rightarrow> string \<Rightarrow> string \<Rightarrow> bool \<Rightarrow> dict \<Rightarrow> world \<Rightarrow> world" where
  "audit_change e action uid success details w =
     (let (now, w) = time_now e w in w\<lparr>wAudit := LogUserChange now action uid success details (wAudit w)\<rparr>)"

section \<open>Calls of the stores\<close>

text \<open>A nil store is None; the handlers test for it before they call.\<close>

definition save_code :: "env \<Rightarrow> string \<Rightarrow> auth_code \<Rightarrow> world \<Rightarrow> world" where
  "save_code e code ac w =
     (case wGrants w of
        None \<Rightarrow> w
      | Some g \<Rightarrow>
          (let (t0, w) = time_now e w; (t1, w) = time_now e w
           in w\<lparr>wGrants := Some (SaveCode t0 t1 code ac g)\<rparr>))"

definition save_refresh :: "env \<Rightarrow> string \<Rightarrow> refresh_grant \<Rightarrow> world \<Rightarrow> world" where
  "save_refresh e tok rg w =
     (case wGrants w of
        None \<Rightarrow> w
      | Some g \<Rightarrow>
          (let (t0, w) = time_now e w; (t1, w) = time_now e w
           in w\<lparr>wGrants := Some (SaveRefreshToken t0 t1 tok rg g)\<rparr>))"

definition save_device :: "env \<Rightarrow> string \<Rightarrow> string \<Rightarrow> device_code \<Rightarrow> world \<Rightarrow> world" where
  "save_device e dcode ucode dc w =
     (case wGrants w of
        None \<Rightarrow> w
      | Some g \<Rightarrow>
          (let (t0, w) = time_now e w; (t1, w) = time_now e w
           in w\<lparr>wGrants := Some (SaveDeviceCode (xUpper e) t0 t1 dcode ucode dc g)\<rparr>))"

text \<open>The session cookie of a login: nothing without a session store or without randomness.\<close>

definition sessionCookieName :: string where
  "sessionCookieName = ''fake_auth_session''"

definition sessionCookieMaxAge :: int where
  "sessionCookieMaxAge = 86400 * 7"

definition start_session :: "env \<Rightarrow> user \<Rightarrow> response \<Rightarrow> world \<Rightarrow> response \<times> world" where
  "start_session e u rs w =
     (case wSessions w of
        None \<Rightarrow> (rs, w)
      | Some ss \<Rightarrow>
          (let rnd = xRandBytes e (wSids w);
               w = w\<lparr>wSids := Suc (wSids w)\<rparr>
           in case rnd of
                Inl err \<Rightarrow> (rs, w)
              | Inr b \<Rightarrow>
                  (let (t0, w) = time_now e w;
                       (t1, w) = time_now e w;
                       (res, ss) = Create rnd t0 t1 (uID u) (uEmail u) ss;
                       w = w\<lparr>wSessions := Some ss\<rparr>
                   in case res of
                        Inl _ \<Rightarrow> (rs, w)
                      | Inr sid \<Rightarrow>
                          (set_cookie \<lparr>ckName = sessionCookieName, ckValue = sid, ckPath = ''/'',
                             ckMaxAge = sessionCookieMaxAge, ckHttpOnly = True, ckSameSiteLax = True\<rparr> rs, w))))"

end
