(* ===== verification/Token_Endpoint.thy ===== *)
theory Token_Endpoint
  imports Http
begin

text \<open>
  The token endpoint and its neighbours in \<^verbatim>\<open>internal/handlers/handlers.go\<close>: the grants of
  \<^verbatim>\<open>POST /oauth/token\<close>, revocation, introspection and the device flow. A handler takes the
  response as far as it has been written and the state, and returns both; it runs without
  interruption (interleaved calls of the stores are the subject of Grants_Props). Building a
  JSON document from strings and numbers cannot fail.
\<close>

section \<open>Shared pieces\<close>

definition error_json :: "string \<Rightarrow> string \<Rightarrow> goval" where
  "error_json err desc = GObj [(''error'', GStr err), (''error_description'', GStr desc)]"

definition server_error :: goval where
  "server_error = GObj [(''error'', GStr ''server_error'')]"

text \<open>\<^verbatim>\<open>mergeClaims\<close>: ranging over a nil map does nothing.\<close>

definition mergeClaims :: "dict option \<Rightarrow> dict option \<Rightarrow> dict" where
  "mergeClaims base custom =
     (let out = [];
          out = (case base of None \<Rightarrow> out | Some b \<Rightarrow> put_all b out);
          out = (case custom of None \<Rightarrow> out | Some c \<Rightarrow> put_all c out)
      in out)"

text \<open>The user handed to the rules, the rules, and the name that goes into the ID token.\<close>

definition run_rules :: "env \<Rightarrow> handlers \<Rightarrow> user \<Rightarrow> string \<Rightarrow> rule_user" where
  "run_rules e h u cid =
     (let ruleUser = empty_user\<lparr>ruUserID := uID u, ruEmail := uEmail u, ruEmailVerified := True,
                       ruName := uDisplayName u, ruNickname := uDisplayName u\<rparr>
      in case hRulesRunner h of
           None \<Rightarrow> ruleUser
         | Some dir \<Rightarrow>
             fst (Run (xVm e) (xFs e) (Some dir) ruleUser
               (empty_context\<lparr>rcClientID := cid, rcConnection := ''Username-Password-Authentication'',
                  rcProtocol := ''oidc-basic-profile''\<rparr>)))"

definition rule_display_name :: "rule_user \<Rightarrow> string" where
  "rule_display_name ruleUser =
     (let displayName = ruName ruleUser;
          displayName = (if displayName = [] then ruNickname ruleUser else displayName);
          displayName = (if displayName = [] then ruEmail ruleUser else displayName)
      in displayName)"

definition no_options :: id_token_options where
  "no_options = \<lparr>optNonce = [], optAMR = [], optAccessToken = [], optAuthCode = [], optSessionID = [],
     optCustomClaims = []\<rparr>"

definition dict_of :: "dict option \<Rightarrow> dict" where
  "dict_of m = (case m of None \<Rightarrow> [] | Some d \<Rightarrow> d)"

definition token_response :: "string \<Rightarrow> int \<Rightarrow> dict" where
  "token_response accessTok lifetime =
     [(''access_token'', GStr accessTok), (''token_type'', GStr ''Bearer''), (''expires_in'', GInt lifetime)]"

definition defaultAudience :: string where
  "defaultAudience = ''https://api.example.com''"

text \<open>Signing, with the reading of the clock it makes.\<close>

definition issue_access ::
  "env \<Rightarrow> handlers \<Rightarrow> string \<Rightarrow> string \<Rightarrow> string \<Rightarrow> int \<Rightarrow> dict \<Rightarrow> world \<Rightarrow> (string + string) \<times> world" where
  "issue_access e h sub aud cid lifetime claims w =
     (let (now, w) = time_now e w
      in (Issue (xJwt e) now (hIssuer h) sub aud cid lifetime claims, w))"

definition issue_id ::
  "env \<Rightarrow> handlers \<Rightarrow> string \<Rightarrow> string \<Rightarrow> string \<Rightarrow> int \<Rightarrow> string \<Rightarrow> string \<Rightarrow> string \<Rightarrow> id_token_options
   \<Rightarrow> world \<Rightarrow> (string + string) \<times> world" where
  "issue_id e h sub aud cid lifetime scope email name opts w =
     (let (now, w) = time_now e w
      in (IssueIDToken (xJwt e) now (hIssuer h) sub aud cid lifetime scope email name [] (Some opts), w))"

text \<open>Adding an ID token to a response when the scope asks for one; a failure to sign it is
  ignored.\<close>

definition add_id_token ::
  "env \<Rightarrow> handlers \<Rightarrow> string \<Rightarrow> string \<Rightarrow> string \<Rightarrow> string \<Rightarrow> string \<Rightarrow> string \<Rightarrow> id_token_options
   \<Rightarrow> dict \<Rightarrow> world \<Rightarrow> dict \<times> world" where
  "add_id_token e h sub aud cid scope email name opts resp w =
     (if contains ''openid'' scope then
        (let (res, w) = issue_id e h sub aud cid (idTokenLifetime h) scope email name opts w
         in case res of
              Inl err \<Rightarrow> (resp, w)
            | Inr idTok \<Rightarrow> (AList.update ''id_token'' (GStr idTok) resp, w))
      else (resp, w))"

definition new_refresh_grant :: "string \<Rightarrow> string \<Rightarrow> string \<Rightarrow> string \<Rightarrow> refresh_grant" where
  "new_refresh_grant uid cid scope sid =
     \<lparr>rgUserID = uid, rgClientID = cid, rgScope = scope, rgAudience = [], rgSessionID = sid, rgExpiresAt = 0\<rparr>"

definition add_refresh_token ::
  "env \<Rightarrow> string \<Rightarrow> string \<Rightarrow> string \<Rightarrow> string \<Rightarrow> dict \<Rightarrow> world \<Rightarrow> dict \<times> world" where
  "add_refresh_token e uid cid scope sid resp w =
     (if contains ''offline_access'' scope \<and> wGrants w \<noteq> None then
        (let (uuid, w) = new_uuid e w;
             refreshTok = ''rt_'' @ uuid;
             w = save_refresh e refreshTok (new_refresh_grant uid cid scope sid) w
         in (AList.update ''refresh_token'' (GStr refreshTok) resp, w))
      else (resp, w))"

section \<open>Parameters\<close>

text \<open>Of the members of a JSON body only the strings count; of a form the first value of each key.\<close>

definition string_members :: "dict \<Rightarrow> string gomap" where
  "string_members m =
     fold (\<lambda>(k, v) out. case v of GStr s \<Rightarrow> AList.update k s out | _ \<Rightarrow> out) m []"

definition first_values :: "url_values \<Rightarrow> string gomap" where
  "first_values f =
     fold (\<lambda>(k, v) out. if 0 < length v then AList.update k (v ! 0) out else out) f []"

definition parseTokenParams :: "env \<Rightarrow> request \<Rightarrow> string gomap" where
  "parseTokenParams e r =
     (if contains ''application/json'' (rqContentType r) then
        (case xJsonMap e (rqBody r) of Inl err \<Rightarrow> [] | Inr params \<Rightarrow> string_members params)
      else first_values (ParseForm r))"

definition param :: "string gomap \<Rightarrow> string \<Rightarrow> string" where
  "param p k = (case map_of p k of None \<Rightarrow> [] | Some v \<Rightarrow> v)"

section \<open>Password and client credentials\<close>

definition wrong_password :: goval where
  "wrong_password = error_json ''invalid_grant'' ''Wrong email or password.''"

definition handlePasswordGrant ::
  "env \<Rightarrow> handlers \<Rightarrow> string \<Rightarrow> string \<Rightarrow> string \<Rightarrow> string \<Rightarrow> string \<Rightarrow> response \<Rightarrow> world
   \<Rightarrow> response \<times> world" where
  "handlePasswordGrant e h username password cid scope audience rs w =
     (if username = [] \<or> password = [] then (sendJSON 400 wrong_password rs, w)
      else case GetByEmail (xCodec e) username (wDb w) of
        Inl err \<Rightarrow> (sendJSON 400 wrong_password rs, w)
      | Inr None \<Rightarrow> (sendJSON 400 wrong_password rs, w)
      | Inr (Some u) \<Rightarrow>
          if \<not> VerifyPassword (xBcrypt e) (uPasswordHash u) password
          then (sendJSON 400 wrong_password rs, w)
          else
            (let ruleUser = run_rules e h u cid;
                 email = ruEmail ruleUser;
                 displayName = rule_display_name ruleUser;
                 aud = (if audience = [] then defaultAudience else audience);
                 aud = (if aud = [] \<and> cid \<noteq> [] then cid else aud);
                 (uuid, w) = new_uuid e w;
                 sessionID = ''sid_'' @ uuid;
                 claims = mergeClaims (ruAccessTokenClaims ruleUser) (hExtraAccessTokenClaims h);
                 (res, w) = issue_access e h (uID u) aud cid (accessTokenLifetime h) claims w
             in case res of
                  Inl err \<Rightarrow>
                    (sendJSON 500 server_error rs, count_metric (TokenRequests ''password'' ''error'') w)
                | Inr accessTok \<Rightarrow>
                    (let w = count_metric (TokenRequests ''password'' ''success'') w;
                         w = audit_token e ''password'' (uID u) cid True [] w;
                         resp = token_response accessTok (accessTokenLifetime h);
                         opts = no_options\<lparr>optAMR := [''pwd''], optSessionID := sessionID,
                                  optCustomClaims := dict_of (ruIDTokenClaims ruleUser)\<rparr>;
                         (resp, w) = add_id_token e h (uID u) aud cid scope email displayName opts resp w;
                         (resp, w) = add_refresh_token e (uID u) cid scope sessionID resp w
                     in (sendJSON 200 (GObj resp) rs, w))))"

definition handleClientCredentials ::
  "env \<Rightarrow> handlers \<Rightarrow> string \<Rightarrow> response \<Rightarrow> world \<Rightarrow> response \<times> world" where
  "handleClientCredentials e h cid rs w =
     (let (res, w) = issue_access e h (''client|'' @ cid) defaultAudience cid (accessTokenLifetime h) [] w
      in case res of
           Inl err \<Rightarrow>
             (sendJSON 500 server_error rs, count_metric (TokenRequests ''client_credentials'' ''error'') w)
         | Inr tok \<Rightarrow>
             (sendJSON 200 (GObj (token_response tok (accessTokenLifetime h))) rs,
              count_metric (TokenRequests ''client_credentials'' ''success'') w))"

section \<open>Authorization codes\<close>

definition normalizeURI :: "env \<Rightarrow> string \<Rightarrow> string" where
  "normalizeURI e uri =
     (case xUrlParse e uri of
        Inl err \<Rightarrow> uri
      | Inr u \<Rightarrow>
          (let u = (if urlPath u = ''/'' then u\<lparr>urlPath := []\<rparr>
                    else if urlPath u \<noteq> [] then u\<lparr>urlPath := trim_suffix ''/'' (urlPath u)\<rparr>
                    else u);
               u = u\<lparr>urlRawQuery := []\<rparr>;
               u = u\<lparr>urlRawFragment := []\<rparr>
           in xUrlString e u))"

definition codeReplayTTL :: duration where
  "codeReplayTTL = 30 * second"

definition remember_reply :: "env \<Rightarrow> string \<Rightarrow> goval \<Rightarrow> world \<Rightarrow> world" where
  "remember_reply e code resp w =
     (let (t, w) = time_now e w;
          cache = AList.update code (resp, t + codeReplayTTL) (wReplay w);
          (now, w) = time_now e w
      in w\<lparr>wReplay := sweep (\<lambda>(b, expires). time_after now expires) cache\<rparr>)"

definition replay_reply :: "env \<Rightarrow> string \<Rightarrow> response \<Rightarrow> world \<Rightarrow> response \<times> world" where
  "replay_reply e code rs w =
     (case map_of (wReplay w) code of
        None \<Rightarrow> (sendJSON 400 (error_json ''invalid_grant'' ''Invalid or expired authorization code'') rs, w)
      | Some (resp, expires) \<Rightarrow>
          (let (now, w) = time_now e w
           in if time_before now expires
              then ((WriteHeader 200 (set_header ''Content-Type'' ''application/json'' rs))\<lparr>rsBody := JsonDoc resp\<rparr>, w)
              else (sendJSON 400 (error_json ''invalid_grant'' ''Invalid or expired authorization code'') rs, w)))"

text \<open>The checks between the consumption of the code and the issue of the tokens: the error to
  send, or nothing.\<close>

definition code_checks ::
  "env \<Rightarrow> handlers \<Rightarrow> auth_code \<Rightarrow> string \<Rightarrow> string \<Rightarrow> string \<Rightarrow> string \<Rightarrow> goval option" where
  "code_checks e h ac redirectURI cid clientSecret codeVerifier =
     (if cid \<noteq> [] \<and> acClientID ac \<noteq> cid then Some (error_json ''invalid_grant'' ''Client ID mismatch'')
      else if redirectURI \<noteq> [] \<and> normalizeURI e (acRedirectURI ac) \<noteq> normalizeURI e redirectURI
      then Some (error_json ''invalid_grant'' ''Redirect URI mismatch'')
      else
        case (if acCodeChallenge ac \<noteq> []
              then (case Verify codeVerifier (acCodeChallenge ac) (acCodeChallengeMethod ac) of
                      Inl err \<Rightarrow> Some (error_json ''invalid_grant'' (pkce_message err))
                    | Inr _ \<Rightarrow> None)
              else None) of
          Some err \<Rightarrow> Some err
        | None \<Rightarrow>
            (case hClientRegistry h of
               None \<Rightarrow> None
             | Some reg \<Rightarrow>
                 if RequireSecretForCodes reg \<and> IsConfidential (acClientID ac) reg
                    \<and> \<not> ValidateSecret (acClientID ac) clientSecret reg
                 then Some (error_json ''invalid_client'' ''Invalid client_secret'')
                 else None))"

text \<open>The tokens for a code that has passed the checks.\<close>

definition code_tokens ::
  "env \<Rightarrow> handlers \<Rightarrow> string \<Rightarrow> string \<Rightarrow> auth_code \<Rightarrow> response \<Rightarrow> world \<Rightarrow> response \<times> world" where
  "code_tokens e h code cid ac rs w =
     (let effectiveClientID = (if cid \<noteq> [] then cid else acClientID ac);
          aud = (if acAudience ac = [] then defaultAudience else acAudience ac);
          aud = (if aud = [] \<and> effectiveClientID \<noteq> [] then effectiveClientID else aud)
      in case GetByID (xCodec e) (acUserID ac) (wDb w) of
           Inl err \<Rightarrow> (sendJSON 500 server_error rs, w)
         | Inr None \<Rightarrow> (sendJSON 500 server_error rs, w)
         | Inr (Some u) \<Rightarrow>
             (let ruleUser = run_rules e h u effectiveClientID;
                  email = ruEmail ruleUser;
                  displayName = rule_display_name ruleUser;
                  (sessionID, w) =
                    (if acSessionID ac = []
                     then (let (uuid, w) = new_uuid e w in (''sid_'' @ uuid, w))
                     else (acSessionID ac, w));
                  claims = mergeClaims (ruAccessTokenClaims ruleUser) (hExtraAccessTokenClaims h);
                  (res, w) = issue_access e h (uID u) aud effectiveClientID (accessTokenLifetime h) claims w
              in case res of
                   Inl err \<Rightarrow> (sendJSON 500 server_error rs, w)
                 | Inr accessTok \<Rightarrow>
                     (let resp = token_response accessTok (accessTokenLifetime h);
                          opts = no_options\<lparr>optNonce := acNonce ac, optAMR := [''pwd''],
                                   optAccessToken := accessTok, optAuthCode := code,
                                   optSessionID := sessionID,
                                   optCustomClaims := dict_of (ruIDTokenClaims ruleUser)\<rparr>;
                          (resp, w) = add_id_token e h (uID u) aud effectiveClientID (acScope ac) email
                                        displayName opts resp w;
                          (resp, w) = add_refresh_token e (uID u) effectiveClientID (acScope ac) sessionID resp w;
                          w = count_metric (TokenRequests ''authorization_code'' ''success'') w;
                          w = audit_token e ''authorization_code'' (uID u) effectiveClientID True [] w;
                          w = remember_reply e code (GObj resp) w
                      in (sendJSON 200 (GObj resp) rs, w))))"

definition handleAuthorizationCode ::
  "env \<Rightarrow> handlers \<Rightarrow> string \<Rightarrow> string \<Rightarrow> string \<Rightarrow> string \<Rightarrow> string \<Rightarrow> response \<Rightarrow> world
   \<Rightarrow> response \<times> world" where
  "handleAuthorizationCode e h code redirectURI cid clientSecret codeVerifier rs w =
     (case wGrants w of
        None \<Rightarrow>
          (sendJSON 400 (error_json ''invalid_grant'' ''Authorization code flow not configured'') rs, w)
      | Some g \<Rightarrow>
          if code = [] then (sendJSON 400 (error_json ''invalid_grant'' ''Missing authorization code'') rs, w)
          else
            (let (now, w) = time_now e w;
                 (res, g) = ConsumeCode now code g;
                 w = w\<lparr>wGrants := Some g\<rparr>
             in case res of
                  None \<Rightarrow> replay_reply e code rs w
                | Some ac \<Rightarrow>
                    (case code_checks e h ac redirectURI cid clientSecret codeVerifier of
                       Some err \<Rightarrow> (sendJSON 400 err rs, w)
                     | None \<Rightarrow> code_tokens e h code cid ac rs w)))"

section \<open>Refresh tokens\<close>

definition handleRefreshToken ::
  "env \<Rightarrow> handlers \<Rightarrow> string \<Rightarrow> string \<Rightarrow> response \<Rightarrow> world \<Rightarrow> response \<times> world" where
  "handleRefreshToken e h refreshToken cid rs w =
     (case wGrants w of
        None \<Rightarrow> (sendJSON 400 (error_json ''invalid_grant'' ''Refresh token flow not configured'') rs, w)
      | Some g \<Rightarrow>
          if refreshToken = []
          then (sendJSON 400 (error_json ''invalid_grant'' ''Missing refresh token'') rs, w)
          else
            (let (now, w) = time_now e w;
                 (res, g) = ConsumeRefreshToken now refreshToken g;
                 w = w\<lparr>wGrants := Some g\<rparr>
             in case res of
                  None \<Rightarrow> (sendJSON 400 (error_json ''invalid_grant'' ''Invalid or expired refresh token'') rs, w)
                | Some rg \<Rightarrow>
                    if cid \<noteq> [] \<and> rgClientID rg \<noteq> cid
                    then (sendJSON 400 (error_json ''invalid_grant'' ''Client ID mismatch'') rs, w)
                    else
                      (let aud = (if rgClientID rg \<noteq> [] then rgClientID rg else defaultAudience);
                           (sessionID, w) =
                             (if rgSessionID rg = []
                              then (let (uuid, w) = new_uuid e w in (''sid_'' @ uuid, w))
                              else (rgSessionID rg, w));
                           claims = mergeClaims None (hExtraAccessTokenClaims h);
                           (res, w) = issue_access e h (rgUserID rg) aud (rgClientID rg)
                                        (accessTokenLifetime h) claims w
                       in case res of
                            Inl err \<Rightarrow> (sendJSON 500 server_error rs, w)
                          | Inr accessTok \<Rightarrow>
                              (let resp = token_response accessTok (accessTokenLifetime h);
                                   u = (case GetByID (xCodec e) (rgUserID rg) (wDb w) of Inl _ \<Rightarrow> None | Inr u \<Rightarrow> u);
                                   (email, name) = (case u of None \<Rightarrow> ([], []) | Some u \<Rightarrow> (uEmail u, uDisplayName u));
                                   opts = no_options\<lparr>optAMR := [''pwd''], optSessionID := sessionID\<rparr>;
                                   (resp, w) = add_id_token e h (rgUserID rg) aud (rgClientID rg) (rgScope rg)
                                                 email name opts resp w;
                                   (resp, w) = add_refresh_token e (rgUserID rg) (rgClientID rg) (rgScope rg)
                                                 sessionID resp w;
                                   w = count_metric (TokenRequests ''refresh_token'' ''success'') w;
                                   w = audit_token e ''refresh_token'' (rgUserID rg) (rgClientID rg) True [] w
                               in (sendJSON 200 (GObj resp) rs, w)))))"

definition handleRevoke :: "env \<Rightarrow> request \<Rightarrow> response \<Rightarrow> world \<Rightarrow> response \<times> world" where
  "handleRevoke e r rs w =
     (let p = parseTokenParams e r;
          tok = param p ''token'';
          tokenTypeHint = param p ''token_type_hint''
      in if tok = [] then (WriteHeader 200 rs, w)
         else
           (let w = (if tokenTypeHint = ''refresh_token'' \<or> has_prefix ''rt_'' tok
                     then (case wGrants w of
                             None \<Rightarrow> w
                           | Some g \<Rightarrow> w\<lparr>wGrants := Some (snd (RevokeRefreshToken tok g))\<rparr>)
                     else w)
            in (WriteHeader 200 rs, w)))"

definition claim :: "dict \<Rightarrow> string \<Rightarrow> goval" where
  "claim claims k = (case map_of claims k of None \<Rightarrow> GNil | Some v \<Rightarrow> v)"

definition handleIntrospect :: "env \<Rightarrow> handlers \<Rightarrow> request \<Rightarrow> response \<Rightarrow> world \<Rightarrow> response \<times> world" where
  "handleIntrospect e h r rs w =
     (let p = parseTokenParams e r;
          tok = param p ''token''
      in if tok = [] then (sendJSON 200 (GObj [(''active'', GBool False)]) rs, w)
         else
           (let (now, w) = time_now e w
            in case Validate (xJwt e) now (hIssuer h) tok of
                 Inl err \<Rightarrow> (sendJSON 200 (GObj [(''active'', GBool False)]) rs, w)
               | Inr claims \<Rightarrow>
                   (let out = [(''active'', GBool True), (''sub'', claim claims ''sub''), (''iss'', claim claims ''iss''),
                               (''aud'', claim claims ''aud''), (''exp'', claim claims ''exp''),
                               (''iat'', claim claims ''iat'')];
                        out = (case as_str (map_of claims ''azp'') of
                                 Some azp \<Rightarrow> AList.update ''client_id'' (GStr azp) out | None \<Rightarrow> out);
                        out = (case as_str (map_of claims ''scope'') of
                                 Some scope \<Rightarrow> AList.update ''scope'' (GStr scope) out | None \<Rightarrow> out)
                    in (sendJSON 200 (GObj out) rs, w))))"

section \<open>The device flow\<close>

definition code_chars :: string where
  "code_chars = ''ABCDEFGHJKLMNPQRSTUVWXYZ23456789''"

text \<open>\<^verbatim>\<open>rand.Int\<close> answers below 32, the number of characters.\<close>

definition randomUserCode :: "env \<Rightarrow> world \<Rightarrow> string \<times> world" where
  "randomUserCode e w =
     (let b = map (\<lambda>i. code_chars ! (xRandInt e (wRands w + i) mod length code_chars)) [0..<8]
      in (take 4 b @ ''-'' @ drop 4 b, w\<lparr>wRands := wRands w + 8\<rparr>))"

definition new_device :: "string \<Rightarrow> string \<Rightarrow> string \<Rightarrow> string \<Rightarrow> string \<Rightarrow> device_code" where
  "new_device deviceCode userCode cid scope audience =
     \<lparr>dcDeviceCode = deviceCode, dcUserCode = userCode, dcUserID = [], dcClientID = cid, dcScope = scope,
      dcAudience = audience, dcExpiresAt = 0, dcInterval = 0, dcUserAuthorized = False,
      dcAccessDenied = False, dcExpired = False\<rparr>"

definition handleDeviceCodeRequest ::
  "env \<Rightarrow> handlers \<Rightarrow> request \<Rightarrow> response \<Rightarrow> world \<Rightarrow> response \<times> world" where
  "handleDeviceCodeRequest e h r rs w =
     (let p = parseTokenParams e r;
          cid = param p ''client_id'';
          scope = param p ''scope'';
          audience = param p ''audience'';
          cid = (if cid = [] then ''e2e-test'' else cid);
          scope = (if scope = [] then ''openid'' else scope);
          (uuid, w) = new_uuid e w;
          deviceCode = ''dc_'' @ uuid;
          (userCode, w) = randomUserCode e w;
          base = issuerURL h;
          dc = new_device deviceCode userCode cid scope audience;
          w = save_device e deviceCode userCode dc w
      in (sendJSON 200 (GObj
            [(''device_code'', GStr deviceCode),
             (''user_code'', GStr userCode),
             (''verification_uri'', GStr (base @ ''/oauth/device/authorize'')),
             (''verification_uri_complete'',
                GStr (base @ ''/oauth/device/authorize?user_code='' @ QueryEscape userCode)),
             (''expires_in'', GInt 900),
             (''interval'', GInt 5)]) rs, w))"

definition newline :: string where
  "newline = [CHR 0x0A]"

definition dquote :: string where
  "dquote = [CHR 0x22]"

definition device_form :: "string \<Rightarrow> string" where
  "device_form userCode =
     ''<!DOCTYPE html><html><head><title>Device Authorization</title></head><body>'' @ newline
     @ ''<p>Enter code: <strong>'' @ EscapeString userCode @ ''</strong></p>'' @ newline
     @ ''<form method='' @ dquote @ ''post'' @ dquote @ '' action='' @ dquote @ ''?user_code=''
     @ EscapeString userCode @ dquote @ ''>'' @ newline
     @ ''<input type='' @ dquote @ ''hidden'' @ dquote @ '' name='' @ dquote @ ''user_code'' @ dquote
     @ '' value='' @ dquote @ EscapeString userCode @ dquote @ ''>'' @ newline
     @ ''<label>Email: <input type='' @ dquote @ ''text'' @ dquote @ '' name='' @ dquote @ ''username'' @ dquote
     @ ''></label><br>'' @ newline
     @ ''<label>Password: <input type='' @ dquote @ ''password'' @ dquote @ '' name='' @ dquote @ ''password'' @ dquote
     @ ''></label><br>'' @ newline
     @ ''<button type='' @ dquote @ ''submit'' @ dquote @ '' name='' @ dquote @ ''action'' @ dquote
     @ '' value='' @ dquote @ ''allow'' @ dquote @ ''>Authorize</button>'' @ newline
     @ ''<button type='' @ dquote @ ''submit'' @ dquote @ '' name='' @ dquote @ ''action'' @ dquote
     @ '' value='' @ dquote @ ''deny'' @ dquote @ ''>Deny</button>'' @ newline
     @ ''</form></body></html>''"

text \<open>The user a pair of credentials belongs to: found without an error, and the password fits.\<close>

definition check_credentials :: "env \<Rightarrow> string \<Rightarrow> string \<Rightarrow> db \<Rightarrow> user option" where
  "check_credentials e username password d =
     (case GetByEmail (xCodec e) username d of
        Inl err \<Rightarrow> None
      | Inr None \<Rightarrow> None
      | Inr (Some u) \<Rightarrow> if \<not> VerifyPassword (xBcrypt e) (uPasswordHash u) password then None else Some u)"

text \<open>When the user code came from the query, \<^verbatim>\<open>ParseForm\<close> runs before the first \<^verbatim>\<open>FormValue\<close>.\<close>

definition device_post :: "request \<Rightarrow> request" where
  "device_post r = (if query_get r ''user_code'' \<noteq> [] then form_parsed r else r)"

definition handleDeviceAuthorize :: "env \<Rightarrow> request \<Rightarrow> response \<Rightarrow> world \<Rightarrow> response \<times> world" where
  "handleDeviceAuthorize e r rs w =
     (let userCode = query_get r ''user_code'';
          userCode = (if userCode = [] then FormValue r ''user_code'' else userCode)
      in if userCode = []
         then (send_html ''<!DOCTYPE html><html><body><p>user_code is required</p></body></html>''
                 (WriteHeader 400 rs), w)
         else if rqMethod r = ''POST'' then
           (let action = FormValue (device_post r) ''action'';
                username = FormValue (device_post r) ''username'';
                password = FormValue (device_post r) ''password''
            in if action = ''deny'' then
                 (send_html ''<!DOCTYPE html><html><body><p>Access denied.</p></body></html>'' rs,
                  (case wGrants w of
                     None \<Rightarrow> w
                   | Some g \<Rightarrow> w\<lparr>wGrants := Some (snd (DenyDeviceCode (xUpper e) userCode g))\<rparr>))
               else if username = [] \<or> password = []
               then (http_error ''username and password required'' 400 rs, w)
               else case check_credentials e username password (wDb w) of
                 None \<Rightarrow>
                   (send_html (''<!DOCTYPE html><html><body><p>Invalid credentials.</p><a href='' @ dquote
                      @ ''?user_code='' @ EscapeString userCode @ dquote @ ''>Try again</a></body></html>'') rs, w)
               | Some u \<Rightarrow>
                   (send_html ''<!DOCTYPE html><html><body><p>Device authorized. You can close this page.</p></body></html>'' rs,
                    (case wGrants w of
                       None \<Rightarrow> w
                     | Some g \<Rightarrow>
                         (let (now, w) = time_now e w
                          in w\<lparr>wGrants := Some (snd (AuthorizeDeviceCode (xUpper e) now userCode (uID u) g))\<rparr>))))
         else (send_html (device_form userCode) rs, w))"

text \<open>The tokens for a device grant that has been redeemed.\<close>

definition device_tokens ::
  "env \<Rightarrow> handlers \<Rightarrow> device_code \<Rightarrow> response \<Rightarrow> world \<Rightarrow> response \<times> world" where
  "device_tokens e h grant rs w =
     (let aud = dcAudience grant;
          aud = (if aud = [] \<and> dcClientID grant \<noteq> [] then dcClientID grant else aud);
          aud = (if aud = [] then defaultAudience else aud)
      in case GetByID (xCodec e) (dcUserID grant) (wDb w) of
           Inl err \<Rightarrow> (sendJSON 500 server_error rs, w)
         | Inr None \<Rightarrow> (sendJSON 500 server_error rs, w)
         | Inr (Some u) \<Rightarrow>
             (let ruleUser = run_rules e h u (dcClientID grant);
                  email = ruEmail ruleUser;
                  displayName = rule_display_name ruleUser;
                  (uuid, w) = new_uuid e w;
                  sessionID = ''sid_'' @ uuid;
                  claims = mergeClaims (ruAccessTokenClaims ruleUser) (hExtraAccessTokenClaims h);
                  (res, w) = issue_access e h (dcUserID grant) aud (dcClientID grant)
                               (accessTokenLifetime h) claims w
              in case res of
                   Inl err \<Rightarrow> (sendJSON 500 server_error rs, w)
                 | Inr accessTok \<Rightarrow>
                     (let resp = token_response accessTok (accessTokenLifetime h);
                          opts = no_options\<lparr>optAMR := [''pwd''], optSessionID := sessionID,
                                   optCustomClaims := dict_of (ruIDTokenClaims ruleUser)\<rparr>;
                          (resp, w) = add_id_token e h (dcUserID grant) aud (dcClientID grant) (dcScope grant)
                                        email displayName opts resp w
                      in (sendJSON 200 (GObj resp) rs, w))))"

definition handleDeviceCodeToken ::
  "env \<Rightarrow> handlers \<Rightarrow> string \<Rightarrow> response \<Rightarrow> world \<Rightarrow> response \<times> world" where
  "handleDeviceCodeToken e h deviceCode rs w =
     (case wGrants w of
        None \<Rightarrow> (sendJSON 400 (error_json ''invalid_grant'' ''Device code flow not configured'') rs, w)
      | Some g \<Rightarrow>
          if deviceCode = []
          then (sendJSON 400 (error_json ''invalid_grant'' ''Missing device_code'') rs, w)
          else
            (let (t0, w) = time_now e w;
                 (t1, w) = time_now e w;
                 (res, g) = GetDeviceCode (xUpper e) t0 t1 deviceCode g;
                 w = w\<lparr>wGrants := Some g\<rparr>
             in case res of
                  None \<Rightarrow>
                    (sendJSON 400 (error_json ''invalid_grant'' ''Invalid or expired device_code'') rs, w)
                | Some dc \<Rightarrow>
                    if dcAccessDenied dc
                    then (sendJSON 400 (error_json ''access_denied'' ''User denied the request'') rs, w)
                    else if \<not> dcUserAuthorized dc
                    then (sendJSON 400 (error_json ''authorization_pending''
                            ''User has not yet completed authorization'') rs, w)
                    else
                      (let (t2, w) = time_now e w;
                           (res, g) = ConsumeDeviceCode (xUpper e) t2 deviceCode g;
                           w = w\<lparr>wGrants := Some g\<rparr>
                       in case res of
                            None \<Rightarrow>
                              (sendJSON 400 (error_json ''invalid_grant'' ''Invalid or expired device_code'') rs, w)
                          | Some grant \<Rightarrow> device_tokens e h grant rs w)))"

section \<open>Dispatch\<close>

definition handleToken :: "env \<Rightarrow> handlers \<Rightarrow> request \<Rightarrow> response \<Rightarrow> world \<Rightarrow> response \<times> world" where
  "handleToken e h r rs w =
     (let p = parseTokenParams e r;
          grantType = param p ''grant_type'';
          cid = (if param p ''client_id'' = [] then ''e2e-test'' else param p ''client_id'')
      in if grantType = ''client_credentials'' then handleClientCredentials e h cid rs w
         else if grantType = ''http://auth0.com/oauth/grant-type/password-realm'' \<or> grantType = ''password''
         then handlePasswordGrant e h (param p ''username'') (param p ''password'') cid (param p ''scope'')
                (param p ''audience'') rs w
         else if grantType = ''authorization_code''
         then handleAuthorizationCode e h (param p ''code'') (param p ''redirect_uri'') (param p ''client_id'')
                (param p ''client_secret'') (param p ''code_verifier'') rs w
         else if grantType = ''refresh_token''
         then handleRefreshToken e h (param p ''refresh_token'') (param p ''client_id'') rs w
         else if grantType = ''urn:ietf:params:oauth:grant-type:device_code''
         then handleDeviceCodeToken e h (param p ''device_code'') rs w
         else (sendJSON 400 (GObj [(''error'', GStr ''unsupported_grant_type'')]) rs, w))"

end
