(* ===== verification/Authorize_Endpoint.thy ===== *)
theory Authorize_Endpoint
  imports Token_Endpoint
begin

text \<open>
  The endpoints a browser visits: authorization, login, its callback, logout. The redirect URL
  is a parsed URL that the handlers modify in place; printing it is a parameter.
\<close>

section \<open>Parameters\<close>

text \<open>The parameters of an authorization request, local variables of the handlers.\<close>

record auth_params =
  apResponseType :: string
  apClientID :: string
  apRedirectURI :: string
  apScope :: string
  apState :: string
  apNonce :: string
  apAudience :: string
  apChallenge :: string
  apChallengeMethod :: string

section \<open>Building redirects\<close>

text \<open>\<^verbatim>\<open>q := redirectURL.Query(); q.Set(...); redirectURL.RawQuery = q.Encode()\<close>: the values and
  the URL with them; the state goes last, when there is one.\<close>

definition answer_values :: "url \<Rightarrow> (string \<times> string) list \<Rightarrow> string \<Rightarrow> url_values" where
  "answer_values u kvs state =
     (let q = fold (\<lambda>(k, v) q. values_set k v q) kvs (url_query u)
      in if state \<noteq> [] then values_set ''state'' state q else q)"

definition answer_url :: "url \<Rightarrow> (string \<times> string) list \<Rightarrow> string \<Rightarrow> url" where
  "answer_url u kvs state = u\<lparr>urlRawQuery := values_encode (answer_values u kvs state)\<rparr>"

definition invalid_credentials :: "(string \<times> string) list" where
  "invalid_credentials = [(''error'', ''access_denied''), (''error_description'', ''invalid_credentials'')]"

definition login_required :: "(string \<times> string) list" where
  "login_required = [(''error'', ''login_required''), (''error_description'', ''User must be authenticated'')]"

text \<open>\<^verbatim>\<open>strconv.Itoa\<close>.\<close>

fun decimal :: "nat \<Rightarrow> string" where
  "decimal n = (if n < 10 then [char_of (48 + n)] else decimal (n div 10) @ [char_of (48 + n mod 10)])"

declare decimal.simps [simp del]

definition itoa :: "int \<Rightarrow> string" where
  "itoa n = (if n < 0 then ''-'' @ decimal (nat (- n)) else decimal (nat n))"

text \<open>The destination of the implicit flow: the redirect URL without its query, and a fragment.\<close>

definition fragment_url :: "env \<Rightarrow> url \<Rightarrow> string list \<Rightarrow> string" where
  "fragment_url e u frag =
     (let dest = xUrlString e u;
          dest = (if urlRawQuery u \<noteq> [] then trim_suffix (''?'' @ urlRawQuery u) dest else dest)
      in dest @ ''#'' @ join ''&'' frag)"

section \<open>Implicit tokens\<close>

text \<open>
  The part the authorization and the login endpoint share: the audience, the rules, an access
  token and an ID token as wanted, the fragment. An error of the issuer is passed on.
\<close>

definition implicit_tokens ::
  "env \<Rightarrow> handlers \<Rightarrow> user \<Rightarrow> auth_params \<Rightarrow> bool \<Rightarrow> bool \<Rightarrow> world \<Rightarrow> (string + string list) \<times> world" where
  "implicit_tokens e h u ap wantToken wantIDToken w =
     (let cid = apClientID ap; scope = apScope ap; state = apState ap;
          aud = apAudience ap;
          aud = (if aud = [] \<and> cid \<noteq> [] then cid else aud);
          aud = (if aud = [] then defaultAudience else aud);
          ruleUser = run_rules e h u cid;
          email = ruEmail ruleUser;
          displayName = rule_display_name ruleUser;
          (res, w) =
            (if wantToken then
               (let claims = mergeClaims (ruAccessTokenClaims ruleUser) (hExtraAccessTokenClaims h);
                    (res, w) = issue_access e h (uID u) aud cid (accessTokenLifetime h) claims w
                in case res of
                     Inl err \<Rightarrow> (Inl err, w)
                   | Inr accessTok \<Rightarrow>
                       (Inr [''access_token='' @ QueryEscape accessTok, ''token_type=Bearer'',
                             ''expires_in='' @ itoa (accessTokenLifetime h)], w))
             else (Inr [], w))
      in case res of
           Inl err \<Rightarrow> (Inl err, w)
         | Inr frag \<Rightarrow>
             (let (res, w) =
                (if wantIDToken then
                   (let opts = no_options\<lparr>optAMR := [''pwd''], optCustomClaims := dict_of (ruIDTokenClaims ruleUser)\<rparr>;
                        (res, w) = issue_id e h (uID u) aud cid (idTokenLifetime h) scope email displayName opts w
                    in case res of
                         Inl err \<Rightarrow> (Inl err, w)
                       | Inr idTok \<Rightarrow> (Inr (frag @ [''id_token='' @ QueryEscape idTok]), w))
                 else (Inr frag, w))
              in case res of
                   Inl err \<Rightarrow> (Inl err, w)
                 | Inr frag \<Rightarrow>
                     (Inr (if state \<noteq> [] then frag @ [''state='' @ QueryEscape state] else frag), w)))"

definition handleImplicitAuthorize ::
  "env \<Rightarrow> handlers \<Rightarrow> auth_params \<Rightarrow> string \<Rightarrow> string \<Rightarrow> url \<Rightarrow> response \<Rightarrow> world \<Rightarrow> response \<times> world" where
  "handleImplicitAuthorize e h ap username password redirectURL rs w =
     (let responseType = apResponseType ap; state = apState ap; audience = apAudience ap;
          wantToken = (contains ''token'' responseType \<or> responseType = ''token'');
          wantIDToken = (contains ''id_token'' responseType \<or> responseType = ''id_token'');
          wantToken = (if \<not> wantToken \<and> \<not> wantIDToken then True else wantToken)
      in if username = [] \<or> password = [] then
           (let loginURL = issuerURL h @ ''/login?client_id='' @ QueryEscape (apClientID ap) @ ''&redirect_uri=''
                  @ QueryEscape (apRedirectURI ap) @ ''&scope='' @ QueryEscape (apScope ap) @ ''&state=''
                  @ QueryEscape state @ ''&response_type='' @ QueryEscape responseType;
                loginURL = (if audience \<noteq> [] then loginURL @ ''&audience='' @ QueryEscape audience else loginURL)
            in (http_redirect loginURL rs, w))
         else case check_credentials e username password (wDb w) of
           None \<Rightarrow>
             (http_redirect (xUrlString e (answer_url redirectURL invalid_credentials state) @ ''#''
                @ values_encode (answer_values redirectURL invalid_credentials state)) rs, w)
         | Some u \<Rightarrow>
             (let (res, w) = implicit_tokens e h u ap wantToken wantIDToken w
              in case res of
                   Inl err \<Rightarrow> (sendJSON 500 server_error rs, w)
                 | Inr frag \<Rightarrow> (http_redirect (fragment_url e redirectURL frag) rs, w)))"

section \<open>Authorization\<close>

definition new_auth_code :: "string \<Rightarrow> auth_params \<Rightarrow> string \<Rightarrow> auth_code" where
  "new_auth_code uid ap sessionID =
     \<lparr>acUserID = uid, acClientID = apClientID ap, acRedirectURI = apRedirectURI ap, acScope = apScope ap,
      acAudience = apAudience ap, acNonce = apNonce ap, acSessionID = sessionID,
      acCodeChallenge = apChallenge ap, acCodeChallengeMethod = apChallengeMethod ap, acExpiresAt = 0\<rparr>"

text \<open>A fresh code for the user, saved, and the redirect that delivers it.\<close>

definition issue_code ::
  "env \<Rightarrow> string \<Rightarrow> auth_params \<Rightarrow> url \<Rightarrow> response \<Rightarrow> world \<Rightarrow> response \<times> world" where
  "issue_code e uid ap redirectURL rs w =
     (let (uuid, w) = new_uuid e w;
          code = ''ac_'' @ uuid;
          (uuid, w) = new_uuid e w;
          sessionID = ''sid_'' @ uuid;
          w = save_code e code (new_auth_code uid ap sessionID) w
      in (http_redirect (xUrlString e (answer_url redirectURL [(''code'', code)] (apState ap))) rs, w))"

text \<open>The user the session cookie stands for: the session lives and its user still exists.\<close>

definition session_user :: "env \<Rightarrow> request \<Rightarrow> world \<Rightarrow> user option \<times> world" where
  "session_user e r w =
     (case wSessions w of
        None \<Rightarrow> (None, w)
      | Some ss \<Rightarrow>
          (case rqCookie r of
             None \<Rightarrow> (None, w)
           | Some c \<Rightarrow>
               if c = [] then (None, w)
               else
                 (let (t0, w) = time_now e w;
                      (t1, w) = time_now e w;
                      (t2, w) = time_now e w;
                      (res, ss) = GetSession t0 t1 t2 c ss;
                      w = w\<lparr>wSessions := Some ss\<rparr>
                  in case res of
                       None \<Rightarrow> (None, w)
                     | Some sess \<Rightarrow>
                         (case GetByID (xCodec e) (sUserID sess) (wDb w) of
                            Inl err \<Rightarrow> (None, w)
                          | Inr u \<Rightarrow> (if wGrants w \<noteq> None then u else None, w)))))"

definition login_url :: "handlers \<Rightarrow> string \<Rightarrow> string \<Rightarrow> string \<Rightarrow> string" where
  "login_url h cid redirectURI scope =
     issuerURL h @ ''/login?client_id='' @ QueryEscape cid @ ''&redirect_uri='' @ QueryEscape redirectURI
     @ ''&scope='' @ QueryEscape scope"

definition with_param :: "string \<Rightarrow> string \<Rightarrow> string \<Rightarrow> string" where
  "with_param k v dest = (if v \<noteq> [] then dest @ ''&'' @ k @ ''='' @ QueryEscape v else dest)"

definition invalid_request :: "string \<Rightarrow> goval" where
  "invalid_request desc = error_json ''invalid_request'' desc"

definition login_redirect :: "handlers \<Rightarrow> auth_params \<Rightarrow> string \<Rightarrow> string" where
  "login_redirect h ap loginHint =
     (let loginURL = login_url h (apClientID ap) (apRedirectURI ap) (apScope ap);
          loginURL = with_param ''state'' (apState ap) loginURL;
          loginURL = with_param ''login_hint'' loginHint loginURL;
          loginURL = with_param ''audience'' (apAudience ap) loginURL;
          loginURL = (if apChallenge ap \<noteq> []
            then loginURL @ ''&code_challenge='' @ QueryEscape (apChallenge ap)
              @ ''&code_challenge_method='' @ QueryEscape (apChallengeMethod ap)
            else loginURL)
      in with_param ''nonce'' (apNonce ap) loginURL)"

text \<open>The code flow, for parameters that have passed the checks.\<close>

definition authorize_code ::
  "env \<Rightarrow> handlers \<Rightarrow> request \<Rightarrow> auth_params \<Rightarrow> url \<Rightarrow> response \<Rightarrow> world \<Rightarrow> response \<times> world" where
  "authorize_code e h r ap redirectURL rs w =
     (let username = query_get r ''username'';
          password = query_get r ''password'';
          prompt = query_get r ''prompt'';
          loginHint = query_get r ''login_hint''
      in if username \<noteq> [] \<and> password \<noteq> [] then
           (if wGrants w = None
            then (sendJSON 500 (error_json ''server_error'' ''Authorization code flow not configured'') rs, w)
            else case check_credentials e username password (wDb w) of
              None \<Rightarrow>
                (http_redirect (xUrlString e (answer_url redirectURL invalid_credentials (apState ap))) rs,
                 count_metric (AuthRequests ''access_denied'') w)
            | Some u \<Rightarrow>
                (let w = count_metric (AuthRequests ''success'') w;
                     (rs, w) = start_session e u rs w
                 in issue_code e (uID u) ap redirectURL rs w))
         else if prompt = ''none'' \<and> username = [] \<and> password = []
         then (http_redirect (xUrlString e (answer_url redirectURL login_required (apState ap))) rs,
               count_metric (AuthRequests ''login_required'') w)
         else
           (let (su, w) = (if username = [] \<and> password = [] then session_user e r w else (None, w))
            in case su of
                 Some u \<Rightarrow>
                   (let w = count_metric (AuthRequests ''success'') w
                    in issue_code e (uID u) ap redirectURL rs w)
               | None \<Rightarrow>
                   (let w = count_metric (AuthRequests ''redirect_to_login'') w
                    in (http_redirect (login_redirect h ap loginHint) rs, w))))"

definition handleAuthorize :: "env \<Rightarrow> handlers \<Rightarrow> request \<Rightarrow> response \<Rightarrow> world \<Rightarrow> response \<times> world" where
  "handleAuthorize e h r rs w =
     (let responseType = query_get r ''response_type'';
          cid = query_get r ''client_id'';
          redirectURI = query_get r ''redirect_uri'';
          scope = query_get r ''scope'';
          state = query_get r ''state'';
          username = query_get r ''username'';
          password = query_get r ''password'';
          nonce = query_get r ''nonce'';
          audience = query_get r ''audience'';
          challenge = query_get r ''code_challenge'';
          challengeMethod = query_get r ''code_challenge_method'';
          challengeMethod = (if challengeMethod = [] then ''S256'' else challengeMethod)
      in if redirectURI = [] then (sendJSON 400 (invalid_request ''redirect_uri is required'') rs, w)
         else if (case hClientRegistry h of None \<Rightarrow> False | Some reg \<Rightarrow> \<not> ValidateRedirectURI cid redirectURI reg)
         then (sendJSON 400 (invalid_request ''redirect_uri not allowed for this client'') rs, w)
         else
           let cid = (if cid = [] then ''e2e-test'' else cid);
               scope = (if scope = [] then ''openid'' else scope);
               ap = \<lparr>apResponseType = responseType, apClientID = cid, apRedirectURI = redirectURI,
                     apScope = scope, apState = state, apNonce = nonce, apAudience = audience,
                     apChallenge = challenge, apChallengeMethod = challengeMethod\<rparr>
           in if (case hClientRegistry h of None \<Rightarrow> False | Some reg \<Rightarrow> \<not> ValidateScope cid scope reg)
              then (sendJSON 400 (error_json ''invalid_scope'' ''requested scope not allowed'') rs, w)
              else case xUrlParse e redirectURI of
                Inl err \<Rightarrow> (sendJSON 400 (invalid_request ''Invalid redirect_uri'') rs, w)
              | Inr redirectURL \<Rightarrow>
                  if responseType = ''token'' \<or> responseType = ''id_token''
                     \<or> contains ''token'' responseType \<or> contains ''id_token'' responseType
                  then handleImplicitAuthorize e h ap username password redirectURL rs w
                  else if responseType \<noteq> ''code''
                  then (sendJSON 400 (error_json ''unsupported_response_type''
                          ''Only response_type=code, token, id_token are supported'') rs, w)
                  else authorize_code e h r ap redirectURL rs w)"

section \<open>Login\<close>

definition hidden_field :: "string \<Rightarrow> string \<Rightarrow> string" where
  "hidden_field name v =
     ''<input type='' @ dquote @ ''hidden'' @ dquote @ '' name='' @ dquote @ name @ dquote @ '' value='' @ dquote
     @ EscapeString v @ dquote @ ''>'' @ newline"

definition login_page :: "auth_params \<Rightarrow> string \<Rightarrow> string" where
  "login_page ap loginHint =
     ''<!DOCTYPE html><html><head><title>Login</title></head><body>'' @ newline
     @ ''<form method='' @ dquote @ ''post'' @ dquote @ '' action='' @ dquote @ ''/login'' @ dquote @ ''>'' @ newline
     @ hidden_field ''client_id'' (apClientID ap)
     @ hidden_field ''redirect_uri'' (apRedirectURI ap)
     @ hidden_field ''scope'' (apScope ap)
     @ hidden_field ''state'' (apState ap)
     @ hidden_field ''response_type'' (apResponseType ap)
     @ hidden_field ''nonce'' (apNonce ap)
     @ hidden_field ''audience'' (apAudience ap)
     @ hidden_field ''code_challenge'' (apChallenge ap)
     @ hidden_field ''code_challenge_method'' (apChallengeMethod ap)
     @ ''<label>Email: <input type='' @ dquote @ ''text'' @ dquote @ '' name='' @ dquote @ ''username'' @ dquote
     @ '' value='' @ dquote @ EscapeString loginHint @ dquote @ ''></label><br>'' @ newline
     @ ''<label>Password: <input type='' @ dquote @ ''password'' @ dquote @ '' name='' @ dquote @ ''password'' @ dquote
     @ ''></label><br>'' @ newline
     @ ''<button type='' @ dquote @ ''submit'' @ dquote @ ''>Log in</button>'' @ newline
     @ ''</form></body></html>''"

text \<open>
  The redirect URL is parsed with its error ignored, after the session has been started: an
  unparsable one is a nil pointer, and its first use panics. On the code path the code is saved
  before that use, on the implicit path the tokens are signed before it.
\<close>

definition login_implicit ::
  "env \<Rightarrow> handlers \<Rightarrow> user \<Rightarrow> auth_params \<Rightarrow> bool \<Rightarrow> bool \<Rightarrow> url option \<Rightarrow> response \<Rightarrow> world
   \<Rightarrow> response \<times> world" where
  "login_implicit e h u ap wantToken wantIDToken redirectURL rs w =
     (let (res, w) = implicit_tokens e h u ap wantToken wantIDToken w
      in case res of
           Inl err \<Rightarrow> (http_error ''server error'' 500 rs, w)
         | Inr frag \<Rightarrow>
             (case redirectURL of
                None \<Rightarrow> (panicked rs, w)
              | Some u \<Rightarrow> (http_redirect (fragment_url e u frag) rs, w)))"

definition login_code ::
  "env \<Rightarrow> string \<Rightarrow> auth_params \<Rightarrow> url option \<Rightarrow> response \<Rightarrow> world \<Rightarrow> response \<times> world" where
  "login_code e uid ap redirectURL rs w =
     (let (uuid, w) = new_uuid e w;
          code = ''ac_'' @ uuid;
          (uuid, w) = new_uuid e w;
          sessionID = ''sid_'' @ uuid;
          w = save_code e code (new_auth_code uid ap sessionID) w
      in case redirectURL of
           None \<Rightarrow> (panicked rs, w)
         | Some u \<Rightarrow> (http_redirect (xUrlString e (answer_url u [(''code'', code)] (apState ap))) rs, w))"

text \<open>When every parameter came from the query, no \<^verbatim>\<open>FormValue\<close> has run before \<^verbatim>\<open>ParseForm\<close>.\<close>

definition login_form :: "request \<Rightarrow> request" where
  "login_form r =
     (if list_all (\<lambda>k. query_get r k \<noteq> [])
           [''client_id'', ''redirect_uri'', ''scope'', ''state'', ''nonce'', ''audience'', ''response_type'',
            ''code_challenge'', ''code_challenge_method'']
      then form_parsed r else r)"

definition handleLogin :: "env \<Rightarrow> handlers \<Rightarrow> request \<Rightarrow> response \<Rightarrow> world \<Rightarrow> response \<times> world" where
  "handleLogin e h r rs w =
     (let cid = getParam r ''client_id'';
          redirectURI = getParam r ''redirect_uri'';
          scope = getParam r ''scope'';
          state = getParam r ''state'';
          nonce = getParam r ''nonce'';
          audience = getParam r ''audience'';
          responseType = getParam r ''response_type'';
          challenge = getParam r ''code_challenge'';
          challengeMethod = getParam r ''code_challenge_method'';
          challengeMethod = (if challengeMethod = [] then ''S256'' else challengeMethod);
          scope = (if scope = [] then ''openid'' else scope);
          ap = \<lparr>apResponseType = responseType, apClientID = cid, apRedirectURI = redirectURI,
                apScope = scope, apState = state, apNonce = nonce, apAudience = audience,
                apChallenge = challenge, apChallengeMethod = challengeMethod\<rparr>
      in if redirectURI = [] then (http_error ''redirect_uri required'' 400 rs, w)
         else if rqMethod r = ''POST'' then
           (let username = FormValue (login_form r) ''username'';
                password = FormValue (login_form r) ''password''
            in if username = [] \<or> password = []
               then (http_error ''username and password required'' 400 rs, w)
               else case check_credentials e username password (wDb w) of
                 None \<Rightarrow>
                   (let w = count_metric (LoginAttempts ''failed'') w;
                        w = audit_login e [] username cid False [(''reason'', GStr ''invalid_credentials'')] w
                    in (http_error ''Invalid credentials'' 401 rs, w))
               | Some u \<Rightarrow>
                   (let w = count_metric (LoginAttempts ''success'') w;
                        w = audit_login e (uID u) (uEmail u) cid True [] w;
                        (rs, w) = start_session e u rs w;
                        redirectURL = (case xUrlParse e redirectURI of Inl err \<Rightarrow> None | Inr v \<Rightarrow> Some v);
                        wantToken = (responseType = ''token'' \<or> contains ''token'' responseType);
                        wantIDToken = (responseType = ''id_token'' \<or> contains ''id_token'' responseType)
                    in if wantToken \<or> wantIDToken
                       then login_implicit e h u ap wantToken wantIDToken redirectURL rs w
                       else if wGrants w = None
                       then (http_error ''Authorization code flow not configured'' 500 rs, w)
                       else login_code e (uID u) ap redirectURL rs w))
         else
           (let loginHint = getParam r ''login_hint''
            in (send_html (login_page ap loginHint) rs, w)))"

definition handleUniversalLogin :: "env \<Rightarrow> handlers \<Rightarrow> request \<Rightarrow> response \<Rightarrow> world \<Rightarrow> response \<times> world" where
  "handleUniversalLogin e h r rs w = handleLogin e h r rs w"

definition handleLoginCallback :: "handlers \<Rightarrow> request \<Rightarrow> response \<Rightarrow> world \<Rightarrow> response \<times> world" where
  "handleLoginCallback h r rs w =
     (let state = query_get r ''state''
      in if state = [] then (http_error ''state required'' 400 rs, w)
         else
           (let redirectURI = query_get r ''redirect_uri'';
                cid = query_get r ''client_id'';
                scope = query_get r ''scope'';
                scope = (if scope = [] then ''openid'' else scope)
            in if redirectURI \<noteq> [] \<and> cid \<noteq> []
               then (http_redirect (login_url h cid redirectURI scope @ ''&state='' @ QueryEscape state) rs, w)
               else (http_error ''redirect_uri and client_id required'' 400 rs, w)))"

section \<open>Logout\<close>

definition handleLogout :: "env \<Rightarrow> request \<Rightarrow> response \<Rightarrow> world \<Rightarrow> response \<times> world" where
  "handleLogout e r rs w =
     (let (rs, w) =
        (case wSessions w of
           None \<Rightarrow> (rs, w)
         | Some ss \<Rightarrow>
             (let w = (case rqCookie r of
                         None \<Rightarrow> w
                       | Some c \<Rightarrow> if c \<noteq> [] then w\<lparr>wSessions := Some (Revoke c ss)\<rparr> else w)
              in (set_cookie \<lparr>ckName = sessionCookieName, ckValue = [], ckPath = ''/'', ckMaxAge = - 1,
                    ckHttpOnly = True, ckSameSiteLax = True\<rparr> rs, w)));
          returnTo = query_get r ''returnTo'';
          returnTo = (if returnTo = [] then query_get r ''post_logout_redirect_uri'' else returnTo);
          state = query_get r ''state'';
          goodbye = send_html ''<!DOCTYPE html><html><body><p>You have been logged out.</p></body></html>''
                      (WriteHeader 200 rs)
      in if returnTo \<noteq> [] then
           (case xUrlParse e returnTo of
              Inl err \<Rightarrow> (goodbye, w)
            | Inr dest \<Rightarrow> (http_redirect (xUrlString e (answer_url dest [] state)) rs, w))
         else (goodbye, w))"

end
