(* ===== verification/Management.thy ===== *)
theory Management
  imports Authorize_Endpoint
begin

text \<open>
  The rest of \<^verbatim>\<open>internal/handlers/handlers.go\<close>: user info, key set and discovery, sign-up and
  the management API over the database, and the routing of a request to its handler.
\<close>

section \<open>Numbers and lists\<close>

text \<open>\<^verbatim>\<open>strconv.Atoi\<close>: the value and whether there was no error. It is 0 for a text that is no
  number, the nearest \<^verbatim>\<open>int\<close> for a number out of range.\<close>

definition digit_value :: "char \<Rightarrow> nat" where
  "digit_value c = of_char c - 48"

definition is_digit :: "char \<Rightarrow> bool" where
  "is_digit c \<longleftrightarrow> 48 \<le> (of_char c :: nat) \<and> (of_char c :: nat) \<le> 57"

definition Atoi :: "string \<Rightarrow> int \<times> bool" where
  "Atoi s =
     (let neg = (s \<noteq> [] \<and> hd s = CHR ''-'');
          digits = (if s \<noteq> [] \<and> (hd s = CHR ''-'' \<or> hd s = CHR ''+'') then tl s else s)
      in if digits = [] \<or> \<not> list_all is_digit digits then (0, False)
         else let m = int (fold (\<lambda>c acc. acc * 10 + digit_value c) digits 0);
                  n = (if neg then - m else m)
              in if n < - (2 ^ 63) then (- (2 ^ 63), False)
                 else if 2 ^ 63 - 1 < n then (2 ^ 63 - 1, False)
                 else (n, True))"

definition atoi :: "string \<Rightarrow> int" where
  "atoi s = fst (Atoi s)"

text \<open>A nil slice is encoded as null.\<close>

definition json_list :: "goval list \<Rightarrow> goval" where
  "json_list vs = (if vs = [] then GNil else GArr vs)"

definition json_strings :: "string list \<Rightarrow> goval" where
  "json_strings ss = (if ss = [] then GNil else GStrs ss)"

definition toInt :: "env \<Rightarrow> goval \<Rightarrow> int option" where
  "toInt e v =
     (case v of
        GFloat x \<Rightarrow>
          (let n = (if 0 \<le> x then \<lfloor>x\<rfloor> else - \<lfloor>- x\<rfloor>)
           in Some (if - (2 ^ 63) \<le> n \<and> n < 2 ^ 63 then n else xHugeFloat e x))
      | GInt n \<Rightarrow> Some n
      | _ \<Rightarrow> None)"

text \<open>The part of an email address before the \<^verbatim>\<open>@\<close>, when there is one that is not empty.\<close>

definition name_of_email :: "string \<Rightarrow> string" where
  "name_of_email email =
     (let i = length (takeWhile (\<lambda>c. c \<noteq> CHR ''@'') email)
      in if i < length email \<and> 0 < i then take i email else email)"

definition message :: "string \<Rightarrow> string \<Rightarrow> goval" where
  "message err msg = GObj [(''error'', GStr err), (''message'', GStr msg)]"

definition code_description :: "string \<Rightarrow> string \<Rightarrow> goval" where
  "code_description c d = GObj [(''code'', GStr c), (''description'', GStr d)]"

section \<open>User info and discovery\<close>

definition handleHealth :: "response \<Rightarrow> world \<Rightarrow> response \<times> world" where
  "handleHealth rs w = (sendJSON 200 (GObj [(''status'', GStr ''ok'')]) rs, w)"

definition handleMetrics :: "response \<Rightarrow> world \<Rightarrow> response \<times> world" where
  "handleMetrics rs w = (rs\<lparr>rsBody := MetricsPage (wMetrics w)\<rparr>, w)"

definition handleJWKS :: "handlers \<Rightarrow> response \<Rightarrow> world \<Rightarrow> response \<times> world" where
  "handleJWKS h rs w =
     ((set_header ''Content-Type'' ''application/json'' rs)\<lparr>rsBody := JsonDoc (JWKS (hIssuer h))\<rparr>, w)"

definition invalid_token :: "string \<Rightarrow> goval" where
  "invalid_token desc = error_json ''invalid_token'' desc"

definition handleUserinfo :: "env \<Rightarrow> handlers \<Rightarrow> request \<Rightarrow> response \<Rightarrow> world \<Rightarrow> response \<times> world" where
  "handleUserinfo e h r rs w =
     (let auth = rqAuthorization r
      in if auth = [] \<or> \<not> has_prefix ''Bearer '' auth
         then (sendJSON 401 (invalid_token ''Missing or invalid Authorization header'') rs, w)
         else
           (let tokStr = trim_prefix ''Bearer '' auth;
                (now, w) = time_now e w
            in case Validate (xJwt e) now (hIssuer h) tokStr of
                 Inl err \<Rightarrow> (sendJSON 401 (invalid_token err) rs, w)
               | Inr claims \<Rightarrow>
                   (let sub = str_or_empty (as_str (map_of claims ''sub''))
                    in if sub = [] then (sendJSON 401 (invalid_token ''Missing sub claim'') rs, w)
                       else
                         (case (case GetByID (xCodec e) sub (wDb w) of Inl err \<Rightarrow> None | Inr u \<Rightarrow> u) of
                            None \<Rightarrow>
                              (let profile = [(''sub'', GStr sub)];
                                   profile = (case as_str (map_of claims ''email'') of
                                       Some email \<Rightarrow> AList.update ''email_verified'' (GBool True)
                                                      (AList.update ''email'' (GStr email) profile)
                                     | None \<Rightarrow> profile);
                                   profile = (case as_str (map_of claims ''name'') of
                                       Some name \<Rightarrow> AList.update ''name'' (GStr name) profile
                                     | None \<Rightarrow> profile)
                               in (sendJSON 200 (GObj profile) rs, w))
                          | Some u \<Rightarrow>
                              (sendJSON 200 (GObj
                                 [(''sub'', GStr (uID u)), (''email'', GStr (uEmail u)),
                                  (''email_verified'', GBool True), (''name'', GStr (uDisplayName u))]) rs, w)))))"

definition tokeninfo_param :: "env \<Rightarrow> request \<Rightarrow> string" where
  "tokeninfo_param e r =
     (if contains ''application/json'' (rqContentType r) then
        (case xJsonMap e (rqBody r) of
           Inl err \<Rightarrow> []
         | Inr params \<Rightarrow>
             (let tokenStr = str_or_empty (as_str (map_of params ''id_token''))
              in if tokenStr = [] then str_or_empty (as_str (map_of params ''access_token'')) else tokenStr))
      else
        (let tokenStr = FormValue (form_parsed r) ''id_token''
         in if tokenStr = [] then FormValue (form_parsed r) ''access_token'' else tokenStr))"

definition handleTokeninfo :: "env \<Rightarrow> handlers \<Rightarrow> request \<Rightarrow> response \<Rightarrow> world \<Rightarrow> response \<times> world" where
  "handleTokeninfo e h r rs w =
     (let tokenStr = tokeninfo_param e r
      in if tokenStr = []
         then (sendJSON 400 (error_json ''invalid_request'' ''id_token or access_token required'') rs, w)
         else
           (let (now, w) = time_now e w
            in case Validate (xJwt e) now (hIssuer h) tokenStr of
                 Inl err \<Rightarrow> (sendJSON 401 (invalid_token err) rs, w)
               | Inr claims \<Rightarrow>
                   (let sub = str_or_empty (as_str (map_of claims ''sub''))
                    in if sub = [] then (sendJSON 401 (invalid_token ''Missing sub claim'') rs, w)
                       else
                         (case (case GetByID (xCodec e) sub (wDb w) of Inl err \<Rightarrow> None | Inr u \<Rightarrow> u) of
                            None \<Rightarrow>
                              (sendJSON 200 (GObj (put_all claims [(''user_id'', GStr sub), (''sub'', GStr sub)])) rs, w)
                          | Some u \<Rightarrow>
                              (let profile = [(''user_id'', GStr (uID u)), (''sub'', GStr (uID u)),
                                     (''email'', GStr (uEmail u)), (''email_verified'', GBool True),
                                     (''name'', GStr (uDisplayName u))];
                                   profile = fold (\<lambda>(k, v) profile. case map_of profile k of
                                       None \<Rightarrow> AList.update k v profile | Some _ \<Rightarrow> profile) claims profile
                               in (sendJSON 200 (GObj profile) rs, w))))))"

definition handleOpenIDConfig :: "handlers \<Rightarrow> response \<Rightarrow> world \<Rightarrow> response \<times> world" where
  "handleOpenIDConfig h rs w =
     (let base = issuerURL h
      in (sendJSON 200 (GObj
            [(''issuer'', GStr (base @ ''/'')),
             (''jwks_uri'', GStr (base @ ''/.well-known/jwks.json'')),
             (''token_endpoint'', GStr (base @ ''/oauth/token'')),
             (''authorization_endpoint'', GStr (base @ ''/authorize'')),
             (''userinfo_endpoint'', GStr (base @ ''/userinfo'')),
             (''end_session_endpoint'', GStr (base @ ''/v2/logout'')),
             (''revocation_endpoint'', GStr (base @ ''/oauth/revoke'')),
             (''introspection_endpoint'', GStr (base @ ''/oauth/introspect''))]) rs, w))"

section \<open>Users\<close>

text \<open>\<^verbatim>\<open>CreateUser\<close> with the next call of bcrypt and the time of the row.\<close>

definition create_user :: "env \<Rightarrow> user \<Rightarrow> string \<Rightarrow> world \<Rightarrow> string option \<times> user \<times> world" where
  "create_user e u password w =
     (let (now, w) = time_now e w;
          n = wHashes w;
          w = w\<lparr>wHashes := Suc n\<rparr>;
          (err, u, d) = CreateUser (xCodec e) (xBcrypt e) n (unix now) u password (wDb w)
      in (err, u, w\<lparr>wDb := d\<rparr>))"

definition already_exists :: "string \<Rightarrow> bool" where
  "already_exists err \<longleftrightarrow> contains ''UNIQUE'' err \<or> contains ''duplicate'' err"

definition handleSignup :: "env \<Rightarrow> request \<Rightarrow> response \<Rightarrow> world \<Rightarrow> response \<times> world" where
  "handleSignup e r rs w =
     (case xJsonSignup e (rqBody r) of
        Inl err \<Rightarrow> (sendJSON 400 (code_description ''invalid_body'' ''Invalid JSON'') rs, w)
      | Inr req \<Rightarrow>
          if sgEmail req = [] then (sendJSON 400 (code_description ''invalid_signup'' ''Email required'') rs, w)
          else
            (let password = (if sgPassword req = [] then ''password123'' else sgPassword req);
                 meta = dict_of (sgUserMetadata req);
                 entID = (case map_of meta ''sign_up_enterprise_id'' of
                            None \<Rightarrow> 1
                          | Some v \<Rightarrow> (case toInt e v of None \<Rightarrow> 1 | Some n \<Rightarrow> n));
                 role = (case as_str (map_of meta ''sign_up_role'') of None \<Rightarrow> ''user'' | Some s \<Rightarrow> s);
                 (uuid, w) = new_uuid e w;
                 u = \<lparr>uID = ''auth0|'' @ uuid, uEmail = sgEmail req, uPasswordHash = [],
                      uDisplayName = name_of_email (sgEmail req), uAppMetadata = None, uUserMetadata = None,
                      uOrganizationID = 1, uEnterpriseID = entID, uRole = role\<rparr>;
                 (err, u, w) = create_user e u password w
             in case err of
                  Some err \<Rightarrow>
                    (if already_exists err
                     then (sendJSON 400 (code_description ''user_exists'' ''User already exists.'') rs, w)
                     else (sendJSON 500 (code_description ''signup_failed'' err) rs, w))
                | None \<Rightarrow>
                    (let w = count_metric Signups w;
                         w = audit_signup e (uID u) (sgEmail req) [] w
                     in (sendJSON 201 (GObj [(''email'', GStr (sgEmail req)), (''_id'', GStr (uID u))]) rs, w))))"

definition userToAuth0Response :: "user \<Rightarrow> goval" where
  "userToAuth0Response u =
     (let out = [(''user_id'', GStr (uID u)), (''email'', GStr (uEmail u)), (''email_verified'', GBool True),
                 (''name'', GStr (uDisplayName u)), (''nickname'', GStr (uDisplayName u))];
          out = (case uUserMetadata u of None \<Rightarrow> out | Some m \<Rightarrow> AList.update ''user_metadata'' (GObj m) out);
          out = (case uAppMetadata u of None \<Rightarrow> out | Some m \<Rightarrow> AList.update ''app_metadata'' (GObj m) out)
      in GObj out)"

definition last_segment :: "string \<Rightarrow> string" where
  "last_segment path = last (split_on (CHR ''/'') path)"

definition user_missing :: goval where
  "user_missing = message ''Not found'' ''The user does not exist.''"

definition handleGetUser :: "env \<Rightarrow> string \<Rightarrow> response \<Rightarrow> world \<Rightarrow> response \<times> world" where
  "handleGetUser e path rs w =
     (let i = last_segment path;
          rs = setRateLimitHeaders rs
      in case GetByID (xCodec e) i (wDb w) of
           Inl err \<Rightarrow> (sendJSON 404 user_missing rs, w)
         | Inr None \<Rightarrow> (sendJSON 404 user_missing rs, w)
         | Inr (Some u) \<Rightarrow> (sendJSON 200 (userToAuth0Response u) rs, w))"

definition handleListUsers :: "env \<Rightarrow> request \<Rightarrow> response \<Rightarrow> world \<Rightarrow> response \<times> world" where
  "handleListUsers e r rs w =
     (let rs = setRateLimitHeaders rs;
          page = atoi (query_get r ''page'');
          perPage = atoi (query_get r ''per_page'');
          q = query_get r ''q'';
          includeTotals = (query_get r ''include_totals'' = ''true'')
      in case ListUsers (xSql e) \<lparr>luPage = page, luPerPage = perPage, luQuery = q\<rparr> (wDb w) of
           Inl err \<Rightarrow> (sendJSON 500 server_error rs, w)
         | Inr (users, n) \<Rightarrow>
             (let out = json_list (map userToAuth0Response users)
              in if includeTotals
                 then (sendJSON 200 (GObj
                         [(''start'', GInt (int64 (page * perPage))), (''limit'', GInt perPage),
                          (''total'', GInt (int n)), (''users'', out)]) rs, w)
                 else (sendJSON 200 out rs, w)))"

definition handleCreateUserMgmt :: "env \<Rightarrow> request \<Rightarrow> response \<Rightarrow> world \<Rightarrow> response \<times> world" where
  "handleCreateUserMgmt e r rs w =
     (let rs = setRateLimitHeaders rs
      in case xJsonCreateUser e (rqBody r) of
           Inl err \<Rightarrow> (sendJSON 400 (message ''invalid_body'' ''Invalid JSON'') rs, w)
         | Inr req \<Rightarrow>
             if cuEmail req = [] then (sendJSON 400 (message ''invalid_body'' ''Email is required'') rs, w)
             else
               (let password = (if cuPassword req = [] then ''password123'' else cuPassword req);
                    (uuid, w) = new_uuid e w;
                    uid = (if cuUserID req \<noteq> [] \<and> (has_prefix ''auth0|'' (cuUserID req) \<or> contains ''|'' (cuUserID req))
                           then cuUserID req else ''auth0|'' @ uuid);
                    displayName = (if cuName req = [] then name_of_email (cuEmail req) else cuName req);
                    u = \<lparr>uID = uid, uEmail = cuEmail req, uPasswordHash = [], uDisplayName = displayName,
                         uAppMetadata = cuAppMetadata req, uUserMetadata = cuUserMetadata req,
                         uOrganizationID = 1, uEnterpriseID = 1, uRole = ''user''\<rparr>;
                    (err, u, w) = create_user e u password w
                in case err of
                     Some err \<Rightarrow>
                       (if already_exists err
                        then (sendJSON 409 (message ''Conflict'' ''The user already exists.'') rs, w)
                        else (sendJSON 500 server_error rs, w))
                   | None \<Rightarrow> (sendJSON 201 (userToAuth0Response u) rs, w)))"

definition handleDeleteUser :: "env \<Rightarrow> string \<Rightarrow> response \<Rightarrow> world \<Rightarrow> response \<times> world" where
  "handleDeleteUser e path rs w =
     (let i = last_segment path;
          rs = setRateLimitHeaders rs;
          (err, d) = DeleteUser i (wDb w);
          w = w\<lparr>wDb := d\<rparr>
      in case err of
           Some err \<Rightarrow>
             (sendJSON 500 server_error rs, audit_change e ''delete'' i False [(''error'', GStr err)] w)
         | None \<Rightarrow> (WriteHeader 204 rs, audit_change e ''delete'' i True [] w))"

definition handlePatchUser :: "env \<Rightarrow> request \<Rightarrow> response \<Rightarrow> world \<Rightarrow> response \<times> world" where
  "handlePatchUser e r rs w =
     (let path = trim_suffix ''/'' (rqPath r);
          i = last_segment path;
          rs = setRateLimitHeaders rs
      in case (case GetByID (xCodec e) i (wDb w) of Inl err \<Rightarrow> None | Inr u \<Rightarrow> u) of
           None \<Rightarrow>
             (sendJSON 404 user_missing rs, audit_change e ''patch'' i False [(''reason'', GStr ''not_found'')] w)
         | Some u \<Rightarrow>
             (case xJsonMap e (rqBody r) of
                Inl err \<Rightarrow>
                  (sendJSON 400 (message ''invalid_body'' ''Invalid JSON'') rs,
                   audit_change e ''patch'' i False [(''reason'', GStr ''invalid_json'')] w)
              | Inr updates \<Rightarrow>
                  (let (err, d) = UpdateUser (xCodec e) i updates (wDb w);
                       w = w\<lparr>wDb := d\<rparr>
                   in case err of
                        Some err \<Rightarrow>
                          (sendJSON 500 server_error rs, audit_change e ''patch'' i False [(''error'', GStr err)] w)
                      | None \<Rightarrow>
                          (let w = audit_change e ''patch'' i True [] w
                           in case (case GetByID (xCodec e) i (wDb w) of Inl err \<Rightarrow> None | Inr u \<Rightarrow> u) of
                                None \<Rightarrow> (panicked rs, w)
                              | Some updated \<Rightarrow> (sendJSON 200 (userToAuth0Response updated) rs, w)))))"

section \<open>Blocks\<close>

definition extractIDFromPath :: "string \<Rightarrow> string \<Rightarrow> string" where
  "extractIDFromPath path pre =
     (let path = trim_suffix ''/'' path
      in if \<not> has_prefix pre path then [] else trim_prefix pre path)"

definition bare_request_error :: goval where
  "bare_request_error = GObj [(''error'', GStr ''invalid_request'')]"

definition blocks_user :: "string \<Rightarrow> string" where
  "blocks_user path = trim_suffix ''/blocks'' (extractIDFromPath path ''/api/v2/users/'')"

definition handleGetUserBlocks :: "string \<Rightarrow> response \<Rightarrow> world \<Rightarrow> response \<times> world" where
  "handleGetUserBlocks path rs w =
     (let userID = blocks_user path
      in if userID = [] then (sendJSON 400 bare_request_error rs, w)
         else
           (let rs = setRateLimitHeaders rs
            in case IsUserBlocked userID (wDb w) of
                 Inl err \<Rightarrow> (sendJSON 500 server_error rs, w)
               | Inr blocked \<Rightarrow>
                   (sendJSON 200 (GArr (if blocked
                      then [GObj [(''blocked_for'', GArr []), (''identifier'', GStr userID)]] else [])) rs, w)))"

definition handleUserBlocksModify :: "request \<Rightarrow> string \<Rightarrow> response \<Rightarrow> world \<Rightarrow> response \<times> world" where
  "handleUserBlocksModify r path rs w =
     (let userID = blocks_user path
      in if userID = [] then (sendJSON 400 bare_request_error rs, w)
         else
           (let rs = setRateLimitHeaders rs;
                (err, d) = (if rqMethod r = ''POST'' then BlockUser userID (wDb w) else UnblockUser userID (wDb w));
                w = w\<lparr>wDb := d\<rparr>
            in case err of
                 Some err \<Rightarrow> (sendJSON 500 server_error rs, w)
               | None \<Rightarrow> (WriteHeader 204 rs, w)))"

section \<open>Roles\<close>

definition role_json :: "string \<Rightarrow> string \<Rightarrow> string \<Rightarrow> goval" where
  "role_json i name desc = GObj [(''id'', GStr i), (''name'', GStr name), (''description'', GStr desc)]"

definition role_missing :: goval where
  "role_missing = message ''Not found'' ''The role does not exist.''"

definition handleCreateRole :: "env \<Rightarrow> request \<Rightarrow> response \<Rightarrow> world \<Rightarrow> response \<times> world" where
  "handleCreateRole e r rs w =
     (let rs = setRateLimitHeaders rs
      in case xJsonRole e (rqBody r) of
           Inl err \<Rightarrow> (sendJSON 400 (message ''invalid_body'' ''Invalid JSON'') rs, w)
         | Inr req \<Rightarrow>
             if rqRoleName req = [] then (sendJSON 400 (message ''invalid_body'' ''Name is required'') rs, w)
             else
               (let (uuid, w) = new_uuid e w;
                    ro = \<lparr>roleID = ''rol_'' @ take 8 uuid, roleName = rqRoleName req,
                          roleDescription = rqRoleDescription req\<rparr>;
                    (err, d) = CreateRole ro (wDb w);
                    w = w\<lparr>wDb := d\<rparr>
                in case err of
                     Some err \<Rightarrow>
                       (if contains ''UNIQUE'' err
                        then (sendJSON 409 (message ''Conflict'' ''Role already exists'') rs, w)
                        else (sendJSON 500 server_error rs, w))
                   | None \<Rightarrow> (sendJSON 201 (role_json (roleID ro) (roleName ro) (roleDescription ro)) rs, w)))"

definition handleGetRole :: "string \<Rightarrow> response \<Rightarrow> world \<Rightarrow> response \<times> world" where
  "handleGetRole path rs w =
     (let i = extractIDFromPath path ''/api/v2/roles/''
      in if i = [] then (sendJSON 400 bare_request_error rs, w)
         else
           (let rs = setRateLimitHeaders rs
            in case GetRoleByID i (wDb w) of
                 Inl err \<Rightarrow> (sendJSON 404 role_missing rs, w)
               | Inr None \<Rightarrow> (sendJSON 404 role_missing rs, w)
               | Inr (Some ro) \<Rightarrow> (sendJSON 200 (role_json (roleID ro) (roleName ro) (roleDescription ro)) rs, w)))"

definition handlePatchRole :: "env \<Rightarrow> request \<Rightarrow> string \<Rightarrow> response \<Rightarrow> world \<Rightarrow> response \<times> world" where
  "handlePatchRole e r path rs w =
     (let i = extractIDFromPath path ''/api/v2/roles/''
      in if i = [] then (sendJSON 400 bare_request_error rs, w)
         else
           (let rs = setRateLimitHeaders rs
            in case xJsonRole e (rqBody r) of
                 Inl err \<Rightarrow> (sendJSON 400 (message ''invalid_body'' ''Invalid JSON'') rs, w)
               | Inr req \<Rightarrow>
                   (case (case GetRoleByID i (wDb w) of Inl err \<Rightarrow> None | Inr ro \<Rightarrow> ro) of
                      None \<Rightarrow> (sendJSON 404 role_missing rs, w)
                    | Some ro \<Rightarrow>
                        (let name = (if rqRoleName req \<noteq> [] then rqRoleName req else roleName ro);
                             desc = (if rqRoleDescription req \<noteq> [] then rqRoleDescription req else roleDescription ro);
                             (err, d) = UpdateRole i name desc (wDb w);
                             w = w\<lparr>wDb := d\<rparr>
                         in case err of
                              Some err \<Rightarrow> (sendJSON 500 server_error rs, w)
                            | None \<Rightarrow> (sendJSON 200 (role_json i name desc) rs, w)))))"

definition handleDeleteRole :: "string \<Rightarrow> response \<Rightarrow> world \<Rightarrow> response \<times> world" where
  "handleDeleteRole path rs w =
     (let i = extractIDFromPath path ''/api/v2/roles/''
      in if i = [] then (sendJSON 400 bare_request_error rs, w)
         else
           (let rs = setRateLimitHeaders rs;
                (err, d) = DeleteRole i (wDb w);
                w = w\<lparr>wDb := d\<rparr>
            in case err of
                 Some err \<Rightarrow> (sendJSON 500 server_error rs, w)
               | None \<Rightarrow> (WriteHeader 204 rs, w)))"

definition handleListRoles :: "response \<Rightarrow> world \<Rightarrow> response \<times> world" where
  "handleListRoles rs w =
     (let rs = setRateLimitHeaders rs
      in case ListRoles (wDb w) of
           Inl err \<Rightarrow> (sendJSON 500 server_error rs, w)
         | Inr roles \<Rightarrow>
             (sendJSON 200 (json_list (map (\<lambda>ro. role_json (roleID ro) (roleName ro) (roleDescription ro)) roles))
                rs, w))"

text \<open>\<^verbatim>\<open>parts[4]\<close> of a path with four parts is out of range: None is the panic.\<close>

definition extractUserIDFromPath :: "string \<Rightarrow> string \<Rightarrow> string option" where
  "extractUserIDFromPath path suf =
     (let path = trim_suffix suf path;
          parts = split_on (CHR ''/'') path
      in if 4 \<le> length parts then (if 4 < length parts then Some (parts ! 4) else None) else Some [])"

definition handleGetUserRoles :: "env \<Rightarrow> string \<Rightarrow> response \<Rightarrow> world \<Rightarrow> response \<times> world" where
  "handleGetUserRoles e path rs w =
     (case extractUserIDFromPath path ''/roles'' of
        None \<Rightarrow> (panicked rs, w)
      | Some userID \<Rightarrow>
          if userID = [] then (sendJSON 400 bare_request_error rs, w)
          else
            (let rs = setRateLimitHeaders rs
             in case GetUserRoles (xSql e) userID (wDb w) of
                  Inl err \<Rightarrow> (sendJSON 500 server_error rs, w)
                | Inr roles \<Rightarrow>
                    (sendJSON 200 (json_list (map (\<lambda>ro. role_json (roleID ro) (roleName ro) (roleDescription ro)) roles))
                       rs, w)))"

definition permission_json :: "permission \<Rightarrow> goval" where
  "permission_json p = GObj
     [(''permission_name'', GStr (permName p)),
      (''resource_server_identifier'', GStr (permResourceServerIdentifier p)),
      (''resource_server_name'', GStr (permResourceServerIdentifier p)),
      (''description'', GStr (permDescription p))]"

definition handleGetUserPermissions :: "env \<Rightarrow> string \<Rightarrow> response \<Rightarrow> world \<Rightarrow> response \<times> world" where
  "handleGetUserPermissions e path rs w =
     (case extractUserIDFromPath path ''/permissions'' of
        None \<Rightarrow> (panicked rs, w)
      | Some userID \<Rightarrow>
          if userID = [] then (sendJSON 400 bare_request_error rs, w)
          else
            (let rs = setRateLimitHeaders rs
             in case GetUserPermissions (xSql e) userID (wDb w) of
                  Inl err \<Rightarrow> (sendJSON 500 server_error rs, w)
                | Inr perms \<Rightarrow> (sendJSON 200 (json_list (map permission_json perms)) rs, w)))"

definition as_arr :: "goval option \<Rightarrow> goval list option" where
  "as_arr v = (case v of Some (GArr vs) \<Rightarrow> Some vs | _ \<Rightarrow> None)"

definition role_id_of :: "goval \<Rightarrow> string" where
  "role_id_of rv =
     (case rv of
        GStr v \<Rightarrow> v
      | GObj v \<Rightarrow> str_or_empty (as_str (map_of v ''id''))
      | _ \<Rightarrow> [])"

definition handleUserRolesModify :: "env \<Rightarrow> request \<Rightarrow> string \<Rightarrow> response \<Rightarrow> world \<Rightarrow> response \<times> world" where
  "handleUserRolesModify e r path rs w =
     (case extractUserIDFromPath path ''/roles'' of
        None \<Rightarrow> (panicked rs, w)
      | Some userID \<Rightarrow>
          if userID = [] then (sendJSON 400 bare_request_error rs, w)
          else
            (let rs = setRateLimitHeaders rs
             in case xJsonMap e (rqBody r) of
                  Inl err \<Rightarrow> (WriteHeader 204 rs, w)
                | Inr raw \<Rightarrow>
                    (let rolesVal = (case as_arr (map_of raw ''roles'') of None \<Rightarrow> [] | Some vs \<Rightarrow> vs);
                         d = fold (\<lambda>rv d.
                               let roleId = role_id_of rv
                               in if roleId \<noteq> [] then
                                    (if rqMethod r = ''DELETE'' then snd (RemoveRoleFromUser userID roleId d)
                                     else snd (AssignRoleToUser userID roleId d))
                                  else d) rolesVal (wDb w)
                     in (WriteHeader 204 rs, w\<lparr>wDb := d\<rparr>))))"

section \<open>Clients, connections, logs\<close>

definition clientToAuth0Response :: "client \<Rightarrow> goval" where
  "clientToAuth0Response c = GObj
     [(''client_id'', GStr (clID c)), (''name'', GStr (clName c)), (''app_type'', GStr (clAppType c)),
      (''callbacks'', json_strings (clCallbacks c)), (''allowed_origins'', json_strings (clAllowedOrigins c))]"

definition handleListClients :: "response \<Rightarrow> world \<Rightarrow> response \<times> world" where
  "handleListClients rs w =
     (let rs = setRateLimitHeaders rs
      in case ListClients (wDb w) of
           Inl err \<Rightarrow> (sendJSON 500 server_error rs, w)
         | Inr cs \<Rightarrow> (sendJSON 200 (json_list (map clientToAuth0Response cs)) rs, w))"

definition client_missing :: goval where
  "client_missing = message ''Not found'' ''The client does not exist.''"

definition handleGetClient :: "string \<Rightarrow> response \<Rightarrow> world \<Rightarrow> response \<times> world" where
  "handleGetClient path rs w =
     (let i = extractIDFromPath path ''/api/v2/clients/''
      in if i = [] then (sendJSON 400 bare_request_error rs, w)
         else
           (let rs = setRateLimitHeaders rs
            in case GetClientByID i (wDb w) of
                 Inl err \<Rightarrow> (sendJSON 404 client_missing rs, w)
               | Inr None \<Rightarrow> (sendJSON 404 client_missing rs, w)
               | Inr (Some c) \<Rightarrow> (sendJSON 200 (clientToAuth0Response c) rs, w)))"

text \<open>An array of JSON becomes the slice of its strings.\<close>

definition strings_of :: "string \<Rightarrow> dict \<Rightarrow> dict" where
  "strings_of k updates =
     (case as_arr (map_of updates k) of
        None \<Rightarrow> updates
      | Some v \<Rightarrow>
          AList.update k
            (GStrs (concat (map (\<lambda>x. case x of GStr s \<Rightarrow> [s] | _ \<Rightarrow> []) v))) updates)"

definition handlePatchClient :: "env \<Rightarrow> request \<Rightarrow> string \<Rightarrow> response \<Rightarrow> world \<Rightarrow> response \<times> world" where
  "handlePatchClient e r path rs w =
     (let i = extractIDFromPath path ''/api/v2/clients/''
      in if i = [] then (sendJSON 400 bare_request_error rs, w)
         else
           (let rs = setRateLimitHeaders rs
            in case (case GetClientByID i (wDb w) of Inl err \<Rightarrow> None | Inr c \<Rightarrow> c) of
                 None \<Rightarrow> (sendJSON 404 client_missing rs, w)
               | Some c \<Rightarrow>
                   (case xJsonMap e (rqBody r) of
                      Inl err \<Rightarrow> (sendJSON 400 (message ''invalid_body'' ''Invalid JSON'') rs, w)
                    | Inr updates \<Rightarrow>
                        (let updates = strings_of ''callbacks'' updates;
                             updates = strings_of ''allowed_origins'' updates;
                             (err, d) = UpdateClient i updates (wDb w);
                             w = w\<lparr>wDb := d\<rparr>
                         in case err of
                              Some err \<Rightarrow> (sendJSON 500 server_error rs, w)
                            | None \<Rightarrow>
                                (case (case GetClientByID i (wDb w) of Inl err \<Rightarrow> None | Inr c \<Rightarrow> c) of
                                   None \<Rightarrow> (panicked rs, w)
                                 | Some updated \<Rightarrow> (sendJSON 200 (clientToAuth0Response updated) rs, w))))))"

definition connection_json :: "connection \<Rightarrow> goval" where
  "connection_json c = GObj [(''id'', GStr (connID c)), (''name'', GStr (connName c)), (''strategy'', GStr (connStrategy c))]"

definition handleListConnections :: "response \<Rightarrow> world \<Rightarrow> response \<times> world" where
  "handleListConnections rs w =
     (let rs = setRateLimitHeaders rs
      in case ListConnections (wDb w) of
           Inl err \<Rightarrow> (sendJSON 500 server_error rs, w)
         | Inr cs \<Rightarrow> (sendJSON 200 (json_list (map connection_json cs)) rs, w))"

definition connection_missing :: goval where
  "connection_missing = message ''Not found'' ''The connection does not exist.''"

definition handleGetConnection :: "string \<Rightarrow> response \<Rightarrow> world \<Rightarrow> response \<times> world" where
  "handleGetConnection path rs w =
     (let i = extractIDFromPath path ''/api/v2/connections/''
      in if i = [] then (sendJSON 400 bare_request_error rs, w)
         else
           (let rs = setRateLimitHeaders rs
            in case GetConnectionByID i (wDb w) of
                 Inl err \<Rightarrow> (sendJSON 404 connection_missing rs, w)
               | Inr None \<Rightarrow> (sendJSON 404 connection_missing rs, w)
               | Inr (Some c) \<Rightarrow> (sendJSON 200 (connection_json c) rs, w)))"

definition log_json :: "audit_log \<Rightarrow> goval" where
  "log_json l = GObj
     [(''log_id'', GInt (logID l)), (''type'', GStr (logEventType l)), (''user_id'', GStr (logUserID l)),
      (''client_id'', GStr (logClientID l)), (''date'', GStr (logPayload l))]"

definition handleListLogs :: "request \<Rightarrow> response \<Rightarrow> world \<Rightarrow> response \<times> world" where
  "handleListLogs r rs w =
     (let rs = setRateLimitHeaders rs;
          limit = atoi (query_get r ''per_page'');
          limit = (if limit \<le> 0 then 50 else limit);
          limit = (if 100 < limit then 100 else limit)
      in case ListLogs limit (wDb w) of
           Inl err \<Rightarrow> (sendJSON 500 server_error rs, w)
         | Inr logs \<Rightarrow> (sendJSON 200 (json_list (map log_json logs)) rs, w))"

end
