(* ===== verification/Server.thy ===== *)
theory Server
  imports Management
begin

text \<open>
  The routing of \<^verbatim>\<open>ServeHTTP\<close> and the assembly of the server in \<^verbatim>\<open>main.go\<close>. A request is one
  step on the state; a run of the server is a sequence of them.
\<close>

definition has_method :: "request \<Rightarrow> string list \<Rightarrow> bool" where
  "has_method r ms \<longleftrightarrow> rqMethod r \<in> set ms"

definition user_path :: "string \<Rightarrow> bool" where
  "user_path path \<longleftrightarrow> has_prefix ''/api/v2/users/'' path"

definition plain_user_path :: "string \<Rightarrow> bool" where
  "plain_user_path path \<longleftrightarrow> user_path path \<and> \<not> contains ''/roles'' path \<and> \<not> contains ''/permissions'' path
     \<and> \<not> contains ''/blocks'' path"

definition ServeHTTP :: "env \<Rightarrow> handlers \<Rightarrow> request \<Rightarrow> world \<Rightarrow> response \<times> world" where
  "ServeHTTP e h r w =
     (let rs = corsHeaders new_response
      in if rqMethod r = ''OPTIONS'' then (WriteHeader 204 rs, w)
         else
           let path = trim_suffix ''/'' (rqPath r);
               is_get = (rqMethod r = ''GET'');
               is_post = (rqMethod r = ''POST'');
               is_delete = (rqMethod r = ''DELETE'');
               is_patch = (rqMethod r = ''PATCH'')
           in if is_get \<and> path = ''/health'' then handleHealth rs w
              else if is_get \<and> path = ''/metrics'' then handleMetrics rs w
              else if is_get \<and> path = ''/authorize'' then handleAuthorize e h r rs w
              else if (is_get \<or> is_post) \<and> path = ''/login'' then handleLogin e h r rs w
              else if is_post \<and> path = ''/oauth/token'' then handleToken e h r rs w
              else if is_post \<and> path = ''/oauth/revoke'' then handleRevoke e r rs w
              else if is_post \<and> path = ''/oauth/introspect'' then handleIntrospect e h r rs w
              else if is_post \<and> path = ''/oauth/device/code'' then handleDeviceCodeRequest e h r rs w
              else if (is_get \<or> is_post) \<and> path = ''/oauth/device/authorize'' then handleDeviceAuthorize e r rs w
              else if is_get \<and> path = ''/userinfo'' then handleUserinfo e h r rs w
              else if is_post \<and> path = ''/tokeninfo'' then handleTokeninfo e h r rs w
              else if is_post \<and> path = ''/dbconnections/signup'' then handleSignup e r rs w
              else if is_get \<and> path = ''/api/v2/users'' then handleListUsers e r rs w
              else if is_post \<and> path = ''/api/v2/users'' then handleCreateUserMgmt e r rs w
              else if is_get \<and> user_path path \<and> has_suffix ''/blocks'' path then handleGetUserBlocks path rs w
              else if (is_post \<or> is_delete) \<and> user_path path \<and> has_suffix ''/blocks'' path
              then handleUserBlocksModify r path rs w
              else if is_get \<and> plain_user_path path then handleGetUser e path rs w
              else if is_delete \<and> plain_user_path path then handleDeleteUser e path rs w
              else if is_patch \<and> user_path path \<and> \<not> contains ''/roles'' path then handlePatchUser e r rs w
              else if (is_delete \<or> is_post) \<and> contains ''/api/v2/users/'' path \<and> has_suffix ''/roles'' path
              then handleUserRolesModify e r path rs w
              else if is_get \<and> path = ''/.well-known/jwks.json'' then handleJWKS h rs w
              else if is_get \<and> path = ''/.well-known/openid-configuration'' then handleOpenIDConfig h rs w
              else if is_get \<and> path = ''/v2/logout'' then handleLogout e r rs w
              else if (is_get \<or> is_post) \<and> (path = ''/u/login'' \<or> path = ''/usernamepassword/login'')
              then handleUniversalLogin e h r rs w
              else if is_get \<and> path = ''/login/callback'' then handleLoginCallback h r rs w
              else if is_get \<and> user_path path \<and> has_suffix ''/roles'' path then handleGetUserRoles e path rs w
              else if is_get \<and> user_path path \<and> has_suffix ''/permissions'' path
              then handleGetUserPermissions e path rs w
              else if is_get \<and> path = ''/api/v2/roles'' then handleListRoles rs w
              else if is_post \<and> path = ''/api/v2/roles'' then handleCreateRole e r rs w
              else if is_get \<and> has_prefix ''/api/v2/roles/'' path then handleGetRole path rs w
              else if is_patch \<and> has_prefix ''/api/v2/roles/'' path then handlePatchRole e r path rs w
              else if is_delete \<and> has_prefix ''/api/v2/roles/'' path then handleDeleteRole path rs w
              else if is_get \<and> path = ''/api/v2/clients'' then handleListClients rs w
              else if is_get \<and> has_prefix ''/api/v2/clients/'' path then handleGetClient path rs w
              else if is_patch \<and> has_prefix ''/api/v2/clients/'' path then handlePatchClient e r path rs w
              else if is_get \<and> path = ''/api/v2/connections'' then handleListConnections rs w
              else if is_get \<and> has_prefix ''/api/v2/connections/'' path then handleGetConnection path rs w
              else if is_get \<and> path = ''/api/v2/logs'' then handleListLogs r rs w
              else (rs\<lparr>rsStatus := 404, rsBody := NotFoundPage\<rparr>, w))"

definition serve_all :: "env \<Rightarrow> handlers \<Rightarrow> request list \<Rightarrow> world \<Rightarrow> world" where
  "serve_all e h rqs w = fold (\<lambda>r w. snd (ServeHTTP e h r w)) rqs w"

section \<open>Startup\<close>

text \<open>
  \<^verbatim>\<open>main\<close>: the environment of the process, the result of opening the database, of reading the
  seed file, of generating the key and a UUID are arguments; a fatal error is Inl. Failures of
  seeding, of the extra claims and of the client registry are only logged.
\<close>

definition parseIntEnv :: "(string \<Rightarrow> string) \<Rightarrow> string \<Rightarrow> int \<Rightarrow> int" where
  "parseIntEnv getenv key defaultVal =
     (let v = getenv key
      in if v \<noteq> [] then (case Atoi v of (n, ok) \<Rightarrow> if ok \<and> 0 < n then n else defaultVal) else defaultVal)"

record startup =
  stOpen :: "string \<Rightarrow> string + db"
  stSeedFile :: "string \<Rightarrow> string + string"
  stSeedUsers :: "string \<Rightarrow> string + seed_user list"
  stTime :: int
  stKey :: "string + rsa_key"
  stUuid :: "string option"
  stClaims :: "string \<Rightarrow> string + dict option"
  stRegistry :: "string \<Rightarrow> string + client_config option gomap"

definition main :: "startup \<Rightarrow> bcrypt \<Rightarrow> (string \<Rightarrow> string) \<Rightarrow> string + handlers \<times> world" where
  "main st bc getenv =
     (let port = (if getenv ''PORT'' = [] then ''9092'' else getenv ''PORT'');
          dbPath = (if getenv ''DB_PATH'' = [] then ''./data/auth0.db'' else getenv ''DB_PATH'');
          issuerurl = (if getenv ''ISSUER_URL'' = [] then ''http://localhost:'' @ port else getenv ''ISSUER_URL'');
          rulesDir = getenv ''RULES_DIR''
      in case NewSQLite (stOpen st dbPath) of
           Inl err \<Rightarrow> Inl (''store: '' @ err)
         | Inr d \<Rightarrow>
             (let seedPath = getenv ''SEED_USERS_PATH'';
                  d = (if seedPath \<noteq> []
                       then snd (SeedFromConfigFile bc (stSeedUsers st) (stTime st) (stSeedFile st seedPath) d)
                       else d)
              in case NewIssuer (stKey st) (stUuid st) (issuerurl @ ''/'') of
                   Inl err \<Rightarrow> Inl (''token: '' @ err)
                 | Inr issuer \<Rightarrow>
                     (let grantStore = NewStore (5 * minute) (30 * 24 * hour) [];
                          sessionStore = NewSessionStore (7 * 24 * hour);
                          v = getenv ''ACCESS_TOKEN_EXTRA_CLAIMS'';
                          extra = (if v \<noteq> [] then (case stClaims st v of Inl err \<Rightarrow> None | Inr m \<Rightarrow> m) else None);
                          reg = snd (LoadFromEnv (stRegistry st) (getenv ''CLIENT_REGISTRY'') NewRegistry)
                      in Inr (\<lparr>hIssuer = issuer, hIssuerURL = issuerurl, hRulesRunner = NewRunner rulesDir,
                               hClientRegistry = Some reg,
                               hAccessTokenLifetime = parseIntEnv getenv ''ACCESS_TOKEN_LIFETIME'' 86400,
                               hIDTokenLifetime = parseIntEnv getenv ''ID_TOKEN_LIFETIME'' 86400,
                               hExtraAccessTokenClaims = extra\<rparr>,
                              \<lparr>wGrants = Some grantStore, wSessions = Some sessionStore, wDb = d, wReplay = [],
                               wMetrics = [], wAudit = [], wTicks = 0, wUuids = 0, wRands = 0, wSids = 0,
                               wHashes = 0\<rparr>))))"

text \<open>The socket \<^verbatim>\<open>main\<close> ends with, on which it never stops listening.\<close>

datatype listener =
    ListenAndServe string
  | ListenAndServeTLS string string string

definition listen_on :: "(string \<Rightarrow> string) \<Rightarrow> listener" where
  "listen_on getenv =
     (let port = (if getenv ''PORT'' = [] then ''9092'' else getenv ''PORT'');
          tlsCert = getenv ''TLS_CERT'';
          tlsKey = getenv ''TLS_KEY'';
          addr = '':'' @ port
      in if tlsCert \<noteq> [] \<and> tlsKey \<noteq> [] then ListenAndServeTLS addr tlsCert tlsKey
         else ListenAndServe addr)"

end
