(* ===== verification/One_Time.thy ===== *)
theory One_Time
  imports Go_Base
begin

text \<open>
  The interface of a one-time grant: a key can be redeemed while its grant is live, and a
  redemption removes it. The three tables of the grant store (authorization codes, refresh
  tokens, device codes) provide it; the token endpoint relies on it.
\<close>

locale one_time =
  fixes look :: "'s \<Rightarrow> string \<Rightarrow> 'g option"
    and redeem :: "time \<Rightarrow> string \<Rightarrow> 's \<Rightarrow> 'g option \<times> 's"
    and live :: "time \<Rightarrow> 'g \<Rightarrow> bool"
    and exec :: "'op \<Rightarrow> 's \<Rightarrow> 's"
    and stores :: "'op \<Rightarrow> string \<Rightarrow> bool"
    and inv :: "'s \<Rightarrow> bool"
  assumes redeem_result:
      "fst (redeem t k s) =
        (case look s k of None \<Rightarrow> None | Some g \<Rightarrow> if live t g then Some g else None)"
    and redeem_removes: "fst (redeem t k s) = Some g \<Longrightarrow> look (snd (redeem t k s)) k = None"
    and redeem_inv: "inv s \<Longrightarrow> inv (snd (redeem t k s))"
    and exec_inv: "inv s \<Longrightarrow> inv (exec op s)"
    and exec_absent: "inv s \<Longrightarrow> look s k = None \<Longrightarrow> \<not> stores op k \<Longrightarrow> look (exec op s) k = None"
begin

lemma redeem_live: "fst (redeem t k s) = Some g \<Longrightarrow> look s k = Some g \<and> live t g"
  by (simp add: redeem_result split: option.splits if_splits)

lemma redeem_absent: "look s k = None \<Longrightarrow> fst (redeem t k s) = None"
  by (simp add: redeem_result)

lemma run_inv: "inv s \<Longrightarrow> inv (fold exec ops s)"
  by (induction ops arbitrary: s) (auto intro: exec_inv)

lemma run_absent:
  "inv s \<Longrightarrow> look s k = None \<Longrightarrow> \<forall>op\<in>set ops. \<not> stores op k \<Longrightarrow> look (fold exec ops s) k = None"
  by (induction ops arbitrary: s) (simp_all add: exec_inv exec_absent)

text \<open>After a redemption, no run without a new save of the key redeems it again.\<close>

lemma single_use:
  assumes "inv s" and "fst (redeem t k s) = Some g" and "\<forall>op\<in>set ops. \<not> stores op k"
  shows "fst (redeem t' k (fold exec ops (snd (redeem t k s)))) = None"
  using assms by (intro redeem_absent run_absent redeem_inv redeem_removes)

end

text \<open>
  A one-time grant with a lifetime: until its expiry only an operation that names the key
  takes it away, and a sweep does so only after the expiry it reads on the clock.
\<close>

locale one_time_ttl = one_time look redeem live exec stores inv
  for look :: "'s \<Rightarrow> string \<Rightarrow> 'g option"
    and redeem :: "time \<Rightarrow> string \<Rightarrow> 's \<Rightarrow> 'g option \<times> 's"
    and live :: "time \<Rightarrow> 'g \<Rightarrow> bool"
    and exec :: "'op \<Rightarrow> 's \<Rightarrow> 's"
    and stores :: "'op \<Rightarrow> string \<Rightarrow> bool"
    and inv :: "'s \<Rightarrow> bool" +
  fixes removes :: "'op \<Rightarrow> string \<Rightarrow> bool"
    and readings :: "'op \<Rightarrow> time list"
    and expiry :: "'g \<Rightarrow> time"
  assumes live_iff: "live t g \<longleftrightarrow> t \<le> expiry g"
    and exec_keeps:
      "inv s \<Longrightarrow> look s k = Some g \<Longrightarrow> \<not> stores op k \<Longrightarrow> \<not> removes op k \<Longrightarrow>
       look (exec op s) k = Some g
       \<or> look (exec op s) k = None \<and> (\<exists>r\<in>set (readings op). expiry g < r)"
begin

definition idle :: "time \<Rightarrow> string \<Rightarrow> 'op list \<Rightarrow> bool" where
  "idle t k ops \<longleftrightarrow>
     (\<forall>op\<in>set ops. \<not> stores op k \<and> \<not> removes op k \<and> (\<forall>r\<in>set (readings op). r \<le> t))"

lemma run_keeps:
  assumes "inv s" and "look s k = Some g" and "idle t k ops"
  shows "look (fold exec ops s) k = Some g \<or> look (fold exec ops s) k = None \<and> expiry g < t"
  using assms
proof (induction ops arbitrary: s)
  case Nil
  then show ?case by simp
next
  case (Cons op ops)
  then have op: "\<not> stores op k" "\<not> removes op k" "\<forall>r\<in>set (readings op). r \<le> t"
    and ops: "idle t k ops" and inv: "inv (exec op s)"
    by (auto simp: idle_def exec_inv)
  from exec_keeps [OF Cons.prems(1,2) op(1,2)] show ?case
  proof
    assume "look (exec op s) k = Some g"
    with Cons.IH [OF inv _ ops] show ?thesis by simp
  next
    assume gone: "look (exec op s) k = None \<and> (\<exists>r\<in>set (readings op). expiry g < r)"
    then have "expiry g < t" using op(3) by force
    moreover have "look (fold exec ops (exec op s)) k = None"
      using gone ops inv by (intro run_absent) (auto simp: idle_def)
    ultimately show ?thesis by simp
  qed
qed

lemma lifetime:
  assumes "inv s" and "look s k = Some g" and "idle t k ops"
  shows "fst (redeem t k (fold exec ops s)) = (if t \<le> expiry g then Some g else None)"
  using run_keeps [OF assms] by (auto simp: redeem_result live_iff)

end

end
