(* ===== verification/Grants_Facts.thy ===== *)
theory Grants_Facts
  imports Grants One_Time
begin

text \<open>
  Lemmas on the grant store: what each method does to each table, the well-formedness
  invariant, the agreement of device codes and user codes, and the interpretations of the
  one-time interface by the three tables.
\<close>

named_theorems grant_defs \<open>definitions of the methods of the grant store\<close>

lemmas [grant_defs] =
  cleanExpiredCodesLocked_def SaveCode_def ConsumeCode_def cleanExpiredRefreshLocked_def
  SaveRefreshToken_def ConsumeRefreshToken_def RevokeRefreshToken_def SaveDeviceCode_def
  GetDeviceCode_def AuthorizeDeviceCode_def DenyDeviceCode_def ConsumeDeviceCode_def

section \<open>Cleaning the device table\<close>

lemma clean_devices_frame [simp]:
  "codes (cleanExpiredDevicesLocked up now s) = codes s"
  "refresh (cleanExpiredDevicesLocked up now s) = refresh s"
  "codeTTL (cleanExpiredDevicesLocked up now s) = codeTTL s"
  "refreshTTL (cleanExpiredDevicesLocked up now s) = refreshTTL s"
  "deviceTTL (cleanExpiredDevicesLocked up now s) = deviceTTL s"
  unfolding cleanExpiredDevicesLocked_def
  by (rule fold_preserves; simp split: prod.split)+

lemma clean_devices_eq:
  "devices (cleanExpiredDevicesLocked up now s) = sweep (dead_device now) (devices s)"
proof -
  have "devices (fold (\<lambda>(k, v) s. if dead_device now v
      then s\<lparr>devices := AList.delete k (devices s),
             userCodes := AList.delete (normalize_code up (dcUserCode v)) (userCodes s)\<rparr>
      else s) es s) =
    fold (\<lambda>(k, v) acc. if dead_device now v then AList.delete k acc else acc) es (devices s)"
    for es and s :: grant_store
    by (induction es arbitrary: s) (auto split: prod.splits)
  then show ?thesis by (simp add: cleanExpiredDevicesLocked_def sweep_def)
qed

lemma clean_userCodes_eq:
  "userCodes (cleanExpiredDevicesLocked up now s) =
   fold (\<lambda>(k, v) acc. if dead_device now v then AList.delete (normalize_code up (dcUserCode v)) acc else acc)
     (devices s) (userCodes s)"
proof -
  have "userCodes (fold (\<lambda>(k, v) s. if dead_device now v
      then s\<lparr>devices := AList.delete k (devices s),
             userCodes := AList.delete (normalize_code up (dcUserCode v)) (userCodes s)\<rparr>
      else s) es s) =
    fold (\<lambda>(k, v) acc. if dead_device now v then AList.delete (normalize_code up (dcUserCode v)) acc else acc)
      es (userCodes s)"
    for es and s :: grant_store
    by (induction es arbitrary: s) (auto split: prod.splits)
  then show ?thesis by (simp add: cleanExpiredDevicesLocked_def)
qed

lemma map_of_clean_userCodes:
  "map_of (userCodes (cleanExpiredDevicesLocked up now s)) u =
   (if \<exists>(d, dc) \<in> set (devices s). dead_device now dc \<and> normalize_code up (dcUserCode dc) = u
    then None else map_of (userCodes s) u)"
proof -
  have "map_of (fold (\<lambda>(k, v) acc. if dead_device now v
        then AList.delete (normalize_code up (dcUserCode v)) acc else acc) es m) u =
    (if \<exists>(d, dc) \<in> set es. dead_device now dc \<and> normalize_code up (dcUserCode dc) = u
     then None else map_of m u)" for es :: "device_code gomap" and m :: "string gomap"
    by (induction es arbitrary: m) (auto split: prod.splits)
  then show ?thesis by (simp add: clean_userCodes_eq)
qed

section \<open>Well-formedness\<close>

definition wf_grants :: "grant_store \<Rightarrow> bool" where
  "wf_grants s \<longleftrightarrow>
     wf_map (codes s) \<and> wf_map (refresh s) \<and> wf_map (devices s) \<and> wf_map (userCodes s)
     \<and> 0 < codeTTL s \<and> 0 < refreshTTL s \<and> 0 < deviceTTL s"

lemma wf_clean_userCodes [simp]:
  assumes "wf_map (userCodes s)"
  shows "wf_map (userCodes (cleanExpiredDevicesLocked up now s))"
proof -
  have "wf_map (fold (\<lambda>(k, v) acc. if dead_device now v
        then AList.delete (normalize_code up (dcUserCode v)) acc else acc) es m)"
    if "wf_map m" for es :: "device_code gomap" and m :: "string gomap"
    using that by (induction es arbitrary: m) (auto split: prod.splits)
  with assms show ?thesis by (simp add: clean_userCodes_eq)
qed

lemma wf_NewStore: "wf_grants (NewStore c r ds)"
  by (auto simp: wf_grants_def NewStore_def Let_def split: list.splits)

lemma wf_clean_devices [simp]: "wf_grants s \<Longrightarrow> wf_grants (cleanExpiredDevicesLocked up now s)"
  by (simp add: wf_grants_def clean_devices_eq)

lemma wf_SaveCode [simp]: "wf_grants s \<Longrightarrow> wf_grants (SaveCode t0 t1 c ac s)"
  by (simp add: wf_grants_def grant_defs Let_def)

lemma wf_ConsumeCode [simp]: "wf_grants s \<Longrightarrow> wf_grants (snd (ConsumeCode t c s))"
  by (simp add: wf_grants_def grant_defs split: option.split)

lemma wf_SaveRefreshToken [simp]: "wf_grants s \<Longrightarrow> wf_grants (SaveRefreshToken t0 t1 k rg s)"
  by (simp add: wf_grants_def grant_defs Let_def)

lemma wf_ConsumeRefreshToken [simp]: "wf_grants s \<Longrightarrow> wf_grants (snd (ConsumeRefreshToken t k s))"
  by (simp add: wf_grants_def grant_defs split: option.split)

lemma wf_RevokeRefreshToken [simp]: "wf_grants s \<Longrightarrow> wf_grants (snd (RevokeRefreshToken k s))"
  by (simp add: wf_grants_def grant_defs split: option.split)

lemma wf_SaveDeviceCode [simp]: "wf_grants s \<Longrightarrow> wf_grants (SaveDeviceCode up t0 t1 d u dc s)"
  by (simp add: wf_grants_def SaveDeviceCode_def Let_def clean_devices_eq)

lemma GetDeviceCode_state:
  "snd (GetDeviceCode up t0 t1 d s) = cleanExpiredDevicesLocked up t0 s"
  by (simp add: GetDeviceCode_def Let_def split: option.split)

lemma wf_AuthorizeDeviceCode [simp]: "wf_grants s \<Longrightarrow> wf_grants (snd (AuthorizeDeviceCode up t u i s))"
  by (simp add: wf_grants_def grant_defs split: option.split)

lemma wf_DenyDeviceCode [simp]: "wf_grants s \<Longrightarrow> wf_grants (snd (DenyDeviceCode up u s))"
  by (simp add: wf_grants_def grant_defs split: option.split)

lemma wf_ConsumeDeviceCode [simp]: "wf_grants s \<Longrightarrow> wf_grants (snd (ConsumeDeviceCode up t d s))"
  by (simp add: wf_grants_def grant_defs split: option.split)

lemma wf_grant_step: "wf_grants s \<Longrightarrow> wf_grants (grant_step up op s)"
  by (cases op) (simp_all add: GetDeviceCode_state)

lemma wf_grant_run: "wf_grants s \<Longrightarrow> wf_grants (grant_run up ops s)"
  unfolding grant_run_def by (induction ops arbitrary: s) (auto intro: wf_grant_step)

section \<open>The tables as one-time grants\<close>

fun stores_code :: "grant_op \<Rightarrow> string \<Rightarrow> bool" where
  "stores_code (OpSaveCode t0 t1 c ac) k = (c = k)"
| "stores_code _ k = False"

fun takes_code :: "grant_op \<Rightarrow> string \<Rightarrow> bool" where
  "takes_code (OpConsumeCode t c) k = (c = k)"
| "takes_code _ k = False"

fun stores_refresh :: "grant_op \<Rightarrow> string \<Rightarrow> bool" where
  "stores_refresh (OpSaveRefresh t0 t1 c rg) k = (c = k)"
| "stores_refresh _ k = False"

fun takes_refresh :: "grant_op \<Rightarrow> string \<Rightarrow> bool" where
  "takes_refresh (OpConsumeRefresh t c) k = (c = k)"
| "takes_refresh (OpRevokeRefresh c) k = (c = k)"
| "takes_refresh _ k = False"

fun stores_device :: "grant_op \<Rightarrow> string \<Rightarrow> bool" where
  "stores_device (OpSaveDevice t0 t1 d u dc) k = (d = k)"
| "stores_device _ k = False"

fun clock_readings :: "grant_op \<Rightarrow> time list" where
  "clock_readings (OpSaveCode t0 t1 c ac) = [t0, t1]"
| "clock_readings (OpConsumeCode t c) = [t]"
| "clock_readings (OpSaveRefresh t0 t1 k rg) = [t0, t1]"
| "clock_readings (OpConsumeRefresh t k) = [t]"
| "clock_readings (OpRevokeRefresh k) = []"
| "clock_readings (OpSaveDevice t0 t1 d u dc) = [t0, t1]"
| "clock_readings (OpGetDevice t0 t1 d) = [t0, t1]"
| "clock_readings (OpAuthorizeDevice t u i) = [t]"
| "clock_readings (OpDenyDevice u) = []"
| "clock_readings (OpConsumeDevice t d) = [t]"

definition redeemable :: "time \<Rightarrow> device_code \<Rightarrow> bool" where
  "redeemable t dc \<longleftrightarrow> dcUserAuthorized dc \<and> \<not> dcExpired dc \<and> t \<le> dcExpiresAt dc"

lemma wf_grantsD:
  assumes "wf_grants s"
  shows "wf_map (codes s)" "wf_map (refresh s)" "wf_map (devices s)" "wf_map (userCodes s)"
  using assms by (simp_all add: wf_grants_def)

lemma map_of_sweep_None: "wf_map m \<Longrightarrow> map_of m k = None \<Longrightarrow> map_of (sweep P m) k = None"
  by (simp add: map_of_sweep)

lemmas table_cases = option.split if_splits time_after_def

interpretation code_grant: one_time_ttl
  "\<lambda>s. map_of (codes s)" ConsumeCode "\<lambda>t ac. t \<le> acExpiresAt ac" "grant_step up" stores_code
  wf_grants takes_code clock_readings acExpiresAt
  for up :: "string \<Rightarrow> string"
proof unfold_locales
  fix t k s
  show "fst (ConsumeCode t k s) = (case map_of (codes s) k of None \<Rightarrow> None
      | Some g \<Rightarrow> if t \<le> acExpiresAt g then Some g else None)"
    by (auto simp: ConsumeCode_def time_after_def split: option.split)
next
  fix t k s g
  show "fst (ConsumeCode t k s) = Some g \<Longrightarrow> map_of (codes (snd (ConsumeCode t k s))) k = None"
    by (auto simp: ConsumeCode_def split: option.splits if_splits)
next
  fix s k op
  assume "wf_grants s" "map_of (codes s) k = None" "\<not> stores_code op k"
  then show "map_of (codes (grant_step up op s)) k = None"
    by (cases op) (auto simp: grant_defs Let_def map_of_sweep wf_grantsD split: option.splits)
next
  fix s k g op
  assume "wf_grants s" "map_of (codes s) k = Some g" "\<not> stores_code op k" "\<not> takes_code op k"
  then show "map_of (codes (grant_step up op s)) k = Some g
      \<or> map_of (codes (grant_step up op s)) k = None
        \<and> (\<exists>r\<in>set (clock_readings op). acExpiresAt g < r)"
    by (cases op)
      (auto simp: grant_defs Let_def map_of_sweep wf_grantsD time_after_def split: option.splits)
qed (auto intro: wf_grant_step)

interpretation refresh_token: one_time_ttl
  "\<lambda>s. map_of (refresh s)" ConsumeRefreshToken "\<lambda>t rg. t \<le> rgExpiresAt rg" "grant_step up"
  stores_refresh wf_grants takes_refresh clock_readings rgExpiresAt
  for up :: "string \<Rightarrow> string"
proof unfold_locales
  fix t k s
  show "fst (ConsumeRefreshToken t k s) = (case map_of (refresh s) k of None \<Rightarrow> None
      | Some g \<Rightarrow> if t \<le> rgExpiresAt g then Some g else None)"
    by (auto simp: ConsumeRefreshToken_def time_after_def split: option.split)
next
  fix t k s g
  show "fst (ConsumeRefreshToken t k s) = Some g \<Longrightarrow>
      map_of (refresh (snd (ConsumeRefreshToken t k s))) k = None"
    by (auto simp: ConsumeRefreshToken_def split: option.splits if_splits)
next
  fix s k op
  assume "wf_grants s" "map_of (refresh s) k = None" "\<not> stores_refresh op k"
  then show "map_of (refresh (grant_step up op s)) k = None"
    by (cases op) (auto simp: grant_defs Let_def map_of_sweep wf_grantsD split: option.splits)
next
  fix s k g op
  assume "wf_grants s" "map_of (refresh s) k = Some g" "\<not> stores_refresh op k" "\<not> takes_refresh op k"
  then show "map_of (refresh (grant_step up op s)) k = Some g
      \<or> map_of (refresh (grant_step up op s)) k = None
        \<and> (\<exists>r\<in>set (clock_readings op). rgExpiresAt g < r)"
    by (cases op)
      (auto simp: grant_defs Let_def map_of_sweep wf_grantsD time_after_def split: option.splits)
qed (auto intro: wf_grant_step)

interpretation device_grant: one_time
  "\<lambda>s. map_of (devices s)" "ConsumeDeviceCode up" redeemable "grant_step up" stores_device wf_grants
  for up :: "string \<Rightarrow> string"
proof unfold_locales
  fix t k s
  show "fst (ConsumeDeviceCode up t k s) = (case map_of (devices s) k of None \<Rightarrow> None
      | Some g \<Rightarrow> if redeemable t g then Some g else None)"
    by (auto simp: ConsumeDeviceCode_def time_after_def redeemable_def split: option.split)
next
  fix t k s g
  show "fst (ConsumeDeviceCode up t k s) = Some g \<Longrightarrow>
      map_of (devices (snd (ConsumeDeviceCode up t k s))) k = None"
    by (auto simp: ConsumeDeviceCode_def split: option.splits if_splits)
next
  fix s k op
  assume "wf_grants s" "map_of (devices s) k = None" "\<not> stores_device op k"
  then show "map_of (devices (grant_step up op s)) k = None"
    by (cases op)
      (auto simp: grant_defs Let_def map_of_sweep clean_devices_eq wf_grantsD split: option.splits)
qed (auto intro: wf_grant_step)

end
