(* ===== verification/Unique_Rows.thy ===== *)
theory Unique_Rows
  imports Sqlite
begin

text \<open>
  The contract of a table with a uniqueness constraint, whatever its columns: two different
  rows never conflict, and each statement of the program keeps that.
\<close>

locale unique_rows =
  fixes conflict :: "'r \<Rightarrow> 'r \<Rightarrow> bool"
  assumes conflict_sym: "conflict r s = conflict s r"
    and conflict_refl: "conflict r r"
begin

definition unique :: "'r list \<Rightarrow> bool" where
  "unique rows = sorted_wrt (\<lambda>r s. \<not> conflict r s) rows"

lemma unique_Nil: "unique []"
  by (simp add: unique_def)

lemma unique_snoc: "unique (rows @ [r]) \<longleftrightarrow> unique rows \<and> \<not> list_ex (conflict r) rows"
  by (auto simp: unique_def sorted_wrt_append list_ex_iff conflict_sym)

lemma unique_insert_ignore: "unique rows \<Longrightarrow> unique (insert_ignore conflict r rows)"
  by (simp add: insert_ignore_def unique_snoc)

lemma unique_insert_strict: "unique rows \<Longrightarrow> insert_strict t conflict r rows = Inr rows' \<Longrightarrow> unique rows'"
  by (auto simp: insert_strict_def unique_snoc split: if_splits)

lemma unique_filter: "unique rows \<Longrightarrow> unique (filter P rows)"
  by (simp add: unique_def sorted_wrt_filter)

lemma unique_distinct: "unique rows \<Longrightarrow> distinct rows"
  unfolding unique_def by (induction rows) (auto simp: conflict_refl)

text \<open>An update that leaves every pair of rows without a conflict.\<close>

lemma unique_map:
  assumes "unique rows"
    and "\<And>r s. r \<in> set rows \<Longrightarrow> s \<in> set rows \<Longrightarrow> \<not> conflict r s \<Longrightarrow> \<not> conflict (f r) (f s)"
  shows "unique (map f rows)"
  unfolding unique_def sorted_wrt_map
  by (rule sorted_wrt_mono_rel [OF _ assms(1) [unfolded unique_def]]) (rule assms(2))

lemma unique_conflictD:
  assumes "unique rows" and "r \<in> set rows" and "s \<in> set rows" and "conflict r s"
  shows "r = s"
proof (rule ccontr)
  assume "r \<noteq> s"
  with assms show False
    unfolding unique_def by (induction rows) (auto simp: conflict_sym)
qed

text \<open>A constraint on one column is that its values are distinct.\<close>

lemma unique_column:
  assumes "\<And>r s. conflict r s \<longleftrightarrow> f r = f s"
  shows "unique rows \<longleftrightarrow> distinct (map f rows)"
  unfolding unique_def by (induction rows) (auto simp: assms)

text \<open>And on two columns, each by itself.\<close>

lemma unique_columns:
  assumes "\<And>r s. conflict r s \<longleftrightarrow> f r = f s \<or> g r = g s"
  shows "unique rows \<longleftrightarrow> distinct (map f rows) \<and> distinct (map g rows)"
  unfolding unique_def by (induction rows) (auto simp: assms)

lemma insert_ignore_idem:
  "insert_ignore conflict r (insert_ignore conflict r rows) = insert_ignore conflict r rows"
  by (simp add: insert_ignore_def conflict_refl)

lemma insert_ignore_settled: "list_ex (conflict r) rows \<Longrightarrow> insert_ignore conflict r rows = rows"
  by (simp add: insert_ignore_def)

lemma insert_ignore_conflict: "list_ex (conflict r) (insert_ignore conflict r rows)"
  by (simp add: insert_ignore_def conflict_refl)

end

text \<open>A statement that inserts never removes a row.\<close>

lemma insert_ignore_keeps: "list_ex P rows \<Longrightarrow> list_ex P (insert_ignore c r rows)"
  by (simp add: insert_ignore_def)

lemma set_insert_ignore: "set rows \<subseteq> set (insert_ignore c r rows)"
  by (auto simp: insert_ignore_def)

section \<open>The tables of the program\<close>

interpretation users: unique_rows user_conflict
  by unfold_locales (auto simp: user_conflict_def)

interpretation roles: unique_rows role_conflict
  by unfold_locales (auto simp: role_conflict_def)

interpretation perms: unique_rows perm_conflict
  by unfold_locales (auto simp: perm_conflict_def)

interpretation clients: unique_rows client_conflict
  by unfold_locales (auto simp: client_conflict_def)

interpretation conns: unique_rows conn_conflict
  by unfold_locales (auto simp: conn_conflict_def)

interpretation links: unique_rows "(=) :: string \<times> string \<Rightarrow> _"
  by unfold_locales auto

text \<open>The invariant of the database: the keys are unique, the log numbers increase and stay below
  the next one.\<close>

definition wf_db :: "db \<Rightarrow> bool" where
  "wf_db d \<longleftrightarrow>
     users.unique (dbUsers d) \<and> roles.unique (dbRoles d) \<and> perms.unique (dbPermissions d)
     \<and> links.unique (dbUserRoles d) \<and> links.unique (dbRolePermissions d)
     \<and> clients.unique (dbClients d) \<and> conns.unique (dbConnections d)
     \<and> distinct (dbUserBlocks d)
     \<and> sorted_wrt (<) (map lgID (dbAuditLogs d)) \<and> (\<forall>l\<in>set (dbAuditLogs d). lgID l < dbNextLog d)"

text \<open>The same, table by table and column by column, without the conflicts of the statements: what
  the schema declares as \<^verbatim>\<open>PRIMARY KEY\<close>, \<^verbatim>\<open>UNIQUE\<close> and \<^verbatim>\<open>AUTOINCREMENT\<close>.\<close>

definition keys_unique :: "db \<Rightarrow> bool" where
  "keys_unique d \<longleftrightarrow>
     distinct (map urID (dbUsers d)) \<and> distinct (map urEmail (dbUsers d))
     \<and> distinct (map rrID (dbRoles d)) \<and> distinct (map rrName (dbRoles d))
     \<and> distinct (map prID (dbPermissions d)) \<and> distinct (map crID (dbClients d)) \<and> distinct (map cnID (dbConnections d))
     \<and> distinct (dbUserRoles d) \<and> distinct (dbRolePermissions d) \<and> distinct (dbUserBlocks d)
     \<and> sorted_wrt (<) (map lgID (dbAuditLogs d)) \<and> (\<forall>l\<in>set (dbAuditLogs d). lgID l < dbNextLog d)"

lemma wf_db_keys_unique: "wf_db d \<longleftrightarrow> keys_unique d"
proof -
  have "users.unique rs \<longleftrightarrow> distinct (map urID rs) \<and> distinct (map urEmail rs)" for rs
    by (rule users.unique_columns) (simp add: user_conflict_def)
  moreover have "roles.unique rs \<longleftrightarrow> distinct (map rrID rs) \<and> distinct (map rrName rs)" for rs
    by (rule roles.unique_columns) (simp add: role_conflict_def)
  moreover have "perms.unique rs \<longleftrightarrow> distinct (map prID rs)" for rs
    by (rule perms.unique_column) (simp add: perm_conflict_def)
  moreover have "clients.unique rs \<longleftrightarrow> distinct (map crID rs)" for rs
    by (rule clients.unique_column) (simp add: client_conflict_def)
  moreover have "conns.unique rs \<longleftrightarrow> distinct (map cnID rs)" for rs
    by (rule conns.unique_column) (simp add: conn_conflict_def)
  moreover have "links.unique rs \<longleftrightarrow> distinct rs" for rs
    using links.unique_column [of id rs] by simp
  ultimately show ?thesis by (simp add: wf_db_def keys_unique_def conj_ac)
qed

lemma wf_empty_db: "wf_db empty_db"
  by (simp add: wf_db_def empty_db_def users.unique_Nil roles.unique_Nil perms.unique_Nil
      links.unique_Nil clients.unique_Nil conns.unique_Nil)

text \<open>A statement keeps the invariant when its effect does.\<close>

lemma wf_exec: "wf_db d \<Longrightarrow> (\<And>d'. f d = Inr d' \<Longrightarrow> wf_db d') \<Longrightarrow> wf_db (snd (exec f d))"
  by (auto simp: exec_def split: option.split sum.split)

text \<open>Statements in sequence, the first error ends the operation.\<close>

lemma wf_then:
  assumes "wf_db (snd x)"
    and "\<And>e d. wf_db d \<Longrightarrow> wf_db (pr (h e d))" and "\<And>d. wf_db d \<Longrightarrow> wf_db (pr (g d))"
  shows "wf_db (pr (case x of (Some e, d) \<Rightarrow> h e d | (None, d) \<Rightarrow> g d))"
  using assms by (cases x; cases "fst x") auto

lemma wf_exec_Inr: "wf_db d \<Longrightarrow> wf_db (g d) \<Longrightarrow> wf_db (snd (exec (\<lambda>d. Inr (g d)) d))"
  by (rule wf_exec) auto

lemma wf_filters:
  assumes "wf_db d"
  shows "wf_db (d\<lparr>dbUserRoles := filter P (dbUserRoles d)\<rparr>)"
    and "wf_db (d\<lparr>dbRolePermissions := filter Q (dbRolePermissions d)\<rparr>)"
    and "wf_db (d\<lparr>dbUserBlocks := filter R (dbUserBlocks d)\<rparr>)"
    and "wf_db (d\<lparr>dbUsers := filter S (dbUsers d)\<rparr>)"
    and "wf_db (d\<lparr>dbRoles := filter T (dbRoles d)\<rparr>)"
  using assms by (simp_all add: wf_db_def users.unique_filter roles.unique_filter links.unique_filter)

lemma wf_seedRoles: "wf_db d \<Longrightarrow> wf_db (snd (seedRoles d))"
  unfolding seedRoles_def
  by (rule wf_exec) (auto simp: wf_db_def intro!: roles.unique_insert_ignore perms.unique_insert_ignore
      links.unique_insert_ignore)

lemma wf_seedClients: "wf_db d \<Longrightarrow> wf_db (snd (seedClientsAndConnections d))"
  unfolding seedClientsAndConnections_def
  by (rule wf_exec) (auto simp: wf_db_def intro!: clients.unique_insert_ignore conns.unique_insert_ignore)

lemma wf_migrate: "wf_db d \<Longrightarrow> wf_db (snd (migrate d))"
  unfolding migrate_def
  by (rule wf_then [where pr = snd] | simp add: wf_seedRoles wf_seedClients wf_exec_Inr [where g = "\<lambda>d. d"])+

lemma wf_assign_role: "wf_db d \<Longrightarrow> wf_db (snd (assign_role u r d))"
  unfolding assign_role_def
  by (rule wf_exec) (auto simp: wf_db_def intro: links.unique_insert_ignore)

definition insert_user :: "user_row \<Rightarrow> db \<Rightarrow> string + db" where
  "insert_user row d =
     (case insert_strict ''users'' user_conflict row (dbUsers d) of
        Inl e \<Rightarrow> Inl e | Inr rows \<Rightarrow> Inr (d\<lparr>dbUsers := rows\<rparr>))"

lemma wf_insert_user: "wf_db d \<Longrightarrow> wf_db (snd (exec (insert_user row) d))"
  by (rule wf_exec) (auto simp: insert_user_def wf_db_def split: sum.splits intro: users.unique_insert_strict)

lemma wf_insert_user_ignore:
  "wf_db d \<Longrightarrow> wf_db (snd (exec (\<lambda>d. Inr (d\<lparr>dbUsers := insert_ignore user_conflict row (dbUsers d)\<rparr>)) d))"
  by (rule wf_exec) (auto simp: wf_db_def intro: users.unique_insert_ignore)

lemma wf_CreateUser:
  assumes "wf_db d"
  shows "wf_db (snd (snd (CreateUser js bc n t u pw d)))"
proof (cases "bcGenerate bc n pw")
  case (Inl e)
  with assms show ?thesis by (simp add: CreateUser_def)
next
  case (Inr hash)
  show ?thesis
    unfolding CreateUser_def insert_user_def [symmetric] Inr Let_def sum.case
    by (rule wf_then [where pr = "\<lambda>x. snd (snd x)"]) (auto intro: wf_insert_user wf_assign_role assms)
qed

lemma wf_seed_one: "wf_db d \<Longrightarrow> wf_db (snd (snd (seed_one bc t u n d)))"
  unfolding seed_one_def Let_def
  by (simp split: sum.split, intro impI allI conjI; rule wf_then [where pr = "\<lambda>x. snd (snd x)"])
    (simp_all add: wf_insert_user_ignore wf_assign_role)

lemma wf_seed_loop: "wf_db d \<Longrightarrow> wf_db (snd (seed_loop bc t us n d))"
proof (induction us arbitrary: n d)
  case Nil
  then show ?case by simp
next
  case (Cons u us)
  then show ?case
    using wf_seed_one [of d bc t u n] by (auto split: prod.split option.split)
qed

lemma wf_update_users:
  assumes "wf_db d" and "\<And>r. urID (f r) = urID r" and "update_users f uid d = Inr d'"
  shows "wf_db d'"
proof (cases "find (\<lambda>r. urID r = uid) (dbUsers d)")
  case None
  with assms show ?thesis by (simp add: update_users_def)
next
  case (Some r)
  then have r: "r \<in> set (dbUsers d)" "urID r = uid"
    by (auto simp: find_Some_iff)
  from Some assms(3) have ok: "\<forall>s\<in>set (dbUsers d). urID s \<noteq> uid \<longrightarrow> \<not> user_conflict (f r) s"
    and d': "d' = d\<lparr>dbUsers := map (\<lambda>s. if urID s = uid then f s else s) (dbUsers d)\<rparr>"
    by (auto simp: update_users_def list_ex_iff split: if_splits)
  have u: "users.unique (dbUsers d)" using assms(1) by (simp add: wf_db_def)
  have same: "s = r" if "s \<in> set (dbUsers d)" "urID s = uid" for s
    using users.unique_conflictD [OF u that(1) r(1)] that r by (simp add: user_conflict_def)
  have "users.unique (map (\<lambda>s. if urID s = uid then f s else s) (dbUsers d))"
  proof (rule users.unique_map [OF u])
    fix s t assume st: "s \<in> set (dbUsers d)" "t \<in> set (dbUsers d)" "\<not> user_conflict s t"
    show "\<not> user_conflict (if urID s = uid then f s else s) (if urID t = uid then f t else t)"
      using st ok same [of s] same [of t] assms(2)
      by (cases "urID s = uid"; cases "urID t = uid") (auto simp: user_conflict_def)
  qed
  with assms(1) d' show ?thesis by (simp add: wf_db_def)
qed

lemma fold_keeps: "(\<And>f r. f \<in> set fs \<Longrightarrow> g (f r) = g r) \<Longrightarrow> g (fold (\<lambda>f r. f r) fs r) = g r"
  by (induction fs arbitrary: r) simp_all

lemma user_assignments_id: "f \<in> set (user_assignments js m) \<Longrightarrow> urID (f r) = urID r"
  by (auto simp: user_assignments_def split: option.splits)

lemma client_assignments_id: "f \<in> set (client_assignments m) \<Longrightarrow> crID (f r) = crID r"
  by (auto simp: client_assignments_def split: option.splits)

lemma wf_UpdateUser: "wf_db d \<Longrightarrow> wf_db (snd (UpdateUser js uid m d))"
  unfolding UpdateUser_def Let_def
  by (auto intro!: wf_exec elim!: wf_update_users [rotated 2] simp: fold_keeps user_assignments_id)

lemma wf_UpdateAppMetadata: "wf_db d \<Longrightarrow> wf_db (snd (UpdateAppMetadata js uid m d))"
  unfolding UpdateAppMetadata_def
  by (auto split: sum.split intro!: wf_exec elim!: wf_update_users [rotated 2])

lemma wf_DeleteUser: "wf_db d \<Longrightarrow> wf_db (snd (DeleteUser uid d))"
  unfolding DeleteUser_def
  by (rule wf_then [where pr = snd] | simp add: wf_exec_Inr wf_filters)+

lemma wf_AssignRoleToUser: "wf_db d \<Longrightarrow> wf_db (snd (AssignRoleToUser u r d))"
  unfolding AssignRoleToUser_def assign_role_def [symmetric] by (rule wf_assign_role)

lemma wf_RemoveRoleFromUser: "wf_db d \<Longrightarrow> wf_db (snd (RemoveRoleFromUser u r d))"
  unfolding RemoveRoleFromUser_def
  by (rule wf_exec) (auto simp: wf_db_def intro: links.unique_filter)

lemma wf_CreateRole: "wf_db d \<Longrightarrow> wf_db (snd (CreateRole r d))"
  unfolding CreateRole_def
  by (rule wf_exec) (auto simp: wf_db_def split: sum.splits intro: roles.unique_insert_strict)

lemma wf_UpdateRole: "wf_db d \<Longrightarrow> wf_db (snd (UpdateRole i nm ds d))"
  unfolding UpdateRole_def
proof (rule wf_exec)
  fix d' assume wf: "wf_db d"
    and upd: "(case find (\<lambda>r. rrID r = i) (dbRoles d) of None \<Rightarrow> Inr d
      | Some r \<Rightarrow> if list_ex (\<lambda>s. rrID s \<noteq> i \<and> rrName s = nm) (dbRoles d) then Inl ''UNIQUE constraint failed: roles''
         else Inr (d\<lparr>dbRoles := map (\<lambda>s. if rrID s = i
                then s\<lparr>rrName := nm, rrDescription := Some ds\<rparr> else s) (dbRoles d)\<rparr>)) = Inr d'"
  show "wf_db d'"
  proof (cases "find (\<lambda>r. rrID r = i) (dbRoles d)")
    case None
    with upd wf show ?thesis by simp
  next
    case (Some r)
    with upd have ok: "\<forall>s\<in>set (dbRoles d). rrID s \<noteq> i \<longrightarrow> rrName s \<noteq> nm"
      and d': "d' = d\<lparr>dbRoles := map (\<lambda>s. if rrID s = i
                then s\<lparr>rrName := nm, rrDescription := Some ds\<rparr> else s) (dbRoles d)\<rparr>"
      by (auto simp: list_ex_iff split: if_splits)
    have "roles.unique (map (\<lambda>s. if rrID s = i then s\<lparr>rrName := nm, rrDescription := Some ds\<rparr> else s) (dbRoles d))"
      by (rule roles.unique_map) (use wf ok in \<open>auto simp: wf_db_def role_conflict_def\<close>)
    with wf d' show ?thesis by (simp add: wf_db_def)
  qed
qed assumption

lemma wf_DeleteRole: "wf_db d \<Longrightarrow> wf_db (snd (DeleteRole i d))"
  unfolding DeleteRole_def Let_def by (intro wf_exec_Inr wf_filters)

lemma wf_UpdateClient: "wf_db d \<Longrightarrow> wf_db (snd (UpdateClient i m d))"
proof -
  assume wf: "wf_db d"
  have "clients.unique (map (\<lambda>r. if crID r = i then fold (\<lambda>f r. f r) fs r else r) (dbClients d))"
    if "\<And>f r. f \<in> set fs \<Longrightarrow> crID (f r) = crID r" for fs
    by (rule clients.unique_map) (use wf that in \<open>auto simp: wf_db_def client_conflict_def fold_keeps\<close>)
  with wf have "wf_db (d\<lparr>dbClients :=
      map (\<lambda>r. if crID r = i then fold (\<lambda>f r. f r) (client_assignments m) r else r) (dbClients d)\<rparr>)"
    by (simp add: wf_db_def client_assignments_id)
  with wf show "wf_db (snd (UpdateClient i m d))"
    by (simp add: UpdateClient_def Let_def wf_exec_Inr)
qed

lemma wf_BlockUser: "wf_db d \<Longrightarrow> wf_db (snd (BlockUser u d))"
  unfolding BlockUser_def by (rule wf_exec) (auto simp: wf_db_def)

lemma wf_UnblockUser: "wf_db d \<Longrightarrow> wf_db (snd (UnblockUser u d))"
  unfolding UnblockUser_def by (rule wf_exec) (auto simp: wf_db_def)

lemma wf_AppendLog: "wf_db d \<Longrightarrow> wf_db (snd (AppendLog a b c p d))"
  unfolding AppendLog_def by (rule wf_exec) (auto simp: wf_db_def sorted_wrt_append less_imp_le)

lemma wf_Close: "wf_db d \<Longrightarrow> wf_db (Close d)"
  by (simp add: Close_def wf_db_def)

end
