(* ===== verification/Sqlite_Props.thy ===== *)
theory Sqlite_Props
  imports Unique_Rows "HOL-Library.Multiset"
begin

text \<open>
  What the database promises: its keys stay unique whatever the program runs, a created user is
  found again and has the permissions of its role, a duplicate is refused, deletion leaves
  nothing behind, seeding is idempotent, pages partition the listing.
\<close>

section \<open>Operations as steps\<close>

datatype db_op =
    DbSeed int "string + string"
  | DbCreateUser nat int user string
  | DbCreate nat int user
  | DbUpdateAppMetadata string dict
  | DbUpdateUser string dict
  | DbDeleteUser string
  | DbAssignRole string string
  | DbRemoveRole string string
  | DbCreateRole role
  | DbUpdateRole string string string
  | DbDeleteRole string
  | DbUpdateClient string dict
  | DbBlock string
  | DbUnblock string
  | DbAppendLog string string string string
  | DbReopen
  | DbClose

fun db_step :: "json_codec \<Rightarrow> bcrypt \<Rightarrow> (string \<Rightarrow> string + seed_user list) \<Rightarrow> db_op \<Rightarrow> db \<Rightarrow> db" where
  "db_step js bc um (DbSeed t f) d = snd (SeedFromConfigFile bc um t f d)"
| "db_step js bc um (DbCreateUser n t u pw) d = snd (snd (CreateUser js bc n t u pw d))"
| "db_step js bc um (DbCreate n t u) d = snd (snd (CreateStore js bc n t u d))"
| "db_step js bc um (DbUpdateAppMetadata i m) d = snd (UpdateAppMetadata js i m d)"
| "db_step js bc um (DbUpdateUser i m) d = snd (UpdateUser js i m d)"
| "db_step js bc um (DbDeleteUser i) d = snd (DeleteUser i d)"
| "db_step js bc um (DbAssignRole u r) d = snd (AssignRoleToUser u r d)"
| "db_step js bc um (DbRemoveRole u r) d = snd (RemoveRoleFromUser u r d)"
| "db_step js bc um (DbCreateRole r) d = snd (CreateRole r d)"
| "db_step js bc um (DbUpdateRole i n ds) d = snd (UpdateRole i n ds d)"
| "db_step js bc um (DbDeleteRole i) d = snd (DeleteRole i d)"
| "db_step js bc um (DbUpdateClient i m) d = snd (UpdateClient i m d)"
| "db_step js bc um (DbBlock u) d = snd (BlockUser u d)"
| "db_step js bc um (DbUnblock u) d = snd (UnblockUser u d)"
| "db_step js bc um (DbAppendLog e u c p) d = snd (AppendLog e u c p d)"
| "db_step js bc um DbReopen d = snd (migrate (d\<lparr>dbFault := None\<rparr>))"
| "db_step js bc um DbClose d = Close d"

lemma wf_fault: "wf_db (d\<lparr>dbFault := f\<rparr>) = wf_db d"
  by (simp add: wf_db_def)

lemma wf_db_step: "wf_db d \<Longrightarrow> wf_db (db_step js bc um op d)"
  by (cases op)
    (simp_all add: wf_CreateUser CreateStore_def wf_UpdateAppMetadata wf_UpdateUser wf_DeleteUser
      wf_AssignRoleToUser wf_RemoveRoleFromUser wf_CreateRole wf_UpdateRole wf_DeleteRole wf_UpdateClient
      wf_BlockUser wf_UnblockUser wf_AppendLog wf_Close wf_migrate wf_fault SeedFromConfigFile_def
      wf_seed_loop split: sum.split)

definition db_run :: "json_codec \<Rightarrow> bcrypt \<Rightarrow> (string \<Rightarrow> string + seed_user list) \<Rightarrow> db_op list \<Rightarrow> db \<Rightarrow> db" where
  "db_run js bc um ops d = fold (db_step js bc um) ops d"

lemma wf_db_run: "wf_db d \<Longrightarrow> wf_db (db_run js bc um ops d)"
  unfolding db_run_def by (induction ops arbitrary: d) (simp_all add: wf_db_step)

text \<open>Sample parameters: a bcrypt that marks the password, a codec for the empty object only.\<close>

definition sample_bcrypt :: bcrypt where
  "sample_bcrypt = \<lparr>bcGenerate = \<lambda>n pw. Inr (''$2a$'' @ pw), bcCompare = \<lambda>h pw. h = ''$2a$'' @ pw\<rparr>"

definition sample_codec :: json_codec where
  "sample_codec = \<lparr>jsEnc = \<lambda>m. if m = [] then Inr ''{}'' else Inl ''unsupported'',
     jsDec = \<lambda>s. if s = ''{}'' then Inr (Some []) else Inl ''syntax''\<rparr>"

definition sample_engine :: sql_engine where
  "sample_engine = \<lparr>sqLike = \<lambda>p t. p = t, sqNewestFirst = \<lambda>rs. rev (sort_key urCreatedAt rs),
     sqRoleOrder = \<lambda>rs. rs, sqPermOrder = \<lambda>ps. ps\<rparr>"

definition sample_user :: user where
  "sample_user = \<lparr>uID = ''auth0|1'', uEmail = ''a@x'', uPasswordHash = [], uDisplayName = ''a'',
     uAppMetadata = None, uUserMetadata = None, uOrganizationID = 1, uEnterpriseID = 1, uRole = ''admin''\<rparr>"

definition opened_db :: db where
  "opened_db = snd (migrate empty_db)"

section \<open>Uniqueness\<close>

text \<open>However the program uses an opened database, two users never share an id or an email
  address.\<close>

lemma users_stay_unique:
  assumes "NewSQLite (Inr d0) = Inr d" and "wf_db d0"
    and "r \<in> set (dbUsers (db_run js bc um ops d))" and "s \<in> set (dbUsers (db_run js bc um ops d))"
    and "urID r = urID s \<or> urEmail r = urEmail s"
  shows "r = s"
proof -
  from assms(1) have "d = snd (migrate d0)"
    by (auto simp: NewSQLite_def split: prod.splits option.splits)
  with assms(2) have "wf_db (db_run js bc um ops d)" by (simp add: wf_migrate wf_db_run)
  then have "users.unique (dbUsers (db_run js bc um ops d))" by (simp add: wf_db_def)
  from users.unique_conflictD [OF this assms(3,4)] assms(5) show ?thesis
    by (simp add: user_conflict_def)
qed

section \<open>Create, read, delete\<close>

lemma find_append_new: "\<not> list_ex P xs \<Longrightarrow> find P (xs @ [x]) = (if P x then Some x else None)"
  by (induction xs) auto

lemma find_user_conflict:
  "\<not> list_ex (user_conflict row) rows \<Longrightarrow>
   find (\<lambda>r. urID r = urID row) (rows @ [row]) = Some row
   \<and> find (\<lambda>r. urEmail r = urEmail row) (rows @ [row]) = Some row"
  by (induction rows) (auto simp: user_conflict_def)

text \<open>What a successful creation writes.\<close>

definition created_row :: "json_codec \<Rightarrow> int \<Rightarrow> user \<Rightarrow> user_row" where
  "created_row js t u = \<lparr>urID = uID u, urEmail = uEmail u, urPasswordHash = uPasswordHash u,
     urDisplayName = Some (uDisplayName u), urOrganizationID = uOrganizationID u,
     urEnterpriseID = uEnterpriseID u, urRole = Some (uRole u),
     urAppMetadata = Some (jsonBytes js (uAppMetadata u)),
     urUserMetadata = Some (jsonBytes js (uUserMetadata u)), urCreatedAt = t\<rparr>"

lemma CreateUser_ok:
  assumes "CreateUser js bc n t u pw d = (None, u', d')"
  shows "\<exists>hash. bcGenerate bc n pw = Inr hash \<and> u' = u\<lparr>uPasswordHash := hash\<rparr> \<and> dbFault d = None
    \<and> \<not> list_ex (user_conflict (created_row js t u')) (dbUsers d)
    \<and> d' = d\<lparr>dbUsers := dbUsers d @ [created_row js t u'],
             dbUserRoles := insert_ignore (=) (uID u, if uRole u = ''admin'' then ''rol_admin'' else ''rol_default'')
               (dbUserRoles d)\<rparr>"
  using assms
  by (auto simp: CreateUser_def Let_def created_row_def exec_def insert_strict_def assign_role_def
      split: sum.splits prod.splits option.splits if_splits)

lemma scan_created:
  "scan_user js (created_row js t u) =
   Inr (u\<lparr>uAppMetadata := parseJSONMap js (Some (jsonBytes js (uAppMetadata u))),
          uUserMetadata := parseJSONMap js (Some (jsonBytes js (uUserMetadata u)))\<rparr>)"
  by (simp add: scan_user_def created_row_def scan_string_def null_string_def)

text \<open>What the codec must do for a metadata map: it writes it to a text that is not empty and
  reads it back; a nil map is written as the empty object.\<close>

definition survives_codec :: "json_codec \<Rightarrow> dict option \<Rightarrow> bool" where
  "survives_codec js m \<longleftrightarrow>
     (case m of
        None \<Rightarrow> jsDec js ''{}'' = Inr (Some [])
      | Some d \<Rightarrow> (case jsEnc js d of Inl _ \<Rightarrow> False | Inr b \<Rightarrow> b \<noteq> [] \<and> jsDec js b = Inr (Some d)))"

lemma codec_roundtrip:
  "survives_codec js m \<Longrightarrow>
   parseJSONMap js (Some (jsonBytes js m)) = Some (case m of None \<Rightarrow> [] | Some d \<Rightarrow> d)"
  by (auto simp: survives_codec_def parseJSONMap_def jsonBytes_def split: option.splits sum.splits)

text \<open>A user that was created is found under its email with everything it was created with and
  the hash of its password; only nil metadata comes back as an empty map.\<close>

lemma created_user_found:
  assumes "CreateUser js bc n t u pw d = (None, u', d')"
    and "survives_codec js (uAppMetadata u)" and "survives_codec js (uUserMetadata u)"
  shows "GetByEmail js (uEmail u) d' =
    (case bcGenerate bc n pw of
       Inl e \<Rightarrow> Inl e
     | Inr hash \<Rightarrow> Inr (Some (u\<lparr>uPasswordHash := hash,
         uAppMetadata := Some (case uAppMetadata u of None \<Rightarrow> [] | Some m \<Rightarrow> m),
         uUserMetadata := Some (case uUserMetadata u of None \<Rightarrow> [] | Some m \<Rightarrow> m)\<rparr>)))"
proof -
  from CreateUser_ok [OF assms(1)] obtain hash where gen: "bcGenerate bc n pw = Inr hash"
    and u': "u' = u\<lparr>uPasswordHash := hash\<rparr>" and fault: "dbFault d = None"
    and new: "\<not> list_ex (user_conflict (created_row js t u')) (dbUsers d)"
    and d': "dbUsers d' = dbUsers d @ [created_row js t u']" "dbFault d' = dbFault d"
    by auto
  have mail: "urEmail (created_row js t u') = uEmail u" by (simp add: created_row_def u')
  from find_user_conflict [OF new] have "find (\<lambda>r. urEmail r = uEmail u) (dbUsers d') = Some (created_row js t u')"
    by (simp add: d' mail)
  then show ?thesis
    using assms(2,3) fault
    by (simp add: GetByEmail_def query_def d' gen scan_created u' codec_roundtrip)
qed

lemma opened_db_simps:
  "dbFault opened_db = None" "dbUsers opened_db = []" "dbUserRoles opened_db = []"
  "dbUserBlocks opened_db = []"
  by (simp_all add: opened_db_def migrate_def exec_def seedRoles_def seedClientsAndConnections_def empty_db_def)

text \<open>A second user with the id or the email of an existing one is refused with a message that
  names the constraint, and the database stays as it was.\<close>

lemma duplicate_user_refused:
  assumes "dbFault d = None" and "bcGenerate bc n pw = Inr hash"
    and "r \<in> set (dbUsers d)" and "urID r = uID u \<or> urEmail r = uEmail u"
  shows "CreateUser js bc n t u pw d =
    (Some ''create user: UNIQUE constraint failed: users'', u\<lparr>uPasswordHash := hash\<rparr>, d)"
proof -
  have "user_conflict (created_row js t (u\<lparr>uPasswordHash := hash\<rparr>)) r"
    using assms(4) by (auto simp: user_conflict_def created_row_def)
  with assms(3) have "list_ex (user_conflict (created_row js t (u\<lparr>uPasswordHash := hash\<rparr>))) (dbUsers d)"
    by (auto simp: list_ex_iff)
  with assms(1,2) show ?thesis
    by (simp add: CreateUser_def Let_def exec_def insert_strict_def created_row_def)
qed

lemma DeleteUser_ok:
  assumes "DeleteUser uid d = (None, d')"
  shows "dbFault d = None \<and> d' = d\<lparr>dbUserRoles := filter (\<lambda>(u, r). u \<noteq> uid) (dbUserRoles d),
      dbUserBlocks := filter (\<lambda>u. u \<noteq> uid) (dbUserBlocks d), dbUsers := filter (\<lambda>r. urID r \<noteq> uid) (dbUsers d)\<rparr>"
  using assms by (auto simp: DeleteUser_def exec_def split: option.splits prod.splits)

text \<open>After a successful deletion the user is not found, has no roles and is not blocked, while
  the rows of every other user are still there.\<close>

lemma deleted_user_gone:
  assumes "DeleteUser uid d = (None, d')"
  shows "GetByID js uid d' = Inr None \<and> roles_of_user uid d' = [] \<and> IsUserBlocked uid d' = Inr False
    \<and> (uid' \<noteq> uid \<longrightarrow> GetByID js uid' d' = GetByID js uid' d \<and> roles_of_user uid' d' = roles_of_user uid' d
        \<and> IsUserBlocked uid' d' = IsUserBlocked uid' d)"
proof -
  note fault = DeleteUser_ok [OF assms, THEN conjunct1] and d' = DeleteUser_ok [OF assms, THEN conjunct2]
  have gone: "find (\<lambda>r. urID r = uid) (filter (\<lambda>r. urID r \<noteq> uid) rows) = None" for rows
    by (auto simp: find_None_iff)
  have kept: "find (\<lambda>r. urID r = uid') (filter (\<lambda>r. urID r \<noteq> uid) rows) = find (\<lambda>r. urID r = uid') rows"
    if "uid' \<noteq> uid" for rows
    using that by (induction rows) auto
  have roles: "filter (\<lambda>(u, rid). rid = i \<and> u = x) (filter (\<lambda>(u, r). u \<noteq> uid) ps) =
      (if x = uid then [] else filter (\<lambda>(u, rid). rid = i \<and> u = x) ps)" for i x ps
    by (induction ps) auto
  show ?thesis
    using fault
    by (auto simp: GetByID_def roles_of_user_def IsUserBlocked_def query_def d' gone kept roles list_ex_iff
        simp del: filter_filter)
qed

section \<open>Permissions of a new user\<close>

lemma opened_db_perms:
  "map prName (dbPermissions opened_db) = [''read:users'', ''write:users'']"
  "map prID (dbPermissions opened_db) = [''perm_read'', ''perm_write'']"
  "dbRolePermissions opened_db =
     [(''rol_default'', ''perm_read''), (''rol_admin'', ''perm_read''), (''rol_admin'', ''perm_write'')]"
  by (simp_all add: opened_db_def migrate_def exec_def seedRoles_def seedClientsAndConnections_def
      empty_db_def insert_ignore_def perm_conflict_def)

lemma scan_perm_rows:
  "scan_rows scan_perm ps = Inr (map (\<lambda>p. \<lparr>permID = prID p, permName = prName p,
     permResourceServerIdentifier = null_string (prResourceServerIdentifier p),
     permDescription = null_string (prDescription p)\<rparr>) ps)"
  by (induction ps) (simp_all add: scan_perm_def)

text \<open>In a freshly opened database a user created with the role admin may read and write users,
  a user created with any other role may only read them.\<close>

lemma new_user_permissions:
  assumes "CreateUser js bc n t u pw opened_db = (None, u', d)"
    and "\<And>ps. mset (sqPermOrder sq ps) = mset ps"
  shows "map_sum id (\<lambda>ps. mset (map permName ps)) (GetUserPermissions sq (uID u) d) =
    Inr (if uRole u = ''admin'' then {#''read:users'', ''write:users''#} else {#''read:users''#})"
proof -
  from CreateUser_ok [OF assms(1)]
  have d: "dbUserRoles d = [(uID u, if uRole u = ''admin'' then ''rol_admin'' else ''rol_default'')]"
      "dbPermissions d = dbPermissions opened_db" "dbRolePermissions d = dbRolePermissions opened_db"
      "dbFault d = None"
    by (auto simp: opened_db_simps insert_ignore_def)
  obtain p q where pq: "dbPermissions opened_db = [p, q]"
    using opened_db_perms(1) by (cases "dbPermissions opened_db"; cases "tl (dbPermissions opened_db)") auto
  with opened_db_perms have "prName p = ''read:users''" "prName q = ''write:users''"
      "prID p = ''perm_read''" "prID q = ''perm_write''"
    by simp_all
  then have "mset (map prName (perms_of_user (uID u) d)) =
      (if uRole u = ''admin'' then {#''read:users'', ''write:users''#} else {#''read:users''#})"
    by (simp add: perms_of_user_def d pq opened_db_perms(3))
  moreover have "mset (map prName (sqPermOrder sq ps)) = mset (map prName ps)" for ps
    by (simp add: assms(2))
  ultimately show ?thesis
    by (simp add: GetUserPermissions_def query_def d scan_perm_rows multiset.map_comp comp_def)
qed

section \<open>Seeding\<close>

definition seed_role :: "seed_user \<Rightarrow> string" where
  "seed_role u = (if suRole u = ''admin'' then ''rol_admin'' else ''rol_default'')"

lemma seed_role_default:
  "(if (if suRole u = [] then ''user'' else suRole u) = ''admin'' then ''rol_admin'' else ''rol_default'') = seed_role u"
  by (simp add: seed_role_def)

lemma seed_one_cases:
  assumes "seed_one bc t u n d = (e, n', d')"
  shows "(suID u = [] \<or> suEmail u = []) \<and> e = None \<and> d' = d
    \<or> e \<noteq> None \<and> d' = d
    \<or> (\<exists>row. urID row = suID u \<and> urEmail row = suEmail u
        \<and> d' = d\<lparr>dbUsers := insert_ignore user_conflict row (dbUsers d),
                 dbUserRoles := insert_ignore (=) (suID u, seed_role u) (dbUserRoles d)\<rparr>)"
proof (cases "suID u = [] \<or> suEmail u = []")
  case True
  with assms show ?thesis by (simp add: seed_one_def)
next
  case False
  obtain res where h: "HashPassword bc n (if suPassword u = [] then ''password123'' else suPassword u) = res"
    by simp
  show ?thesis
  proof (cases res)
    case (Inl err)
    with False h assms show ?thesis by (auto simp: seed_one_def Let_def)
  next
    case (Inr hash)
    show ?thesis
    proof (cases "dbFault d")
      case (Some err)
      with False h Inr assms show ?thesis by (auto simp: seed_one_def Let_def exec_def)
    next
      case None
      with False h Inr assms show ?thesis
        unfolding seed_one_def Let_def seed_role_default
        by (intro disjI2 exI [where x = "\<lparr>urID = suID u, urEmail = suEmail u, urPasswordHash = hash,
              urDisplayName = Some (if suDisplayName u = [] then suEmail u else suDisplayName u),
              urOrganizationID = 1, urEnterpriseID = 1,
              urRole = Some (if suRole u = [] then ''user'' else suRole u), urAppMetadata = None,
              urUserMetadata = None, urCreatedAt = t\<rparr>"])
          (simp add: exec_def assign_role_def)
    qed
  qed
qed

text \<open>What a seeded user leaves behind for good: a row it conflicts with, and its role.\<close>

definition settled :: "seed_user \<Rightarrow> db \<Rightarrow> bool" where
  "settled u d \<longleftrightarrow>
     suID u = [] \<or> suEmail u = []
     \<or> list_ex (\<lambda>r. suID u = urID r \<or> suEmail u = urEmail r) (dbUsers d)
       \<and> (suID u, seed_role u) \<in> set (dbUserRoles d)"

lemma settled_row:
  "urID row = suID u \<Longrightarrow> urEmail row = suEmail u \<Longrightarrow>
   user_conflict row = (\<lambda>r. suID u = urID r \<or> suEmail u = urEmail r)"
  by (rule ext) (simp add: user_conflict_def)

lemma seed_one_settles:
  assumes "seed_one bc t u n d = (None, n', d')"
  shows "settled u d'"
  using seed_one_cases [OF assms]
proof (elim disjE exE conjE)
  fix row assume r: "urID row = suID u" "urEmail row = suEmail u"
    and d': "d' = d\<lparr>dbUsers := insert_ignore user_conflict row (dbUsers d),
                 dbUserRoles := insert_ignore (=) (suID u, seed_role u) (dbUserRoles d)\<rparr>"
  have "(suID u, seed_role u) \<in> set (insert_ignore (=) (suID u, seed_role u) (dbUserRoles d))"
    by (auto simp: insert_ignore_def list_ex_iff)
  with users.insert_ignore_conflict [of row "dbUsers d"] show ?thesis
    by (simp add: settled_def d' settled_row [OF r])
qed (simp_all add: settled_def)

lemma seed_one_keeps:
  assumes "settled v d"
  shows "settled v (snd (snd (seed_one bc t u n d)))"
proof -
  obtain e n' d' where one: "seed_one bc t u n d = (e, n', d')" by (metis prod_cases3)
  have "dbUserRoles d' = dbUserRoles d \<or> (\<exists>x. dbUserRoles d' = insert_ignore (=) x (dbUserRoles d))"
    "dbUsers d' = dbUsers d \<or> (\<exists>x. dbUsers d' = insert_ignore user_conflict x (dbUsers d))"
    using seed_one_cases [OF one] by (elim disjE exE conjE; fastforce)+
  then have "set (dbUserRoles d) \<subseteq> set (dbUserRoles d')"
    and "list_ex P (dbUsers d) \<Longrightarrow> list_ex P (dbUsers d')" for P
    by (metis set_insert_ignore subset_refl, metis insert_ignore_keeps)
  with assms one show ?thesis by (auto simp: settled_def)
qed

lemma seed_one_settled:
  assumes "settled u d"
  shows "snd (snd (seed_one bc t u n d)) = d"
proof -
  obtain e n' d' where one: "seed_one bc t u n d = (e, n', d')" by (metis prod_cases3)
  show ?thesis
  proof (cases "suID u = [] \<or> suEmail u = []")
    case True
    then show ?thesis by (simp add: seed_one_def)
  next
    case False
    with assms have u: "list_ex (\<lambda>r. suID u = urID r \<or> suEmail u = urEmail r) (dbUsers d)"
      and r: "list_ex ((=) (suID u, seed_role u)) (dbUserRoles d)"
      by (auto simp: settled_def list_ex_iff)
    from seed_one_cases [OF one] have "d' = d"
      using u by (elim disjE exE conjE)
        (simp_all add: users.insert_ignore_settled links.insert_ignore_settled [OF r] settled_row)
    with one show ?thesis by simp
  qed
qed

lemma seed_loop_keeps: "settled v d \<Longrightarrow> settled v (snd (seed_loop bc t us n d))"
proof (induction us arbitrary: n d)
  case (Cons u us)
  then show ?case
    using seed_one_keeps [of v d bc t u n] by (auto split: prod.split option.split)
qed simp

lemma seed_loop_settles:
  "seed_loop bc t us n d = (None, d') \<Longrightarrow> v \<in> set us \<Longrightarrow> settled v d'"
proof (induction us arbitrary: n d)
  case (Cons u us)
  from Cons.prems(1) obtain n1 d1 where one: "seed_one bc t u n d = (None, n1, d1)"
    and rest: "seed_loop bc t us n1 d1 = (None, d')"
    by (auto split: prod.splits option.splits)
  from seed_loop_keeps [OF seed_one_settles [OF one], of bc t us n1] rest
  have "settled u d'" by simp
  with Cons.prems(2) Cons.IH [OF rest] show ?case by auto
qed simp

lemma seed_loop_settled: "\<forall>u\<in>set us. settled u d \<Longrightarrow> snd (seed_loop bc t us n d) = d"
proof (induction us arbitrary: n)
  case (Cons u us)
  then show ?case
    using seed_one_settled [of u d bc t n] by (auto split: prod.split option.split)
qed simp

text \<open>C34: Seeding is idempotent: once a seed file has been loaded without an error, loading it
  again changes nothing, whatever bcrypt answers the second time and whenever it is done.\<close>

theorem seeding_idempotent:
  assumes "SeedFromConfigFile bc um t fl d = (None, d')"
  shows "snd (SeedFromConfigFile bc' um t' fl d') = d'"
proof (cases fl)
  case (Inl e)
  then show ?thesis by (simp add: SeedFromConfigFile_def)
next
  case (Inr data)
  with assms show ?thesis
    by (auto simp: SeedFromConfigFile_def dest: seed_loop_settles intro!: seed_loop_settled split: sum.splits)
qed

theorem seeding_idempotent_witness:
  "let um = (\<lambda>_. Inr [\<lparr>suID = ''auth0|7'', suEmail = ''v@x'', suPassword = [], suDisplayName = [], suRole = []\<rparr>]);
       d = snd (SeedFromConfigFile sample_bcrypt um 1 (Inr ''{}'') opened_db)
   in snd (SeedFromConfigFile sample_bcrypt um 2 (Inr ''{}'') d) = d"
proof -
  let ?um = "\<lambda>_. Inr [\<lparr>suID = ''auth0|7'', suEmail = ''v@x'', suPassword = [], suDisplayName = [], suRole = []\<rparr>]"
  let ?r = "SeedFromConfigFile sample_bcrypt ?um 1 (Inr ''{}'') opened_db"
  have "?r = (None, snd ?r)"
    by (simp add: SeedFromConfigFile_def seed_one_def HashPassword_def sample_bcrypt_def Let_def exec_def
        opened_db_simps)
  from seeding_idempotent [OF this] show ?thesis by (simp add: Let_def)
qed

section \<open>Pages\<close>

definition brief_ok :: "user_row \<Rightarrow> bool" where
  "brief_ok r \<longleftrightarrow> urDisplayName r \<noteq> None"

definition brief :: "user_row \<Rightarrow> user" where
  "brief r = \<lparr>uID = urID r, uEmail = urEmail r, uPasswordHash = urPasswordHash r,
     uDisplayName = null_string (urDisplayName r), uAppMetadata = None, uUserMetadata = None,
     uOrganizationID = urOrganizationID r, uEnterpriseID = urEnterpriseID r,
     uRole = null_string (urRole r)\<rparr>"

lemma scan_brief: "list_all brief_ok rs \<Longrightarrow> scan_rows scan_user_brief rs = Inr (map brief rs)"
  by (induction rs) (auto simp: scan_user_brief_def scan_string_def brief_ok_def brief_def null_string_def)

lemma slices: "concat (map (\<lambda>k. take n (drop (k * n) xs)) [0..<m]) = take (m * n) xs"
proof (induction m)
  case (Suc m)
  have "take (Suc m * n) xs = take (m * n) xs @ take n (drop (m * n) xs)"
    by (simp add: take_add [symmetric] add.commute)
  with Suc show ?case by simp
qed simp

definition page :: "sql_engine \<Rightarrow> int \<Rightarrow> string \<Rightarrow> db \<Rightarrow> nat \<Rightarrow> user list" where
  "page sq per q d k =
     (case ListUsers sq \<lparr>luPage = int k, luPerPage = per, luQuery = q\<rparr> d of Inl _ \<Rightarrow> [] | Inr (us, n) \<Rightarrow> us)"

text \<open>C35: The pages of a search are consecutive slices: reading them one after the other gives
  the newest-first listing of the matching users, cut at as many rows, without a gap or a repetition.\<close>

theorem pages_partition:
  assumes "dbFault d = None" and "0 < per" and "per \<le> 100" and "int m * per < 2 ^ 63"
    and "list_all brief_ok (sqNewestFirst sq (filter (user_matches sq (user_search q)) (dbUsers d)))"
  shows "concat (map (page sq per q d) [0..<m]) =
    map brief (take (m * nat per) (sqNewestFirst sq (filter (user_matches sq (user_search q)) (dbUsers d))))"
proof -
  let ?hits = "sqNewestFirst sq (filter (user_matches sq (user_search q)) (dbUsers d))"
  have "page sq per q d k = map brief (take (nat per) (drop (k * nat per) ?hits))" if "k < m" for k
  proof -
    have "int k * per \<le> int m * per" using that assms(2) by (simp add: mult_right_mono)
    moreover have "0 \<le> int k * per" using assms(2) by simp
    ultimately have off: "int64 (int k * per) = int k * per"
      using assms(4) by (intro int64_id) linarith+
    have "list_all brief_ok (take (nat per) (drop (k * nat per) ?hits))"
      using assms(5) by (auto simp: list_all_iff dest: in_set_takeD in_set_dropD)
    moreover have "nat (int k * per) = k * nat per" using assms(2) by (simp add: nat_mult_distrib)
    ultimately show ?thesis
      using assms(1-3) off by (simp add: page_def ListUsers_def query_def page_size_def scan_brief Let_def)
  qed
  then have "concat (map (page sq per q d) [0..<m]) =
      concat (map (\<lambda>k. map brief (take (nat per) (drop (k * nat per) ?hits))) [0..<m])"
    by (intro arg_cong [where f = concat] map_cong) auto
  also have "\<dots> = map brief (take (m * nat per) ?hits)"
    by (simp add: slices [symmetric] map_concat comp_def)
  finally show ?thesis .
qed

theorem pages_partition_witness:
  "let d = opened_db\<lparr>dbUsers := [created_row sample_codec 1 sample_user,
              created_row sample_codec 2 (sample_user\<lparr>uID := ''auth0|2'', uEmail := ''b@x''\<rparr>),
              created_row sample_codec 3 (sample_user\<lparr>uID := ''auth0|3'', uEmail := ''c@x''\<rparr>)]\<rparr>
   in map uID (concat (map (page sample_engine 2 [] d) [0..<2])) = [''auth0|3'', ''auth0|2'', ''auth0|1'']"
proof -
  let ?d = "opened_db\<lparr>dbUsers := [created_row sample_codec 1 sample_user,
              created_row sample_codec 2 (sample_user\<lparr>uID := ''auth0|2'', uEmail := ''b@x''\<rparr>),
              created_row sample_codec 3 (sample_user\<lparr>uID := ''auth0|3'', uEmail := ''c@x''\<rparr>)]\<rparr>"
  have s: "user_search [] = []"
    by (simp add: user_search_def trim_space_def trim_prefix_def has_prefix_def trim_quotes_def)
  have "concat (map (page sample_engine 2 [] ?d) [0..<2]) =
    map brief (take (2 * nat 2) (sqNewestFirst sample_engine (filter (user_matches sample_engine (user_search [])) (dbUsers ?d))))"
    by (rule pages_partition)
      (simp_all add: opened_db_simps s user_matches_def sample_engine_def created_row_def brief_ok_def)
  then show ?thesis
    unfolding s Let_def
    by (simp add: user_matches_def sample_engine_def created_row_def brief_def sample_user_def)
qed

end
