(* ===== verification/Effects.thy ===== *)
theory Effects
  imports Server Grants_Facts Sqlite_Props
begin

text \<open>
  What a request can do to the state. The handlers touch it only through the operations of the
  stores and the database; whatever these keep, every handler keeps. The contract is a locale:
  first for the handlers that leave the database alone, then, extended by the database, for all.
  It is parametric in a set \<open>may\<close> of users: an operation that writes a user into a store has to
  keep the invariant only for the users of \<open>may\<close>, what a store hands out names users of \<open>may\<close>, and
  a handler keeps the invariant when the credentials of its request belong to users of \<open>may\<close>.
\<close>

section \<open>Users in the stores and in the requests\<close>

text \<open>The users an operation writes into the grant store as the owner of something.\<close>

fun op_users :: "grant_op \<Rightarrow> string set" where
  "op_users (OpSaveCode t0 t1 c ac) = {acUserID ac}"
| "op_users (OpSaveRefresh t0 t1 k rg) = {rgUserID rg}"
| "op_users (OpSaveDevice t0 t1 d u dc) = (if dcUserAuthorized dc then {dcUserID dc} else {})"
| "op_users (OpAuthorizeDevice t u i) = {i}"
| "op_users _ = {}"

text \<open>The credentials a request can carry: in its body for the token endpoint, in its query, in
  its form, with or without a multipart body.\<close>

definition shown_credentials :: "env \<Rightarrow> request \<Rightarrow> (string \<times> string) set" where
  "shown_credentials e r =
     {(param (parseTokenParams e r) ''username'', param (parseTokenParams e r) ''password''),
      (query_get r ''username'', query_get r ''password''),
      (FormValue r ''username'', FormValue r ''password''),
      (FormValue (form_parsed r) ''username'', FormValue (form_parsed r) ''password'')}"

definition authenticated :: "env \<Rightarrow> request \<Rightarrow> db \<Rightarrow> string set" where
  "authenticated e r d = {uID u | u. \<exists>(un, pw) \<in> shown_credentials e r.
     GetByEmail (xCodec e) un d = Inr (Some u) \<and> bcCompare (xBcrypt e) (uPasswordHash u) pw}"

lemma check_credentials_ok:
  "check_credentials e un pw d = Some u \<Longrightarrow>
   GetByEmail (xCodec e) un d = Inr (Some u) \<and> bcCompare (xBcrypt e) (uPasswordHash u) pw"
  by (auto simp: check_credentials_def VerifyPassword_def split: sum.splits option.splits if_splits)

lemma authenticated_query:
  "check_credentials e (query_get r ''username'') (query_get r ''password'') d = Some u \<Longrightarrow> uID u \<in> authenticated e r d"
  by (auto simp: authenticated_def shown_credentials_def dest: check_credentials_ok)

lemma authenticated_form:
  "check_credentials e (FormValue (login_form r) ''username'') (FormValue (login_form r) ''password'') d = Some u \<Longrightarrow>
   uID u \<in> authenticated e r d"
  "check_credentials e (FormValue (device_post r) ''username'') (FormValue (device_post r) ''password'') d = Some u \<Longrightarrow>
   uID u \<in> authenticated e r d"
  by (auto simp: authenticated_def shown_credentials_def login_form_def device_post_def split: if_splits
      dest: check_credentials_ok)

lemma authenticated_param:
  "GetByEmail (xCodec e) (param (parseTokenParams e r) ''username'') d = Inr (Some u) \<Longrightarrow>
   VerifyPassword (xBcrypt e) (uPasswordHash u) (param (parseTokenParams e r) ''password'') \<Longrightarrow>
   uID u \<in> authenticated e r d"
  by (auto simp: authenticated_def shown_credentials_def VerifyPassword_def)

lemma GetByID_id: "GetByID js uid d = Inr (Some u) \<Longrightarrow> uID u = uid"
  by (auto simp: GetByID_def query_def scan_user_def find_Some_iff split: option.splits sum.splits if_splits)

section \<open>The contract\<close>

locale store_effects =
  fixes may :: "string set"
    and okG :: "grant_store \<Rightarrow> bool"
    and okS :: "session_store \<Rightarrow> bool"
    and okR :: "(goval \<times> time) gomap \<Rightarrow> bool"
    and okD :: "db \<Rightarrow> bool"
  assumes grant_op: "okG g \<Longrightarrow> op_users op \<subseteq> may \<Longrightarrow> okG (grant_step up op g)"
    and code_user: "okG g \<Longrightarrow> fst (ConsumeCode t0 code g) = Some ac \<Longrightarrow> acUserID ac \<in> may"
    and refresh_user: "okG g \<Longrightarrow> fst (ConsumeRefreshToken t0 k g) = Some rg \<Longrightarrow> rgUserID rg \<in> may"
    and session_new: "okS s \<Longrightarrow> uid \<in> may \<Longrightarrow> okS (snd (Create rnd t0 t1 uid email s))"
    and session_owner: "okS s \<Longrightarrow> fst (GetSession t0 t1 t2 sid s) = Some sess \<Longrightarrow> sUserID sess \<in> may"
    and session_get: "okS s \<Longrightarrow> okS (snd (GetSession t0 t1 t2 sid s))"
    and session_revoke: "okS s \<Longrightarrow> okS (Revoke sid s)"
    and replay_put: "okR c \<Longrightarrow> okR (AList.update code entry c)"
    and replay_sweep: "okR c \<Longrightarrow> okR (sweep P c)"
begin

definition ok :: "world \<Rightarrow> bool" where
  "ok w \<longleftrightarrow> pred_option okG (wGrants w) \<and> pred_option okS (wSessions w) \<and> okR (wReplay w) \<and> okD (wDb w)"

lemma grant_ops:
  assumes "okG g"
  shows "acUserID ac \<in> may \<Longrightarrow> okG (SaveCode t0 t1 c ac g)" and "okG (snd (ConsumeCode t0 c g))"
    and "rgUserID rg \<in> may \<Longrightarrow> okG (SaveRefreshToken t0 t1 k rg g)" and "okG (snd (ConsumeRefreshToken t0 k g))"
    and "okG (snd (RevokeRefreshToken k g))"
    and "\<not> dcUserAuthorized dc \<Longrightarrow> okG (SaveDeviceCode up t0 t1 d u dc g)"
    and "okG (snd (GetDeviceCode up t0 t1 d g))" and "i \<in> may \<Longrightarrow> okG (snd (AuthorizeDeviceCode up t0 u i g))"
    and "okG (snd (DenyDeviceCode up u g))" and "okG (snd (ConsumeDeviceCode up t0 d g))"
  using grant_op [OF assms, of "OpSaveCode t0 t1 c ac" _] grant_op [OF assms, of "OpConsumeCode t0 c" _]
    grant_op [OF assms, of "OpSaveRefresh t0 t1 k rg" _] grant_op [OF assms, of "OpConsumeRefresh t0 k" _]
    grant_op [OF assms, of "OpRevokeRefresh k" _] grant_op [OF assms, of "OpSaveDevice t0 t1 d u dc" up]
    grant_op [OF assms, of "OpGetDevice t0 t1 d" up] grant_op [OF assms, of "OpAuthorizeDevice t0 u i" up]
    grant_op [OF assms, of "OpDenyDevice u" up] grant_op [OF assms, of "OpConsumeDevice t0 d" up]
  by simp_all

text \<open>Counters and logs are free.\<close>

lemma ok_frame [simp]:
  "ok (w\<lparr>wTicks := a\<rparr>) = ok w" "ok (w\<lparr>wUuids := a\<rparr>) = ok w" "ok (w\<lparr>wRands := a\<rparr>) = ok w"
  "ok (w\<lparr>wSids := a\<rparr>) = ok w" "ok (w\<lparr>wHashes := a\<rparr>) = ok w" "ok (w\<lparr>wMetrics := m\<rparr>) = ok w"
  "ok (w\<lparr>wAudit := t\<rparr>) = ok w"
  by (simp_all add: ok_def)

lemma ok_free [simp]:
  "ok (snd (time_now e w)) = ok w" "ok (snd (new_uuid e w)) = ok w" "ok (count_metric m w) = ok w"
  "ok (audit_token e g u c s d w) = ok w" "ok (audit_login e u em c s d w) = ok w"
  "ok (audit_signup e u em d w) = ok w" "ok (audit_change e a u s d w) = ok w"
  "ok (snd (randomUserCode e w)) = ok w" "ok (snd (issue_access e h s0 a0 c n cl w)) = ok w"
  "ok (snd (issue_id e h s0 a0 c n sc em nm op w)) = ok w"
  by (simp_all add: time_now_def new_uuid_def count_metric_def audit_token_def audit_login_def
      audit_signup_def audit_change_def randomUserCode_def issue_access_def issue_id_def Let_def)

lemma ok_grants: "ok w \<Longrightarrow> okG g \<Longrightarrow> ok (w\<lparr>wGrants := Some g\<rparr>)"
  by (simp add: ok_def)

lemma ok_sessions: "ok w \<Longrightarrow> okS s \<Longrightarrow> ok (w\<lparr>wSessions := Some s\<rparr>)"
  by (simp add: ok_def)

lemma ok_replay: "ok w \<Longrightarrow> okR c \<Longrightarrow> ok (w\<lparr>wReplay := c\<rparr>)"
  by (simp add: ok_def)

lemma ok_db: "ok w \<Longrightarrow> okD d \<Longrightarrow> ok (w\<lparr>wDb := d\<rparr>)"
  by (simp add: ok_def)

text \<open>Case distinctions, calls that return a result with a new state, and the guards on a store.\<close>

lemma ok_cases:
  "(\<And>g. wGrants w = Some g \<Longrightarrow> okG g \<Longrightarrow> ok (snd (f g))) \<Longrightarrow> ok w \<Longrightarrow> ok (snd x) \<Longrightarrow>
   ok (snd (case wGrants w of None \<Rightarrow> x | Some g \<Rightarrow> f g))"
  "(\<And>s. wSessions w = Some s \<Longrightarrow> okS s \<Longrightarrow> ok (snd (k s))) \<Longrightarrow> ok w \<Longrightarrow> ok (snd x) \<Longrightarrow>
   ok (snd (case wSessions w of None \<Rightarrow> x | Some s \<Rightarrow> k s))"
  "(\<And>g. wGrants w = Some g \<Longrightarrow> okG g \<Longrightarrow> ok (f' g)) \<Longrightarrow> ok w \<Longrightarrow> ok w' \<Longrightarrow>
   ok (case wGrants w of None \<Rightarrow> w' | Some g \<Rightarrow> f' g)"
  "(\<And>s. wSessions w = Some s \<Longrightarrow> okS s \<Longrightarrow> ok (k' s)) \<Longrightarrow> ok w \<Longrightarrow> ok w' \<Longrightarrow>
   ok (case wSessions w of None \<Rightarrow> w' | Some s \<Rightarrow> k' s)"
  by (auto simp: ok_def split: option.splits)

lemma ok_save:
  "ok w \<Longrightarrow> acUserID ac \<in> may \<Longrightarrow> ok (save_code e code ac w)"
  "ok w \<Longrightarrow> rgUserID rg \<in> may \<Longrightarrow> ok (save_refresh e tok rg w)"
  "ok w \<Longrightarrow> \<not> dcUserAuthorized dc \<Longrightarrow> ok (save_device e dcode ucode dc w)"
  by (auto simp: save_code_def save_refresh_def save_device_def Let_def time_now_def ok_def grant_ops
      split: option.splits)

lemma ok_start_session: "ok w \<Longrightarrow> uID u \<in> may \<Longrightarrow> ok (snd (start_session e u rs w))"
proof -
  assume w: "ok w" and u: "uID u \<in> may"
  have "okS (snd (Create rnd t0 t1 (uID u) (uEmail u) s))" if "wSessions w = Some s" for rnd t0 t1 s
    using w u that session_new by (simp add: ok_def)
  with w show ?thesis
    by (auto simp: start_session_def Let_def time_now_def ok_def split: option.splits sum.splits prod.splits)
      (metis snd_conv)+
qed

lemma ok_remember: "ok w \<Longrightarrow> ok (remember_reply e code v w)"
  by (simp add: remember_reply_def Let_def time_now_def ok_def replay_put replay_sweep)

lemma ok_replay_reply: "ok w \<Longrightarrow> ok (snd (replay_reply e code rs w))"
  by (auto simp: replay_reply_def Let_def time_now_def split: option.split)

lemma ok_add_id_token: "ok w \<Longrightarrow> ok (snd (add_id_token e h s a c sc em nm op resp w))"
  by (auto simp: add_id_token_def issue_id_def time_now_def Let_def split: sum.split)

lemma ok_add_refresh_token: "ok w \<Longrightarrow> u \<in> may \<Longrightarrow> ok (snd (add_refresh_token e u c sc sid resp w))"
  by (auto simp: add_refresh_token_def new_uuid_def new_refresh_grant_def Let_def intro: ok_save)

end

context store_effects
begin

text \<open>The shape of a handler: a pair, a condition, a case, or a call followed by the rest.\<close>

lemma ok_pair: "ok w \<Longrightarrow> ok (snd (rs, w))"
  by simp

lemma ok_if: "(c \<Longrightarrow> ok (snd a)) \<Longrightarrow> (\<not> c \<Longrightarrow> ok (snd b)) \<Longrightarrow> ok (snd (if c then a else b))"
  by simp

lemma ok_if_world: "ok a \<Longrightarrow> ok b \<Longrightarrow> ok (if c then a else b)"
  by simp

lemma ok_option:
  "ok (snd a) \<Longrightarrow> (\<And>x. y = Some x \<Longrightarrow> ok (snd (f x))) \<Longrightarrow> ok (snd (case y of None \<Rightarrow> a | Some x \<Rightarrow> f x))"
  by (simp split: option.split)

lemma ok_sum:
  "(\<And>x. ok (snd (f x))) \<Longrightarrow> (\<And>x. y = Inr x \<Longrightarrow> ok (snd (k x))) \<Longrightarrow>
   ok (snd (case y of Inl x \<Rightarrow> f x | Inr x \<Rightarrow> k x))"
  by (simp split: sum.split)

lemma ok_prod: "(\<And>a b. ok (snd (f a b))) \<Longrightarrow> ok (snd (case (y :: string \<times> string) of (a, b) \<Rightarrow> f a b))"
  by (simp split: prod.split)

lemma ok_bind: "ok (snd x) \<Longrightarrow> (\<And>a w. a = fst x \<Longrightarrow> ok w \<Longrightarrow> ok (snd (f a w))) \<Longrightarrow> ok (snd (case x of (a, w) \<Rightarrow> f a w))"
  by (simp add: split_beta)

lemma okG_bind: "okG (snd x) \<Longrightarrow> (\<And>a g. a = fst x \<Longrightarrow> okG g \<Longrightarrow> ok (snd (f a g))) \<Longrightarrow> ok (snd (case x of (a, g) \<Rightarrow> f a g))"
  by (simp add: split_beta)

lemma okS_bind: "okS (snd x) \<Longrightarrow> (\<And>a s. a = fst x \<Longrightarrow> okS s \<Longrightarrow> ok (snd (f a s))) \<Longrightarrow> ok (snd (case x of (a, s) \<Rightarrow> f a s))"
  by (simp add: split_beta)

lemma ok_free_intro:
  "ok w \<Longrightarrow> ok (snd (time_now e w))" "ok w \<Longrightarrow> ok (snd (new_uuid e w))" "ok w \<Longrightarrow> ok (count_metric m w)"
  "ok w \<Longrightarrow> ok (audit_token e g u c s d w)" "ok w \<Longrightarrow> ok (audit_login e u em c s d w)"
  "ok w \<Longrightarrow> ok (audit_signup e u em d w)" "ok w \<Longrightarrow> ok (audit_change e a u s d w)"
  "ok w \<Longrightarrow> ok (snd (randomUserCode e w))" "ok w \<Longrightarrow> ok (snd (issue_access e h s0 a0 c n cl w))"
  "ok w \<Longrightarrow> ok (snd (issue_id e h s0 a0 c n sc em nm op w))"
  by simp_all

lemmas ok_rules = ok_pair ok_if ok_if_world ok_option ok_sum ok_prod ok_bind okG_bind okS_bind ok_free_intro
  ok_grants ok_sessions ok_save ok_start_session ok_remember ok_replay_reply ok_add_id_token
  ok_add_refresh_token grant_ops session_get session_revoke

section \<open>The token endpoint\<close>

text \<open>A handler that knows the credentials of the request keeps the invariant when their owner
  is one of the users.\<close>

lemma ok_password:
  assumes "ok w" and "\<And>u. GetByEmail (xCodec e) un (wDb w) = Inr (Some u) \<Longrightarrow>
      VerifyPassword (xBcrypt e) (uPasswordHash u) pw \<Longrightarrow> uID u \<in> may"
  shows "ok (snd (handlePasswordGrant e h un pw c sc au rs w))"
  unfolding handlePasswordGrant_def Let_def by (intro ok_rules assms) simp_all

lemma ok_client_credentials: "ok w \<Longrightarrow> ok (snd (handleClientCredentials e h c rs w))"
  unfolding handleClientCredentials_def Let_def by (intro ok_rules)

lemma ok_code_tokens: "ok w \<Longrightarrow> acUserID ac \<in> may \<Longrightarrow> ok (snd (code_tokens e h code c ac rs w))"
  unfolding code_tokens_def Let_def by (intro ok_rules) (simp_all add: GetByID_id)

lemma ok_code: "ok w \<Longrightarrow> ok (snd (handleAuthorizationCode e h code ru c cs cv rs w))"
  unfolding handleAuthorizationCode_def Let_def
  by (rule ok_cases; (intro ok_rules ok_code_tokens)?) (auto intro: code_user [OF _ sym])

lemma ok_refresh: "ok w \<Longrightarrow> ok (snd (handleRefreshToken e h tok c rs w))"
  unfolding handleRefreshToken_def Let_def
  by (rule ok_cases; (intro ok_rules)?) (auto intro: refresh_user [OF _ sym])

lemma ok_revoke: "ok w \<Longrightarrow> ok (snd (handleRevoke e r rs w))"
  unfolding handleRevoke_def Let_def by (intro ok_rules ok_cases(3))

lemma ok_introspect: "ok w \<Longrightarrow> ok (snd (handleIntrospect e h r rs w))"
  unfolding handleIntrospect_def Let_def by (intro ok_rules)

lemma ok_device_request: "ok w \<Longrightarrow> ok (snd (handleDeviceCodeRequest e h r rs w))"
  unfolding handleDeviceCodeRequest_def Let_def by (intro ok_rules) (simp_all add: new_device_def)

lemma ok_device_authorize:
  "ok w \<Longrightarrow> authenticated e r (wDb w) \<subseteq> may \<Longrightarrow> ok (snd (handleDeviceAuthorize e r rs w))"
  unfolding handleDeviceAuthorize_def Let_def
  by (intro ok_rules ok_cases(3)) (auto simp: time_now_def intro!: ok_rules dest: authenticated_form)

lemma ok_device_tokens: "ok w \<Longrightarrow> ok (snd (device_tokens e h dc rs w))"
  unfolding device_tokens_def Let_def by (intro ok_rules)

lemma ok_device_token: "ok w \<Longrightarrow> ok (snd (handleDeviceCodeToken e h dc rs w))"
  unfolding handleDeviceCodeToken_def Let_def by (rule ok_cases; (intro ok_rules ok_device_tokens)?)

lemma ok_token: "ok w \<Longrightarrow> authenticated e r (wDb w) \<subseteq> may \<Longrightarrow> ok (snd (handleToken e h r rs w))"
  unfolding handleToken_def Let_def
  by (intro ok_rules ok_password ok_client_credentials ok_code ok_refresh ok_device_token)
    (auto dest: authenticated_param)

end

context store_effects
begin

section \<open>The browser endpoints\<close>

lemma ok_implicit_tokens: "ok w \<Longrightarrow> ok (snd (implicit_tokens e h u ap wt wi w))"
  unfolding implicit_tokens_def Let_def by (intro ok_rules)

lemma ok_implicit: "ok w \<Longrightarrow> ok (snd (handleImplicitAuthorize e h ap un pw v rs w))"
  unfolding handleImplicitAuthorize_def Let_def by (intro ok_rules ok_implicit_tokens)

lemma ok_issue_code: "ok w \<Longrightarrow> uid \<in> may \<Longrightarrow> ok (snd (issue_code e uid ap v rs w))"
  unfolding issue_code_def Let_def by (intro ok_rules) (simp_all add: new_auth_code_def)

lemma ok_session_user: "ok w \<Longrightarrow> ok (snd (session_user e r w))"
  unfolding session_user_def Let_def by (rule ok_cases; (intro ok_rules)?)

lemma session_user_may:
  assumes "ok w" and "fst (session_user e r w) = Some u"
  shows "uID u \<in> may"
proof -
  obtain ss c t0 t1 t2 sess where "wSessions w = Some ss" "fst (GetSession t0 t1 t2 c ss) = Some sess"
      "GetByID (xCodec e) (sUserID sess) (wDb w) = Inr (Some u)"
    using assms(2)
    by (auto simp: session_user_def Let_def time_now_def split_beta split: option.splits if_splits sum.splits)
  with assms(1) session_owner show ?thesis by (auto simp: ok_def GetByID_id)
qed

lemma ok_login_required: "ok w \<Longrightarrow> ok (snd (if c then session_user e r w else (None, w)))"
  by (simp add: ok_session_user)

lemma ok_authorize_code:
  "ok w \<Longrightarrow> authenticated e r (wDb w) \<subseteq> may \<Longrightarrow> ok (snd (authorize_code e h r ap v rs w))"
  unfolding authorize_code_def Let_def
  by (intro ok_rules ok_issue_code ok_login_required)
    (auto dest: authenticated_query intro: session_user_may [OF _ sym] split: if_splits)

lemma ok_authorize: "ok w \<Longrightarrow> authenticated e r (wDb w) \<subseteq> may \<Longrightarrow> ok (snd (handleAuthorize e h r rs w))"
  unfolding handleAuthorize_def Let_def by (intro ok_rules ok_implicit ok_authorize_code)

lemma ok_login_implicit: "ok w \<Longrightarrow> ok (snd (login_implicit e h u ap wt wi v rs w))"
  unfolding login_implicit_def Let_def by (intro ok_rules ok_implicit_tokens)

lemma ok_login_code: "ok w \<Longrightarrow> uid \<in> may \<Longrightarrow> ok (snd (login_code e uid ap v rs w))"
  unfolding login_code_def Let_def by (intro ok_rules) (simp_all add: new_auth_code_def)

lemma ok_login: "ok w \<Longrightarrow> authenticated e r (wDb w) \<subseteq> may \<Longrightarrow> ok (snd (handleLogin e h r rs w))"
  unfolding handleLogin_def Let_def
  by (intro ok_rules ok_login_implicit ok_login_code) (auto dest: authenticated_form)

lemma ok_callback: "ok w \<Longrightarrow> ok (snd (handleLoginCallback h r rs w))"
  unfolding handleLoginCallback_def Let_def by (intro ok_rules)

lemma ok_logout: "ok w \<Longrightarrow> ok (snd (handleLogout e r rs w))"
proof -
  assume w: "ok w"
  have "ok (snd (case wSessions w of None \<Rightarrow> (rs, w) | Some ss \<Rightarrow>
      (set_cookie ck rs, case rqCookie r of None \<Rightarrow> w
         | Some c \<Rightarrow> if c \<noteq> [] then w\<lparr>wSessions := Some (Revoke c ss)\<rparr> else w)))" for ck
    using w by (auto simp: ok_def session_revoke split: option.split)
  then show ?thesis
    unfolding handleLogout_def Let_def by (rule ok_bind) (intro ok_rules)
qed

section \<open>Reading the database\<close>

lemmas reader_defs = handleHealth_def handleMetrics_def handleJWKS_def handleOpenIDConfig_def handleGetUser_def
  handleListUsers_def handleGetUserBlocks_def handleGetRole_def handleListRoles_def handleGetUserRoles_def
  handleGetUserPermissions_def handleListClients_def handleGetClient_def handleListConnections_def
  handleGetConnection_def handleListLogs_def handleUserinfo_def handleTokeninfo_def

lemma ok_readers:
  assumes "ok w"
  shows "ok (snd (handleHealth rs w))" and "ok (snd (handleMetrics rs w))" and "ok (snd (handleJWKS h rs w))"
    and "ok (snd (handleOpenIDConfig h rs w))" and "ok (snd (handleGetUser e p rs w))"
    and "ok (snd (handleListUsers e r rs w))" and "ok (snd (handleGetUserBlocks p rs w))"
    and "ok (snd (handleGetRole p rs w))" and "ok (snd (handleListRoles rs w))"
    and "ok (snd (handleGetUserRoles e p rs w))" and "ok (snd (handleGetUserPermissions e p rs w))"
    and "ok (snd (handleListClients rs w))" and "ok (snd (handleGetClient p rs w))"
    and "ok (snd (handleListConnections rs w))" and "ok (snd (handleGetConnection p rs w))"
    and "ok (snd (handleListLogs r rs w))" and "ok (snd (handleUserinfo e h r rs w))"
    and "ok (snd (handleTokeninfo e h r rs w))"
  using assms unfolding reader_defs Let_def
  by (auto simp: split_beta split: option.split sum.split)

text \<open>Every request other than the ones of the management API that write.\<close>

lemma ok_get:
  assumes "ok w" and "rqMethod r = ''GET''" and "authenticated e r (wDb w) \<subseteq> may"
  shows "ok (snd (ServeHTTP e h r w))"
  unfolding ServeHTTP_def Let_def handleUniversalLogin_def assms(2)
  by (simp add: assms(1,3) ok_readers ok_authorize ok_login ok_device_authorize ok_logout ok_callback)

end

section \<open>Writing the database\<close>

locale server_effects = store_effects may okG okS okR okD
  for may :: "string set" and okG :: "grant_store \<Rightarrow> bool" and okS :: "session_store \<Rightarrow> bool"
    and okR :: "(goval \<times> time) gomap \<Rightarrow> bool" and okD :: "db \<Rightarrow> bool" +
  assumes db_op: "okD d \<Longrightarrow> okD (db_step js bc um op d)"
begin

lemma db_ops:
  assumes "okD d"
  shows "okD (snd (DeleteUser i d))" and "okD (snd (UpdateUser js i m d))" and "okD (snd (CreateRole ro d))"
    and "okD (snd (UpdateRole i nm ds d))" and "okD (snd (DeleteRole i d))" and "okD (snd (BlockUser i d))"
    and "okD (snd (UnblockUser i d))" and "okD (snd (AssignRoleToUser i nm d))"
    and "okD (snd (RemoveRoleFromUser i nm d))" and "okD (snd (UpdateClient i m d))"
    and "okD (snd (snd (CreateUser js bc n t u pw d)))"
  using db_op [OF assms, of _ _ _ "DbDeleteUser i"] db_op [OF assms, of js _ _ "DbUpdateUser i m"]
    db_op [OF assms, of _ _ _ "DbCreateRole ro"] db_op [OF assms, of _ _ _ "DbUpdateRole i nm ds"]
    db_op [OF assms, of _ _ _ "DbDeleteRole i"] db_op [OF assms, of _ _ _ "DbBlock i"]
    db_op [OF assms, of _ _ _ "DbUnblock i"] db_op [OF assms, of _ _ _ "DbAssignRole i nm"]
    db_op [OF assms, of _ _ _ "DbRemoveRole i nm"] db_op [OF assms, of _ _ _ "DbUpdateClient i m"]
    db_op [OF assms, of js bc _ "DbCreateUser n t u pw"]
  by simp_all

lemma ok_wDb: "ok w \<Longrightarrow> okD (wDb w)"
  by (simp add: ok_def)

text \<open>A statement on the database, its error, and the rest of the handler.\<close>

lemma okD_bind:
  "okD (snd x) \<Longrightarrow> (\<And>a d. okD d \<Longrightarrow> ok (snd (f a d))) \<Longrightarrow> ok (snd (case x of (a, d) \<Rightarrow> f a d))"
  by (simp add: split_beta)

lemma okD_if: "okD (snd a) \<Longrightarrow> okD (snd b) \<Longrightarrow> okD (snd (if c then a else b))"
  by simp

lemma ok_bind3:
  "ok (snd (snd x)) \<Longrightarrow> (\<And>a (b :: user) w. ok w \<Longrightarrow> ok (snd (f a b w))) \<Longrightarrow>
   ok (snd (case x of (a, b, w) \<Rightarrow> f a b w))"
  by (simp add: split_beta)

lemma ok_create_user: "ok w \<Longrightarrow> ok (snd (snd (create_user e u pw w)))"
  by (simp add: create_user_def time_now_def split_beta Let_def ok_def db_ops)

lemmas ok_db_rules = ok_rules ok_db okD_bind ok_bind3 ok_create_user db_ops ok_wDb

lemma ok_signup: "ok w \<Longrightarrow> ok (snd (handleSignup e r rs w))"
  unfolding handleSignup_def Let_def by (intro ok_db_rules)

lemma ok_create_user_mgmt: "ok w \<Longrightarrow> ok (snd (handleCreateUserMgmt e r rs w))"
  unfolding handleCreateUserMgmt_def Let_def by (intro ok_db_rules)

lemma ok_delete_user: "ok w \<Longrightarrow> ok (snd (handleDeleteUser e p rs w))"
  unfolding handleDeleteUser_def Let_def by (intro ok_db_rules)

lemma ok_patch_user: "ok w \<Longrightarrow> ok (snd (handlePatchUser e r rs w))"
  unfolding handlePatchUser_def Let_def by (intro ok_db_rules)

lemma ok_blocks_modify: "ok w \<Longrightarrow> ok (snd (handleUserBlocksModify r p rs w))"
  unfolding handleUserBlocksModify_def Let_def
  by (intro ok_db_rules okD_if)

lemma ok_create_role: "ok w \<Longrightarrow> ok (snd (handleCreateRole e r rs w))"
  unfolding handleCreateRole_def Let_def by (intro ok_db_rules)

lemma ok_patch_role: "ok w \<Longrightarrow> ok (snd (handlePatchRole e r p rs w))"
  unfolding handlePatchRole_def Let_def by (intro ok_db_rules)

lemma ok_delete_role: "ok w \<Longrightarrow> ok (snd (handleDeleteRole p rs w))"
  unfolding handleDeleteRole_def Let_def by (intro ok_db_rules)

lemma ok_patch_client: "ok w \<Longrightarrow> ok (snd (handlePatchClient e r p rs w))"
  unfolding handlePatchClient_def Let_def by (intro ok_db_rules)

lemma ok_roles_modify: "ok w \<Longrightarrow> ok (snd (handleUserRolesModify e r p rs w))"
proof -
  have loop: "okD (fold (\<lambda>rv d. if role_id_of rv \<noteq> [] then
        (if rqMethod r = ''DELETE'' then snd (RemoveRoleFromUser u (role_id_of rv) d)
         else snd (AssignRoleToUser u (role_id_of rv) d)) else d) vs d)" if "okD d" for u vs d
    using that by (induction vs arbitrary: d) (simp_all add: db_ops)
  show "ok w \<Longrightarrow> ?thesis"
    unfolding handleUserRolesModify_def Let_def by (intro ok_db_rules loop)
qed

theorem ok_serve: "ok w \<Longrightarrow> authenticated e r (wDb w) \<subseteq> may \<Longrightarrow> ok (snd (ServeHTTP e h r w))"
  unfolding ServeHTTP_def Let_def handleUniversalLogin_def
  by (intro ok_rules ok_readers ok_authorize ok_login ok_device_authorize ok_logout ok_callback ok_token
      ok_revoke ok_introspect ok_device_request ok_signup ok_create_user_mgmt ok_delete_user ok_patch_user
      ok_blocks_modify ok_create_role ok_patch_role ok_delete_role ok_patch_client ok_roles_modify)

end

section \<open>The program's stores\<close>

text \<open>The handlers keep every store well-formed.\<close>

interpretation wf_world: server_effects UNIV wf_grants wf_sessions wf_map wf_db
  by unfold_locales (simp_all add: wf_grant_step wf_db_step)

text \<open>And the ones that only read leave the database exactly as it is.\<close>

interpretation same_db: store_effects UNIV "\<lambda>_. True" "\<lambda>_. True" "\<lambda>_. True" "\<lambda>d. d = d0" for d0
  by unfold_locales simp_all

text \<open>A run of the server.\<close>

lemma wf_serve_all: "wf_world.ok w \<Longrightarrow> wf_world.ok (serve_all e h rqs w)"
  unfolding serve_all_def by (induction rqs arbitrary: w) (simp_all add: wf_world.ok_serve)

end
