(* ===== verification/Token_Props.thy ===== *)
theory Token_Props
  imports Token
begin

text \<open>
  Lemmas and properties of the token issuer: what each claim is, how the configured claims and
  the standard ones combine, the lifetime within the range of \<^verbatim>\<open>time.Duration\<close> and outside of
  it, the round trip from issuing to validation, and the key set.
\<close>

section \<open>Claims\<close>

definition standard_claims :: "time \<Rightarrow> issuer \<Rightarrow> string \<Rightarrow> string \<Rightarrow> string \<Rightarrow> int \<Rightarrow> string \<rightharpoonup> goval" where
  "standard_claims now i sub aud clientID expiresIn =
     (let base = map_of [(''sub'', GStr sub), (''iss'', GStr (iIssuer i)), (''aud'', GStr aud),
          (''exp'', GInt (unix (now + duration_seconds (if expiresIn \<le> 0 then 3600 else expiresIn)))),
          (''iat'', GInt (unix now))]
      in if clientID = [] then base else base(''azp'' \<mapsto> GStr clientID))"

lemma issue_claims_lookup:
  assumes "wf_map custom"
  shows "map_of (issue_claims now i sub aud cid n custom) = standard_claims now i sub aud cid n ++ map_of custom"
  by (rule ext)
    (simp add: issue_claims_def standard_claims_def Let_def map_of_put_all [OF assms] map_add_def
      split: option.split)

lemma wf_issue_claims: "wf_map (issue_claims now i sub aud cid n custom)"
  unfolding issue_claims_def Let_def
  by (rule wf_map_put_all) (simp add: wf_map_def distinct_update)

section \<open>The range of durations\<close>

lemma unix_add_seconds: "unix (now + n * second) = unix now + n"
  by (simp add: unix_def)

lemma duration_seconds_id: "0 \<le> n \<Longrightarrow> n \<le> 9223372036 \<Longrightarrow> duration_seconds n = n * second"
  by (simp add: duration_seconds_def int64_id)

section \<open>JSON\<close>

text \<open>What the claims look like after a token has been serialised and parsed.\<close>

primrec json_view :: "goval \<Rightarrow> goval" where
  "json_view GNil = GNil"
| "json_view (GBool b) = GBool b"
| "json_view (GInt n) = GFloat (of_int n)"
| "json_view (GFloat x) = GFloat x"
| "json_view (GStr s) = GStr s"
| "json_view (GStrs ss) = GArr (map GStr ss)"
| "json_view (GArr vs) = GArr (map json_view vs)"
| "json_view (GObj m) = GObj (map (map_prod id json_view) m)"

definition json_dict :: "dict \<Rightarrow> dict" where
  "json_dict m = map (map_prod id json_view) m"

lemma map_of_json_dict [simp]: "map_of (json_dict m) k = map_option json_view (map_of m k)"
  unfolding json_dict_def by (induction m) auto

section \<open>Big integers\<close>

definition of_big_bytes :: "nat list \<Rightarrow> nat" where
  "of_big_bytes bs = fold (\<lambda>b acc. acc * 256 + b) bs 0"

lemma big_bytes_bound: "\<forall>b\<in>set (big_bytes n). b < 256"
proof (induction n rule: big_bytes.induct)
  case (1 n)
  then show ?case by (cases "n = 0") (auto simp: big_bytes.simps [of n] big_bytes.simps [of 0])
qed

lemma of_big_bytes_big_bytes: "of_big_bytes (big_bytes n) = n"
proof (induction n rule: big_bytes.induct)
  case (1 n)
  then show ?case
    by (cases "n = 0") (auto simp: big_bytes.simps [of n] big_bytes.simps [of 0] of_big_bytes_def)
qed

lemma split_two_cases:
  "split_two c s = (if c \<in> set s then [takeWhile (\<lambda>x. x \<noteq> c) s, tl (dropWhile (\<lambda>x. x \<noteq> c) s)] else [s])"
proof (cases "c \<in> set s")
  case True
  then have "takeWhile (\<lambda>x. x \<noteq> c) s \<noteq> s" by (auto simp: takeWhile_eq_all_conv)
  with True show ?thesis
    by (simp add: split_two_def Let_def dropWhile_eq_drop drop_Suc tl_drop)
next
  case False
  then have "takeWhile (\<lambda>x. x \<noteq> c) s = s" by (auto simp: takeWhile_eq_all_conv)
  with False show ?thesis by (simp add: split_two_def)
qed

section \<open>Properties\<close>

text \<open>The claims of an access token are the standard ones (subject, issuer, audience, expiry,
  issue time, authorized party when there is a client), except where the configured claims
  name the same key: those win.\<close>

lemma access_token_claims:
  assumes "wf_map custom"
  shows "map_of (issue_claims now i sub aud cid n custom) k =
    (case map_of custom k of
       Some v \<Rightarrow> Some v
     | None \<Rightarrow>
         if k = ''sub'' then Some (GStr sub)
         else if k = ''iss'' then Some (GStr (iIssuer i))
         else if k = ''aud'' then Some (GStr aud)
         else if k = ''exp'' then Some (GInt (unix (now + duration_seconds (if n \<le> 0 then 3600 else n))))
         else if k = ''iat'' then Some (GInt (unix now))
         else if k = ''azp'' \<and> cid \<noteq> [] then Some (GStr cid)
         else None)"
unfolding issue_claims_lookup [OF assms] map_add_def standard_claims_def Let_def
  by (cases "map_of custom k") (simp_all only: option.case fun_upd_apply if_distribR map_of.simps
      fst_conv snd_conv if_False if_True, auto)

definition sample_key :: rsa_key where
  "sample_key = \<lparr>rsaN = 3233, rsaE = 17, rsaPrivate = ''2753''\<rparr>"

definition sample_issuer :: issuer where
  "sample_issuer = \<lparr>iIssuer = ''http://localhost:9092/'', iKey = sample_key, iKid = ''k''\<rparr>"

text \<open>A token lives exactly the requested number of seconds, for every request from one second
  to the 9223372036 seconds that fit in a \<^verbatim>\<open>time.Duration\<close>.\<close>

lemma access_token_lifetime:
  assumes "0 < n" and "n \<le> 9223372036" and "map_of custom ''exp'' = None" and "map_of custom ''iat'' = None"
    and "wf_map custom"
  shows "\<exists>e i. map_of (issue_claims now iss sub aud cid n custom) ''exp'' = Some (GInt e)
    \<and> map_of (issue_claims now iss sub aud cid n custom) ''iat'' = Some (GInt i) \<and> e = i + n"
  using assms
  by (simp add: issue_claims_lookup standard_claims_def Let_def map_add_def duration_seconds_id
      unix_add_seconds [simplified])

text \<open>C31: Beyond that range the multiplication overflows: for every lifetime from 9223372037 to
  18446744072 seconds the token is issued with an expiry before its issue time.\<close>

theorem access_token_lifetime_overflow:
  assumes "9223372037 \<le> n" and "n \<le> 18446744072" and "wf_map custom"
    and "map_of custom ''exp'' = None" and "map_of custom ''iat'' = None"
  shows "\<exists>e i. map_of (issue_claims now iss sub aud cid n custom) ''exp'' = Some (GInt e)
    \<and> map_of (issue_claims now iss sub aud cid n custom) ''iat'' = Some (GInt i) \<and> e < i"
proof -
  have "duration_seconds n = n * second - 2 ^ 64"
    using assms(1,2) by (simp add: duration_seconds_def int64_wrap)
  also have "\<dots> \<le> - second" using assms(2) by simp
  finally have "unix (now + duration_seconds n) \<le> unix (now + (-1) * second)"
    unfolding unix_def by (intro zdiv_mono1) simp_all
  also have "\<dots> = unix now - 1"
    using unix_add_seconds [of now "-1"] by simp
  finally have "unix (now + duration_seconds n) < unix now" by simp
  then show ?thesis
    using assms by (simp add: issue_claims_lookup standard_claims_def Let_def map_add_def)
qed

theorem access_token_lifetime_overflow_witness:
  "\<exists>e i. map_of (issue_claims 0 sample_issuer ''u'' ''a'' ''c'' 10000000000 []) ''exp'' = Some (GInt e)
     \<and> map_of (issue_claims 0 sample_issuer ''u'' ''a'' ''c'' 10000000000 []) ''iat'' = Some (GInt i) \<and> e < i"
  by (rule access_token_lifetime_overflow) simp_all

text \<open>The key set publishes the public key: decoding its members \<open>n\<close> and \<open>e\<close> gives back the
  modulus and the exponent.\<close>

lemma jwks_publishes_key:
  "\<exists>jwk n e. JWKS i = GObj [(''keys'', GArr [GObj jwk])]
     \<and> map_of jwk ''kid'' = Some (GStr (iKid i))
     \<and> map_of jwk ''n'' = Some (GStr n) \<and> of_big_bytes (b64_decode n) = rsaN (iKey i)
     \<and> map_of jwk ''e'' = Some (GStr e) \<and> of_big_bytes (b64_decode e) = rsaE (iKey i)"
  by (simp add: JWKS_def Let_def b64_decode_encode big_bytes_bound of_big_bytes_big_bytes)

section \<open>ID token claims\<close>

definition effective_scope :: "string \<Rightarrow> string" where
  "effective_scope scope = (if scope = [] then ''openid profile email'' else scope)"

definition custom_of :: "id_token_options option \<Rightarrow> dict" where
  "custom_of opts = (case opts of None \<Rightarrow> [] | Some o' \<Rightarrow> optCustomClaims o')"

lemma option_claims_lookup:
  "wf_map (optCustomClaims o') \<Longrightarrow> map_of (option_claims o' claims) k =
   (case map_of (optCustomClaims o') k of
      Some v \<Rightarrow> Some v
    | None \<Rightarrow>
        if k = ''sid'' \<and> optSessionID o' \<noteq> [] then Some (GStr (optSessionID o'))
        else if k = ''c_hash'' \<and> optAuthCode o' \<noteq> [] then Some (GStr (leftHalfHash (optAuthCode o')))
        else if k = ''at_hash'' \<and> optAccessToken o' \<noteq> [] then Some (GStr (leftHalfHash (optAccessToken o')))
        else if k = ''amr'' \<and> optAMR o' \<noteq> [] then Some (GStrs (optAMR o'))
        else if k = ''nonce'' \<and> optNonce o' \<noteq> [] then Some (GStr (optNonce o'))
        else map_of claims k)"
  unfolding option_claims_def Let_def
  by (cases "map_of (optCustomClaims o') k")
    (simp_all only: map_of_put_all option.case if_distrib [where f = map_of] if_distribR
      map_of_update fun_upd_apply, auto)

lemma email_claims_lookup:
  "map_of (email_claims scope email claims) k =
   (if contains ''email'' scope \<and> email \<noteq> [] \<and> k = ''email_verified'' then Some (GBool True)
    else if contains ''email'' scope \<and> email \<noteq> [] \<and> k = ''email'' then Some (GStr email)
    else map_of claims k)"
  by (simp add: email_claims_def)

lemma profile_claims_other:
  "k \<notin> {''name'', ''given_name'', ''family_name'', ''nickname'', ''picture''} \<Longrightarrow>
   map_of (profile_claims scope name picture claims) k = map_of claims k"
  by (simp add: profile_claims_def Let_def)

lemma profile_claims_name:
  "map_of (profile_claims scope name picture claims) ''name'' =
   (if (contains ''profile'' scope \<or> contains ''openid'' scope) \<and> name \<noteq> [] then Some (GStr name)
    else map_of claims ''name'')"
  by (simp add: profile_claims_def Let_def)

lemma id_token_base_other:
  "k \<notin> {''sub'', ''iss'', ''aud'', ''exp'', ''iat'', ''auth_time'', ''azp''} \<Longrightarrow>
   map_of (id_token_base now i sub aud cid n) k = None"
  by (simp add: id_token_base_def Let_def)

lemma id_token_claims_option:
  "k \<notin> {''name'', ''given_name'', ''family_name'', ''nickname'', ''picture'', ''email'', ''email_verified''} \<Longrightarrow>
   map_of (id_token_claims now i sub aud cid n scope email name pic (Some o')) k =
   map_of (option_claims o' (id_token_base now i sub aud cid n)) k"
  by (simp add: id_token_claims_def Let_def profile_claims_other email_claims_lookup)

lemma length_leftHalfHash: "length (leftHalfHash s) = 22"
  by (simp add: leftHalfHash_def Let_def raw_url_encode_length)

text \<open>The identity claims of an ID token follow the scope: the email address appears exactly
  when the scope asks for it and there is one, then verified and whatever the rules have put
  there; otherwise only the rules can add it.\<close>

lemma id_token_email:
  assumes "wf_map (custom_of opts)"
  shows "map_of (id_token_claims now i sub aud cid n scope email name pic opts) ''email'' =
    (if contains ''email'' (effective_scope scope) \<and> email \<noteq> [] then Some (GStr email)
     else map_of (custom_of opts) ''email'')"
  using assms
  by (cases opts)
    (simp_all add: id_token_claims_def Let_def profile_claims_other email_claims_lookup
      option_claims_lookup id_token_base_other effective_scope_def custom_of_def split: option.split)

text \<open>C32: Replay protection and token binding: unless the rules override them, the nonce is the
  client's, \<open>at_hash\<close> and \<open>c_hash\<close> are the left halves of the SHA-256 of the access token and
  of the code (22 characters each), and \<open>sid\<close> is the session; each is absent when its input is.\<close>

theorem id_token_binding:
  assumes "wf_map (optCustomClaims o')"
    and "\<forall>k\<in>{''nonce'', ''at_hash'', ''c_hash'', ''sid''}. map_of (optCustomClaims o') k = None"
  shows "let claims = id_token_claims now i sub aud cid n scope email name pic (Some o')
    in map_of claims ''nonce'' = (if optNonce o' = [] then None else Some (GStr (optNonce o')))
     \<and> map_of claims ''sid'' = (if optSessionID o' = [] then None else Some (GStr (optSessionID o')))
     \<and> map_of claims ''at_hash'' = (if optAccessToken o' = [] then None
         else Some (GStr (raw_url_encode (take 16 (sha256 (bytes_of (optAccessToken o')))))))
     \<and> map_of claims ''c_hash'' = (if optAuthCode o' = [] then None
         else Some (GStr (raw_url_encode (take 16 (sha256 (bytes_of (optAuthCode o')))))))"
proof -
  note look = id_token_claims_option option_claims_lookup [OF assms(1)] id_token_base_other
  show ?thesis
    unfolding Let_def using assms(2)
    by (intro conjI) (simp_all add: look leftHalfHash_def)
qed

theorem id_token_binding_witness:
  "map_of (id_token_claims 0 sample_issuer ''u'' ''a'' ''c'' 60 ''openid'' [] ''X'' []
     (Some \<lparr>optNonce = ''n1'', optAMR = [''pwd''], optAccessToken = [], optAuthCode = [],
            optSessionID = [], optCustomClaims = []\<rparr>)) ''nonce'' = Some (GStr ''n1'')"
  using id_token_binding [of "\<lparr>optNonce = ''n1'', optAMR = [''pwd''], optAccessToken = [], optAuthCode = [],
      optSessionID = [], optCustomClaims = []\<rparr>"]
  by (simp add: Let_def)

section \<open>Validation\<close>

lemma iss_accepted: "s = trim_suffix ''/'' s \<or> s = trim_suffix ''/'' s @ ''/''"
  by (auto simp: trim_suffix_def has_suffix_iff)

text \<open>Validation accepts exactly the tokens the library verifies under the issuer's key and
  whose \<open>iss\<close> is the issuer's URL up to a trailing slash, and returns their claims.\<close>

lemma Validate_iff:
  "(Validate lib now i tok = Inr claims) =
   (jwtParse lib (iKey i) now tok = Inr (Some claims, True)
    \<and> (let u = trim_suffix ''/'' (iIssuer i); iss = str_or_empty (as_str (map_of claims ''iss''))
       in iss = u \<or> iss = u @ ''/''))"
  by (auto simp: Validate_def Let_def split: sum.splits option.splits prod.splits)

text \<open>
  The documented behaviour of golang-jwt that the round trip needs, for one token: what was
  signed with the key parses and verifies with it, to the claims as JSON shows them, as long
  as the expiry claim is not reached.
\<close>

definition parses_signed :: "jwt_lib \<Rightarrow> rsa_key \<Rightarrow> string \<Rightarrow> dict \<Rightarrow> bool" where
  "parses_signed lib key kid claims \<longleftrightarrow>
     (\<forall>tok now e. jwtSign lib key kid claims = Inr tok \<longrightarrow> map_of claims ''exp'' = Some (GInt e) \<longrightarrow>
        unix now < e \<longrightarrow> jwtParse lib key now tok = Inr (Some (json_dict claims), True))"

text \<open>What the issuer issues it accepts: an access token validates at every instant before its
  expiry and shows its subject, audience and client, provided the configured claims leave
  the standard ones alone.\<close>

lemma issued_token_validates:
  assumes lib: "parses_signed lib (iKey i) (iKid i) (issue_claims now i sub aud cid n custom)"
    and tok: "Issue lib now i sub aud cid n custom = Inr tok"
    and custom: "wf_map custom" "\<forall>k\<in>{''sub'', ''iss'', ''aud'', ''exp'', ''azp''}. map_of custom k = None"
    and n: "0 < n" "n \<le> 9223372036" and alive: "unix now' < unix now + n"
  shows "\<exists>claims. Validate lib now' i tok = Inr claims \<and> map_of claims ''sub'' = Some (GStr sub)
    \<and> map_of claims ''aud'' = Some (GStr aud)
    \<and> map_of claims ''azp'' = (if cid = [] then None else Some (GStr cid))"
proof -
  let ?c = "issue_claims now i sub aud cid n custom"
  have c: "map_of ?c ''exp'' = Some (GInt (unix now + n))" "map_of ?c ''iss'' = Some (GStr (iIssuer i))"
    "map_of ?c ''sub'' = Some (GStr sub)" "map_of ?c ''aud'' = Some (GStr aud)"
    "map_of ?c ''azp'' = (if cid = [] then None else Some (GStr cid))"
    using custom n
    by (simp_all add: issue_claims_lookup standard_claims_def Let_def map_add_def duration_seconds_id
        unix_add_seconds [simplified])
  have "jwtParse lib (iKey i) now' tok = Inr (Some (json_dict ?c), True)"
    using lib tok c(1) alive by (simp add: parses_signed_def Issue_def)
  then have "Validate lib now' i tok = Inr (json_dict ?c)"
    using iss_accepted [of "iIssuer i"]
    by (simp add: Validate_iff c Let_def as_str_def str_or_empty_def)
  then show ?thesis by (simp add: c)
qed

definition sample_lib :: "dict \<Rightarrow> jwt_lib" where
  "sample_lib c = \<lparr>jwtSign = (\<lambda>_ _ _. Inr ''a.b.c''),
     jwtParse = (\<lambda>_ _ s. if s = ''a.b.c'' then Inr (Some (json_dict c), True) else Inl ''malformed'')\<rparr>"

end
