(* ===== verification/Grants_Props.thy ===== *)
theory Grants_Props
  imports Grants_Facts
begin

text \<open>
  The grant store as a state machine: the runs it can make from \<^verbatim>\<open>NewStore\<close> when the callers
  hand it fresh codes (random UUIDs and user codes), the invariant that ties user codes to
  device codes, and the properties of the store.
\<close>

section \<open>Runs\<close>

text \<open>
  What the handlers guarantee of a new device code: it is not in use, neither is its user
  code, and nobody has authorized it yet.
\<close>

fun fresh_op :: "(string \<Rightarrow> string) \<Rightarrow> grant_store \<Rightarrow> grant_op \<Rightarrow> bool" where
  "fresh_op up s (OpSaveDevice t0 t1 d u dc) =
     (dcUserCode dc = u \<and> \<not> dcUserAuthorized dc \<and> map_of (devices s) d = None
      \<and> map_of (userCodes s) (normalize_code up u) = None)"
| "fresh_op up s _ = True"

inductive grant_trace :: "(string \<Rightarrow> string) \<Rightarrow> grant_op list \<Rightarrow> grant_store \<Rightarrow> bool"
  for up :: "string \<Rightarrow> string" where
  start: "grant_trace up [] (NewStore c r ds)"
| step: "grant_trace up tr s \<Longrightarrow> fresh_op up s op \<Longrightarrow> grant_trace up (tr @ [op]) (grant_step up op s)"

inductive_cases grant_trace_NilE: "grant_trace up [] s"

lemma grant_trace_wf: "grant_trace up tr s \<Longrightarrow> wf_grants s"
  by (induction rule: grant_trace.induct) (auto intro: wf_grant_step wf_NewStore)

section \<open>User codes and device codes\<close>

text \<open>The user code under which a device code is indexed.\<close>

definition index_of :: "(string \<Rightarrow> string) \<Rightarrow> device_code gomap \<Rightarrow> string \<Rightarrow> string option" where
  "index_of up ds d = map_option (\<lambda>dc. normalize_code up (dcUserCode dc)) (map_of ds d)"

definition linked :: "(string \<Rightarrow> string) \<Rightarrow> grant_store \<Rightarrow> bool" where
  "linked up s \<longleftrightarrow>
     (\<forall>u d. map_of (userCodes s) u = Some d \<longleftrightarrow> index_of up (devices s) d = Some u)"

lemma linkedD: "linked up s \<Longrightarrow> map_of (userCodes s) u = Some d \<longleftrightarrow> index_of up (devices s) d = Some u"
  by (simp add: linked_def)

lemma index_of_update [simp]:
  "index_of up (AList.update d dc ds) =
   (index_of up ds)(d \<mapsto> normalize_code up (dcUserCode dc))"
  by (auto simp: index_of_def fun_eq_iff)

lemma index_of_delete [simp]: "index_of up (AList.delete d ds) = (index_of up ds)(d := None)"
  by (auto simp: index_of_def fun_eq_iff)

lemma index_of_Some: "map_of ds d = Some dc \<Longrightarrow> index_of up ds d = Some (normalize_code up (dcUserCode dc))"
  by (simp add: index_of_def)

lemma linked_cong:
  "devices s = devices s' \<Longrightarrow> userCodes s = userCodes s' \<Longrightarrow> linked up s = linked up s'"
  by (simp add: linked_def)

lemma linked_inj:
  "linked up s \<Longrightarrow> index_of up (devices s) d = Some u \<Longrightarrow> index_of up (devices s) d' = Some u \<Longrightarrow> d = d'"
  using linkedD [of up s u d] linkedD [of up s u d'] by simp

definition dead_at :: "time \<Rightarrow> device_code gomap \<Rightarrow> string \<Rightarrow> bool" where
  "dead_at now ds d \<longleftrightarrow> (\<exists>dc. map_of ds d = Some dc \<and> dead_device now dc)"

lemma index_of_sweep:
  "wf_map ds \<Longrightarrow> index_of up (sweep (dead_device now) ds) d =
   (if dead_at now ds d then None else index_of up ds d)"
  by (auto simp: index_of_def dead_at_def map_of_sweep split: option.split)

lemma ex_dead_iff:
  "wf_map ds \<Longrightarrow>
   (\<exists>(d, dc) \<in> set ds. dead_device now dc \<and> normalize_code up (dcUserCode dc) = u) \<longleftrightarrow>
   (\<exists>d. dead_at now ds d \<and> index_of up ds d = Some u)"
  unfolding wf_map_def index_of_def dead_at_def
  by (fastforce dest: eq_key_imp_eq_value)

lemma linked_clean:
  assumes wf: "wf_grants s" and lk: "linked up s"
  shows "linked up (cleanExpiredDevicesLocked up now s)"
  unfolding linked_def clean_devices_eq map_of_clean_userCodes
    ex_dead_iff [OF wf_grantsD(3) [OF wf]] index_of_sweep [OF wf_grantsD(3) [OF wf]]
  using linkedD [OF lk] by (auto dest: linked_inj [OF lk])

lemma linked_put_device:
  assumes lk: "linked up s" and "map_of (devices s) d = None"
    and new: "map_of (userCodes s) (normalize_code up (dcUserCode dc)) = None"
  shows "linked up (s\<lparr>devices := AList.update d dc (devices s),
    userCodes := AList.update (normalize_code up (dcUserCode dc)) d (userCodes s)\<rparr>)"
proof -
  have "index_of up (devices s) d = None" using assms(2) by (simp add: index_of_def)
  moreover have "index_of up (devices s) d' \<noteq> Some (normalize_code up (dcUserCode dc))" for d'
    using new linkedD [OF lk] by (metis option.distinct(1))
  ultimately show ?thesis using linkedD [OF lk] by (auto simp: linked_def)
qed

lemma linked_edit_device:
  assumes lk: "linked up s" and "map_of (devices s) d = Some dc" and "dcUserCode dc' = dcUserCode dc"
  shows "linked up (s\<lparr>devices := AList.update d dc' (devices s)\<rparr>)"
proof -
  have "index_of up (AList.update d dc' (devices s)) = index_of up (devices s)"
    using assms(2,3) by (auto simp: index_of_Some)
  then show ?thesis using lk by (simp add: linked_def del: index_of_update)
qed

lemma linked_drop_device:
  assumes lk: "linked up s" and d: "map_of (devices s) d = Some dc"
  shows "linked up (s\<lparr>devices := AList.delete d (devices s),
    userCodes := AList.delete (normalize_code up (dcUserCode dc)) (userCodes s)\<rparr>)"
proof -
  have "map_of (userCodes s) (normalize_code up (dcUserCode dc)) = Some d"
    using linkedD [OF lk] index_of_Some [OF d] by simp
  then show ?thesis
    using linkedD [OF lk] linked_inj [OF lk] by (auto simp: linked_def)
qed

lemma linked_SaveDeviceCode:
  assumes "wf_grants s" and "linked up s" and "fresh_op up s (OpSaveDevice t0 t1 d u dc)"
  shows "linked up (SaveDeviceCode up t0 t1 d u dc s)"
proof -
  let ?s = "cleanExpiredDevicesLocked up t1 s"
  let ?dc = "dc\<lparr>dcExpiresAt := t0 + deviceTTL s, dcInterval := 5\<rparr>"
  have "map_of (devices ?s) d = None" "map_of (userCodes ?s) (normalize_code up (dcUserCode ?dc)) = None"
    using assms by (auto simp: clean_devices_eq map_of_clean_userCodes map_of_sweep_None wf_grantsD)
  from linked_put_device [OF linked_clean [OF assms(1,2)] this] show ?thesis
    using assms(3) by (auto simp: SaveDeviceCode_def Let_def)
qed

lemma linked_grant_step:
  assumes "wf_grants s" and "linked up s" and "fresh_op up s op"
  shows "linked up (grant_step up op s)"
proof (cases op)
  case (OpSaveDevice t0 t1 d u dc)
  with assms show ?thesis by (simp add: linked_SaveDeviceCode del: fresh_op.simps)
next
  case (OpGetDevice t0 t1 d)
  with assms show ?thesis by (simp add: GetDeviceCode_state linked_clean)
next
  case (OpAuthorizeDevice t u i)
  with assms(2) show ?thesis
    by (auto simp: AuthorizeDeviceCode_def linked_edit_device split: option.split)
next
  case (OpDenyDevice u)
  with assms(2) show ?thesis
    by (auto simp: DenyDeviceCode_def linked_edit_device split: option.split)
next
  case (OpConsumeDevice t d)
  with assms(2) show ?thesis
    by (auto simp: ConsumeDeviceCode_def linked_drop_device split: option.split)
next
  case (OpRevokeRefresh k)
  then show ?thesis
    using assms(2) linked_cong [of "grant_step up op s" s] by (simp add: grant_defs split: option.split)
qed (use assms(2) linked_cong [of "grant_step up op s" s] in
  \<open>simp_all add: grant_defs Let_def split: option.split\<close>)

lemma linked_NewStore: "linked up (NewStore c r ds)"
  by (simp add: linked_def index_of_def NewStore_def Let_def)

lemma grant_trace_linked: "grant_trace up tr s \<Longrightarrow> linked up s"
  by (induction rule: grant_trace.induct)
    (auto intro: linked_grant_step linked_NewStore grant_trace_wf)

section \<open>Who authorized a device\<close>

definition authorized_in :: "(string \<Rightarrow> string) \<Rightarrow> grant_op list \<Rightarrow> device_code \<Rightarrow> bool" where
  "authorized_in up tr dc \<longleftrightarrow>
     (\<exists>t u. OpAuthorizeDevice t u (dcUserID dc) \<in> set tr
        \<and> normalize_code up u = normalize_code up (dcUserCode dc))"

definition explained :: "(string \<Rightarrow> string) \<Rightarrow> grant_op list \<Rightarrow> grant_store \<Rightarrow> bool" where
  "explained up tr s \<longleftrightarrow>
     (\<forall>d dc. map_of (devices s) d = Some dc \<longrightarrow> dcUserAuthorized dc \<longrightarrow> authorized_in up tr dc)"

lemma authorized_in_mono: "authorized_in up tr dc \<Longrightarrow> authorized_in up (tr @ ops) dc"
  by (auto simp: authorized_in_def)

lemma authorized_in_cong:
  "dcUserID dc = dcUserID dc' \<Longrightarrow> dcUserCode dc = dcUserCode dc' \<Longrightarrow>
   authorized_in up tr dc = authorized_in up tr dc'"
  by (simp add: authorized_in_def)

lemma explainedD:
  "explained up tr s \<Longrightarrow> map_of (devices s) d = Some dc \<Longrightarrow> dcUserAuthorized dc \<Longrightarrow>
   authorized_in up (tr @ ops) dc"
  by (auto simp: explained_def intro: authorized_in_mono)

text \<open>Each method changes the device table in one of four ways.\<close>

lemma explained_step:
  assumes wf: "wf_grants s" and lk: "linked up s" and fr: "fresh_op up s op"
    and ex: "explained up tr s"
  shows "explained up (tr @ [op]) (grant_step up op s)"
  unfolding explained_def
proof (intro allI impI)
  fix d dc
  assume dc: "map_of (devices (grant_step up op s)) d = Some dc" and auth: "dcUserAuthorized dc"
  show "authorized_in up (tr @ [op]) dc"
  proof (cases op)
    case (OpSaveDevice t0 t1 d' u dc')
    with dc fr auth have "map_of (sweep (dead_device t1) (devices s)) d = Some dc"
      by (auto simp: SaveDeviceCode_def Let_def clean_devices_eq split: if_splits)
    then show ?thesis
      using explainedD [OF ex _ auth] map_of_sweep_SomeD [OF wf_grantsD(3) [OF wf]] by blast
  next
    case (OpGetDevice t0 t1 d')
    with dc have "map_of (sweep (dead_device t0) (devices s)) d = Some dc"
      by (simp add: GetDeviceCode_state clean_devices_eq)
    then show ?thesis
      using explainedD [OF ex _ auth] map_of_sweep_SomeD [OF wf_grantsD(3) [OF wf]] by blast
  next
    case (OpAuthorizeDevice t u i)
    show ?thesis
    proof (cases "map_of (devices s) d = Some dc")
      case True
      then show ?thesis by (rule explainedD [OF ex _ auth])
    next
      case False
      with dc OpAuthorizeDevice obtain dc0 where
        "map_of (userCodes s) (normalize_code up u) = Some d" "map_of (devices s) d = Some dc0"
        "dc = dc0\<lparr>dcUserAuthorized := True, dcUserID := i\<rparr>"
        by (auto simp: AuthorizeDeviceCode_def split: option.splits if_splits)
      then show ?thesis
        using OpAuthorizeDevice linkedD [OF lk] by (auto simp: authorized_in_def index_of_def)
    qed
  next
    case (OpDenyDevice u)
    then obtain dc0 where "map_of (devices s) d = Some dc0" "dcUserAuthorized dc0"
      "dcUserID dc0 = dcUserID dc" "dcUserCode dc0 = dcUserCode dc"
      using dc auth by (auto simp: DenyDeviceCode_def split: option.splits if_splits)
    then show ?thesis using explainedD [OF ex] authorized_in_cong by metis
  next
    case (OpConsumeDevice t d')
    with dc have "map_of (devices s) d = Some dc"
      by (auto simp: ConsumeDeviceCode_def split: option.splits if_splits)
    then show ?thesis by (rule explainedD [OF ex _ auth])
  qed (use dc explainedD [OF ex _ auth] in \<open>auto simp: grant_defs Let_def split: option.splits if_splits\<close>)
qed

lemma grant_trace_explained: "grant_trace up tr s \<Longrightarrow> explained up tr s"
proof (induction rule: grant_trace.induct)
  case (start c r ds)
  then show ?case by (simp add: explained_def NewStore_def Let_def)
next
  case (step tr s op)
  then show ?case by (blast intro: explained_step grant_trace_wf grant_trace_linked)
qed

section \<open>Properties\<close>

text \<open>Sample grants for the witnesses.\<close>

definition sample_code :: auth_code where
  "sample_code = \<lparr>acUserID = ''auth0|1'', acClientID = ''spa'', acRedirectURI = ''http://localhost/cb'',
     acScope = ''openid'', acAudience = [], acNonce = ''n'', acSessionID = ''sid'',
     acCodeChallenge = [], acCodeChallengeMethod = ''S256'', acExpiresAt = 0\<rparr>"

definition sample_refresh :: refresh_grant where
  "sample_refresh = \<lparr>rgUserID = ''auth0|1'', rgClientID = ''spa'', rgScope = ''openid offline_access'',
     rgAudience = [], rgSessionID = ''sid'', rgExpiresAt = 0\<rparr>"

definition sample_device :: device_code where
  "sample_device = \<lparr>dcDeviceCode = ''dc_1'', dcUserCode = ''ABCD-EFGH'', dcUserID = [],
     dcClientID = ''tv'', dcScope = ''openid'', dcAudience = [], dcExpiresAt = 0, dcInterval = 0,
     dcUserAuthorized = False, dcAccessDenied = False, dcExpired = False\<rparr>"

lemmas sample_simps = sample_code_def sample_refresh_def sample_device_def NewStore_def Let_def
  time_after_def cleanExpiredCodesLocked_def cleanExpiredRefreshLocked_def
  cleanExpiredDevicesLocked_def sweep_def

text \<open>Whatever methods are called in whatever order, the four tables keep distinct keys (each
  is a Go map) and the three lifetimes stay positive.\<close>

lemma grants_well_formed: "wf_grants (grant_run up ops (NewStore c r ds))"
  by (rule wf_grant_run) (rule wf_NewStore)

text \<open>C25: An authorization code is redeemed at most once: after a successful \<^verbatim>\<open>ConsumeCode\<close>, no
  interleaving of calls that does not save the same code again makes it redeemable.\<close>

theorem code_single_use:
  assumes "wf_grants s" and "fst (ConsumeCode t k s) = Some ac"
    and "\<forall>op\<in>set ops. \<not> stores_code op k"
  shows "fst (ConsumeCode t' k (grant_run up ops (snd (ConsumeCode t k s)))) = None"
  unfolding grant_run_def by (rule code_grant.single_use [OF assms])

theorem code_single_use_witness:
  "fst (ConsumeCode 2 ''ac'' (grant_run id [OpConsumeCode 1 ''ac'']
     (snd (ConsumeCode 1 ''ac'' (SaveCode 0 0 ''ac'' sample_code (NewStore 5 5 [])))))) = None"
proof -
  let ?s = "SaveCode 0 0 ''ac'' sample_code (NewStore 5 5 [])"
  have "fst (ConsumeCode 1 ''ac'' ?s) = Some (sample_code\<lparr>acExpiresAt := 5\<rparr>)"
    by (simp add: SaveCode_def ConsumeCode_def sample_simps)
  then show ?thesis by (intro code_single_use) (simp_all add: wf_NewStore)
qed

text \<open>A saved code stays redeemable, with exactly the grant that was saved, up to and
  including its expiry, whatever other calls come in between, and never after it; the clock
  readings of those calls are assumed not to lie after the redemption.\<close>

lemma code_lifetime:
  assumes "wf_grants s"
    and "\<forall>op\<in>set ops. \<not> stores_code op k \<and> \<not> takes_code op k \<and> (\<forall>r\<in>set (clock_readings op). r \<le> t)"
  shows "fst (ConsumeCode t k (grant_run up ops (SaveCode t0 t1 k ac s))) =
    (if t \<le> t0 + codeTTL s then Some (ac\<lparr>acExpiresAt := t0 + codeTTL s\<rparr>) else None)"
proof -
  have "map_of (codes (SaveCode t0 t1 k ac s)) k = Some (ac\<lparr>acExpiresAt := t0 + codeTTL s\<rparr>)"
    by (simp add: SaveCode_def Let_def cleanExpiredCodesLocked_def)
  from code_grant.lifetime [OF wf_SaveCode [OF assms(1)] this] assms(2) show ?thesis
    by (simp add: grant_run_def code_grant.idle_def)
qed

text \<open>Refresh tokens rotate: a token that has been exchanged is never accepted again, unless it
  is saved anew.\<close>

lemma refresh_single_use:
  assumes "wf_grants s" and "fst (ConsumeRefreshToken t k s) = Some rg"
    and "\<forall>op\<in>set ops. \<not> stores_refresh op k"
  shows "fst (ConsumeRefreshToken t' k (grant_run up ops (snd (ConsumeRefreshToken t k s)))) = None"
  unfolding grant_run_def by (rule refresh_token.single_use [OF assms])

text \<open>A revoked refresh token is dead: no later exchange of it succeeds, whatever happens in
  between short of saving it again.\<close>

lemma revoked_refresh_dead:
  assumes "wf_grants s" and "\<forall>op\<in>set ops. \<not> stores_refresh op k"
  shows "fst (ConsumeRefreshToken t k (grant_run up ops (snd (RevokeRefreshToken k s)))) = None"
proof -
  have "map_of (refresh (snd (RevokeRefreshToken k s))) k = None"
    by (simp add: RevokeRefreshToken_def split: option.split)
  then show ?thesis
    unfolding grant_run_def using assms
    by (intro refresh_token.redeem_absent refresh_token.run_absent) simp_all
qed

text \<open>In every run with fresh codes the user-code index and the device table agree: a user
  code points to a device code exactly when that device code is pending and carries this
  user code.\<close>

lemma user_codes_index_devices:
  assumes "grant_trace up tr s"
  shows "map_of (userCodes s) u = Some d \<longleftrightarrow>
    (\<exists>dc. map_of (devices s) d = Some dc \<and> normalize_code up (dcUserCode dc) = u)"
  using linkedD [OF grant_trace_linked [OF assms]] by (auto simp: index_of_def)

lemma saved_sample_trace:
  "grant_trace id ([] @ [OpSaveDevice 0 0 ''dc_1'' ''ABCD-EFGH'' sample_device])
     (grant_step id (OpSaveDevice 0 0 ''dc_1'' ''ABCD-EFGH'' sample_device) (NewStore 1 1 []))"
  by (rule grant_trace.step [OF grant_trace.start]) (simp add: sample_simps)

lemmas code_text_simps = normalize_code_def remove_all_def to_upper_def is_ascii_def ascii_upper_def
  char_of_eq_iff take_bit_eq_mod

text \<open>C6: A device code is redeemed only for a user who authorized it: whenever
  \<^verbatim>\<open>ConsumeDeviceCode\<close> hands out a grant, the run contains a call of
  \<^verbatim>\<open>AuthorizeDeviceCode\<close> with a spelling of its user code and exactly the user of the grant,
  and the code has not expired.\<close>

theorem device_grant_was_authorized:
  assumes "grant_trace up tr s" and "fst (ConsumeDeviceCode up t d s) = Some dc"
  shows "(\<exists>t' u. OpAuthorizeDevice t' u (dcUserID dc) \<in> set tr
      \<and> normalize_code up u = normalize_code up (dcUserCode dc)) \<and> t \<le> dcExpiresAt dc"
proof -
  from device_grant.redeem_live [OF assms(2)]
  have dc: "map_of (devices s) d = Some dc" "redeemable t dc" by auto
  then show ?thesis
    using grant_trace_explained [OF assms(1)]
    by (auto simp: explained_def authorized_in_def redeemable_def)
qed

theorem device_grant_was_authorized_witness:
  "\<exists>dc s. fst (ConsumeDeviceCode id 2 ''dc_1'' s) = Some dc \<and> dcUserID dc = ''auth0|1'' \<and> 2 \<le> dcExpiresAt dc"
proof -
  let ?op = "OpAuthorizeDevice 1 ''abcd-efgh'' ''auth0|1''"
  let ?s = "grant_step id ?op
      (grant_step id (OpSaveDevice 0 0 ''dc_1'' ''ABCD-EFGH'' sample_device) (NewStore 1 1 []))"
  let ?dc = "sample_device\<lparr>dcExpiresAt := 15 * minute, dcInterval := 5,
      dcUserAuthorized := True, dcUserID := ''auth0|1''\<rparr>"
  have tr: "grant_trace id (([] @ [OpSaveDevice 0 0 ''dc_1'' ''ABCD-EFGH'' sample_device]) @ [?op]) ?s"
    by (rule grant_trace.step [OF saved_sample_trace]) simp
  have got: "fst (ConsumeDeviceCode id 2 ''dc_1'' ?s) = Some ?dc"
    by (simp add: SaveDeviceCode_def AuthorizeDeviceCode_def ConsumeDeviceCode_def sample_simps
        code_text_simps)
  from device_grant_was_authorized [OF tr got] have "2 \<le> dcExpiresAt ?dc" by blast
  with got show ?thesis by fastforce
qed

text \<open>The device flow completes: once a device code is saved, any spelling of its user code
  (case and hyphens do not matter) authorizes it, and the device code then redeems to that
  user, as long as both happen within the lifetime.\<close>

lemma device_flow_completes:
  assumes "\<not> dcExpired dc" and "normalize_code up u' = normalize_code up u"
    and "t2 \<le> t0 + deviceTTL s" and "t3 \<le> t0 + deviceTTL s"
  shows "let s1 = SaveDeviceCode up t0 t1 d u dc s;
             (ok, s2) = AuthorizeDeviceCode up t2 u' uid s1
         in ok \<and> map_option dcUserID (fst (ConsumeDeviceCode up t3 d s2)) = Some uid"
  using assms
  by (simp add: SaveDeviceCode_def AuthorizeDeviceCode_def ConsumeDeviceCode_def Let_def time_after_def)

text \<open>A device code is redeemed at most once, as long as it is not saved again.\<close>

lemma device_single_use:
  assumes "wf_grants s" and "fst (ConsumeDeviceCode up t d s) = Some dc"
    and "\<forall>op\<in>set ops. \<not> stores_device op d"
  shows "fst (ConsumeDeviceCode up t' d (grant_run up ops (snd (ConsumeDeviceCode up t d s)))) = None"
  unfolding grant_run_def by (rule device_grant.single_use [OF assms])

end
