(* ===== verification/Server_Props.thy ===== *)
theory Server_Props
  imports Effects Token_Props Grants_Props
begin

text \<open>
  What holds of the server as a whole: the keys of the database stay unique through any sequence of
  requests, requests that read do not write, and what the routing does with the rest.
\<close>

section \<open>Runs of the server\<close>

lemma find_distinct: "distinct (map f rows) \<Longrightarrow> row \<in> set rows \<Longrightarrow> find (\<lambda>r. f r = f row) rows = Some row"
  by (induction rows) (auto simp: image_iff)

text \<open>The lookups by email and by id find the same users when the keys are unique.\<close>

lemma lookups_agree:
  assumes "keys_unique d"
  shows "GetByEmail js em d = Inr (Some u) \<Longrightarrow> GetByID js (uID u) d = Inr (Some u) \<and> uEmail u = em"
    and "GetByID js i d = Inr (Some u) \<Longrightarrow> GetByEmail js (uEmail u) d = Inr (Some u) \<and> uID u = i"
proof -
  have by_id: "find (\<lambda>r. urID r = urID row) (dbUsers d) = Some row"
    and by_email: "find (\<lambda>r. urEmail r = urEmail row) (dbUsers d) = Some row" if "row \<in> set (dbUsers d)" for row
    using assms that by (simp_all add: keys_unique_def find_distinct)
  show "GetByID js (uID u) d = Inr (Some u) \<and> uEmail u = em" if em: "GetByEmail js em d = Inr (Some u)"
  proof -
    from em obtain row where row: "find (\<lambda>r. urEmail r = em) (dbUsers d) = Some row" "scan_user js row = Inr u"
      and ok: "dbFault d = None"
      by (auto simp: GetByEmail_def query_def split: option.splits sum.splits)
    have "uID u = urID row" "uEmail u = urEmail row" using row(2) by (auto simp: scan_user_def split: sum.splits)
    moreover have "row \<in> set (dbUsers d)" "urEmail row = em" using row(1) by (auto simp: find_Some_iff)
    ultimately show ?thesis using row(2) ok by_id [of row] by (simp add: GetByID_def query_def)
  qed
  show "GetByEmail js (uEmail u) d = Inr (Some u) \<and> uID u = i" if i: "GetByID js i d = Inr (Some u)"
  proof -
    from i obtain row where row: "find (\<lambda>r. urID r = i) (dbUsers d) = Some row" "scan_user js row = Inr u"
      and ok: "dbFault d = None"
      by (auto simp: GetByID_def query_def split: option.splits sum.splits)
    have "uID u = urID row" "uEmail u = urEmail row" using row(2) by (auto simp: scan_user_def split: sum.splits)
    moreover have "row \<in> set (dbUsers d)" "urID row = i" using row(1) by (auto simp: find_Some_iff)
    ultimately show ?thesis using row(2) ok by_email [of row] by (simp add: GetByEmail_def query_def)
  qed
qed

text \<open>C5: One user per email and per id: started on a database with unique keys, the server keeps
  them unique through any sequence of requests, sign-ups, patches and management calls included,
  in every table; so the login, which finds users by email, and the exchange of codes, which finds
  them by id, always mean the same user.\<close>

theorem server_keeps_keys_unique:
  assumes "main st bc getenv = Inr (h, w0)" and "\<And>path d. stOpen st path = Inr d \<Longrightarrow> keys_unique d"
    and "w = serve_all e h rqs w0"
  shows "keys_unique (wDb w)
    \<and> (GetByEmail (xCodec e) em (wDb w) = Inr (Some u) \<longrightarrow>
         GetByID (xCodec e) (uID u) (wDb w) = Inr (Some u) \<and> uEmail u = em)
    \<and> (GetByID (xCodec e) i (wDb w) = Inr (Some u) \<longrightarrow>
         GetByEmail (xCodec e) (uEmail u) (wDb w) = Inr (Some u) \<and> uID u = i)"
proof -
  from assms(1) obtain path d where d: "NewSQLite (stOpen st path) = Inr d"
    and w0: "wDb w0 = (if getenv ''SEED_USERS_PATH'' \<noteq> []
        then snd (SeedFromConfigFile bc (stSeedUsers st) (stTime st) (stSeedFile st (getenv ''SEED_USERS_PATH'')) d)
        else d)"
      "wGrants w0 = Some (NewStore (5 * minute) (30 * 24 * hour) [])"
      "wSessions w0 = Some (NewSessionStore (7 * 24 * hour))" "wReplay w0 = []"
    unfolding main_def Let_def by (auto split: sum.splits)
  from d obtain d0 where d0: "stOpen st path = Inr d0" "d = snd (migrate d0)"
    by (auto simp: NewSQLite_def split: sum.splits prod.splits option.splits)
  with assms(2) have "wf_db d" by (simp add: wf_migrate wf_db_keys_unique [symmetric])
  then have "wf_db (wDb w0)"
    using wf_db_step [of d undefined bc "stSeedUsers st"
        "DbSeed (stTime st) (stSeedFile st (getenv ''SEED_USERS_PATH''))"] by (simp add: w0)
  then have "wf_world.ok w0" by (simp add: wf_world.ok_def w0 wf_NewStore)
  from wf_serve_all [OF this, of e h rqs] have "keys_unique (wDb w)"
    by (simp add: wf_world.ok_def assms(3) wf_db_keys_unique)
  with lookups_agree [OF this] show ?thesis by blast
qed

text \<open>A sample outside world.\<close>

definition sample_env :: env where
  "sample_env = \<lparr>xClock = \<lambda>_. 0, xUuid = \<lambda>n. replicate n (CHR ''u''), xRandInt = \<lambda>n. n,
     xRandBytes = \<lambda>n. Inr [n], xUpper = \<lambda>s. s,
     xJwt = \<lparr>jwtSign = \<lambda>_ _ _. Inr ''a.b.c'', jwtParse = \<lambda>_ _ _. Inl ''malformed''\<rparr>,
     xVm = sample_vm, xFs = sample_fs, xBcrypt = sample_bcrypt, xCodec = sample_codec, xSql = sample_engine,
     xUrlParse = \<lambda>s. if s = '':'' then Inl ''missing protocol scheme''
       else Inr \<lparr>urlPath = [], urlRawQuery = [], urlRawFragment = [], urlRest = s\<rparr>,
     xUrlString = \<lambda>u. urlRest u @ (if urlRawQuery u = [] then [] else ''?'' @ urlRawQuery u),
     xJsonMap = \<lambda>s. Inl ''syntax'', xJsonSignup = \<lambda>s. Inl ''syntax'', xJsonCreateUser = \<lambda>s. Inl ''syntax'',
     xJsonRole = \<lambda>s. Inl ''syntax'', xHugeFloat = \<lambda>_. 0\<rparr>"

definition sample_handlers :: handlers where
  "sample_handlers = \<lparr>hIssuer = sample_issuer, hIssuerURL = ''http://localhost:9092'', hRulesRunner = None,
     hClientRegistry = Some NewRegistry, hAccessTokenLifetime = 86400, hIDTokenLifetime = 86400,
     hExtraAccessTokenClaims = None\<rparr>"

definition sample_world :: world where
  "sample_world = \<lparr>wGrants = Some (NewStore 0 0 []), wSessions = Some (NewSessionStore 0),
     wDb = opened_db\<lparr>dbUsers := [created_row sample_codec 0 (sample_user\<lparr>uPasswordHash := ''$2a$pw''\<rparr>)]\<rparr>,
     wReplay = [], wMetrics = [], wAudit = [], wTicks = 0, wUuids = 0, wRands = 0, wSids = 0, wHashes = 0\<rparr>"

definition sample_request :: request where
  "sample_request = \<lparr>rqMethod = ''GET'', rqPath = ''/health'', rqRawQuery = [], rqContentType = [],
     rqAuthorization = [], rqCookie = None, rqBody = [], rqPostForm = [], rqMultipart = []\<rparr>"

definition sample_startup :: startup where
  "sample_startup = \<lparr>stOpen = \<lambda>_. Inr empty_db, stSeedFile = \<lambda>_. Inl [], stSeedUsers = \<lambda>_. Inl [],
     stTime = 0, stKey = Inr sample_key, stUuid = None, stClaims = \<lambda>_. Inl [], stRegistry = \<lambda>_. Inl []\<rparr>"

lemma sample_start: "\<exists>h w. main sample_startup sample_bcrypt (\<lambda>_. []) = Inr (h, w)"
  by (simp add: main_def sample_startup_def NewSQLite_def migrate_def exec_def seedRoles_def
      seedClientsAndConnections_def empty_db_def NewIssuer_def)

text \<open>Signing up the same email twice.\<close>

definition signup_env :: env where
  "signup_env = sample_env\<lparr>
     xJsonSignup := \<lambda>_. Inr \<lparr>sgEmail = ''b@x'', sgPassword = ''s3cret'', sgConnection = [], sgUserMetadata = None\<rparr>,
     xJsonCreateUser := \<lambda>_. Inr \<lparr>cuConnection = [], cuEmail = ''b@x'', cuPassword = ''s3cret'', cuName = [],
       cuUserID = ''auth0|7'', cuUserMetadata = None, cuAppMetadata = None\<rparr>\<rparr>"

definition signup_request :: request where
  "signup_request = sample_request\<lparr>rqMethod := ''POST'', rqPath := ''/dbconnections/signup''\<rparr>"

lemma signup_route:
  "ServeHTTP signup_env h signup_request w = handleSignup signup_env signup_request (corsHeaders new_response) w"
  by (simp add: ServeHTTP_def Let_def signup_request_def sample_request_def trim_suffix_def has_suffix_def has_prefix_def)

lemma sample_start_users:
  "main sample_startup sample_bcrypt (\<lambda>_. []) = Inr (h, w0) \<Longrightarrow> dbUsers (wDb w0) = [] \<and> dbFault (wDb w0) = None"
  by (auto simp: main_def sample_startup_def NewSQLite_def migrate_def exec_def seedRoles_def
      seedClientsAndConnections_def empty_db_def NewIssuer_def Let_def split: sum.splits)

lemma signup_creates:
  "\<exists>u w'. wDb (snd (ServeHTTP signup_env h signup_request w)) = snd (snd (CreateUser sample_codec sample_bcrypt (wHashes w) 0 u ''s3cret'' (wDb w)))
     \<and> uEmail u = ''b@x''"
proof -
  have "wDb (audit_signup e a b c (count_metric m w')) = wDb w'" for e a b c m w'
    by (simp add: audit_signup_def count_metric_def Let_def split_beta time_now_def)
  then show ?thesis
    unfolding signup_route handleSignup_def create_user_def Let_def
    by (simp add: signup_env_def sample_env_def split_beta time_now_def new_uuid_def unix_def dict_of_def as_str_def
        split: option.split) (metis user.select_convs(2))
qed

lemma signup_once:
  assumes "dbUsers (wDb w) = []" and "dbFault (wDb w) = None"
  shows "\<exists>row. dbUsers (wDb (snd (ServeHTTP signup_env h signup_request w))) = [row] \<and> urEmail row = ''b@x''
    \<and> urDisplayName row \<noteq> None \<and> dbFault (wDb (snd (ServeHTTP signup_env h signup_request w))) = None"
  using signup_creates [of h w] assms
  by (auto simp: CreateUser_def sample_bcrypt_def exec_def insert_strict_def assign_role_def Let_def)

lemma signup_again:
  assumes "dbUsers (wDb w) = [row]" and "urEmail row = ''b@x''" and "dbFault (wDb w) = None"
  shows "wDb (snd (ServeHTTP signup_env h signup_request w)) = wDb w"
  using signup_creates [of h w] assms
  by (auto simp: CreateUser_def sample_bcrypt_def exec_def insert_strict_def user_conflict_def Let_def)

theorem server_keeps_keys_unique_witness:
  "\<exists>h w0 u. main sample_startup sample_bcrypt (\<lambda>_. []) = Inr (h, w0)
     \<and> keys_unique (wDb (serve_all signup_env h [signup_request, signup_request] w0))
     \<and> uEmail (u :: user) = ''b@x''
     \<and> GetByID (xCodec signup_env) (uID u) (wDb (serve_all signup_env h [signup_request, signup_request] w0)) = Inr (Some u)"
proof -
  obtain h w0 where m: "main sample_startup sample_bcrypt (\<lambda>_. []) = Inr (h, w0)"
    using sample_start by blast
  have opened: "keys_unique d" if "stOpen sample_startup path = Inr d" for path d
    using that by (auto simp: sample_startup_def keys_unique_def empty_db_def)
  let ?w1 = "snd (ServeHTTP signup_env h signup_request w0)"
  let ?w = "serve_all signup_env h [signup_request, signup_request] w0"
  obtain row where row: "dbUsers (wDb ?w1) = [row]" "urEmail row = ''b@x''" "urDisplayName row \<noteq> None"
      "dbFault (wDb ?w1) = None"
    using signup_once sample_start_users [OF m] by blast
  have "wDb ?w = wDb ?w1" by (simp add: serve_all_def signup_again [OF row(1,2,4)])
  then obtain u where "GetByEmail (xCodec signup_env) ''b@x'' (wDb ?w) = Inr (Some u)"
    using row by (auto simp: GetByEmail_def query_def scan_user_def scan_string_def)
  moreover have "keys_unique (wDb ?w)
      \<and> (GetByEmail (xCodec signup_env) ''b@x'' (wDb ?w) = Inr (Some u) \<longrightarrow>
           GetByID (xCodec signup_env) (uID u) (wDb ?w) = Inr (Some u) \<and> uEmail u = ''b@x'')
      \<and> (GetByID (xCodec signup_env) [] (wDb ?w) = Inr (Some u) \<longrightarrow>
           GetByEmail (xCodec signup_env) (uEmail u) (wDb ?w) = Inr (Some u) \<and> uID u = [])"
    by (rule server_keeps_keys_unique [OF m _ refl]) (rule opened)
  ultimately show ?thesis using m by blast
qed

text \<open>A GET request never changes the database, whatever its path and parameters.\<close>

lemma get_leaves_database:
  assumes "rqMethod r = ''GET''"
  shows "wDb (snd (ServeHTTP e h r w)) = wDb w"
  using same_db.ok_get [of "wDb w" w r e h] assms by (simp add: same_db.ok_def pred_option_def)

section \<open>Panics\<close>

text \<open>Asking for the roles of no user, \<^verbatim>\<open>/api/v2/users/roles\<close>, ends in an index out of
  range instead of the 400 the handler means to send.\<close>

lemma roles_of_no_user_panic:
  "fst (ServeHTTP e h (r\<lparr>rqMethod := ''GET'', rqPath := ''/api/v2/users/roles''\<rparr>) w) =
     panicked (corsHeaders new_response)"
proof -
  have "extractUserIDFromPath ''/api/v2/users/roles'' ''/roles'' = None"
    by (simp add: extractUserIDFromPath_def trim_suffix_def has_suffix_def has_prefix_def)
  moreover have "trim_suffix ''/'' ''/api/v2/users/roles'' = ''/api/v2/users/roles''"
    by (simp add: trim_suffix_def has_suffix_def has_prefix_def)
  ultimately show ?thesis
    by (simp add: ServeHTTP_def Let_def user_path_def plain_user_path_def has_prefix_def has_suffix_def
        handleGetUserRoles_def)
qed

end
