(* ===== verification/Token_Flows.thy ===== *)
theory Token_Flows
  imports Server_Props
begin

text \<open>
  What a client can obtain from the token endpoint: which checks stand between a code, a
  password, a refresh token or a device code and the tokens, what the exchange leaves behind in
  the stores, and that the flows complete.
\<close>

section \<open>Responses\<close>

lemma sendJSON_simps [simp]:
  "rsStatus (sendJSON n v rs) = n" "rsBody (sendJSON n v rs) = JsonLine v"
  by (simp_all add: sendJSON_def WriteHeader_def set_header_def Let_def)

section \<open>Access tokens\<close>

text \<open>What the rules of the user and the client and the configuration add to an access token.\<close>

definition access_claims :: "env \<Rightarrow> handlers \<Rightarrow> user \<Rightarrow> string \<Rightarrow> dict" where
  "access_claims e h u cid = mergeClaims (ruAccessTokenClaims (run_rules e h u cid)) (hExtraAccessTokenClaims h)"

text \<open>An access token for \<open>sub\<close>: what the issuer has signed are claims that name this subject, the
  issuer, the audience and the client, with the times of some moment, under nothing but these
  additions.\<close>

definition access_token_for :: "env \<Rightarrow> handlers \<Rightarrow> string \<Rightarrow> user \<Rightarrow> string \<Rightarrow> string \<Rightarrow> string \<Rightarrow> bool" where
  "access_token_for e h sub u aud cid tok \<longleftrightarrow>
     (\<exists>n claims. jwtSign (xJwt e) (iKey (hIssuer h)) (iKid (hIssuer h)) claims = Inr tok \<and> wf_map claims
        \<and> map_of claims =
            standard_claims (xClock e n) (hIssuer h) sub aud cid (accessTokenLifetime h) ++ map_of (access_claims e h u cid))"

lemma wf_mergeClaims: "wf_map (mergeClaims a b)"
proof -
  have "wf_map ([] :: dict)" by (simp add: wf_map_def)
  then show ?thesis by (auto simp: mergeClaims_def Let_def split: option.split)
qed

lemma issued_access_token:
  "Issue (xJwt e) (xClock e n) (hIssuer h) sub aud cid (accessTokenLifetime h) (access_claims e h u cid) = Inr tok \<Longrightarrow>
   access_token_for e h sub u aud cid tok"
  unfolding access_token_for_def Issue_def access_claims_def
  using issue_claims_lookup [OF wf_mergeClaims] wf_issue_claims by blast

text \<open>The subject is who the token was asked for, unless the additions rename it.\<close>

lemma access_token_subject:
  assumes "access_token_for e h sub u aud cid tok" and "map_of (access_claims e h u cid) ''sub'' = None"
  shows "\<exists>claims. jwtSign (xJwt e) (iKey (hIssuer h)) (iKid (hIssuer h)) claims = Inr tok
    \<and> map_of claims ''sub'' = Some (GStr sub)"
proof -
  obtain n claims where signed: "jwtSign (xJwt e) (iKey (hIssuer h)) (iKid (hIssuer h)) claims = Inr tok"
    and claims: "map_of claims =
      standard_claims (xClock e n) (hIssuer h) sub aud cid (accessTokenLifetime h) ++ map_of (access_claims e h u cid)"
    using assms(1) by (auto simp: access_token_for_def)
  have "standard_claims t i sub aud cid n ''sub'' = Some (GStr sub)" for t i n
    by (simp add: standard_claims_def Let_def)
  then have "map_of claims ''sub'' = Some (GStr sub)"
    by (simp only: claims map_add_def assms(2) option.case)
  with signed show ?thesis by blast
qed

section \<open>What the pieces of a handler leave alone\<close>

lemma time_now_simps [simp]:
  "fst (time_now e w) = xClock e (wTicks w)" "snd (time_now e w) = w\<lparr>wTicks := Suc (wTicks w)\<rparr>"
  by (simp_all add: time_now_def)

lemma new_uuid_simps [simp]:
  "fst (new_uuid e w) = xUuid e (wUuids w)" "snd (new_uuid e w) = w\<lparr>wUuids := Suc (wUuids w)\<rparr>"
  by (simp_all add: new_uuid_def)

lemma issue_access_simps [simp]:
  "fst (issue_access e h s a c n cl w) = Issue (xJwt e) (xClock e (wTicks w)) (hIssuer h) s a c n cl"
  "snd (issue_access e h s a c n cl w) = w\<lparr>wTicks := Suc (wTicks w)\<rparr>"
  by (simp_all add: issue_access_def Let_def split_beta)

text \<open>\<open>advance w w'\<close>: only clock, randomness and logs have moved, and grants may have gained refresh
  tokens.\<close>

definition advance :: "world \<Rightarrow> world \<Rightarrow> bool" where
  "advance w w' \<longleftrightarrow>
     wTicks w \<le> wTicks w' \<and> wUuids w \<le> wUuids w' \<and> wReplay w' = wReplay w \<and> wDb w' = wDb w
     \<and> wSessions w' = wSessions w
     \<and> map_option (\<lambda>g. (codes g, devices g, userCodes g)) (wGrants w') =
       map_option (\<lambda>g. (codes g, devices g, userCodes g)) (wGrants w)"

named_theorems advancing \<open>steps that only advance\<close>

lemma advance_refl [advancing]: "advance w w"
  by (simp add: advance_def)

lemma advance_trans: "advance w w' \<Longrightarrow> advance w' w'' \<Longrightarrow> advance w w''"
  by (auto simp: advance_def)

lemma advance_step:
  "advance w w' \<Longrightarrow> advance w (w'\<lparr>wTicks := Suc (wTicks w')\<rparr>)"
  "advance w w' \<Longrightarrow> advance w (w'\<lparr>wUuids := Suc (wUuids w')\<rparr>)"
  "advance w w' \<Longrightarrow> advance w (count_metric m w')"
  "advance w w' \<Longrightarrow> advance w (audit_token e g u c s d w')"
  by (auto simp: advance_def count_metric_def audit_token_def Let_def split_beta)

lemma advance_add_id_token:
  "advance w w' \<Longrightarrow> advance w (snd (add_id_token e h s a c sc em nm op resp w'))"
  by (auto simp: add_id_token_def issue_id_def Let_def split_beta advance_step split: sum.split)

lemma advance_save_refresh: "advance w w' \<Longrightarrow> advance w (save_refresh e tok rg w')"
  by (auto simp: save_refresh_def advance_def Let_def SaveRefreshToken_def cleanExpiredRefreshLocked_def split_beta
      split: option.split)

lemma advance_add_refresh_token:
  "advance w w' \<Longrightarrow> advance w (snd (add_refresh_token e u c sc sid resp w'))"
  by (auto simp: add_refresh_token_def Let_def split_beta advance_step advance_save_refresh)

lemmas [advancing] = advance_step advance_add_id_token advance_save_refresh advance_add_refresh_token

section \<open>Codes\<close>

text \<open>The answer to a code that has passed the checks: an error, or tokens that are remembered.\<close>

definition answered :: "env \<Rightarrow> string \<Rightarrow> response \<Rightarrow> world \<Rightarrow> response \<times> world \<Rightarrow> bool" where
  "answered e code rs w x \<longleftrightarrow>
     rsStatus (fst x) = 500
     \<or> (\<exists>resp w'. x = (sendJSON 200 (GObj resp) rs, remember_reply e code (GObj resp) w') \<and> advance w w')"

lemma answered_error: "answered e code rs w (sendJSON 500 v rs, w')"
  by (simp add: answered_def)

lemma answered_ok:
  "advance w w' \<Longrightarrow> answered e code rs w (sendJSON 200 (GObj resp) rs, remember_reply e code (GObj resp) w')"
  by (auto simp: answered_def)

lemma answered_bind:
  "advance w (snd x) \<Longrightarrow> (\<And>a w'. advance w w' \<Longrightarrow> answered e code rs w (f a w')) \<Longrightarrow>
   answered e code rs w (case x of (a, w') \<Rightarrow> f a w')"
  by (simp add: split_beta)

lemma answered_cases:
  "(\<And>a. answered e code rs w (f a)) \<Longrightarrow> (\<And>b. answered e code rs w (k b)) \<Longrightarrow>
   answered e code rs w (case y of Inl a \<Rightarrow> f a | Inr b \<Rightarrow> k b)"
  "answered e code rs w z \<Longrightarrow> (\<And>b. answered e code rs w (k' b)) \<Longrightarrow>
   answered e code rs w (case y' of None \<Rightarrow> z | Some b \<Rightarrow> k' b)"
  by (simp_all split: sum.split option.split)

lemma advance_session_id:
  "advance w w' \<Longrightarrow> advance w (snd (if c then (case new_uuid e w' of (uuid, v) \<Rightarrow> (f uuid, v)) else (s, w')))"
  by (simp add: split_beta advance_step)

lemma advance_issue: "advance w w' \<Longrightarrow> advance w (snd (issue_access e h s a c n cl w'))"
  by (simp add: advance_step)

lemma advance_uuid: "advance w w' \<Longrightarrow> advance w (snd (new_uuid e w'))"
  by (simp add: advance_step)

lemma code_tokens_answered: "answered e code rs w (code_tokens e h code cid ac rs w)"
  unfolding code_tokens_def Let_def
  by (intro answered_error answered_ok answered_bind answered_cases advancing advance_session_id advance_issue)

lemma code_tokens_cases:
  "rsStatus (fst (code_tokens e h code cid ac rs w)) = 500
   \<or> (\<exists>resp w'. code_tokens e h code cid ac rs w = (sendJSON 200 (GObj resp) rs, remember_reply e code (GObj resp) w')
        \<and> advance w w')"
  using code_tokens_answered [of e code rs w h cid ac] by (simp add: answered_def)

lemma code_checks_None:
  "code_checks e h ac ru cid cs cv = None \<longleftrightarrow>
   (cid = [] \<or> acClientID ac = cid)
   \<and> (ru = [] \<or> normalizeURI e (acRedirectURI ac) = normalizeURI e ru)
   \<and> (acCodeChallenge ac = [] \<or> Verify cv (acCodeChallenge ac) (acCodeChallengeMethod ac) = Inr ())
   \<and> (case hClientRegistry h of
        None \<Rightarrow> True
      | Some reg \<Rightarrow> RequireSecretForCodes reg \<longrightarrow> IsConfidential (acClientID ac) reg \<longrightarrow> ValidateSecret (acClientID ac) cs reg)"
  by (auto simp: code_checks_def split: sum.splits option.splits)

lemma code_checks_status: "code_checks e h ac ru cid cs cv = Some err \<Longrightarrow> rsStatus (sendJSON 400 err rs) = 400"
  by simp

lemma handleAuthorizationCode_redeemed:
  assumes "wGrants w = Some g" and "code \<noteq> []" and "fst (ConsumeCode (xClock e (wTicks w)) code g) = Some ac"
  shows "handleAuthorizationCode e h code ru cid cs cv rs w =
    (let w' = w\<lparr>wTicks := Suc (wTicks w), wGrants := Some (snd (ConsumeCode (xClock e (wTicks w)) code g))\<rparr>
     in case code_checks e h ac ru cid cs cv of
          Some err \<Rightarrow> (sendJSON 400 err rs, w')
        | None \<Rightarrow> code_tokens e h code cid ac rs w')"
  using assms by (simp add: handleAuthorizationCode_def Let_def split_beta split: option.split)

lemma redeemed_body:
  assumes "wGrants w = Some g" and "code \<noteq> []" and "fst (ConsumeCode (xClock e (wTicks w)) code g) = Some ac"
    and "rsStatus (fst (handleAuthorizationCode e h code ru cid cs cv rs w)) = 200"
  shows "\<exists>v. rsBody (fst (handleAuthorizationCode e h code ru cid cs cv rs w)) = JsonLine v"
proof -
  let ?w = "w\<lparr>wTicks := Suc (wTicks w), wGrants := Some (snd (ConsumeCode (xClock e (wTicks w)) code g))\<rparr>"
  show ?thesis
    using assms(4) code_tokens_cases [of e h code cid ac rs ?w]
    by (auto simp: handleAuthorizationCode_redeemed [OF assms(1-3)] Let_def split: option.splits)
qed

text \<open>C4: Tokens are issued for a live code only to a request that names the code's client or none,
  its redirect URI up to a trailing slash or none, and that holds the PKCE verifier of its
  challenge when it has one; the client secret counts when the registry demands it.\<close>

theorem code_exchange_checked:
  assumes "wGrants w = Some g" and "code \<noteq> []"
    and "fst (ConsumeCode (xClock e (wTicks w)) code g) = Some ac"
    and "rsStatus (fst (handleAuthorizationCode e h code ru cid cs cv rs w)) = 200"
  shows "(cid = [] \<or> cid = acClientID ac)
    \<and> (ru = [] \<or> normalizeURI e ru = normalizeURI e (acRedirectURI ac))
    \<and> (acCodeChallenge ac = [] \<or> challenge_of (acCodeChallengeMethod ac) cv = Some (acCodeChallenge ac))
    \<and> (case hClientRegistry h of
         None \<Rightarrow> True
       | Some reg \<Rightarrow> \<not> RequireSecretForCodes reg \<or> \<not> IsConfidential (acClientID ac) reg
           \<or> map_option ClientSecret (Get (acClientID ac) reg) = Some cs)"
proof (cases "code_checks e h ac ru cid cs cv")
  case (Some err)
  with assms show ?thesis by (simp add: handleAuthorizationCode_redeemed Let_def)
next
  case None
  then show ?thesis
    by (auto simp: code_checks_None Verify_ok_eq ValidateSecret_iff IsConfidential_def split: option.splits)
qed

text \<open>A sample code, with a plain challenge.\<close>

definition coded_world :: world where
  "coded_world = sample_world\<lparr>wGrants := Some ((NewStore 0 0 [])\<lparr>codes :=
     [(''ac_1'', \<lparr>acUserID = ''auth0|1'', acClientID = ''spa'', acRedirectURI = ''http://app/cb'', acScope = ''openid'',
        acAudience = [], acNonce = ''n'', acSessionID = ''sid_1'', acCodeChallenge = ''v'',
        acCodeChallengeMethod = ''plain'', acExpiresAt = 60 * second\<rparr>)]\<rparr>)\<rparr>"

lemma sample_get_user:
  "\<exists>u. GetByID sample_codec ''auth0|1'' (wDb sample_world) = Inr (Some u) \<and> uID u = ''auth0|1''"
  "\<exists>u. GetByEmail sample_codec ''a@x'' (wDb sample_world) = Inr (Some u) \<and> uID u = ''auth0|1''
     \<and> uPasswordHash u = ''$2a$pw''"
proof -
  let ?r = "created_row sample_codec 0 (sample_user\<lparr>uPasswordHash := ''$2a$pw''\<rparr>)"
  have r: "urID ?r = ''auth0|1''" "urEmail ?r = ''a@x''" by (simp_all add: created_row_def sample_user_def)
  show "\<exists>u. GetByID sample_codec ''auth0|1'' (wDb sample_world) = Inr (Some u) \<and> uID u = ''auth0|1''"
    by (simp add: GetByID_def query_def sample_world_def opened_db_simps r scan_created) (simp add: sample_user_def)
  show "\<exists>u. GetByEmail sample_codec ''a@x'' (wDb sample_world) = Inr (Some u) \<and> uID u = ''auth0|1''
     \<and> uPasswordHash u = ''$2a$pw''"
    by (simp add: GetByEmail_def query_def sample_world_def opened_db_simps r scan_created) (simp add: sample_user_def)
qed

lemma sample_env_simps [simp]:
  "xCodec sample_env = sample_codec" "xBcrypt sample_env = sample_bcrypt" "xClock sample_env n = 0"
  "xUuid sample_env n = replicate n (CHR ''u'')" "Issue (xJwt sample_env) t i s a c n' cl = Inr ''a.b.c''"
  "xUpper sample_env = (\<lambda>s. s)"
  by (simp_all add: sample_env_def Issue_def)

lemma sample_token: "access_token_for sample_env h sub u aud cid tok \<Longrightarrow> tok = ''a.b.c''"
  by (auto simp: access_token_for_def sample_env_def)

lemma sample_code_reply:
  assumes "GetByID sample_codec (acUserID ac) (wDb w) = Inr (Some u)"
  shows "rsStatus (fst (code_tokens sample_env sample_handlers code [] ac rs w)) = 200"
  using assms by (simp add: code_tokens_def Let_def split_beta)

lemma coded_redeems:
  "\<exists>g ac. wGrants coded_world = Some g \<and> fst (ConsumeCode (xClock sample_env (wTicks coded_world)) ''ac_1'' g) = Some ac
     \<and> acUserID ac = ''auth0|1'' \<and> acClientID ac = ''spa'' \<and> acCodeChallenge ac = ''v'' \<and> acCodeChallengeMethod ac = ''plain''"
  by (simp add: coded_world_def ConsumeCode_def time_after_def sample_world_def)

lemma coded_exchange:
  "rsStatus (fst (handleAuthorizationCode sample_env sample_handlers ''ac_1'' [] [] [] ''v'' rs coded_world)) = 200"
proof -
  obtain g ac where g: "wGrants coded_world = Some g"
      "fst (ConsumeCode (xClock sample_env (wTicks coded_world)) ''ac_1'' g) = Some ac"
    and ac: "acUserID ac = ''auth0|1''" "acClientID ac = ''spa''" "acCodeChallenge ac = ''v''" "acCodeChallengeMethod ac = ''plain''"
    using coded_redeems by blast
  obtain u where u: "GetByID sample_codec ''auth0|1'' (wDb coded_world) = Inr (Some u)"
    using sample_get_user(1) by (auto simp: coded_world_def)
  have "code_checks sample_env sample_handlers ac [] [] [] ''v'' = None"
    by (simp add: code_checks_None ac Verify_def VerifyPlain_def sample_handlers_def NewRegistry_def)
  then show ?thesis
    by (simp add: handleAuthorizationCode_redeemed [OF g(1) _ g(2)] Let_def sample_code_reply [of ac _ u] ac u)
qed

lemma sample_exchange_body:
  "\<exists>v. rsBody (fst (handleAuthorizationCode sample_env sample_handlers ''ac_1'' [] [] [] ''v'' rs coded_world)) = JsonLine v"
  using coded_exchange [of rs] redeemed_body [of coded_world]
  by (metis coded_redeems list.distinct(1))

theorem code_exchange_checked_witness:
  "challenge_of ''plain'' ''v'' = Some ''v'' \<and>
   rsStatus (fst (handleAuthorizationCode sample_env sample_handlers ''ac_1'' [] [] [] ''v'' new_response coded_world)) = 200"
proof -
  obtain g ac where g: "wGrants coded_world = Some g"
      "fst (ConsumeCode (xClock sample_env (wTicks coded_world)) ''ac_1'' g) = Some ac"
    and ac: "acCodeChallenge ac = ''v''" "acCodeChallengeMethod ac = ''plain''"
    using coded_redeems by blast
  from code_exchange_checked [OF g(1) _ g(2) coded_exchange] show ?thesis
    using coded_exchange by (auto simp: ac)
qed

text \<open>C40: A code exchanged twice within half a minute gives the same tokens: the second request
  gets the remembered reply, whatever client, redirect URI, secret or verifier it names (the
  clock does not run backwards).\<close>

theorem code_exchange_repeatable:
  assumes "handleAuthorizationCode e h code ru cid cs cv rs w = (rs1, w1)"
    and "rsStatus rs1 = 200" and "rsBody rs1 = JsonLine v" and "wf_map (wReplay w)"
    and "\<And>m n. m \<le> n \<Longrightarrow> xClock e m \<le> xClock e n"
    and "xClock e (Suc (wTicks w1)) < xClock e (wTicks w) + codeReplayTTL"
  shows "let rs2 = fst (handleAuthorizationCode e h' code ru' cid' cs' cv' rs' w1)
    in rsStatus rs2 = 200 \<and> rsBody rs2 = JsonDoc v"
proof -
  from assms(1,2) obtain g where g: "wGrants w = Some g" and code: "code \<noteq> []"
    by (auto simp: handleAuthorizationCode_def split: option.splits if_splits)
  let ?g' = "snd (ConsumeCode (xClock e (wTicks w)) code g)"
  let ?w = "w\<lparr>wTicks := Suc (wTicks w), wGrants := Some ?g'\<rparr>"
  have live: "\<exists>ac. fst (ConsumeCode (xClock e (wTicks w)) code g) = Some ac"
  proof (cases "fst (ConsumeCode (xClock e (wTicks w)) code g)")
    case None
    with assms(1) g code have "replay_reply e code rs ?w = (rs1, w1)"
      by (simp add: handleAuthorizationCode_def Let_def split_beta)
    with assms(2,3) show ?thesis
      by (auto simp: replay_reply_def Let_def split_beta split: option.splits if_splits)
  qed simp
  then obtain ac where ac: "fst (ConsumeCode (xClock e (wTicks w)) code g) = Some ac" by blast
  have "code_checks e h ac ru cid cs cv = None"
  proof (cases "code_checks e h ac ru cid cs cv")
    case (Some err)
    with assms(1,2) show ?thesis
      by (auto simp: handleAuthorizationCode_redeemed [OF g code ac] Let_def)
  qed
  then have "code_tokens e h code cid ac rs ?w = (rs1, w1)"
    using assms(1) by (simp add: handleAuthorizationCode_redeemed [OF g code ac] Let_def)
  with code_tokens_cases [of e h code cid ac rs ?w] assms(2,3) obtain w2 where
    w1: "w1 = remember_reply e code v w2" and adv: "advance ?w w2"
    by auto
  have replay: "wReplay w2 = wReplay w" and ticks: "wTicks w < wTicks w2" and "\<exists>g2. wGrants w2 = Some g2 \<and> codes g2 = codes ?g'"
    using adv by (auto simp: advance_def)
  then obtain g2 where g2: "wGrants w2 = Some g2" "codes g2 = codes ?g'" by blast
  have gone: "map_of (codes ?g') code = None"
    using ac by (auto simp: ConsumeCode_def split: option.splits if_splits)
  have w1': "wTicks w1 = Suc (Suc (wTicks w2))" "wGrants w1 = Some g2"
    by (simp_all add: w1 remember_reply_def Let_def split_beta g2)
  have "xClock e (wTicks w) \<le> xClock e (wTicks w2)" "xClock e (Suc (wTicks w2)) \<le> xClock e (Suc (wTicks w1))"
    using ticks by (auto intro!: assms(5) simp: w1')
  then have "map_of (wReplay w1) code = Some (v, xClock e (wTicks w2) + codeReplayTTL)"
    using assms(4,6)
    by (simp add: w1 remember_reply_def Let_def split_beta replay map_of_sweep time_after_def)
  moreover have "xClock e (Suc (wTicks w1)) < xClock e (wTicks w2) + codeReplayTTL"
    using \<open>xClock e (wTicks w) \<le> xClock e (wTicks w2)\<close> assms(6) by simp
  moreover have "ConsumeCode t code g2 = (None, g2)" for t
    using gone by (simp add: ConsumeCode_def g2)
  ultimately show ?thesis
    using code by (simp add: handleAuthorizationCode_def w1'(2) replay_reply_def Let_def split_beta
        time_before_def WriteHeader_def set_header_def)
qed

theorem code_exchange_repeatable_witness:
  "let x = handleAuthorizationCode sample_env sample_handlers ''ac_1'' [] [] [] ''v'' new_response coded_world;
       y = handleAuthorizationCode sample_env sample_handlers ''ac_1'' [] ''other'' [] [] new_response (snd x)
   in \<exists>v. rsBody (fst x) = JsonLine v \<and> rsBody (fst y) = JsonDoc v"
proof -
  let ?x = "handleAuthorizationCode sample_env sample_handlers ''ac_1'' [] [] [] ''v'' new_response coded_world"
  obtain v where v: "rsBody (fst ?x) = JsonLine v"
    using sample_exchange_body by blast
  have "?x = (fst ?x, snd ?x)" by simp
  from code_exchange_repeatable [OF this coded_exchange v, of sample_handlers "[]" "''other''" "[]" "[]" new_response]
  show ?thesis
    using v by (simp add: Let_def codeReplayTTL_def coded_world_def sample_world_def)
qed

section \<open>Passwords\<close>

text \<open>C29: The password grant answers with tokens only for the user of that email whose stored hash
  accepts the password; everything else is the same 400.\<close>

theorem password_grant_needs_password:
  "rsStatus (fst (handlePasswordGrant e h username password cid scope aud rs w)) \<in> {200, 500} \<and>
     (\<exists>u. GetByEmail (xCodec e) username (wDb w) = Inr (Some u) \<and> bcCompare (xBcrypt e) (uPasswordHash u) password
        \<and> username \<noteq> [] \<and> password \<noteq> [])
   \<or> handlePasswordGrant e h username password cid scope aud rs w =
       (sendJSON 400 (error_json ''invalid_grant'' ''Wrong email or password.'') rs, w)"
proof (cases "username = [] \<or> password = []")
  case True
  then show ?thesis by (simp add: handlePasswordGrant_def wrong_password_def)
next
  case False
  show ?thesis
  proof (cases "GetByEmail (xCodec e) username (wDb w)")
    case (Inl err)
    with False show ?thesis by (simp add: handlePasswordGrant_def wrong_password_def)
  next
    case (Inr res)
    then show ?thesis
      using False
      by (cases res)
        (auto simp: handlePasswordGrant_def wrong_password_def VerifyPassword_def Let_def split_beta split: sum.split)
  qed
qed

section \<open>Refresh tokens\<close>

definition still :: "world \<Rightarrow> world \<Rightarrow> bool" where
  "still w w' \<longleftrightarrow> wGrants w' = wGrants w \<and> wUuids w \<le> wUuids w'"

text \<open>The answer to a refresh token that is accepted: an error of the issuer, or a reply that ends
  with the rotation.\<close>

definition rotated :: "env \<Rightarrow> refresh_grant \<Rightarrow> world \<Rightarrow> response \<times> world \<Rightarrow> bool" where
  "rotated e rg w x \<longleftrightarrow>
     rsStatus (fst x) = 500
     \<or> (\<exists>w' sid acc. still w w'
        \<and> rsBody (fst x) = JsonLine (GObj (fst (add_refresh_token e (rgUserID rg) (rgClientID rg) (rgScope rg) sid acc w')))
        \<and> wGrants (snd x) = wGrants (snd (add_refresh_token e (rgUserID rg) (rgClientID rg) (rgScope rg) sid acc w')))"

lemma still_steps:
  "still w w" "still w w' \<Longrightarrow> still w (snd (new_uuid e w'))" "still w w' \<Longrightarrow> still w (snd (issue_access e h s a c n cl w'))"
  "still w w' \<Longrightarrow> still w (snd (add_id_token e h s a c sc em nm op resp w'))"
  "still w w' \<Longrightarrow> still w (snd (if b then (case new_uuid e w' of (uuid, v) \<Rightarrow> (f uuid, v)) else (z, w')))"
  by (auto simp: still_def add_id_token_def issue_id_def Let_def split_beta split: sum.split)

lemma rotated_final:
  "still w w' \<Longrightarrow> rotated e rg w
     (case add_refresh_token e (rgUserID rg) (rgClientID rg) (rgScope rg) sid acc w' of
        (resp, v) \<Rightarrow> (sendJSON 200 (GObj resp) rs, audit_token e g u c s d (count_metric m v)))"
  by (auto simp: rotated_def split_beta audit_token_def count_metric_def Let_def)

lemma rotated_error: "rotated e rg w (sendJSON 500 v rs, w')"
  by (simp add: rotated_def)

lemma rotated_bind:
  "still w (snd x) \<Longrightarrow> (\<And>a w'. still w w' \<Longrightarrow> rotated e rg w (f a w')) \<Longrightarrow>
   rotated e rg w (case x of (a, w') \<Rightarrow> f a w')"
  by (simp add: split_beta)

lemma rotated_prod: "(\<And>a b. rotated e rg w (f a b)) \<Longrightarrow> rotated e rg w (case (y :: string \<times> string) of (a, b) \<Rightarrow> f a b)"
  by (simp split: prod.split)

lemma rotated_sum:
  "(\<And>a. rotated e rg w (f a)) \<Longrightarrow> (\<And>b. rotated e rg w (k b)) \<Longrightarrow>
   rotated e rg w (case y of Inl a \<Rightarrow> f a | Inr b \<Rightarrow> k b)"
  by (simp split: sum.split)

lemma accepted_refresh_rotates:
  assumes "wGrants w = Some g" and "tok \<noteq> []" and "fst (ConsumeRefreshToken (xClock e (wTicks w)) tok g) = Some rg"
    and "cid = [] \<or> rgClientID rg = cid"
  shows "rotated e rg (w\<lparr>wTicks := Suc (wTicks w), wGrants := Some (snd (ConsumeRefreshToken (xClock e (wTicks w)) tok g))\<rparr>)
    (handleRefreshToken e h tok cid rs w)"
proof -
  have c: "(cid \<noteq> [] \<and> rgClientID rg \<noteq> cid) = False" using assms(4) by blast
  obtain g' where res: "ConsumeRefreshToken (xClock e (wTicks w)) tok g = (Some rg, g')"
    using assms(3) by (cases "ConsumeRefreshToken (xClock e (wTicks w)) tok g") simp
  have now: "time_now e w = (xClock e (wTicks w), w\<lparr>wTicks := Suc (wTicks w)\<rparr>)"
    by (simp add: time_now_def)
  show ?thesis
    unfolding handleRefreshToken_def Let_def assms(1) option.case if_not_P [OF assms(2)] now prod.case res c if_False
      snd_conv
    by (rule rotated_final rotated_error rotated_bind rotated_prod rotated_sum still_steps | assumption)+
qed

text \<open>The grant a rotation stores.\<close>

lemma add_refresh_token_grants:
  assumes "wGrants w = Some g" and "contains ''offline_access'' scope"
  shows "\<exists>g' rg. wGrants (snd (add_refresh_token e uid cid scope sid acc w)) = Some g'
    \<and> map_of (fst (add_refresh_token e uid cid scope sid acc w)) ''refresh_token'' = Some (GStr (''rt_'' @ xUuid e (wUuids w)))
    \<and> map_of (refresh g') (''rt_'' @ xUuid e (wUuids w)) = Some rg
    \<and> rgUserID rg = uid \<and> rgClientID rg = cid \<and> rgScope rg = scope
    \<and> (\<forall>k. wf_grants g \<longrightarrow> map_of (refresh g) k = None \<longrightarrow> k \<noteq> ''rt_'' @ xUuid e (wUuids w) \<longrightarrow> map_of (refresh g') k = None)"
  using assms
  by (auto simp: add_refresh_token_def Let_def split_beta save_refresh_def SaveRefreshToken_def
      cleanExpiredRefreshLocked_def new_refresh_grant_def wf_grants_def map_of_sweep_None)

lemma add_refresh_token_none:
  "\<not> contains ''offline_access'' scope \<Longrightarrow> wGrants (snd (add_refresh_token e uid cid scope sid acc w)) = wGrants w"
  by (simp add: add_refresh_token_def)

text \<open>C26: Refresh tokens rotate: a successful refresh leaves the old token unusable for good, and when
  the grant includes offline access the reply carries a new one for the same user, client and
  scope (the UUIDs still to come do not repeat the old token).\<close>

theorem refresh_rotates:
  assumes "wGrants w = Some g" and "wf_grants g" and "fst (ConsumeRefreshToken (xClock e (wTicks w)) tok g) = Some rg"
    and "rsStatus (fst (handleRefreshToken e h tok cid rs w)) = 200"
    and "\<And>n. wUuids w \<le> n \<Longrightarrow> tok \<noteq> ''rt_'' @ xUuid e n"
  shows "\<exists>g' resp. wGrants (snd (handleRefreshToken e h tok cid rs w)) = Some g'
    \<and> rsBody (fst (handleRefreshToken e h tok cid rs w)) = JsonLine (GObj resp)
    \<and> fst (ConsumeRefreshToken t tok g') = None
    \<and> (contains ''offline_access'' (rgScope rg) \<longrightarrow>
        (\<exists>new rg'. map_of resp ''refresh_token'' = Some (GStr new) \<and> map_of (refresh g') new = Some rg'
          \<and> rgUserID rg' = rgUserID rg \<and> rgClientID rg' = rgClientID rg \<and> rgScope rg' = rgScope rg))"
proof -
  let ?g = "snd (ConsumeRefreshToken (xClock e (wTicks w)) tok g)"
  let ?w = "w\<lparr>wTicks := Suc (wTicks w), wGrants := Some ?g\<rparr>"
  have tok: "tok \<noteq> []" using assms(1,4) by (auto simp: handleRefreshToken_def)
  have cid: "cid = [] \<or> rgClientID rg = cid"
    using assms(1,3,4) tok by (auto simp: handleRefreshToken_def Let_def split_beta split: if_splits)
  from accepted_refresh_rotates [OF assms(1) tok assms(3) cid, of h rs] assms(4)
  obtain w' sid acc where st: "still ?w w'"
    and body: "rsBody (fst (handleRefreshToken e h tok cid rs w)) =
        JsonLine (GObj (fst (add_refresh_token e (rgUserID rg) (rgClientID rg) (rgScope rg) sid acc w')))"
    and grants: "wGrants (snd (handleRefreshToken e h tok cid rs w)) =
        wGrants (snd (add_refresh_token e (rgUserID rg) (rgClientID rg) (rgScope rg) sid acc w'))"
    by (auto simp: rotated_def)
  from st have w': "wGrants w' = Some ?g" and u: "wUuids w \<le> wUuids w'" by (auto simp: still_def)
  have gone: "map_of (refresh ?g) tok = None"
    using assms(3) by (auto simp: ConsumeRefreshToken_def split: option.splits if_splits)
  have dead: "fst (ConsumeRefreshToken t tok g') = None" if "map_of (refresh g') tok = None" for g'
    using that by (simp add: ConsumeRefreshToken_def)
  show ?thesis
  proof (cases "contains ''offline_access'' (rgScope rg)")
    case True
    let ?r = "add_refresh_token e (rgUserID rg) (rgClientID rg) (rgScope rg) sid acc w'"
    from add_refresh_token_grants [OF w' True, of e "rgUserID rg" "rgClientID rg" sid acc]
    obtain g' rg' where g': "wGrants (snd ?r) = Some g'"
      and new: "map_of (fst ?r) ''refresh_token'' = Some (GStr (''rt_'' @ xUuid e (wUuids w')))"
        "map_of (refresh g') (''rt_'' @ xUuid e (wUuids w')) = Some rg'"
        "rgUserID rg' = rgUserID rg" "rgClientID rg' = rgClientID rg" "rgScope rg' = rgScope rg"
      and old: "\<forall>k. wf_grants ?g \<longrightarrow> map_of (refresh ?g) k = None
          \<longrightarrow> k \<noteq> ''rt_'' @ xUuid e (wUuids w') \<longrightarrow> map_of (refresh g') k = None"
      by blast
    from old assms(5) [OF u] gone assms(2) have "map_of (refresh g') tok = None"
      by (simp del: append.simps)
    with g' new show ?thesis
      unfolding body grants by (blast intro: dead)
  next
    case False
    with add_refresh_token_none [OF False] w' dead gone show ?thesis
      by (simp add: body grants)
  qed
qed

text \<open>A sample refresh token.\<close>

definition refresh_world :: world where
  "refresh_world = sample_world\<lparr>wGrants := Some ((NewStore 0 0 [])\<lparr>refresh :=
     [(''rt_x'', \<lparr>rgUserID = ''auth0|1'', rgClientID = ''spa'', rgScope = ''openid offline_access'', rgAudience = [],
        rgSessionID = ''sid_1'', rgExpiresAt = 60 * second\<rparr>)]\<rparr>)\<rparr>"

theorem refresh_rotates_witness:
  "\<exists>g'. wGrants (snd (handleRefreshToken sample_env sample_handlers ''rt_x'' [] new_response refresh_world)) = Some g'
     \<and> fst (ConsumeRefreshToken 1 ''rt_x'' g') = None"
proof -
  obtain g rg where g: "wGrants refresh_world = Some g" "wf_grants g"
      "fst (ConsumeRefreshToken (xClock sample_env (wTicks refresh_world)) ''rt_x'' g) = Some rg"
    by (simp add: refresh_world_def wf_grants_def wf_map_def NewStore_def ConsumeRefreshToken_def time_after_def
        sample_world_def Let_def)
  have ok: "rsStatus (fst (handleRefreshToken sample_env sample_handlers ''rt_x'' [] new_response refresh_world)) = 200"
    using g(1,3) by (simp add: handleRefreshToken_def Let_def split_beta)
  have "''rt_x'' \<noteq> ''rt_'' @ xUuid sample_env n" for n
    by (cases n) simp_all
  from refresh_rotates [OF g ok this, of 1] show ?thesis by blast
qed

text \<open>A revoked refresh token is refused afterwards.\<close>

lemma revoked_token_refused:
  assumes "param (parseTokenParams e r) ''token'' = tok" and "has_prefix ''rt_'' tok"
  shows "rsStatus (fst (handleRefreshToken e h tok cid rs' (snd (handleRevoke e r rs w)))) = 400"
proof -
  have tok: "tok \<noteq> []" using assms(2) by (auto simp: has_prefix_def)
  show ?thesis
  proof (cases "wGrants w")
    case None
    with assms tok show ?thesis by (simp add: handleRevoke_def handleRefreshToken_def Let_def)
  next
    case (Some g)
    have "fst (ConsumeRefreshToken t tok (snd (RevokeRefreshToken tok g))) = None" for t
      by (auto simp: ConsumeRefreshToken_def RevokeRefreshToken_def split: option.splits)
    with assms tok Some show ?thesis
      by (simp add: handleRevoke_def handleRefreshToken_def Let_def split_beta)
  qed
qed

end
