(* ===== verification/Device_Flow.thy ===== *)
theory Device_Flow
  imports Token_Flows
begin

text \<open>
  The device flow at the level of requests: tokens only for a device code a user has authorized
  and not denied, each code once, and the whole flow from the device's request to its tokens.
\<close>

lemma GetDeviceCode_found:
  assumes "wf_grants g" and "fst (GetDeviceCode up t0 t1 d g) = Some dc"
  shows "map_of (devices g) d = Some dc \<and> \<not> dcExpired dc
    \<and> map_of (devices (snd (GetDeviceCode up t0 t1 d g))) d = Some dc"
  using assms map_of_sweep_SomeD [of "devices g" "dead_device t0" d dc]
  by (auto simp: GetDeviceCode_def Let_def clean_devices_eq wf_grants_def split: option.splits if_splits)

lemma grants_add_id_token: "wGrants (snd (add_id_token e h s a c sc em nm op resp w)) = wGrants w"
  by (auto simp: add_id_token_def issue_id_def Let_def split_beta split: sum.split)

lemma device_tokens_grants: "wGrants (snd (device_tokens e h dc rs w)) = wGrants w"
  by (auto simp: device_tokens_def Let_def split_beta grants_add_id_token split: sum.split option.split)

text \<open>C8: The device grant issues tokens only for a device code that a user has authorized, nobody
  has denied and that is not marked expired, and it uses the code up.\<close>

theorem device_tokens_need_authorization:
  assumes "wGrants w = Some g" and "wf_grants g"
    and "rsStatus (fst (handleDeviceCodeToken e h d rs w)) = 200"
  shows "(\<exists>dc. map_of (devices g) d = Some dc \<and> dcUserAuthorized dc \<and> \<not> dcAccessDenied dc \<and> \<not> dcExpired dc)
    \<and> (\<exists>g'. wGrants (snd (handleDeviceCodeToken e h d rs w)) = Some g' \<and> map_of (devices g') d = None)"
proof -
  let ?t0 = "xClock e (wTicks w)" and ?t1 = "xClock e (Suc (wTicks w))" and ?t2 = "xClock e (Suc (Suc (wTicks w)))"
  let ?G = "GetDeviceCode (xUpper e) ?t0 ?t1 d g"
  let ?C = "ConsumeDeviceCode (xUpper e) ?t2 d (snd ?G)"
  from assms(1,3) have d: "d \<noteq> []" by (auto simp: handleDeviceCodeToken_def)
  obtain dc where dc: "fst ?G = Some dc"
  proof (cases "fst ?G")
    case None
    with assms(1,3) d show ?thesis
      by (simp add: handleDeviceCodeToken_def Let_def split_beta)
  qed
  have flags: "\<not> dcAccessDenied dc" "dcUserAuthorized dc"
    using assms(1,3) d dc by (auto simp: handleDeviceCodeToken_def Let_def split_beta split: if_splits)
  obtain grant where grant: "fst ?C = Some grant"
  proof (cases "fst ?C")
    case None
    with assms(1,3) d dc flags show ?thesis
      by (simp add: handleDeviceCodeToken_def Let_def split_beta)
  qed
  then have "map_of (devices (snd ?C)) d = None"
    by (auto simp: ConsumeDeviceCode_def split: option.splits if_splits)
  moreover have "wGrants (snd (handleDeviceCodeToken e h d rs w)) = Some (snd ?C)"
    using assms(1) d dc flags grant
    by (simp add: handleDeviceCodeToken_def Let_def split_beta device_tokens_grants)
  ultimately show ?thesis
    using GetDeviceCode_found [OF assms(2) dc] flags by blast
qed

section \<open>The complete flow\<close>

lemma id_token_keeps_access:
  "map_of (fst (add_id_token e h s a c sc em nm op resp w)) ''access_token'' = map_of resp ''access_token''"
  by (auto simp: add_id_token_def issue_id_def Let_def split_beta split: sum.split)

lemma device_tokens_ok:
  assumes "GetByID (xCodec e) (dcUserID dc) (wDb w) = Inr (Some u)"
    and "\<And>t s a c n cl. \<exists>tok. Issue (xJwt e) t (hIssuer h) s a c n cl = Inr tok"
    and "aud = (if dcAudience dc = [] then if dcClientID dc = [] then defaultAudience else dcClientID dc else dcAudience dc)"
  shows "\<exists>resp tok. fst (device_tokens e h dc rs w) = sendJSON 200 (GObj resp) rs
    \<and> map_of resp ''access_token'' = Some (GStr tok)
    \<and> access_token_for e h (dcUserID dc) u aud (dcClientID dc) tok"
proof -
  have aud: "(if (if dcAudience dc = [] \<and> dcClientID dc \<noteq> [] then dcClientID dc else dcAudience dc) = []
    then defaultAudience else if dcAudience dc = [] \<and> dcClientID dc \<noteq> [] then dcClientID dc else dcAudience dc) = aud"
    by (simp add: assms(3))
  from assms(2) obtain tok where tok:
    "Issue (xJwt e) (xClock e (wTicks w)) (hIssuer h) (dcUserID dc) aud (dcClientID dc) (accessTokenLifetime h)
       (access_claims e h u (dcClientID dc)) = Inr tok"
    by blast
  then have "\<exists>resp. fst (device_tokens e h dc rs w) = sendJSON 200 (GObj resp) rs \<and> map_of resp ''access_token'' = Some (GStr tok)"
    unfolding device_tokens_def assms(1) Let_def aud access_claims_def
    by (simp add: split_beta) (intro exI conjI, rule refl, simp add: id_token_keeps_access token_response_def)
  with issued_access_token [OF tok] show ?thesis by blast
qed

text \<open>The client and the audience a device asks for.\<close>

definition device_client :: "env \<Rightarrow> request \<Rightarrow> string" where
  "device_client e r =
     (if param (parseTokenParams e r) ''client_id'' = [] then ''e2e-test'' else param (parseTokenParams e r) ''client_id'')"

definition device_audience :: "env \<Rightarrow> request \<Rightarrow> string" where
  "device_audience e r =
     (if param (parseTokenParams e r) ''audience'' = [] then device_client e r else param (parseTokenParams e r) ''audience'')"

definition requested_code :: "env \<Rightarrow> world \<Rightarrow> string" where
  "requested_code e w = ''dc_'' @ xUuid e (wUuids w)"

definition shown_code :: "env \<Rightarrow> world \<Rightarrow> string" where
  "shown_code e w = fst (randomUserCode e w)"

text \<open>After the device's request its code is stored under the code shown to the user.\<close>

lemma device_requested:
  assumes "wGrants w = Some g" and "wf_grants g"
  shows "\<exists>t g1 dc. wGrants (snd (handleDeviceCodeRequest e h r rs w)) = Some g1 \<and> wf_grants g1
    \<and> wDb (snd (handleDeviceCodeRequest e h r rs w)) = wDb w
    \<and> map_of (userCodes g1) (normalize_code (xUpper e) (shown_code e w)) = Some (requested_code e w)
    \<and> map_of (devices g1) (requested_code e w) = Some dc \<and> dcExpiresAt dc = xClock e t + deviceTTL g
    \<and> wTicks w \<le> t \<and> \<not> dcExpired dc \<and> \<not> dcAccessDenied dc \<and> dcUserCode dc = shown_code e w
    \<and> dcClientID dc = device_client e r \<and> dcAudience dc = param (parseTokenParams e r) ''audience''"
proof -
  let ?up = "xUpper e" and ?t0 = "xClock e (wTicks w)" and ?t1 = "xClock e (Suc (wTicks w))"
  have shown: "fst (randomUserCode e (w\<lparr>wUuids := Suc (wUuids w)\<rparr>)) = shown_code e w"
    by (simp add: shown_code_def randomUserCode_def Let_def)
  have "\<exists>dc. wGrants (snd (handleDeviceCodeRequest e h r rs w)) =
        Some (SaveDeviceCode ?up ?t0 ?t1 (requested_code e w) (shown_code e w) dc g)
      \<and> wDb (snd (handleDeviceCodeRequest e h r rs w)) = wDb w
      \<and> \<not> dcExpired dc \<and> \<not> dcAccessDenied dc \<and> dcUserCode dc = shown_code e w
      \<and> dcClientID dc = device_client e r \<and> dcAudience dc = param (parseTokenParams e r) ''audience''"
    using assms(1)
    by (auto simp: handleDeviceCodeRequest_def save_device_def new_device_def randomUserCode_def Let_def split_beta
        requested_code_def shown_code_def device_client_def)
  then show ?thesis
    using assms(2) by (auto simp: SaveDeviceCode_def Let_def wf_grants_def clean_devices_eq intro!: exI [of _ "wTicks w"])
qed

text \<open>Authorization by a user with the right password, under any spelling of the code shown.\<close>

lemma device_allowed:
  assumes "wGrants w = Some g" and "rqMethod r = ''POST''"
    and "query_get r ''user_code'' = typed" and "typed \<noteq> []" and "FormValue (device_post r) ''action'' \<noteq> ''deny''"
    and "FormValue (device_post r) ''username'' \<noteq> []" and "FormValue (device_post r) ''password'' \<noteq> []"
    and "check_credentials e (FormValue (device_post r) ''username'') (FormValue (device_post r) ''password'') (wDb w) = Some u"
    and "map_of (userCodes g) (normalize_code (xUpper e) typed) = Some d" and "map_of (devices g) d = Some dc"
    and "\<not> dcExpired dc" and "xClock e (wTicks w) \<le> dcExpiresAt dc"
  shows "wGrants (snd (handleDeviceAuthorize e r rs w)) =
      Some (g\<lparr>devices := AList.update d (dc\<lparr>dcUserAuthorized := True, dcUserID := uID u\<rparr>) (devices g)\<rparr>)
    \<and> wDb (snd (handleDeviceAuthorize e r rs w)) = wDb w"
  using assms by (simp add: handleDeviceAuthorize_def Let_def split_beta AuthorizeDeviceCode_def time_after_def)

lemma device_redeemed:
  assumes "wGrants w = Some g" and "wf_grants g" and "d \<noteq> []" and "map_of (devices g) d = Some dc"
    and "dcUserAuthorized dc" and "\<not> dcAccessDenied dc" and "\<not> dcExpired dc"
    and "\<And>n. xClock e n \<le> dcExpiresAt dc"
  shows "\<exists>w'. handleDeviceCodeToken e h d rs w = device_tokens e h dc rs w' \<and> wDb w' = wDb w"
proof -
  have live: "\<not> dcExpiresAt dc < xClock e n" for n using assms(8) [of n] by simp
  have look: "map_of (sweep (dead_device (xClock e n)) (devices g)) d = Some dc" for n
    using assms(2,4,7) live [of n] by (simp add: wf_grants_def map_of_sweep dead_device_def time_after_def)
  show ?thesis
    using assms(3,5-7)
    by (simp add: handleDeviceCodeToken_def assms(1) Let_def split_beta GetDeviceCode_def ConsumeDeviceCode_def
        clean_devices_eq time_after_def look live) (intro exI conjI, rule refl, simp)
qed

text \<open>C7: The device flow works from end to end: once the device has its codes, a user who enters
  the shown code in any spelling with the right password lets the device redeem its code for an
  access token signed for that user, as long as it all happens within the lifetime of the code,
  the user still exists and signing succeeds.\<close>

theorem device_flow_end_to_end:
  assumes "wGrants w = Some g" and "wf_grants g"
    and "rqMethod r2 = ''POST''" and "query_get r2 ''user_code'' = typed" and "typed \<noteq> []"
    and "normalize_code (xUpper e) typed = normalize_code (xUpper e) (shown_code e w)"
    and "FormValue (device_post r2) ''action'' \<noteq> ''deny''" and "FormValue (device_post r2) ''username'' \<noteq> []" and "FormValue (device_post r2) ''password'' \<noteq> []"
    and "check_credentials e (FormValue (device_post r2) ''username'') (FormValue (device_post r2) ''password'') (wDb w) = Some u"
    and "GetByID (xCodec e) (uID u) (wDb w) = Inr (Some u')"
    and "\<And>t s a c n cl. \<exists>tok. Issue (xJwt e) t (hIssuer h) s a c n cl = Inr tok"
    and "\<And>m n. xClock e m \<le> xClock e n + deviceTTL g"
  shows "let w1 = snd (handleDeviceCodeRequest e h r1 rs1 w);
             w2 = snd (handleDeviceAuthorize e r2 rs2 w1);
             rs3' = fst (handleDeviceCodeToken e h (requested_code e w) rs3 w2)
    in \<exists>resp tok. rs3' = sendJSON 200 (GObj resp) rs3
         \<and> map_of resp ''access_token'' = Some (GStr tok)
         \<and> access_token_for e h (uID u) u' (device_audience e r1) (device_client e r1) tok"
proof -
  let ?w1 = "snd (handleDeviceCodeRequest e h r1 rs1 w)"
  let ?w2 = "snd (handleDeviceAuthorize e r2 rs2 ?w1)"
  let ?d = "requested_code e w"
  from device_requested [OF assms(1,2), of e h r1 rs1] obtain t g1 dc where
    g1: "wGrants ?w1 = Some g1" "wf_grants g1" "wDb ?w1 = wDb w"
    and look: "map_of (userCodes g1) (normalize_code (xUpper e) (shown_code e w)) = Some ?d"
      "map_of (devices g1) ?d = Some dc"
    and dc: "dcExpiresAt dc = xClock e t + deviceTTL g" "\<not> dcExpired dc" "\<not> dcAccessDenied dc"
      "dcClientID dc = device_client e r1" "dcAudience dc = param (parseTokenParams e r1) ''audience''"
    by blast
  let ?dc = "dc\<lparr>dcUserAuthorized := True, dcUserID := uID u\<rparr>"
  let ?g2 = "g1\<lparr>devices := AList.update ?d ?dc (devices g1)\<rparr>"
  have g2: "wGrants ?w2 = Some ?g2" "wDb ?w2 = wDb w"
    using device_allowed [of ?w1 g1 r2 typed e u ?d dc rs2] g1 look dc assms by simp_all
  have "wf_grants ?g2" using g1(2) by (simp add: wf_grants_def)
  moreover have "?d \<noteq> []" by (simp add: requested_code_def)
  ultimately obtain w' where w': "handleDeviceCodeToken e h ?d rs3 ?w2 = device_tokens e h ?dc rs3 w'" "wDb w' = wDb w"
    using device_redeemed [of ?w2 ?g2 ?d ?dc e h rs3] g2 dc assms(13) by auto
  have "device_client e r1 \<noteq> []" by (simp add: device_client_def)
  then have "device_audience e r1 = (if dcAudience ?dc = [] then if dcClientID ?dc = [] then defaultAudience
      else dcClientID ?dc else dcAudience ?dc)"
    by (simp add: device_audience_def dc)
  from device_tokens_ok [OF _ assms(12) this, of w' u' rs3] assms(11) w'(2) dc(4) show ?thesis
    by (simp add: Let_def w'(1))
qed

text \<open>A device code that has been authorized, and the form that authorizes one.\<close>

definition device_world :: world where
  "device_world = sample_world\<lparr>wGrants := Some ((NewStore 0 0 [])\<lparr>devices :=
     [(''dc_1'', (new_device ''dc_1'' ''ABCD-EFGH'' ''tv'' ''openid'' [])\<lparr>dcUserID := ''auth0|1'', dcExpiresAt := minute,
        dcUserAuthorized := True\<rparr>)]\<rparr>)\<rparr>"

definition allow_request :: request where
  "allow_request = sample_request\<lparr>rqMethod := ''POST'', rqRawQuery := ''user_code=ABCDEFGH'',
     rqPostForm := [(''username'', [''a@x'']), (''password'', [''pw''])]\<rparr>"

lemma device_world_grants: "\<exists>g. wGrants device_world = Some g \<and> wf_grants g"
  by (simp add: device_world_def wf_grants_def wf_map_def NewStore_def Let_def)

lemma device_world_redeems:
  "rsStatus (fst (handleDeviceCodeToken sample_env sample_handlers ''dc_1'' rs device_world)) = 200"
proof -
  obtain u where u: "GetByID sample_codec ''auth0|1'' (wDb device_world) = Inr (Some u)"
    using sample_get_user(1) by (auto simp: device_world_def)
  from device_world_grants obtain g where g: "wGrants device_world = Some g" "wf_grants g" by blast
  let ?dc = "(new_device ''dc_1'' ''ABCD-EFGH'' ''tv'' ''openid'' [])\<lparr>dcUserID := ''auth0|1'',
      dcExpiresAt := minute, dcUserAuthorized := True\<rparr>"
  have "\<exists>w'. handleDeviceCodeToken sample_env sample_handlers ''dc_1'' rs device_world =
      device_tokens sample_env sample_handlers ?dc rs w' \<and> wDb w' = wDb device_world"
    using g by (intro device_redeemed [of _ g]) (auto simp: device_world_def new_device_def)
  then obtain w' where w': "handleDeviceCodeToken sample_env sample_handlers ''dc_1'' rs device_world =
      device_tokens sample_env sample_handlers ?dc rs w'" "wDb w' = wDb device_world" by blast
  from device_tokens_ok [OF _ _ refl, of sample_env ?dc w' u sample_handlers rs]
  have "\<exists>resp tok. fst (device_tokens sample_env sample_handlers ?dc rs w') = sendJSON 200 (GObj resp) rs
    \<and> map_of resp ''access_token'' = Some (GStr tok)"
    by (simp add: w'(2) u) blast
  then show ?thesis by (auto simp: w'(1))
qed

theorem device_tokens_need_authorization_witness:
  "\<exists>g'. wGrants (snd (handleDeviceCodeToken sample_env sample_handlers ''dc_1'' new_response device_world)) = Some g'
     \<and> map_of (devices g') ''dc_1'' = None"
proof -
  from device_world_grants obtain g where "wGrants device_world = Some g" "wf_grants g" by blast
  from device_tokens_need_authorization [OF this device_world_redeems] show ?thesis by blast
qed

lemma allow_request_params:
  "query_get allow_request ''user_code'' = ''ABCDEFGH''" "FormValue (device_post allow_request) ''action'' = []"
  "FormValue (device_post allow_request) ''username'' = ''a@x''" "FormValue (device_post allow_request) ''password'' = ''pw''"
  by (code_simp+)

lemma sample_shown_code: "shown_code sample_env sample_world = ''ABCD-EFGH''"
  by (simp add: shown_code_def randomUserCode_def code_chars_def sample_env_def sample_world_def upt_rec Let_def)

lemma sample_credentials:
  "\<exists>u. check_credentials sample_env ''a@x'' ''pw'' (wDb sample_world) = Some u \<and> uID u = ''auth0|1''"
  using sample_get_user(2) by (auto simp: check_credentials_def VerifyPassword_def sample_bcrypt_def)

theorem device_flow_end_to_end_witness:
  "let w1 = snd (handleDeviceCodeRequest sample_env sample_handlers sample_request new_response sample_world);
       w2 = snd (handleDeviceAuthorize sample_env allow_request new_response w1);
       rs = fst (handleDeviceCodeToken sample_env sample_handlers (requested_code sample_env sample_world) new_response w2)
   in \<exists>resp. rs = sendJSON 200 (GObj resp) new_response \<and> map_of resp ''access_token'' = Some (GStr ''a.b.c'')"
proof -
  obtain u where u: "check_credentials sample_env ''a@x'' ''pw'' (wDb sample_world) = Some u" "uID u = ''auth0|1''"
    using sample_credentials by blast
  obtain u' where u': "GetByID (xCodec sample_env) (uID u) (wDb sample_world) = Inr (Some u')"
    using sample_get_user(1) u(2) by auto
  let ?g = "NewStore 0 0 []"
  have g: "wGrants sample_world = Some ?g" "wf_grants ?g"
    by (simp_all add: sample_world_def wf_grants_def wf_map_def NewStore_def Let_def)
  have code: "normalize_code (xUpper sample_env) ''ABCDEFGH'' =
      normalize_code (xUpper sample_env) (shown_code sample_env sample_world)"
    by (simp add: sample_shown_code normalize_code_def remove_all_def)
  have clock: "xClock sample_env m \<le> xClock sample_env n + deviceTTL ?g" for m n
    by (simp add: NewStore_def Let_def)
  have "rqMethod allow_request = ''POST''" by (simp add: allow_request_def)
  note flow = device_flow_end_to_end [OF g this allow_request_params(1) _ code,
    unfolded allow_request_params, OF _ _ _ _ u(1) u' _ clock]
  show ?thesis
    unfolding Let_def using flow [of sample_handlers sample_request new_response new_response new_response, unfolded Let_def]
    by (auto dest: sample_token)
qed

end
