(* ===== verification/Authorize_Flows.thy ===== *)
theory Authorize_Flows
  imports Device_Flow
begin

text \<open>
  The browser's side: where the authorization endpoint may send a browser, what stands between a
  user and an authorization code, the flow from the authorization request to the tokens, single
  sign-on by the session cookie, logout, and the pages the server writes.
\<close>

section \<open>Where a browser is sent\<close>

lemma response_simps [simp]:
  "rsStatus (http_redirect d rs) = 302" "rsBody (http_redirect d rs) = RedirectTo d"
  "rsStatus (http_error m n rs) = n" "rsBody (http_error m n rs) = ErrorText m"
  "rsBody (panicked rs) = Panicked" "rsBody (send_html p rs) = Html p"
  by (simp_all add: http_redirect_def http_error_def panicked_def send_html_def Let_def set_header_def)

text \<open>The destinations built from a redirect URI: its URL with another query, perhaps with a
  fragment, or without its query and with a fragment.\<close>

definition back_to_client :: "env \<Rightarrow> url \<Rightarrow> string \<Rightarrow> bool" where
  "back_to_client e u l \<longleftrightarrow>
     (\<exists>q. l = xUrlString e (u\<lparr>urlRawQuery := q\<rparr>))
     \<or> (\<exists>q f. l = xUrlString e (u\<lparr>urlRawQuery := q\<rparr>) @ ''#'' @ f)
     \<or> (\<exists>f. l = trim_suffix (if urlRawQuery u = [] then [] else ''?'' @ urlRawQuery u) (xUrlString e u) @ ''#'' @ f)"

definition sent_to :: "env \<Rightarrow> handlers \<Rightarrow> url \<Rightarrow> response \<times> world \<Rightarrow> bool" where
  "sent_to e h u x \<longleftrightarrow>
     (\<forall>l. rsBody (fst x) = RedirectTo l \<longrightarrow> back_to_client e u l \<or> has_prefix (issuerURL h @ ''/login?'') l)"

named_theorems sending \<open>where a handler redirects\<close>

lemma sent_to_json [sending]: "sent_to e h u (sendJSON n v rs, w)"
  by (simp add: sent_to_def)

lemma sent_to_answer [sending]:
  "sent_to e h u (http_redirect (xUrlString e (answer_url u kvs st)) rs, w)"
  "sent_to e h u (http_redirect (xUrlString e (answer_url u kvs st) @ ''#'' @ f) rs, w)"
  by (auto simp: sent_to_def back_to_client_def answer_url_def)

lemma sent_to_fragment [sending]: "sent_to e h u (http_redirect (fragment_url e u frag) rs, w)"
  by (auto simp: sent_to_def back_to_client_def fragment_url_def Let_def trim_suffix_def)

lemma has_prefix_append_right: "has_prefix p s \<Longrightarrow> has_prefix p (s @ t)"
proof -
  assume "has_prefix p s"
  then have "s = p @ drop (length p) s" by (metis append_take_drop_id has_prefix_def)
  then show "has_prefix p (s @ t)" by (metis append_assoc has_prefix_append)
qed

lemma login_url_prefix: "has_prefix (issuerURL h @ ''/login?'') (login_url h cid ru sc)"
  by (simp add: login_url_def has_prefix_def)

lemma with_param_prefix: "has_prefix p d \<Longrightarrow> has_prefix p (with_param k v d)"
  by (simp add: with_param_def has_prefix_append_right)

lemma sent_to_login: "has_prefix (issuerURL h @ ''/login?'') l \<Longrightarrow> sent_to e h u (http_redirect l rs, w)"
  by (simp add: sent_to_def)

lemma sent_to_if [sending]:
  "(c \<Longrightarrow> sent_to e h u x) \<Longrightarrow> (\<not> c \<Longrightarrow> sent_to e h u y) \<Longrightarrow> sent_to e h u (if c then x else y)"
  by simp

lemma sent_to_pair [sending]: "(\<And>a b. sent_to e h u (f a b)) \<Longrightarrow> sent_to e h u (case x of (a, b) \<Rightarrow> f a b)"
  by (simp add: split_beta)

lemma sent_to_option [sending]:
  "sent_to e h u z \<Longrightarrow> (\<And>b. sent_to e h u (k b)) \<Longrightarrow> sent_to e h u (case y of None \<Rightarrow> z | Some b \<Rightarrow> k b)"
  by (simp split: option.split)

lemma sent_to_sum [sending]:
  "(\<And>a. sent_to e h u (f a)) \<Longrightarrow> (\<And>b. sent_to e h u (k b)) \<Longrightarrow>
   sent_to e h u (case y of Inl a \<Rightarrow> f a | Inr b \<Rightarrow> k b)"
  by (simp split: sum.split)

lemma sent_to_implicit [sending]: "sent_to e h u (handleImplicitAuthorize e h ap un pw u rs w)"
  unfolding handleImplicitAuthorize_def Let_def
  by (intro sending sent_to_login) (simp_all add: has_prefix_def)

lemma sent_to_issue_code [sending]: "sent_to e h u (issue_code e uid ap u rs w)"
  unfolding issue_code_def Let_def by (intro sending)

lemma login_redirect_prefix: "has_prefix (issuerURL h @ ''/login?'') (login_redirect h ap hint)"
  by (simp add: login_redirect_def Let_def with_param_prefix has_prefix_append_right login_url_prefix)

lemma sent_to_authorize_code [sending]: "sent_to e h u (authorize_code e h r ap u rs w)"
  unfolding authorize_code_def Let_def by (intro sending sent_to_login login_redirect_prefix)

text \<open>The checks of the authorization endpoint on its parameters.\<close>

definition redirect_allowed :: "handlers \<Rightarrow> request \<Rightarrow> bool" where
  "redirect_allowed h r \<longleftrightarrow> query_get r ''redirect_uri'' \<noteq> [] \<and>
     (case hClientRegistry h of
        None \<Rightarrow> True
      | Some reg \<Rightarrow>
          (case Get (query_get r ''client_id'') reg of
             None \<Rightarrow> True
           | Some cfg \<Rightarrow> RedirectURIs cfg = [] \<or> query_get r ''redirect_uri'' \<in> set (RedirectURIs cfg)))"

text \<open>The parameters of an authorization request with their defaults.\<close>

definition request_params :: "request \<Rightarrow> auth_params" where
  "request_params r =
     \<lparr>apResponseType = query_get r ''response_type'',
      apClientID = (if query_get r ''client_id'' = [] then ''e2e-test'' else query_get r ''client_id''),
      apRedirectURI = query_get r ''redirect_uri'',
      apScope = (if query_get r ''scope'' = [] then ''openid'' else query_get r ''scope''),
      apState = query_get r ''state'', apNonce = query_get r ''nonce'', apAudience = query_get r ''audience'',
      apChallenge = query_get r ''code_challenge'',
      apChallengeMethod =
        (if query_get r ''code_challenge_method'' = [] then ''S256'' else query_get r ''code_challenge_method'')\<rparr>"

definition scope_allowed :: "handlers \<Rightarrow> request \<Rightarrow> bool" where
  "scope_allowed h r \<longleftrightarrow>
     (case hClientRegistry h of
        None \<Rightarrow> True
      | Some reg \<Rightarrow> ValidateScope (apClientID (request_params r)) (apScope (request_params r)) reg)"

definition refused :: "response \<Rightarrow> world \<Rightarrow> response \<times> world \<Rightarrow> bool" where
  "refused rs w x \<longleftrightarrow> (\<exists>v. x = (sendJSON 400 v rs, w))"

lemma refused_json: "refused rs w (sendJSON 400 v rs, w)"
  by (auto simp: refused_def)

lemma refused_if: "(c \<Longrightarrow> refused rs w x) \<Longrightarrow> (\<not> c \<Longrightarrow> refused rs w y) \<Longrightarrow> refused rs w (if c then x else y)"
  by simp

lemma redirect_allowed_code:
  "redirect_allowed h r \<longleftrightarrow> query_get r ''redirect_uri'' \<noteq> [] \<and>
     \<not> (case hClientRegistry h of None \<Rightarrow> False
        | Some reg \<Rightarrow> \<not> ValidateRedirectURI (query_get r ''client_id'') (query_get r ''redirect_uri'') reg)"
  by (simp add: redirect_allowed_def ValidateRedirectURI_iff split: option.split)

lemma redirect_refused:
  assumes "\<not> redirect_allowed h r"
  shows "refused rs w (handleAuthorize e h r rs w)"
  unfolding handleAuthorize_def Let_def
  by (intro refused_if refused_json) (use assms in \<open>simp_all add: redirect_allowed_code\<close>)

lemma unparsable_refused:
  assumes "xUrlParse e (query_get r ''redirect_uri'') = Inl err"
  shows "refused rs w (handleAuthorize e h r rs w)"
  unfolding handleAuthorize_def Let_def assms sum.case by (intro refused_if refused_json)

text \<open>C10: A redirect URI that is missing, or that is not among those registered for the client id
  as the request sends it, is answered with 400 and changes nothing, and every redirect goes to the
  login page or to the redirect URI of the request with a new query or fragment. This is what the
  code checks; a request that names no client is looked up under the empty id, and so not checked
  against the client it is then taken to come from.\<close>

theorem authorize_redirects_safely:
  shows "((query_get r ''redirect_uri'' = []
        \<or> (\<exists>reg cfg. hClientRegistry h = Some reg \<and> Get (query_get r ''client_id'') reg = Some cfg
             \<and> RedirectURIs cfg \<noteq> [] \<and> query_get r ''redirect_uri'' \<notin> set (RedirectURIs cfg))) \<longrightarrow>
      rsStatus (fst (handleAuthorize e h r rs w)) = 400 \<and> snd (handleAuthorize e h r rs w) = w)
    \<and> (rsBody (fst (handleAuthorize e h r rs w)) = RedirectTo l \<longrightarrow>
      redirect_allowed h r
      \<and> (\<exists>u. xUrlParse e (query_get r ''redirect_uri'') = Inr u
           \<and> (back_to_client e u l \<or> has_prefix (issuerURL h @ ''/login?'') l)))"
proof (cases "redirect_allowed h r")
  case False
  with redirect_refused [OF this, of rs w e] show ?thesis by (auto simp: refused_def)
next
  case True
  then have allowed: "query_get r ''redirect_uri'' \<noteq> []"
    "\<nexists>reg cfg. hClientRegistry h = Some reg \<and> Get (query_get r ''client_id'') reg = Some cfg
       \<and> RedirectURIs cfg \<noteq> [] \<and> query_get r ''redirect_uri'' \<notin> set (RedirectURIs cfg)"
    by (auto simp: redirect_allowed_def)
  show ?thesis
  proof (cases "xUrlParse e (query_get r ''redirect_uri'')")
    case (Inl err)
    with allowed unparsable_refused [OF this, of rs w h] show ?thesis by (auto simp: refused_def)
  next
    case (Inr u)
    have "sent_to e h u (handleAuthorize e h r rs w)"
      unfolding handleAuthorize_def Let_def Inr sum.case
      by (intro sending)
    then have "rsBody (fst (handleAuthorize e h r rs w)) = RedirectTo l \<longrightarrow>
        back_to_client e u l \<or> has_prefix (issuerURL h @ ''/login?'') l"
      by (simp add: sent_to_def)
    with True allowed Inr show ?thesis by blast
  qed
qed

section \<open>No code without a user\<close>

text \<open>\<open>code_source Q g x\<close>: every code in the store of \<open>x\<close> was there before or satisfies \<open>Q\<close>.\<close>

definition code_source :: "(auth_code \<Rightarrow> bool) \<Rightarrow> grant_store \<Rightarrow> response \<times> world \<Rightarrow> bool" where
  "code_source Q g x \<longleftrightarrow>
     (\<exists>g'. wGrants (snd x) = Some g' \<and> (\<forall>c ac. map_of (codes g') c = Some ac \<longrightarrow> map_of (codes g) c = Some ac \<or> Q ac))"

named_theorems keeping \<open>steps that keep the grants\<close>

lemma keeps_steps [keeping]:
  "wGrants w = G \<Longrightarrow> wGrants (count_metric m w) = G"
  "wGrants w = G \<Longrightarrow> wGrants (audit_login e uid em cid ok ds w) = G"
  by (simp_all add: count_metric_def audit_login_def Let_def split_beta)

lemma keeps_start_session [keeping]: "wGrants w = G \<Longrightarrow> wGrants (snd (start_session e u rs w)) = G"
  by (simp add: start_session_def Let_def split_beta split: option.split sum.split)

lemma keeps_session_user [keeping]:
  "wGrants w = G \<Longrightarrow> wGrants (snd (session_user e r w)) = G"
  by (simp add: session_user_def Let_def split_beta split: option.split sum.split)

lemma keeps_compound [keeping]:
  "wGrants w = G \<Longrightarrow> wGrants (snd (a, w)) = G"
  "wGrants (snd x) = G \<Longrightarrow> wGrants (snd y) = G \<Longrightarrow> wGrants (snd (if c then x else y)) = G"
  "wGrants (snd z) = G \<Longrightarrow> (\<And>b v. wGrants v = G \<Longrightarrow> wGrants (snd (f b v)) = G) \<Longrightarrow>
   wGrants (snd (case z of (b, v) \<Rightarrow> f b v)) = G"
  "(\<And>b. wGrants (snd (k b)) = G) \<Longrightarrow> (\<And>d. wGrants (snd (m d)) = G) \<Longrightarrow>
   wGrants (snd (case q of Inl b \<Rightarrow> k b | Inr d \<Rightarrow> m d)) = G"
  by (simp_all add: split_beta split: sum.split)

lemma keeps_signing [keeping]:
  "wGrants w = G \<Longrightarrow> wGrants (snd (issue_access e h s a c n cl w)) = G"
  "wGrants w = G \<Longrightarrow> wGrants (snd (issue_id e h s a c n sc em nm op w)) = G"
  by (simp_all add: issue_id_def Let_def split_beta)

lemma keeps_implicit_tokens [keeping]:
  "wGrants w = G \<Longrightarrow> wGrants (snd (implicit_tokens e h u ap wt wi w)) = G"
  unfolding implicit_tokens_def Let_def by (rule keeping | assumption)+

lemma code_source_same: "wGrants w = Some g \<Longrightarrow> code_source Q g (rs, w)"
  by (simp add: code_source_def)

lemma code_source_if: "(c \<Longrightarrow> code_source Q g x) \<Longrightarrow> (\<not> c \<Longrightarrow> code_source Q g y) \<Longrightarrow> code_source Q g (if c then x else y)"
  by simp

lemma code_source_bind:
  "wGrants (snd x) = Some g \<Longrightarrow> (\<And>a w. a = fst x \<Longrightarrow> wGrants w = Some g \<Longrightarrow> code_source Q g (f a w)) \<Longrightarrow>
   code_source Q g (case x of (a, w) \<Rightarrow> f a w)"
  by (simp add: split_beta)

lemma code_source_option:
  "(y = None \<Longrightarrow> code_source Q g z) \<Longrightarrow> (\<And>b. y = Some b \<Longrightarrow> code_source Q g (k b)) \<Longrightarrow>
   code_source Q g (case y of None \<Rightarrow> z | Some b \<Rightarrow> k b)"
  by (simp split: option.split)

lemma code_source_sum:
  "(\<And>a. y = Inl a \<Longrightarrow> code_source Q g (f a)) \<Longrightarrow> (\<And>b. y = Inr b \<Longrightarrow> code_source Q g (k b)) \<Longrightarrow>
   code_source Q g (case y of Inl a \<Rightarrow> f a | Inr b \<Rightarrow> k b)"
  by (simp split: sum.split)

lemmas code_source_rules = code_source_same code_source_if code_source_bind code_source_option code_source_sum

lemma code_source_implicit:
  "wGrants w = Some g \<Longrightarrow> code_source Q g (handleImplicitAuthorize e h ap un pw u rs w)"
  unfolding handleImplicitAuthorize_def Let_def by (rule code_source_rules keeping | assumption)+

definition bound_code :: "string \<Rightarrow> auth_params \<Rightarrow> auth_code \<Rightarrow> bool" where
  "bound_code uid ap ac \<longleftrightarrow>
     acUserID ac = uid \<and> acClientID ac = apClientID ap \<and> acRedirectURI ac = apRedirectURI ap
     \<and> acScope ac = apScope ap \<and> acAudience ac = apAudience ap \<and> acNonce ac = apNonce ap
     \<and> acCodeChallenge ac = apChallenge ap \<and> acCodeChallengeMethod ac = apChallengeMethod ap"

lemma save_code_grants:
  assumes "wGrants w = Some g" and "wf_grants g"
  shows "\<exists>g'. wGrants (save_code e c (new_auth_code uid ap sid) w) = Some g' \<and> wf_grants g'
    \<and> (\<forall>k ac. map_of (codes g') k = Some ac \<longrightarrow> map_of (codes g) k = Some ac \<or> bound_code uid ap ac)
    \<and> (\<exists>ac. map_of (codes g') c = Some ac \<and> bound_code uid ap ac \<and> acExpiresAt ac = xClock e (wTicks w) + codeTTL g)"
proof -
  have "map_of (codes g) k = Some ac" if "map_of (sweep P (codes g)) k = Some ac" for P k ac
    using map_of_sweep_SomeD [OF _ that] assms(2) by (simp add: wf_grants_def)
  then show ?thesis
    using assms by (auto simp: save_code_def Let_def split_beta SaveCode_def cleanExpiredCodesLocked_def
        new_auth_code_def bound_code_def wf_grants_def)
qed

lemma code_source_issue_code:
  assumes "wGrants w = Some g" and "wf_grants g" and "\<And>ac. bound_code uid ap ac \<Longrightarrow> Q ac"
  shows "code_source Q g (issue_code e uid ap u rs w)"
proof -
  from save_code_grants [of "w\<lparr>wUuids := Suc (Suc (wUuids w))\<rparr>" g e "''ac_'' @ xUuid e (wUuids w)" uid ap
      "''sid_'' @ xUuid e (Suc (wUuids w))"] assms
  show ?thesis by (auto simp: issue_code_def Let_def split_beta code_source_def)
qed

lemma code_source_login_code:
  assumes "wGrants w = Some g" and "wf_grants g" and "\<And>ac. bound_code uid ap ac \<Longrightarrow> Q ac"
  shows "code_source Q g (login_code e uid ap u rs w)"
proof -
  from save_code_grants [of "w\<lparr>wUuids := Suc (Suc (wUuids w))\<rparr>" g e "''ac_'' @ xUuid e (wUuids w)" uid ap
      "''sid_'' @ xUuid e (Suc (wUuids w))"] assms
  show ?thesis by (auto simp: login_code_def Let_def split_beta code_source_def split: option.split)
qed

text \<open>Who a request to the authorization endpoint comes from: the owner of the credentials in
  its query, or without any the user of its session cookie.\<close>

definition requester :: "env \<Rightarrow> request \<Rightarrow> world \<Rightarrow> user option" where
  "requester e r w =
     (if query_get r ''username'' \<noteq> [] \<and> query_get r ''password'' \<noteq> []
      then check_credentials e (query_get r ''username'') (query_get r ''password'') (wDb w)
      else if query_get r ''username'' = [] \<and> query_get r ''password'' = [] then fst (session_user e r w)
      else None)"

lemma code_source_authorize_code:
  assumes "wGrants w = Some g" and "wf_grants g"
    and "\<And>u ac. requester e r w = Some u \<Longrightarrow> bound_code (uID u) ap ac \<Longrightarrow> Q ac"
  shows "code_source Q g (authorize_code e h r ap v rs w)"
  unfolding authorize_code_def Let_def
  by (rule code_source_rules keeping code_source_issue_code assms | assumption | simp add: requester_def)+
    (auto split: if_splits)

text \<open>C3: The authorization endpoint gives out a code only for a user who proved to be one, with a
  password or with the cookie of a live session, only to an allowed redirect URI and scope, and
  binds it to that user and to the client, redirect URI, scope, nonce and PKCE challenge of
  the request.\<close>

theorem authorize_code_needs_user:
  assumes "wGrants w = Some g" and "wf_grants g"
    and "wGrants (snd (handleAuthorize e h r rs w)) = Some g'"
    and "map_of (codes g') c = Some ac" and "map_of (codes g) c \<noteq> Some ac"
  shows "\<exists>u. requester e r w = Some u \<and> bound_code (uID u) (request_params r) ac
    \<and> redirect_allowed h r \<and> scope_allowed h r"
proof -
  let ?Q = "\<lambda>ac. \<exists>u. requester e r w = Some u \<and> bound_code (uID u) (request_params r) ac
    \<and> redirect_allowed h r \<and> scope_allowed h r"
  have "code_source ?Q g (handleAuthorize e h r rs w)"
    unfolding handleAuthorize_def Let_def request_params_def [symmetric]
    by (rule code_source_rules keeping code_source_implicit code_source_authorize_code assms(1,2) | assumption)+
     (auto simp: redirect_allowed_code scope_allowed_def request_params_def split: option.splits)
  then show ?thesis
    using assms(3-5) by (auto simp: code_source_def)
qed

section \<open>The code flow from end to end\<close>

text \<open>The redirect that ends a login: the code and the state of the request come back, and the
  other parameters of the redirect URI are kept.\<close>

lemma answer_url_query:
  "values_get (url_query (answer_url u [(''code'', c)] st)) k =
     (if st \<noteq> [] \<and> k = ''state'' then st else if k = ''code'' then c else values_get (url_query u) k)"
proof -
  have "wf_map (answer_values u [(''code'', c)] st)"
    by (simp add: answer_values_def Let_def url_query_def)
  then show ?thesis
    by (simp add: answer_url_def url_query_def values_get_ParseQuery_encode answer_values_def Let_def)
qed

lemma start_session_keeps:
  "wDb (snd (start_session e u rs w)) = wDb w" "wUuids (snd (start_session e u rs w)) = wUuids w"
  "wTicks w \<le> wTicks (snd (start_session e u rs w))" "wReplay (snd (start_session e u rs w)) = wReplay w"
  by (simp_all add: start_session_def Let_def split_beta split: option.split sum.split)

lemma count_metric_keeps:
  "wGrants (count_metric m w) = wGrants w" "wDb (count_metric m w) = wDb w" "wUuids (count_metric m w) = wUuids w"
  "wTicks (count_metric m w) = wTicks w" "wSessions (count_metric m w) = wSessions w"
  by (simp_all add: count_metric_def)

definition next_code :: "env \<Rightarrow> world \<Rightarrow> string" where
  "next_code e w = ''ac_'' @ xUuid e (wUuids w)"

lemma save_code_keeps: "wDb (save_code e c ac w) = wDb w" "wTicks w \<le> wTicks (save_code e c ac w)"
  by (simp_all add: save_code_def Let_def split_beta split: option.split)

lemma issue_code_issued:
  assumes "wGrants w = Some g" and "wf_grants g"
  shows "\<exists>g' ac. rsBody (fst (issue_code e uid ap u rs w)) =
        RedirectTo (xUrlString e (answer_url u [(''code'', next_code e w)] (apState ap)))
    \<and> wGrants (snd (issue_code e uid ap u rs w)) = Some g' \<and> wf_grants g' \<and> wDb (snd (issue_code e uid ap u rs w)) = wDb w
    \<and> map_of (codes g') (next_code e w) = Some ac \<and> bound_code uid ap ac
    \<and> acExpiresAt ac = xClock e (wTicks w) + codeTTL g"
proof -
  let ?w = "w\<lparr>wUuids := Suc (Suc (wUuids w))\<rparr>" and ?sid = "''sid_'' @ xUuid e (Suc (wUuids w))"
  have "issue_code e uid ap u rs w =
      (http_redirect (xUrlString e (answer_url u [(''code'', next_code e w)] (apState ap))) rs,
       save_code e (next_code e w) (new_auth_code uid ap ?sid) ?w)"
    by (simp add: issue_code_def Let_def split_beta next_code_def)
  with save_code_grants [of ?w g e "next_code e w" uid ap ?sid] assms show ?thesis
    by (auto simp: save_code_keeps)
qed

lemma authorize_checked:
  assumes "redirect_allowed h r" and "scope_allowed h r" and "xUrlParse e (query_get r ''redirect_uri'') = Inr u"
    and "query_get r ''response_type'' = ''code''"
  shows "handleAuthorize e h r rs w = authorize_code e h r (request_params r) u rs w"
proof -
  have no_token: "contains ''token'' ''code'' = False" "contains ''id_token'' ''code'' = False"
      "(''code'' = ''token'') = False" "(''code'' = ''id_token'') = False"
    by (simp_all add: has_prefix_def)
  have ru: "(query_get r ''redirect_uri'' = []) = False"
      "(case hClientRegistry h of None \<Rightarrow> False
        | Some reg \<Rightarrow> \<not> ValidateRedirectURI (query_get r ''client_id'') (query_get r ''redirect_uri'') reg) = False"
    using assms(1) by (simp_all add: redirect_allowed_code)
  have sc: "(case hClientRegistry h of None \<Rightarrow> False
      | Some reg \<Rightarrow> \<not> ValidateScope (if query_get r ''client_id'' = [] then ''e2e-test'' else query_get r ''client_id'')
          (if query_get r ''scope'' = [] then ''openid'' else query_get r ''scope'') reg) = False"
    using assms(2) by (simp add: scope_allowed_def request_params_def split: option.splits split del: if_split)
  show ?thesis
    unfolding handleAuthorize_def Let_def request_params_def
    by (simp only: ru sc if_False assms(3,4) sum.case no_token simp_thms)
qed

lemma refresh_keeps_access:
  "map_of (fst (add_refresh_token e u c sc sid resp w)) ''access_token'' = map_of resp ''access_token''"
  by (simp add: add_refresh_token_def Let_def split_beta)

lemma code_tokens_ok:
  assumes "GetByID (xCodec e) (acUserID ac) (wDb w) = Inr (Some u)"
    and "\<And>t s a c n cl. \<exists>tok. Issue (xJwt e) t (hIssuer h) s a c n cl = Inr tok"
  shows "\<exists>resp tok. fst (code_tokens e h code cid ac rs w) = sendJSON 200 (GObj resp) rs
    \<and> map_of resp ''access_token'' = Some (GStr tok)
    \<and> access_token_for e h (acUserID ac) u (if acAudience ac = [] then defaultAudience else acAudience ac)
        (if cid \<noteq> [] then cid else acClientID ac) tok"
proof -
  define c where "c = (if cid \<noteq> [] then cid else acClientID ac)"
  define aud where "aud = (if acAudience ac = [] then defaultAudience else acAudience ac)"
  have aud2: "(if aud = [] \<and> c \<noteq> [] then c else aud) = aud"
    by (simp add: aud_def defaultAudience_def)
  have id: "uID u = acUserID ac" using assms(1) by (rule GetByID_id)
  define z where "z = (if acSessionID ac = [] then case new_uuid e w of (uuid, w) \<Rightarrow> (''sid_'' @ uuid, w)
      else (acSessionID ac, w))"
  from assms(2) obtain tok where tok:
    "Issue (xJwt e) (xClock e (wTicks (snd z))) (hIssuer h) (acUserID ac) aud c (accessTokenLifetime h)
       (access_claims e h u c) = Inr tok"
    by blast
  then have "\<exists>resp. fst (code_tokens e h code cid ac rs w) = sendJSON 200 (GObj resp) rs
      \<and> map_of resp ''access_token'' = Some (GStr tok)"
    unfolding code_tokens_def assms(1) Let_def aud_def [symmetric] c_def [symmetric] aud2 z_def [symmetric]
      access_claims_def
    by (simp add: split_beta id)
      (intro exI conjI, rule refl, simp add: id_token_keeps_access refresh_keeps_access token_response_def)
  with issued_access_token [OF tok] show ?thesis unfolding c_def [symmetric] aud_def [symmetric] by blast
qed

text \<open>A login with credentials, up to the code.\<close>

lemma authorize_code_login:
  assumes "wGrants w = Some g" and "query_get r ''username'' \<noteq> []" and "query_get r ''password'' \<noteq> []"
    and "check_credentials e (query_get r ''username'') (query_get r ''password'') (wDb w) = Some usr"
  shows "authorize_code e h r ap u rs w =
    (case start_session e usr rs (count_metric (AuthRequests ''success'') w) of (rs, w) \<Rightarrow> issue_code e (uID usr) ap u rs w)"
  using assms by (simp add: authorize_code_def Let_def)

lemma authorize_logged_in:
  assumes "wGrants w = Some g" and "wf_grants g"
    and "query_get r ''username'' \<noteq> []" and "query_get r ''password'' \<noteq> []"
    and "check_credentials e (query_get r ''username'') (query_get r ''password'') (wDb w) = Some usr"
  shows "\<exists>t g1 ac. rsBody (fst (authorize_code e h r ap u rs w)) =
        RedirectTo (xUrlString e (answer_url u [(''code'', next_code e w)] (apState ap)))
    \<and> wGrants (snd (authorize_code e h r ap u rs w)) = Some g1 \<and> wf_grants g1
    \<and> wDb (snd (authorize_code e h r ap u rs w)) = wDb w
    \<and> map_of (codes g1) (next_code e w) = Some ac \<and> bound_code (uID usr) ap ac \<and> acExpiresAt ac = xClock e t + codeTTL g"
proof -
  let ?x = "start_session e usr rs (count_metric (AuthRequests ''success'') w)"
  have x: "wGrants (snd ?x) = Some g" "wDb (snd ?x) = wDb w" "next_code e (snd ?x) = next_code e w"
    using assms(1) by (simp_all add: keeps_start_session count_metric_keeps start_session_keeps next_code_def)
  with issue_code_issued [OF x(1) assms(2), of e "uID usr" ap u "fst ?x"] show ?thesis
    by (auto simp: authorize_code_login [OF assms(1,3-5)] split_beta)
qed

text \<open>C2: The authorization code flow with PKCE works from end to end: after a login the browser is
  sent back with a code and the state of the request, and the client that presents this code
  with its client id, redirect URI and a verifier of its challenge gets an access token whose claims
  name the user who logged in as the subject, and the client and audience of the request, as long
  as the code lives, the user still exists and signing succeeds; only the rules and the configured
  claims can add to these claims.\<close>

theorem code_flow_end_to_end:
  assumes "wGrants w = Some g" and "wf_grants g"
    and "redirect_allowed h r" and "scope_allowed h r" and "xUrlParse e (query_get r ''redirect_uri'') = Inr u"
    and "query_get r ''response_type'' = ''code''"
    and "query_get r ''username'' \<noteq> []" and "query_get r ''password'' \<noteq> []"
    and "check_credentials e (query_get r ''username'') (query_get r ''password'') (wDb w) = Some usr"
    and "GetByID (xCodec e) (uID usr) (wDb w) = Inr (Some usr')"
    and "challenge_of (apChallengeMethod (request_params r)) verifier = Some (apChallenge (request_params r))"
    and "verifier \<noteq> []"
    and "pred_option (\<lambda>reg. ValidateSecret (apClientID (request_params r)) secret reg) (hClientRegistry h)"
    and "\<And>t s a c n cl. \<exists>tok. Issue (xJwt e) t (hIssuer h) s a c n cl = Inr tok"
    and "\<And>m n. xClock e m \<le> xClock e n + codeTTL g"
  shows "let (rs1, w1) = handleAuthorize e h r rs w;
             rs2 = fst (handleAuthorizationCode e h (next_code e w) (query_get r ''redirect_uri'')
                          (apClientID (request_params r)) secret verifier rs' w1)
    in (\<exists>v. rsBody rs1 = RedirectTo (xUrlString e v)
          \<and> values_get (url_query v) ''code'' = next_code e w
          \<and> (query_get r ''state'' = [] \<or> values_get (url_query v) ''state'' = query_get r ''state''))
     \<and> (\<exists>resp tok. rs2 = sendJSON 200 (GObj resp) rs'
          \<and> map_of resp ''access_token'' = Some (GStr tok)
          \<and> access_token_for e h (uID usr) usr'
              (if query_get r ''audience'' = [] then defaultAudience else query_get r ''audience'')
              (apClientID (request_params r)) tok)"
proof -
  let ?ap = "request_params r" and ?x = "handleAuthorize e h r rs w"
  have auth: "?x = authorize_code e h r ?ap u rs w" using assms(3-6) by (rule authorize_checked)
  from authorize_logged_in [OF assms(1,2,7,8,9), of h ?ap u rs] obtain t g1 ac where
    body: "rsBody (fst ?x) = RedirectTo (xUrlString e (answer_url u [(''code'', next_code e w)] (apState ?ap)))"
    and w1: "wGrants (snd ?x) = Some g1" "wDb (snd ?x) = wDb w"
    and ac: "map_of (codes g1) (next_code e w) = Some ac" "bound_code (uID usr) ?ap ac"
      "acExpiresAt ac = xClock e t + codeTTL g"
    by (auto simp: auth)
  let ?g2 = "snd (ConsumeCode (xClock e (wTicks (snd ?x))) (next_code e w) g1)"
  have live: "fst (ConsumeCode (xClock e (wTicks (snd ?x))) (next_code e w) g1) = Some ac"
    using ac(1,3) assms(15) [of "wTicks (snd ?x)" t] by (simp add: ConsumeCode_def time_after_def)
  have "code_checks e h ac (query_get r ''redirect_uri'') (apClientID ?ap) secret verifier = None"
    using ac(2) assms(11-13) by (cases "hClientRegistry h")
      (simp_all add: code_checks_None bound_code_def Verify_ok_eq request_params_def)
  then have redeemed: "handleAuthorizationCode e h (next_code e w) (query_get r ''redirect_uri'') (apClientID ?ap) secret verifier rs'
      (snd ?x) = code_tokens e h (next_code e w) (apClientID ?ap) ac rs'
        ((snd ?x)\<lparr>wTicks := Suc (wTicks (snd ?x)), wGrants := Some ?g2\<rparr>)"
    using handleAuthorizationCode_redeemed [OF w1(1) _ live] by (simp add: next_code_def Let_def)
  have cid: "apClientID ?ap \<noteq> []" and aud: "acAudience ac = query_get r ''audience''" "acUserID ac = uID usr"
    using ac(2) by (simp_all add: bound_code_def) (simp_all add: request_params_def)
  have "GetByID (xCodec e) (acUserID ac)
      (wDb ((snd ?x)\<lparr>wTicks := Suc (wTicks (snd ?x)), wGrants := Some ?g2\<rparr>)) = Inr (Some usr')"
    using assms(10) by (simp add: aud(2) w1(2))
  from code_tokens_ok [OF this assms(14), of "next_code e w" "apClientID ?ap" rs'] cid
  have "\<exists>resp tok. fst (handleAuthorizationCode e h (next_code e w) (query_get r ''redirect_uri'')
        (apClientID ?ap) secret verifier rs' (snd ?x)) = sendJSON 200 (GObj resp) rs'
      \<and> map_of resp ''access_token'' = Some (GStr tok)
      \<and> access_token_for e h (uID usr) usr'
          (if query_get r ''audience'' = [] then defaultAudience else query_get r ''audience'') (apClientID ?ap) tok"
    unfolding redeemed aud by simp
  moreover have "\<exists>v. rsBody (fst ?x) = RedirectTo (xUrlString e v) \<and> values_get (url_query v) ''code'' = next_code e w
      \<and> (query_get r ''state'' = [] \<or> values_get (url_query v) ''state'' = query_get r ''state'')"
    by (rule exI [of _ "answer_url u [(''code'', next_code e w)] (apState ?ap)"])
      (simp add: body answer_url_query, simp add: request_params_def)
  ultimately show ?thesis
    by (simp add: Let_def split_beta)
qed

text \<open>C37: The check on the redirect URI comes before the default client is filled in: a request that
  names no client is answered as one of \<^verbatim>\<open>e2e-test\<close> and sent back, with a code for this client, to a
  URI that the client has not registered and that is refused when the request names the client.\<close>

theorem default_client_unchecked:
  assumes "wGrants w = Some g" and "wf_grants g"
    and "hClientRegistry h = Some reg" and "Get [] reg = None"
    and "query_get r ''client_id'' = []" and "query_get r ''redirect_uri'' \<noteq> []" and "scope_allowed h r"
    and "\<not> ValidateRedirectURI ''e2e-test'' (query_get r ''redirect_uri'') reg"
    and "xUrlParse e (query_get r ''redirect_uri'') = Inr u" and "query_get r ''response_type'' = ''code''"
    and "query_get r ''username'' \<noteq> []" and "query_get r ''password'' \<noteq> []"
    and "check_credentials e (query_get r ''username'') (query_get r ''password'') (wDb w) = Some usr"
  shows "rsBody (fst (handleAuthorize e h r rs w)) =
        RedirectTo (xUrlString e (answer_url u [(''code'', next_code e w)] (query_get r ''state'')))
    \<and> (\<exists>g1 ac. wGrants (snd (handleAuthorize e h r rs w)) = Some g1 \<and> map_of (codes g1) (next_code e w) = Some ac
         \<and> acUserID ac = uID usr \<and> acClientID ac = ''e2e-test'' \<and> acRedirectURI ac = query_get r ''redirect_uri'')
    \<and> (\<forall>r'. query_get r' ''client_id'' = ''e2e-test'' \<longrightarrow> query_get r' ''redirect_uri'' = query_get r ''redirect_uri'' \<longrightarrow>
         rsStatus (fst (handleAuthorize e h r' rs w)) = 400 \<and> snd (handleAuthorize e h r' rs w) = w)"
proof -
  have "redirect_allowed h r" using assms(3-6) by (simp add: redirect_allowed_def)
  then have auth: "handleAuthorize e h r rs w = authorize_code e h r (request_params r) u rs w"
    using assms(7,9,10) by (rule authorize_checked)
  have named: "refused rs w (handleAuthorize e h r' rs w)"
    if "query_get r' ''client_id'' = ''e2e-test''" "query_get r' ''redirect_uri'' = query_get r ''redirect_uri''" for r'
    using that assms(3,8) by (intro redirect_refused) (simp add: redirect_allowed_code)
  have ap: "apClientID (request_params r) = ''e2e-test''" "apRedirectURI (request_params r) = query_get r ''redirect_uri''"
      "apState (request_params r) = query_get r ''state''"
    using assms(5) by (simp_all add: request_params_def)
  from authorize_logged_in [OF assms(1,2,11,12,13), of h "request_params r" u rs] named show ?thesis
    unfolding auth [symmetric] by (fastforce simp: ap bound_code_def refused_def)
qed

section \<open>Single sign-on\<close>

text \<open>A login starts a session, and its cookie names it.\<close>

lemma session_started:
  assumes "wSessions w = Some ss" and "wf_sessions ss" and "xRandBytes e (wSids w) = Inr b"
  shows "\<exists>c ss1 s t. fst (start_session e u rs w) = set_cookie c rs \<and> ckName c = sessionCookieName
    \<and> ckValue c \<noteq> [] \<and> wSessions (snd (start_session e u rs w)) = Some ss1 \<and> wf_sessions ss1 \<and> ttl ss1 = ttl ss
    \<and> map_of (sessions ss1) (ckValue c) = Some s \<and> sUserID s = uID u \<and> ExpiresAt s = xClock e t + ttl ss"
proof -
  have "wf_sessions (snd (Create (xRandBytes e (wSids w)) (xClock e (wTicks w)) (xClock e (Suc (wTicks w)))
      (uID u) (uEmail u) ss))"
    using assms(2) by (rule wf_Create)
  with assms(1,3) show ?thesis
    by (auto simp: start_session_def Let_def split_beta Create_def cleanExpiredLocked_def
        intro!: exI [of _ "wTicks w"])
qed

text \<open>While the session lives its cookie stands for its user.\<close>

lemma session_user_found:
  assumes "wSessions w = Some ss" and "wf_sessions ss" and "rqCookie r = Some c" and "c \<noteq> []"
    and "map_of (sessions ss) c = Some s" and "\<And>n. xClock e n \<le> ExpiresAt s"
    and "GetByID (xCodec e) (sUserID s) (wDb w) = Inr (Some u)" and "wGrants w \<noteq> None"
  shows "fst (session_user e r w) = Some u"
proof -
  have live: "\<not> ExpiresAt s < xClock e n" for n using assms(6) [of n] by simp
  have "map_of (sweep (\<lambda>v. time_after (xClock e n) (ExpiresAt v)) (sessions ss)) c = Some s" for n
    using assms(2,5) live by (simp add: wf_sessions_def map_of_sweep time_after_def)
  with assms show ?thesis
    by (simp add: session_user_def Let_def split_beta GetSession_def cleanExpiredLocked_def time_after_def live)
qed

lemma issue_code_leaves:
  "wSessions (snd (issue_code e uid ap u rs w)) = wSessions w" "rsCookies (fst (issue_code e uid ap u rs w)) = rsCookies rs"
  "wDb (snd (issue_code e uid ap u rs w)) = wDb w"
  by (simp_all add: issue_code_def Let_def split_beta save_code_def http_redirect_def split: option.split)

lemma authorize_with_cookie:
  assumes "wGrants w = Some g" and "wf_grants g"
    and "query_get r ''username'' = []" and "query_get r ''password'' = []" and "query_get r ''prompt'' \<noteq> ''none''"
    and "fst (session_user e r w) = Some usr" and "wUuids (snd (session_user e r w)) = wUuids w"
  shows "\<exists>g1 ac. rsBody (fst (authorize_code e h r ap u rs w)) =
        RedirectTo (xUrlString e (answer_url u [(''code'', next_code e w)] (apState ap)))
    \<and> wGrants (snd (authorize_code e h r ap u rs w)) = Some g1
    \<and> map_of (codes g1) (next_code e w) = Some ac \<and> bound_code (uID usr) ap ac"
proof -
  let ?w = "count_metric (AuthRequests ''success'') (snd (session_user e r w))"
  have w: "wGrants ?w = Some g" "next_code e ?w = next_code e w"
    using assms(1,7) by (simp_all add: count_metric_keeps keeps_session_user next_code_def)
  have "authorize_code e h r ap u rs w = issue_code e (uID usr) ap u rs ?w"
    using assms(3-6) by (simp add: authorize_code_def Let_def split_beta)
  with issue_code_issued [OF w(1) assms(2), of e "uID usr" ap u rs] show ?thesis
    by (auto simp: w)
qed

lemma session_user_uuids: "wUuids (snd (session_user e r w)) = wUuids w"
  by (simp add: session_user_def Let_def split_beta split: option.split sum.split)

lemma cookie_irrelevant [simp]:
  "query_get (r\<lparr>rqCookie := c\<rparr>) k = query_get r k"
  "request_params (r\<lparr>rqCookie := c\<rparr>) = request_params r"
  "redirect_allowed h (r\<lparr>rqCookie := c\<rparr>) = redirect_allowed h r"
  "scope_allowed h (r\<lparr>rqCookie := c\<rparr>) = scope_allowed h r"
proof -
  show q: "query_get (r\<lparr>rqCookie := c\<rparr>) k = query_get r k" for k by (simp add: query_get_def)
  show p: "request_params (r\<lparr>rqCookie := c\<rparr>) = request_params r" by (simp add: request_params_def q)
  show "redirect_allowed h (r\<lparr>rqCookie := c\<rparr>) = redirect_allowed h r" by (simp only: redirect_allowed_def q)
  show "scope_allowed h (r\<lparr>rqCookie := c\<rparr>) = scope_allowed h r" by (simp only: scope_allowed_def p)
qed

text \<open>C9: Single sign-on: after one login with a password, the session cookie of its response is
  enough for an authorization request without credentials to be answered with a code for the
  same user, as long as the session lives and the user exists.\<close>

theorem single_sign_on:
  assumes "wGrants w = Some g" and "wf_grants g" and "wSessions w = Some ss" and "wf_sessions ss"
    and "xRandBytes e (wSids w) = Inr b"
    and "redirect_allowed h r1" and "scope_allowed h r1" and "xUrlParse e (query_get r1 ''redirect_uri'') = Inr u1"
    and "query_get r1 ''response_type'' = ''code''"
    and "query_get r1 ''username'' \<noteq> []" and "query_get r1 ''password'' \<noteq> []"
    and "check_credentials e (query_get r1 ''username'') (query_get r1 ''password'') (wDb w) = Some usr"
    and "redirect_allowed h r2" and "scope_allowed h r2" and "xUrlParse e (query_get r2 ''redirect_uri'') = Inr u2"
    and "query_get r2 ''response_type'' = ''code''"
    and "query_get r2 ''username'' = []" and "query_get r2 ''password'' = []" and "query_get r2 ''prompt'' \<noteq> ''none''"
    and "GetByID (xCodec e) (uID usr) (wDb w) = Inr (Some usr')"
    and "\<And>m n. xClock e m \<le> xClock e n + ttl ss"
  shows "let (rs1, w1) = handleAuthorize e h r1 rs w;
             (rs2, w2) = handleAuthorize e h (r2\<lparr>rqCookie := Some (ckValue (last (rsCookies rs1)))\<rparr>) rs' w1
    in ckName (last (rsCookies rs1)) = sessionCookieName
     \<and> (\<exists>v g2 ac. rsBody rs2 = RedirectTo (xUrlString e v) \<and> values_get (url_query v) ''code'' = next_code e w1
          \<and> wGrants w2 = Some g2 \<and> map_of (codes g2) (next_code e w1) = Some ac
          \<and> acUserID ac = uID usr' \<and> acClientID ac = apClientID (request_params r2))"
proof -
  let ?ap1 = "request_params r1" and ?S = "start_session e usr rs (count_metric (AuthRequests ''success'') w)"
  let ?x = "handleAuthorize e h r1 rs w"
  have x: "?x = authorize_code e h r1 ?ap1 u1 rs w" using assms(6-9) by (rule authorize_checked)
  then have x': "?x = issue_code e (uID usr) ?ap1 u1 (fst ?S) (snd ?S)"
    using authorize_code_login [OF assms(1,10-12)] by (simp add: split_beta)
  from authorize_logged_in [OF assms(1,2,10-12), of h ?ap1 u1 rs] obtain g1 where
    g1: "wGrants (snd ?x) = Some g1" "wf_grants g1" "wDb (snd ?x) = wDb w" by (auto simp: x)
  have "wSessions (count_metric m w) = Some ss" "xRandBytes e (wSids (count_metric m w)) = Inr b" for m
    using assms(3,5) by (simp_all add: count_metric_def)
  from session_started [OF this(1) assms(4) this(2)] obtain c ss1 s t where
    c: "fst ?S = set_cookie c rs" "ckName c = sessionCookieName" "ckValue c \<noteq> []"
    and ss1: "wSessions (snd ?S) = Some ss1" "wf_sessions ss1" "map_of (sessions ss1) (ckValue c) = Some s"
      "sUserID s = uID usr" "ExpiresAt s = xClock e t + ttl ss"
    by blast
  have last: "last (rsCookies (fst ?x)) = c"
    by (simp add: x' issue_code_leaves c(1) set_cookie_def)
  let ?r2 = "r2\<lparr>rqCookie := Some (ckValue c)\<rparr>" and ?w1 = "snd ?x"
  have user: "fst (session_user e ?r2 ?w1) = Some usr'"
    by (rule session_user_found [of _ ss1 _ "ckValue c" s])
      (use ss1 c assms(20,21) g1 in \<open>simp_all add: x' issue_code_leaves\<close>)
  have "handleAuthorize e h ?r2 rs' ?w1 = authorize_code e h ?r2 (request_params r2) u2 rs' ?w1"
    using authorize_checked [of h ?r2 e u2 rs' ?w1] assms(13-16) by simp
  with authorize_with_cookie [OF g1(1,2), of ?r2 e usr' h "request_params r2" u2 rs'] assms(17-19) user
  obtain g2 ac where "rsBody (fst (handleAuthorize e h ?r2 rs' ?w1)) =
        RedirectTo (xUrlString e (answer_url u2 [(''code'', next_code e ?w1)] (apState (request_params r2))))"
    "wGrants (snd (handleAuthorize e h ?r2 rs' ?w1)) = Some g2" "map_of (codes g2) (next_code e ?w1) = Some ac"
    "bound_code (uID usr') (request_params r2) ac"
    by (auto simp: session_user_uuids)
  moreover have "values_get (url_query (answer_url u2 [(''code'', next_code e ?w1)] (apState (request_params r2)))) ''code''
      = next_code e ?w1"
    by (simp add: answer_url_query)
  ultimately show ?thesis
    using c(2) by (auto simp: Let_def split_beta last bound_code_def)
qed

section \<open>Samples\<close>

definition code_request :: request where
  "code_request = sample_request\<lparr>rqPath := ''/authorize'', rqRawQuery := ''response_type=code&client_id=spa&redirect_uri=http://app/cb'' @
     ''&state=xyz&username=a@x&password=pw&code_challenge=v&code_challenge_method=plain''\<rparr>"

definition cookie_request :: request where
  "cookie_request = sample_request\<lparr>rqRawQuery := ''response_type=code&client_id=web&redirect_uri=http://web/cb''\<rparr>"

definition evil_request :: request where
  "evil_request = sample_request\<lparr>rqRawQuery := ''response_type=code&client_id=spa&redirect_uri=http://evil/cb''\<rparr>"

definition nameless_request :: request where
  "nameless_request = sample_request\<lparr>rqPath := ''/authorize'',
     rqRawQuery := ''response_type=code&redirect_uri=http://evil/cb&username=a@x&password=pw''\<rparr>"

definition default_client_handlers :: handlers where
  "default_client_handlers = sample_handlers\<lparr>hClientRegistry := Some (Add ''e2e-test''
     (Some \<lparr>ClientSecret = [], RedirectURIs = [''http://app/cb''], AllowedScopes = []\<rparr>) NewRegistry)\<rparr>"

definition registered_handlers :: handlers where
  "registered_handlers = sample_handlers\<lparr>hClientRegistry := Some (Add ''spa''
     (Some \<lparr>ClientSecret = [], RedirectURIs = [''http://app/cb''], AllowedScopes = []\<rparr>) NewRegistry)\<rparr>"

lemma code_request_query:
  "ParseQuery (rqRawQuery code_request) =
     [(''response_type'', [''code'']), (''client_id'', [''spa'']), (''redirect_uri'', [''http://app/cb'']),
      (''state'', [''xyz'']), (''username'', [''a@x'']), (''password'', [''pw'']), (''code_challenge'', [''v'']),
      (''code_challenge_method'', [''plain''])]"
  by code_simp

lemma code_request_params:
  "query_get code_request ''response_type'' = ''code''" "query_get code_request ''client_id'' = ''spa''"
  "query_get code_request ''redirect_uri'' = ''http://app/cb''" "query_get code_request ''state'' = ''xyz''"
  "query_get code_request ''username'' = ''a@x''" "query_get code_request ''password'' = ''pw''"
  "query_get code_request ''scope'' = []" "query_get code_request ''nonce'' = []" "query_get code_request ''audience'' = []"
  "query_get code_request ''code_challenge'' = ''v''" "query_get code_request ''code_challenge_method'' = ''plain''"
  by (simp_all add: query_get_def values_get_def code_request_query)

lemma cookie_request_query:
  "ParseQuery (rqRawQuery cookie_request) =
     [(''response_type'', [''code'']), (''client_id'', [''web'']), (''redirect_uri'', [''http://web/cb''])]"
  by code_simp

lemma cookie_request_params:
  "query_get cookie_request ''response_type'' = ''code''" "query_get cookie_request ''client_id'' = ''web''"
  "query_get cookie_request ''redirect_uri'' = ''http://web/cb''" "query_get cookie_request ''scope'' = []"
  "query_get cookie_request ''username'' = []" "query_get cookie_request ''password'' = []"
  "query_get cookie_request ''prompt'' = []"
  by (simp_all add: query_get_def values_get_def cookie_request_query)

lemma evil_request_params:
  "query_get evil_request ''client_id'' = ''spa''" "query_get evil_request ''redirect_uri'' = ''http://evil/cb''"
  by (code_simp+)

lemma sample_checks:
  "redirect_allowed sample_handlers code_request" "scope_allowed sample_handlers code_request"
  "redirect_allowed sample_handlers cookie_request" "scope_allowed sample_handlers cookie_request"
  by (simp_all add: redirect_allowed_def scope_allowed_def sample_handlers_def code_request_params cookie_request_params
      ValidateScope_def)

lemma sample_url: "xUrlParse sample_env (CHR ''h'' # s) =
    Inr \<lparr>urlPath = [], urlRawQuery = [], urlRawFragment = [], urlRest = CHR ''h'' # s\<rparr>"
  by (simp add: sample_env_def)

lemma sample_grants: "wGrants sample_world = Some (NewStore 0 0 [])" "wf_grants (NewStore 0 0 [])"
  by (simp_all add: sample_world_def wf_grants_def wf_map_def NewStore_def Let_def)

theorem authorize_redirects_safely_witness:
  "rsStatus (fst (handleAuthorize sample_env registered_handlers evil_request new_response sample_world)) = 400"
proof -
  let ?cfg = "\<lparr>ClientSecret = [], RedirectURIs = [''http://app/cb''], AllowedScopes = []\<rparr>"
  have "\<exists>reg cfg. hClientRegistry registered_handlers = Some reg \<and> Get (query_get evil_request ''client_id'') reg = Some cfg
      \<and> RedirectURIs cfg \<noteq> [] \<and> query_get evil_request ''redirect_uri'' \<notin> set (RedirectURIs cfg)"
    by (simp add: registered_handlers_def evil_request_params)
  with authorize_redirects_safely [of evil_request registered_handlers sample_env new_response sample_world]
  show ?thesis by blast
qed

lemma sample_login:
  "\<exists>usr. check_credentials sample_env (query_get code_request ''username'') (query_get code_request ''password'')
      (wDb sample_world) = Some usr \<and> uID usr = ''auth0|1''"
  using sample_credentials by (simp add: code_request_params)

lemma nameless_request_params:
  "query_get nameless_request ''response_type'' = ''code''" "query_get nameless_request ''client_id'' = []"
  "query_get nameless_request ''redirect_uri'' = ''http://evil/cb''" "query_get nameless_request ''scope'' = []"
  "query_get nameless_request ''username'' = ''a@x''" "query_get nameless_request ''password'' = ''pw''"
  "query_get nameless_request ''state'' = []"
  by (code_simp+)

theorem default_client_unchecked_witness:
  "\<exists>g1 ac. wGrants (snd (handleAuthorize sample_env default_client_handlers nameless_request new_response sample_world)) = Some g1
     \<and> map_of (codes g1) (next_code sample_env sample_world) = Some ac
     \<and> acClientID ac = ''e2e-test'' \<and> acRedirectURI ac = ''http://evil/cb''"
proof -
  obtain usr where usr: "check_credentials sample_env (query_get nameless_request ''username'')
      (query_get nameless_request ''password'') (wDb sample_world) = Some usr"
    using sample_credentials by (auto simp: nameless_request_params)
  obtain u where u: "xUrlParse sample_env (query_get nameless_request ''redirect_uri'') = Inr u"
    by (simp add: nameless_request_params sample_url)
  obtain reg where reg: "hClientRegistry default_client_handlers = Some reg" "Get [] reg = None"
      "\<not> ValidateRedirectURI ''e2e-test'' (query_get nameless_request ''redirect_uri'') reg"
    by (simp add: default_client_handlers_def ValidateRedirectURI_def nameless_request_params)
  have "scope_allowed default_client_handlers nameless_request"
    by (simp add: scope_allowed_def default_client_handlers_def ValidateScope_def request_params_def nameless_request_params)
  from default_client_unchecked [OF sample_grants reg(1,2) nameless_request_params(2) _ this reg(3) u
      nameless_request_params(1) _ _ usr, of new_response]
  show ?thesis by (auto simp: nameless_request_params)
qed

theorem authorize_code_needs_user_witness:
  "\<exists>u. requester sample_env code_request sample_world = Some u \<and> redirect_allowed sample_handlers code_request"
proof -
  let ?x = "handleAuthorize sample_env sample_handlers code_request new_response sample_world"
  obtain usr where usr: "check_credentials sample_env (query_get code_request ''username'')
      (query_get code_request ''password'') (wDb sample_world) = Some usr"
    using sample_login by blast
  obtain u where u: "xUrlParse sample_env (query_get code_request ''redirect_uri'') = Inr u"
    by (simp add: code_request_params sample_url)
  have "?x = authorize_code sample_env sample_handlers code_request (request_params code_request) u new_response sample_world"
    using sample_checks(1,2) u code_request_params(1) by (rule authorize_checked)
  with authorize_logged_in [OF sample_grants _ _ usr, of sample_handlers "request_params code_request" u new_response]
  obtain g1 ac where "wGrants (snd ?x) = Some g1" "map_of (codes g1) (next_code sample_env sample_world) = Some ac"
    by (auto simp: code_request_params)
  from authorize_code_needs_user [OF sample_grants this] show ?thesis
    by (auto simp: NewStore_def Let_def)
qed

theorem code_flow_end_to_end_witness:
  "\<exists>v resp. rsBody (fst (handleAuthorize sample_env sample_handlers code_request new_response sample_world)) =
        RedirectTo (xUrlString sample_env v) \<and> values_get (url_query v) ''state'' = ''xyz''
     \<and> fst (handleAuthorizationCode sample_env sample_handlers (next_code sample_env sample_world) ''http://app/cb'' ''spa''
          [] ''v'' new_response (snd (handleAuthorize sample_env sample_handlers code_request new_response sample_world)))
        = sendJSON 200 (GObj resp) new_response
     \<and> map_of resp ''access_token'' = Some (GStr ''a.b.c'')"
proof -
  obtain usr where usr: "check_credentials sample_env (query_get code_request ''username'')
      (query_get code_request ''password'') (wDb sample_world) = Some usr" "uID usr = ''auth0|1''"
    using sample_login by blast
  obtain usr' where usr': "GetByID (xCodec sample_env) (uID usr) (wDb sample_world) = Inr (Some usr')"
    using sample_get_user(1) usr(2) by auto
  obtain u where u: "xUrlParse sample_env (query_get code_request ''redirect_uri'') = Inr u"
    by (simp add: code_request_params sample_url)
  have ap: "apClientID (request_params code_request) = ''spa''"
    "challenge_of (apChallengeMethod (request_params code_request)) ''v'' = Some (apChallenge (request_params code_request))"
    by (simp_all add: request_params_def code_request_params challenge_of_def)
  have secret: "pred_option (\<lambda>reg. ValidateSecret (apClientID (request_params code_request)) [] reg)
      (hClientRegistry sample_handlers)"
    by (simp add: sample_handlers_def ValidateSecret_def)
  have clock: "xClock sample_env m \<le> xClock sample_env n + codeTTL (NewStore 0 0 [])" for m n
    by (simp add: NewStore_def Let_def)
  have issue: "\<exists>tok. Issue (xJwt sample_env) t (hIssuer sample_handlers) s a c n cl = Inr tok" for t s a c n cl
    by simp
  from code_flow_end_to_end [OF sample_grants sample_checks(1,2) u code_request_params(1) _ _ usr(1) usr' ap(2) _ secret
      issue clock, of new_response new_response]
  show ?thesis by (auto simp: Let_def split_beta code_request_params ap(1) dest: sample_token)
qed

theorem single_sign_on_witness:
  "let (rs1, w1) = handleAuthorize sample_env sample_handlers code_request new_response sample_world;
       rs2 = fst (handleAuthorize sample_env sample_handlers
               (cookie_request\<lparr>rqCookie := Some (ckValue (last (rsCookies rs1)))\<rparr>) new_response w1)
   in \<exists>v. rsBody rs2 = RedirectTo (xUrlString sample_env v) \<and> values_get (url_query v) ''code'' = next_code sample_env w1"
proof -
  obtain usr where usr: "check_credentials sample_env (query_get code_request ''username'')
      (query_get code_request ''password'') (wDb sample_world) = Some usr" "uID usr = ''auth0|1''"
    using sample_login by blast
  obtain usr' where usr': "GetByID (xCodec sample_env) (uID usr) (wDb sample_world) = Inr (Some usr')"
    using sample_get_user(1) usr(2) by auto
  obtain u1 where u1: "xUrlParse sample_env (query_get code_request ''redirect_uri'') = Inr u1"
    by (simp add: code_request_params sample_url)
  obtain u2 where u2: "xUrlParse sample_env (query_get cookie_request ''redirect_uri'') = Inr u2"
    by (simp add: cookie_request_params sample_url)
  have ss: "wSessions sample_world = Some (NewSessionStore 0)" "xRandBytes sample_env (wSids sample_world) = Inr [0]"
    by (simp_all add: sample_world_def sample_env_def)
  have clock: "xClock sample_env m \<le> xClock sample_env n + ttl (NewSessionStore 0)" for m n
    by (simp add: NewSessionStore_def)
  from single_sign_on [OF sample_grants ss(1) wf_NewSessionStore ss(2) sample_checks(1,2) u1 code_request_params(1) _ _
      usr(1) sample_checks(3,4) u2 cookie_request_params(1,5,6) _ usr' clock, of new_response new_response]
  show ?thesis by (auto simp: Let_def split_beta code_request_params cookie_request_params)
qed

end
