(* ===== verification/Provenance.thy ===== *)
theory Provenance
  imports Authorize_Flows
begin

text \<open>
  Where the rights in the stores come from. A run of the server is an inductive relation that
  collects its exchanges, each a request with the world it was answered in; everything in the stores
  that stands for a user, a code, a refresh token, an authorized device or a session, stands for one
  whose password one of these requests has carried.
\<close>

section \<open>Runs\<close>

text \<open>\<open>run e h w0 tr w\<close>: from \<open>w0\<close> the server reaches \<open>w\<close> by answering the requests of \<open>tr\<close>, the newest
  first, each in the world before it.\<close>

inductive run :: "env \<Rightarrow> handlers \<Rightarrow> world \<Rightarrow> (world \<times> request) list \<Rightarrow> world \<Rightarrow> bool" for e h w0 where
  run_start: "run e h w0 [] w0"
| run_request: "run e h w0 tr w \<Longrightarrow> run e h w0 ((w, r) # tr) (snd (ServeHTTP e h r w))"

inductive_cases run_cases: "run e h w0 ((v, r) # tr) w"

text \<open>The runs are the sequences of requests that \<open>serve_all\<close> answers.\<close>

lemma run_serve_all:
  "run e h w0 tr w \<Longrightarrow> \<exists>tr'. run e h w0 (tr' @ tr) (serve_all e h rqs w) \<and> map snd tr' = rev rqs"
proof (induction rqs arbitrary: tr w)
  case Nil
  then show ?case by (auto simp: serve_all_def)
next
  case (Cons r rqs)
  from Cons.IH [OF run_request [OF Cons.prems, of r]] obtain tr' where
    "run e h w0 (tr' @ (w, r) # tr) (serve_all e h (r # rqs) w)" "map snd tr' = rev rqs"
    by (auto simp: serve_all_def)
  then show ?case by (intro exI [of _ "tr' @ [(w, r)]"]) simp
qed

lemma run_is_serve_all: "run e h w0 tr w \<Longrightarrow> w = serve_all e h (rev (map snd tr)) w0"
  by (induction rule: run.induct) (simp_all add: serve_all_def)

text \<open>Each exchange of a run is in the world the run before it has reached.\<close>

lemma run_before: "run e h w0 (tr' @ (v, r) # tr) w \<Longrightarrow> run e h w0 tr v"
proof (induction tr' arbitrary: w)
  case Nil
  then show ?case by (auto elim: run_cases)
next
  case (Cons x tr')
  from Cons.prems have "run e h w0 (tr' @ (v, r) # tr) (fst x)" by (cases x) (auto elim: run_cases)
  then show ?case by (rule Cons.IH)
qed

text \<open>The users whose email and password a request of the run has carried.\<close>

definition run_users :: "env \<Rightarrow> (world \<times> request) list \<Rightarrow> string set" where
  "run_users e tr = (\<Union>(v, r) \<in> set tr. authenticated e r (wDb v))"

section \<open>Owners\<close>

definition owned_grants :: "string set \<Rightarrow> grant_store \<Rightarrow> bool" where
  "owned_grants us g \<longleftrightarrow> wf_grants g
     \<and> (\<forall>k ac. map_of (codes g) k = Some ac \<longrightarrow> acUserID ac \<in> us)
     \<and> (\<forall>k rg. map_of (refresh g) k = Some rg \<longrightarrow> rgUserID rg \<in> us)
     \<and> (\<forall>k dc. map_of (devices g) k = Some dc \<longrightarrow> dcUserAuthorized dc \<longrightarrow> dcUserID dc \<in> us)"

definition owned_sessions :: "string set \<Rightarrow> session_store \<Rightarrow> bool" where
  "owned_sessions us ss \<longleftrightarrow> wf_sessions ss \<and> (\<forall>k s. map_of (sessions ss) k = Some s \<longrightarrow> sUserID s \<in> us)"

lemma owned_grantsD:
  assumes "owned_grants us g"
  shows "wf_grants g" and "wf_map (codes g)" and "wf_map (refresh g)" and "wf_map (devices g)"
    and "map_of (codes g) k = Some ac \<Longrightarrow> acUserID ac \<in> us"
    and "map_of (refresh g) k' = Some rg \<Longrightarrow> rgUserID rg \<in> us"
    and "map_of (devices g) d = Some dc \<Longrightarrow> dcUserAuthorized dc \<Longrightarrow> dcUserID dc \<in> us"
  using assms by (auto simp: owned_grants_def wf_grants_def)

lemma swept_owned:
  assumes "owned_grants us g"
  shows "map_of (sweep P (codes g)) k = Some ac \<Longrightarrow> acUserID ac \<in> us"
    and "map_of (sweep P' (refresh g)) k = Some rg \<Longrightarrow> rgUserID rg \<in> us"
    and "map_of (sweep P'' (devices g)) k = Some dc \<Longrightarrow> dcUserAuthorized dc \<Longrightarrow> dcUserID dc \<in> us"
  using owned_grantsD [OF assms] by (meson map_of_sweep_SomeD)+

lemma owned_grant_step:
  assumes "owned_grants us g" and "op_users op \<subseteq> us"
  shows "owned_grants us (grant_step up op g)"
proof -
  note facts = owned_grantsD [OF assms(1)] swept_owned [OF assms(1)]
  have "wf_grants (grant_step up op g)" using facts(1) by (rule wf_grant_step)
  moreover have "(\<forall>k ac. map_of (codes (grant_step up op g)) k = Some ac \<longrightarrow> acUserID ac \<in> us)
     \<and> (\<forall>k rg. map_of (refresh (grant_step up op g)) k = Some rg \<longrightarrow> rgUserID rg \<in> us)
     \<and> (\<forall>k dc. map_of (devices (grant_step up op g)) k = Some dc \<longrightarrow> dcUserAuthorized dc \<longrightarrow> dcUserID dc \<in> us)"
    using assms(2) facts
    by (cases op) (auto simp: grant_defs clean_devices_eq Let_def split: option.splits if_splits)
  ultimately show ?thesis by (simp add: owned_grants_def)
qed

lemma owned_session_ops:
  assumes "owned_sessions us ss"
  shows "uid \<in> us \<Longrightarrow> owned_sessions us (snd (Create rnd t0 t1 uid em ss))"
    and "owned_sessions us (snd (GetSession t0 t1 t2 sid ss))" and "owned_sessions us (Revoke sid ss)"
    and "fst (GetSession t0 t1 t2 sid ss) = Some s \<Longrightarrow> sUserID s \<in> us"
proof -
  have own: "map_of (sessions ss) k = Some s \<Longrightarrow> sUserID s \<in> us" for k s
    using assms by (simp add: owned_sessions_def)
  have swept: "map_of (sweep P (sessions ss)) k = Some s \<Longrightarrow> sUserID s \<in> us" for P k s
    using assms own map_of_sweep_SomeD by (fastforce simp: owned_sessions_def wf_sessions_def)
  have wf: "wf_sessions ss" using assms by (simp add: owned_sessions_def)
  show "owned_sessions us (snd (Create rnd t0 t1 uid em ss))" if "uid \<in> us"
    using wf_Create [OF wf] that own swept
    by (auto simp: owned_sessions_def Create_def cleanExpiredLocked_def Let_def split: sum.splits if_splits)
  show "owned_sessions us (snd (GetSession t0 t1 t2 sid ss))"
    using wf_GetSession [OF wf] swept
    by (auto simp: owned_sessions_def GetSession_def cleanExpiredLocked_def Let_def split: option.splits if_splits)
  show "owned_sessions us (Revoke sid ss)"
    using wf_Revoke [OF wf] own by (auto simp: owned_sessions_def Revoke_def split: if_splits)
  show "sUserID s \<in> us" if "fst (GetSession t0 t1 t2 sid ss) = Some s"
    using that swept by (auto simp: GetSession_def cleanExpiredLocked_def Let_def split: option.splits if_splits)
qed

text \<open>The handlers, under the contract of the stores: what they write belongs to the users they are
  allowed to write for.\<close>

interpretation owned: server_effects us "owned_grants us" "owned_sessions us" "\<lambda>_. True" "\<lambda>_. True" for us
proof unfold_locales
  fix g t0 code k ac rg
  assume "owned_grants us g"
  note facts = owned_grantsD [OF this]
  show "fst (ConsumeCode t0 code g) = Some ac \<Longrightarrow> acUserID ac \<in> us"
    using facts(5) by (auto simp: ConsumeCode_def split: option.splits if_splits)
  show "fst (ConsumeRefreshToken t0 k g) = Some rg \<Longrightarrow> rgUserID rg \<in> us"
    using facts(6) by (auto simp: ConsumeRefreshToken_def split: option.splits if_splits)
qed (simp_all add: owned_grant_step owned_session_ops)

lemma owned_mono:
  assumes "owned.ok us w" and "us \<subseteq> us'"
  shows "owned.ok us' w"
proof -
  have "owned_grants us g \<Longrightarrow> owned_grants us' g" "owned_sessions us s \<Longrightarrow> owned_sessions us' s" for g s
    using assms(2) by (auto simp: owned_grants_def owned_sessions_def)
  with assms(1) show ?thesis by (auto simp: owned.ok_def pred_option_def)
qed

lemma run_owned:
  assumes "run e h w0 tr w" and "owned.ok {} w0"
  shows "owned.ok (run_users e tr) w"
  using assms
proof (induction rule: run.induct)
  case run_start
  then show ?case by (simp add: run_users_def)
next
  case (run_request tr w r)
  then have "owned.ok (run_users e ((w, r) # tr)) w" by (auto simp: run_users_def intro: owned_mono)
  then show ?case by (rule owned.ok_serve) (simp add: run_users_def)
qed

lemma owner_image:
  assumes "wf_map m" and "\<And>k x. map_of m k = Some x \<Longrightarrow> f x \<in> us"
  shows "f ` snd ` set m \<subseteq> us"
  using assms by (auto simp: wf_map_def)

text \<open>C1: No right without a password: started with empty stores, whatever requests the server has
  answered, every code, every refresh token, every authorized device and every session belongs to
  a user whose email and password one of these very requests has carried, checked against the
  database of the moment the server answered it.\<close>

theorem no_grant_without_password:
  assumes "run e h w0 tr w" and "wGrants w0 = Some (NewStore ct rt dts)" and "wSessions w0 = Some (NewSessionStore st)"
    and "wGrants w = Some g" and "wSessions w = Some ss"
    and "u \<in> acUserID ` snd ` set (codes g) \<union> rgUserID ` snd ` set (refresh g)
      \<union> dcUserID ` {dc \<in> snd ` set (devices g). dcUserAuthorized dc} \<union> sUserID ` snd ` set (sessions ss)"
  shows "\<exists>(v, r) \<in> set tr. u \<in> authenticated e r (wDb v)"
proof -
  have "owned.ok {} w0"
    using assms(2,3) by (simp add: owned.ok_def owned_grants_def owned_sessions_def wf_NewStore)
      (simp add: NewStore_def NewSessionStore_def Let_def)
  from run_owned [OF assms(1) this] assms(4,5) have own: "owned_grants (run_users e tr) g" "owned_sessions (run_users e tr) ss"
    by (simp_all add: owned.ok_def)
  note facts = owned_grantsD [OF own(1)]
  have "acUserID ` snd ` set (codes g) \<subseteq> run_users e tr" using facts(2,5) by (rule owner_image)
  moreover have "rgUserID ` snd ` set (refresh g) \<subseteq> run_users e tr" using facts(3,6) by (rule owner_image)
  moreover have "dcUserID ` {dc \<in> snd ` set (devices g). dcUserAuthorized dc} \<subseteq> run_users e tr"
    using owner_image [of "devices g" "\<lambda>dc. (dcUserAuthorized dc, dcUserID dc)" "{(a, i). a \<longrightarrow> i \<in> run_users e tr}"]
      facts(4,7) by auto
  moreover have "wf_map (sessions ss)" "map_of (sessions ss) k = Some s \<Longrightarrow> sUserID s \<in> run_users e tr" for k s
    using own(2) by (simp_all add: owned_sessions_def wf_sessions_def)
  then have "sUserID ` snd ` set (sessions ss) \<subseteq> run_users e tr" by (rule owner_image)
  ultimately have "u \<in> run_users e tr" using assms(6) by (elim UnE) (erule subsetD [rotated], assumption)+
  then show ?thesis by (simp add: run_users_def split_beta)
qed

lemma sample_route:
  "ServeHTTP sample_env sample_handlers code_request w =
     handleAuthorize sample_env sample_handlers code_request (corsHeaders new_response) w"
  by (simp add: ServeHTTP_def Let_def code_request_def sample_request_def trim_suffix_def has_suffix_def has_prefix_def)

theorem no_grant_without_password_witness:
  "''auth0|1'' \<in> authenticated sample_env code_request (wDb sample_world)"
proof -
  let ?rs = "corsHeaders new_response" and ?ap = "request_params code_request"
  let ?x = "handleAuthorize sample_env sample_handlers code_request ?rs sample_world"
  obtain usr where usr: "check_credentials sample_env (query_get code_request ''username'')
      (query_get code_request ''password'') (wDb sample_world) = Some usr" "uID usr = ''auth0|1''"
    using sample_login by blast
  obtain u where u: "xUrlParse sample_env (query_get code_request ''redirect_uri'') = Inr u"
    by (simp add: code_request_params sample_url)
  let ?S = "start_session sample_env usr ?rs (count_metric (AuthRequests ''success'') sample_world)"
  have given: "query_get code_request ''username'' \<noteq> []" "query_get code_request ''password'' \<noteq> []"
    by (simp_all add: code_request_params)
  have x: "?x = authorize_code sample_env sample_handlers code_request ?ap u ?rs sample_world"
    using sample_checks(1,2) u code_request_params(1) by (rule authorize_checked)
  with authorize_logged_in [OF sample_grants given usr(1), of sample_handlers ?ap u ?rs]
  obtain g ac where g: "wGrants (snd ?x) = Some g" "map_of (codes g) (next_code sample_env sample_world) = Some ac"
      "bound_code (uID usr) ?ap ac"
    by auto
  have "snd ?x = snd (issue_code sample_env (uID usr) ?ap u (fst ?S) (snd ?S))"
    using authorize_code_login [OF sample_grants(1) given usr(1)] by (simp add: x split_beta)
  moreover have "\<exists>ss. wSessions (snd ?S) = Some ss"
    using session_started [of "count_metric (AuthRequests ''success'') sample_world" "NewSessionStore 0" sample_env "[0]" usr ?rs]
    by (auto simp: count_metric_def sample_world_def sample_env_def)
  ultimately obtain ss where ss: "wSessions (snd ?x) = Some ss"
    by (auto simp: issue_code_leaves)
  have "run sample_env sample_handlers sample_world
      [(sample_world, code_request)]
      (snd (ServeHTTP sample_env sample_handlers code_request sample_world))"
    by (rule run_request [OF run_start])
  then have r: "run sample_env sample_handlers sample_world
      [(sample_world, code_request)] (snd ?x)"
    by (simp only: sample_route)
  have "''auth0|1'' \<in> acUserID ` snd ` set (codes g)"
    using map_of_SomeD [OF g(2)] g(3) usr(2) by (force simp: bound_code_def)
  then have owner: "''auth0|1'' \<in> acUserID ` snd ` set (codes g) \<union> rgUserID ` snd ` set (refresh g)
      \<union> dcUserID ` {dc \<in> snd ` set (devices g). dcUserAuthorized dc} \<union> sUserID ` snd ` set (sessions ss)"
    by (intro UnI1)
  have "wSessions sample_world = Some (NewSessionStore 0)" by (simp add: sample_world_def)
  from no_grant_without_password [OF r sample_grants(1) this g(1) ss owner] show ?thesis by simp
qed

end
