(* ===== verification/Login_Pages.thy ===== *)
theory Login_Pages
  imports Provenance
begin

text \<open>
  The login form and its handler, logout, the pages the server writes, and introspection of the
  tokens it has issued.
\<close>

section \<open>Login\<close>

text \<open>What a request of the login endpoint leaves alone when it is not a login.\<close>

definition untouched :: "response \<Rightarrow> world \<Rightarrow> response \<times> world \<Rightarrow> bool" where
  "untouched rs w x \<longleftrightarrow> rsCookies (fst x) = rsCookies rs \<and> wSessions (snd x) = wSessions w
     \<and> wGrants (snd x) = wGrants w \<and> wDb (snd x) = wDb w"

lemma untouched_answers:
  "untouched rs w (http_error m n rs, w)" "untouched rs w (send_html p rs, w)"
  "untouched rs w (http_error m n rs, audit_login e i em c ok d (count_metric mt w))"
  by (simp_all add: untouched_def http_error_def send_html_def set_header_def Let_def audit_login_def split_beta
      count_metric_def time_now_def)

lemma login_refused:
  assumes "rqMethod r = ''POST'' \<Longrightarrow> check_credentials e (FormValue (login_form r) ''username'') (FormValue (login_form r) ''password'') (wDb w) = None"
  shows "untouched rs w (handleLogin e h r rs w)"
proof (cases "rqMethod r = ''POST''")
  case True
  with assms show ?thesis
    by (simp add: handleLogin_def Let_def untouched_answers)
next
  case False
  then show ?thesis
    by (simp add: handleLogin_def Let_def untouched_answers)
qed

text \<open>C16: The login form starts a session, issues a code or sets a cookie only for a POST with the
  email and password of a user; every other request of the endpoint leaves sessions, grants and
  cookies as they are.\<close>

theorem login_needs_password:
  assumes "rsCookies (fst (handleLogin e h r rs w)) \<noteq> rsCookies rs \<or> wSessions (snd (handleLogin e h r rs w)) \<noteq> wSessions w
    \<or> wGrants (snd (handleLogin e h r rs w)) \<noteq> wGrants w"
  shows "rqMethod r = ''POST'' \<and> (\<exists>u. GetByEmail (xCodec e) (FormValue (login_form r) ''username'') (wDb w) = Inr (Some u)
      \<and> bcCompare (xBcrypt e) (uPasswordHash u) (FormValue (login_form r) ''password''))"
proof (rule ccontr)
  assume no: "\<not> ?thesis"
  have "untouched rs w (handleLogin e h r rs w)"
  proof (rule login_refused)
    assume "rqMethod r = ''POST''"
    with no show "check_credentials e (FormValue (login_form r) ''username'') (FormValue (login_form r) ''password'') (wDb w) = None"
      by (auto simp: check_credentials_def VerifyPassword_def split: sum.split option.split)
  qed
  with assms show False by (simp add: untouched_def)
qed

lemma login_unparsable:
  assumes "rqMethod r = ''POST''" and "getParam r ''redirect_uri'' \<noteq> []"
    and "xUrlParse e (getParam r ''redirect_uri'') = Inl err"
    and "FormValue (login_form r) ''username'' \<noteq> []" and "FormValue (login_form r) ''password'' \<noteq> []"
    and "check_credentials e (FormValue (login_form r) ''username'') (FormValue (login_form r) ''password'') (wDb w) = Some u"
    and "getParam r ''response_type'' = ''code''" and "wGrants w = Some g" and "wf_grants g"
  shows "rsBody (fst (handleLogin e h r rs w)) = Panicked
    \<and> (\<exists>g' ac. wGrants (snd (handleLogin e h r rs w)) = Some g'
          \<and> map_of (codes g') (next_code e w) = Some ac \<and> acUserID ac = uID u)"
proof -
  define ap where "ap = \<lparr>apResponseType = getParam r ''response_type'', apClientID = getParam r ''client_id'',
      apRedirectURI = getParam r ''redirect_uri'',
      apScope = (if getParam r ''scope'' = [] then ''openid'' else getParam r ''scope''),
      apState = getParam r ''state'', apNonce = getParam r ''nonce'', apAudience = getParam r ''audience'',
      apChallenge = getParam r ''code_challenge'',
      apChallengeMethod = (if getParam r ''code_challenge_method'' = [] then ''S256'' else getParam r ''code_challenge_method'')\<rparr>"
  let ?w = "audit_login e (uID u) (uEmail u) (getParam r ''client_id'') True []
      (count_metric (LoginAttempts ''success'') w)"
  let ?S = "start_session e u rs ?w"
  have no_token: "contains ''token'' ''code'' = False" "contains ''id_token'' ''code'' = False"
    by (simp_all add: has_prefix_def)
  have S: "wGrants (snd ?S) = Some g" "next_code e (snd ?S) = next_code e w"
    using assms(8) by (simp_all add: keeping start_session_keeps next_code_def)
      (simp add: audit_login_def Let_def split_beta count_metric_def)
  have "handleLogin e h r rs w = login_code e (uID u) ap None (fst ?S) (snd ?S)"
    unfolding handleLogin_def Let_def ap_def [symmetric]
    by (simp add: assms(1-7) no_token split_beta S(1) del: contains.simps)
  moreover have "login_code e (uID u) ap None (fst ?S) (snd ?S) = (panicked (fst ?S),
      save_code e (next_code e w) (new_auth_code (uID u) ap (''sid_'' @ xUuid e (Suc (wUuids (snd ?S)))))
        ((snd ?S)\<lparr>wUuids := Suc (Suc (wUuids (snd ?S)))\<rparr>))"
    using S(2) by (simp add: login_code_def Let_def split_beta next_code_def)
  ultimately show ?thesis
    using save_code_grants [of "(snd ?S)\<lparr>wUuids := Suc (Suc (wUuids (snd ?S)))\<rparr>" g e "next_code e w" "uID u" ap
        "''sid_'' @ xUuid e (Suc (wUuids (snd ?S)))"] S(1) assms(9)
    by (auto simp: bound_code_def)
qed

text \<open>C36: A login with the right password but a redirect URI that does not parse ends in a nil
  pointer panic, after the session has been started and, in the code flow, the code saved.\<close>

theorem login_panics_on_unparsable_redirect:
  assumes "rqMethod r = ''POST''" and "getParam r ''redirect_uri'' \<noteq> []"
    and "xUrlParse e (getParam r ''redirect_uri'') = Inl err"
    and "FormValue (login_form r) ''username'' \<noteq> []" and "FormValue (login_form r) ''password'' \<noteq> []"
    and "check_credentials e (FormValue (login_form r) ''username'') (FormValue (login_form r) ''password'') (wDb w) = Some u"
    and "getParam r ''response_type'' = ''code''" and "wGrants w = Some g" and "wf_grants g"
  shows "rsBody (fst (handleLogin e h r rs w)) = Panicked
    \<and> (\<exists>g' ac. wGrants (snd (handleLogin e h r rs w)) = Some g'
          \<and> map_of (codes g') (next_code e w) = Some ac \<and> acUserID ac = uID u)"
  using assms by (rule login_unparsable)

definition bad_login :: request where
  "bad_login = sample_request\<lparr>rqMethod := ''POST'', rqPath := ''/login'', rqRawQuery := ''redirect_uri=:&response_type=code'',
     rqPostForm := [(''username'', [''a@x'']), (''password'', [''pw''])]\<rparr>"

lemma bad_login_params:
  "getParam bad_login ''redirect_uri'' = '':''" "getParam bad_login ''response_type'' = ''code''"
  "FormValue (login_form bad_login) ''username'' = ''a@x''" "FormValue (login_form bad_login) ''password'' = ''pw''" "rqMethod bad_login = ''POST''"
  by (code_simp+)

lemma bad_login_checks:
  "\<exists>u. check_credentials sample_env (FormValue (login_form bad_login) ''username'') (FormValue (login_form bad_login) ''password'') (wDb sample_world) = Some u
     \<and> uID u = ''auth0|1''"
  "xUrlParse sample_env (getParam bad_login ''redirect_uri'') = Inl ''missing protocol scheme''"
  "getParam bad_login ''redirect_uri'' \<noteq> []" "FormValue (login_form bad_login) ''username'' \<noteq> []" "FormValue (login_form bad_login) ''password'' \<noteq> []"
  using sample_credentials by (simp_all add: bad_login_params) (simp add: sample_env_def)

theorem login_panics_on_unparsable_redirect_witness:
  "rsBody (fst (handleLogin sample_env sample_handlers bad_login new_response sample_world)) = Panicked"
proof -
  obtain u where "check_credentials sample_env (FormValue (login_form bad_login) ''username'') (FormValue (login_form bad_login) ''password'')
      (wDb sample_world) = Some u"
    using bad_login_checks(1) by blast
  from login_panics_on_unparsable_redirect [OF bad_login_params(5) bad_login_checks(3,2,4,5) this bad_login_params(2) sample_grants]
  show ?thesis by blast
qed

theorem login_needs_password_witness:
  "\<exists>u. GetByEmail sample_codec ''a@x'' (wDb sample_world) = Inr (Some u) \<and> bcCompare sample_bcrypt (uPasswordHash u) ''pw''"
proof -
  let ?x = "handleLogin sample_env sample_handlers bad_login new_response sample_world"
  obtain u where "check_credentials sample_env (FormValue (login_form bad_login) ''username'') (FormValue (login_form bad_login) ''password'')
      (wDb sample_world) = Some u"
    using bad_login_checks(1) by blast
  from login_unparsable [OF bad_login_params(5) bad_login_checks(3,2,4,5) this bad_login_params(2) sample_grants,
      of sample_handlers new_response]
  have "wGrants (snd ?x) \<noteq> wGrants sample_world"
    by (auto simp: sample_grants NewStore_def Let_def)
  from login_needs_password [OF disjI2 [OF disjI2 [OF this]]] show ?thesis
    by (simp add: bad_login_params)
qed

section \<open>Logout\<close>

lemma snd_case_sum: "snd (case y of Inl a \<Rightarrow> (g a, v) | Inr b \<Rightarrow> (f b, v)) = v"
  by (simp split: sum.split)

lemma logout_world:
  "snd (handleLogout e r rs w) =
     (case wSessions w of
        None \<Rightarrow> w
      | Some ss \<Rightarrow>
          (case rqCookie r of
             None \<Rightarrow> w
           | Some c \<Rightarrow> if c \<noteq> [] then w\<lparr>wSessions := Some (Revoke c ss)\<rparr> else w))"
  by (cases "wSessions w") (simp_all add: handleLogout_def Let_def split_beta snd_case_sum)

lemma session_user_logged_out:
  assumes "pred_option wf_sessions (wSessions w)" and "rqCookie r2 = rqCookie r1"
  shows "fst (session_user e r2 (snd (handleLogout e r1 rs w))) = None"
proof -
  have "fst (GetSession t0 t1 t2 c (Revoke c ss)) = None" if "wf_sessions ss" for t0 t1 t2 c ss
    using sess.revoked_for_good [OF that, of t0 t1 t2 c "[]"] by (simp add: get_owner_def)
  with assms show ?thesis
    by (auto simp: logout_world session_user_def Let_def split_beta split: option.split)
qed

text \<open>C17: After a logout the browser's cookie is worth nothing: an authorization request with it and
  without credentials is sent to the login page and no code is issued.\<close>

theorem logout_ends_sign_on:
  assumes "pred_option wf_sessions (wSessions w)" and "rqCookie r2 = rqCookie r1"
    and "redirect_allowed h r2" and "scope_allowed h r2" and "xUrlParse e (query_get r2 ''redirect_uri'') = Inr u"
    and "query_get r2 ''response_type'' = ''code''"
    and "query_get r2 ''username'' = []" and "query_get r2 ''password'' = []" and "query_get r2 ''prompt'' \<noteq> ''none''"
  shows "let (rs1, w1) = handleLogout e r1 rs w; (rs2, w2) = handleAuthorize e h r2 rs' w1
    in rsBody rs2 = RedirectTo (login_redirect h (request_params r2) (query_get r2 ''login_hint''))
     \<and> wGrants w2 = wGrants w"
proof -
  let ?w1 = "snd (handleLogout e r1 rs w)"
  have w1: "wGrants ?w1 = wGrants w"
    by (simp add: logout_world split: option.split)
  have "fst (session_user e r2 ?w1) = None"
    using assms(1,2) by (rule session_user_logged_out)
  moreover have "handleAuthorize e h r2 rs' ?w1 = authorize_code e h r2 (request_params r2) u rs' ?w1"
    using assms(3-6) by (rule authorize_checked)
  ultimately show ?thesis
    using assms(7-9) w1
    by (simp add: authorize_code_def Let_def split_beta keeps_session_user count_metric_keeps)
qed

theorem logout_ends_sign_on_witness:
  "let (rs1, w1) = handleLogout sample_env (sample_request\<lparr>rqCookie := Some ''sid_00''\<rparr>) new_response sample_world;
       (rs2, w2) = handleAuthorize sample_env sample_handlers (cookie_request\<lparr>rqCookie := Some ''sid_00''\<rparr>) new_response w1
   in wGrants w2 = wGrants sample_world"
proof -
  let ?r1 = "sample_request\<lparr>rqCookie := Some ''sid_00''\<rparr>" and ?r2 = "cookie_request\<lparr>rqCookie := Some ''sid_00''\<rparr>"
  have sess: "pred_option wf_sessions (wSessions sample_world)" by (simp add: sample_world_def)
  have same: "rqCookie ?r2 = rqCookie ?r1" by simp
  obtain u where u: "xUrlParse sample_env (query_get ?r2 ''redirect_uri'') = Inr u"
    by (simp add: cookie_request_params sample_url)
  have "redirect_allowed sample_handlers ?r2" "scope_allowed sample_handlers ?r2"
      "query_get ?r2 ''response_type'' = ''code''" "query_get ?r2 ''username'' = []" "query_get ?r2 ''password'' = []"
      "query_get ?r2 ''prompt'' \<noteq> ''none''"
    by (simp_all add: sample_checks cookie_request_params)
  from logout_ends_sign_on [OF sess same this(1,2) u this(3-6), of new_response new_response] show ?thesis
    by (simp add: Let_def split_beta)
qed

section \<open>Pages\<close>

text \<open>The characters with which text becomes markup.\<close>

definition markup :: "char \<Rightarrow> bool" where
  "markup c \<longleftrightarrow> c = CHR ''<'' \<or> c = CHR ''>'' \<or> c = CHR 0x22 \<or> c = CHR 0x27"

lemma EscapeString_plain: "filter markup (EscapeString s) = []"
  by (induction s) (auto simp: markup_def)

text \<open>C18: The pages cannot be injected into: whatever a request passes as parameters, the login page
  and the device page contain the same markup characters in the same order, so no parameter
  closes an attribute or opens a tag.\<close>

theorem pages_keep_their_markup:
  "filter markup (login_page ap hint) = filter markup (login_page ap' hint')
   \<and> filter markup (device_form code) = filter markup (device_form code')"
  by (simp only: login_page_def hidden_field_def device_form_def filter_append EscapeString_plain append_Nil simp_thms)

section \<open>Introspection\<close>

text \<open>C24: Introspection knows the tokens of the server: an access token the issuer has signed is
  reported active, with its subject, audience and client, at every instant before its expiry.\<close>

theorem introspection_of_issued_token:
  assumes "parses_signed (xJwt e) (iKey (hIssuer h)) (iKid (hIssuer h)) (issue_claims now (hIssuer h) sub aud cid n custom)"
    and "Issue (xJwt e) now (hIssuer h) sub aud cid n custom = Inr tok" and "tok \<noteq> []"
    and "wf_map custom" and "\<forall>k\<in>{''sub'', ''iss'', ''aud'', ''exp'', ''azp''}. map_of custom k = None"
    and "0 < n" and "n \<le> 9223372036" and "unix (xClock e (wTicks w)) < unix now + n"
    and "param (parseTokenParams e r) ''token'' = tok"
  shows "\<exists>out. fst (handleIntrospect e h r rs w) = sendJSON 200 (GObj out) rs
    \<and> map_of out ''active'' = Some (GBool True) \<and> map_of out ''sub'' = Some (GStr sub)
    \<and> map_of out ''aud'' = Some (GStr aud) \<and> (cid = [] \<or> map_of out ''client_id'' = Some (GStr cid))"
proof -
  from issued_token_validates [OF assms(1,2,4-8)] obtain claims where
    c: "Validate (xJwt e) (xClock e (wTicks w)) (hIssuer h) tok = Inr claims" "map_of claims ''sub'' = Some (GStr sub)"
      "map_of claims ''aud'' = Some (GStr aud)" "map_of claims ''azp'' = (if cid = [] then None else Some (GStr cid))"
    by blast
  then show ?thesis
    using assms(3,9)
    by (cases "as_str (map_of claims ''scope'')"; cases "cid = []")
      (simp add: handleIntrospect_def Let_def split_beta claim_def as_str_def, rule exI, rule conjI, rule refl, simp)+
qed

definition issued_env :: env where
  "issued_env = sample_env\<lparr>xJwt := sample_lib (issue_claims 0 sample_issuer ''u1'' ''api'' ''spa'' 60 [])\<rparr>"

definition introspect_request :: request where
  "introspect_request = sample_request\<lparr>rqMethod := ''POST'', rqPostForm := [(''token'', [''a.b.c''])]\<rparr>"

theorem introspection_of_issued_token_witness:
  "\<exists>out. fst (handleIntrospect issued_env sample_handlers introspect_request new_response sample_world) =
      sendJSON 200 (GObj out) new_response
    \<and> map_of out ''active'' = Some (GBool True) \<and> map_of out ''sub'' = Some (GStr ''u1'')"
proof -
  have lib: "parses_signed (xJwt issued_env) (iKey (hIssuer sample_handlers)) (iKid (hIssuer sample_handlers))
      (issue_claims 0 (hIssuer sample_handlers) ''u1'' ''api'' ''spa'' 60 [])"
    by (simp add: parses_signed_def issued_env_def sample_lib_def sample_handlers_def)
  have tok: "Issue (xJwt issued_env) 0 (hIssuer sample_handlers) ''u1'' ''api'' ''spa'' 60 [] = Inr ''a.b.c''"
    by (simp add: Issue_def issued_env_def sample_lib_def sample_handlers_def)
  have param: "param (parseTokenParams issued_env introspect_request) ''token'' = ''a.b.c''"
    by (simp add: param_def parseTokenParams_def introspect_request_def sample_request_def ParseForm_def copy_values_def
        first_values_def ParseQuery_def parse_pair_def has_prefix_def)
  have clock: "unix (xClock issued_env (wTicks sample_world)) < unix 0 + 60"
    by (simp add: issued_env_def sample_env_def unix_def)
  from introspection_of_issued_token [OF lib tok _ _ _ _ _ clock param, of new_response] show ?thesis by auto
qed

end
