(* ===== verification/Management_Flows.thy ===== *)
theory Management_Flows
  imports Login_Pages
begin

text \<open>
  The management API and the sign-up together with the endpoints that use what they write: a user
  who signs up can log in, a user the API creates can be read back, a deleted user is locked out,
  except that refresh tokens still work.
\<close>

section \<open>Creating users\<close>

text \<open>The user as it comes back from the database: nil metadata is an empty map.\<close>

definition stored_user :: "user \<Rightarrow> user" where
  "stored_user u = u\<lparr>uAppMetadata := Some (dict_of (uAppMetadata u)), uUserMetadata := Some (dict_of (uUserMetadata u))\<rparr>"

lemma stored_user_simps [simp]:
  "uID (stored_user u) = uID u" "uEmail (stored_user u) = uEmail u" "uPasswordHash (stored_user u) = uPasswordHash u"
  by (simp_all add: stored_user_def)

lemma create_user_stores:
  assumes "create_user e u pw w = (None, u', w')"
    and "survives_codec (xCodec e) (uAppMetadata u)" and "survives_codec (xCodec e) (uUserMetadata u)"
  shows "\<exists>hash. bcGenerate (xBcrypt e) (wHashes w) pw = Inr hash \<and> u' = u\<lparr>uPasswordHash := hash\<rparr>
    \<and> GetByEmail (xCodec e) (uEmail u) (wDb w') = Inr (Some (stored_user u'))
    \<and> GetByID (xCodec e) (uID u) (wDb w') = Inr (Some (stored_user u'))"
proof -
  define t where "t = unix (xClock e (wTicks w))"
  let ?js = "xCodec e"
  have create: "CreateUser ?js (xBcrypt e) (wHashes w) t u pw (wDb w) = (None, u', wDb w')"
    using assms(1) by (auto simp: create_user_def Let_def t_def time_now_def split: prod.splits)
  from CreateUser_ok [OF this] obtain hash where gen: "bcGenerate (xBcrypt e) (wHashes w) pw = Inr hash"
    and u': "u' = u\<lparr>uPasswordHash := hash\<rparr>" and fault: "dbFault (wDb w) = None"
    and new: "\<not> list_ex (user_conflict (created_row ?js t u')) (dbUsers (wDb w))"
    and d': "dbUsers (wDb w') = dbUsers (wDb w) @ [created_row ?js t u']" "dbFault (wDb w') = dbFault (wDb w)"
    by auto
  have keys: "urEmail (created_row ?js t u') = uEmail u" "urID (created_row ?js t u') = uID u"
    by (simp_all add: created_row_def u')
  have "scan_user ?js (created_row ?js t u') = Inr (stored_user u')"
    using assms(2,3) by (simp add: scan_created codec_roundtrip stored_user_def u' dict_of_def split: option.split)
  moreover have "find (\<lambda>r. urEmail r = uEmail u) (dbUsers (wDb w')) = Some (created_row ?js t u')"
      "find (\<lambda>r. urID r = uID u) (dbUsers (wDb w')) = Some (created_row ?js t u')"
    using find_user_conflict [OF new] by (simp_all add: d' keys)
  moreover have "dbFault (wDb w') = None" by (simp add: d' fault)
  ultimately show ?thesis
    by (simp add: GetByEmail_def GetByID_def query_def gen u')
qed

lemma create_user_rest:
  "wUuids (snd (snd (create_user e u pw w))) = wUuids w" "wGrants (snd (snd (create_user e u pw w))) = wGrants w"
  by (simp_all add: create_user_def Let_def split_beta)

section \<open>Sign-up and login\<close>

lemma password_grant_ok:
  assumes "GetByEmail (xCodec e) un (wDb w) = Inr (Some u)" and "VerifyPassword (xBcrypt e) (uPasswordHash u) pw"
    and "un \<noteq> []" and "pw \<noteq> []" and "\<And>t s a c n cl. \<exists>tok. Issue (xJwt e) t (hIssuer h) s a c n cl = Inr tok"
  shows "\<exists>resp tok. fst (handlePasswordGrant e h un pw cid sc aud rs w) = sendJSON 200 (GObj resp) rs
    \<and> map_of resp ''access_token'' = Some (GStr tok)
    \<and> access_token_for e h (uID u) u (if aud = [] then defaultAudience else aud) cid tok"
proof -
  define a where "a = (if aud = [] then defaultAudience else aud)"
  have a2: "(if a = [] \<and> cid \<noteq> [] then cid else a) = a"
    by (simp add: a_def defaultAudience_def)
  from assms(5) obtain tok where tok:
    "Issue (xJwt e) (xClock e (wTicks w)) (hIssuer h) (uID u) a cid (accessTokenLifetime h) (access_claims e h u cid) = Inr tok"
    by blast
  then have "\<exists>resp. fst (handlePasswordGrant e h un pw cid sc aud rs w) = sendJSON 200 (GObj resp) rs
      \<and> map_of resp ''access_token'' = Some (GStr tok)"
    unfolding handlePasswordGrant_def assms(1) Let_def a_def [symmetric] a2 access_claims_def
    by (simp add: split_beta assms(2-4))
      (intro exI conjI, rule refl, simp add: id_token_keeps_access refresh_keeps_access token_response_def)
  with issued_access_token [OF tok] show ?thesis unfolding a_def [symmetric] by blast
qed

definition signup_user :: "env \<Rightarrow> signup_req \<Rightarrow> world \<Rightarrow> user" where
  "signup_user e req w =
     (let meta = dict_of (sgUserMetadata req)
      in \<lparr>uID = ''auth0|'' @ xUuid e (wUuids w), uEmail = sgEmail req, uPasswordHash = [],
          uDisplayName = name_of_email (sgEmail req), uAppMetadata = None, uUserMetadata = None, uOrganizationID = 1,
          uEnterpriseID = (case map_of meta ''sign_up_enterprise_id'' of
                             None \<Rightarrow> 1 | Some v \<Rightarrow> (case toInt e v of None \<Rightarrow> 1 | Some n \<Rightarrow> n)),
          uRole = (case as_str (map_of meta ''sign_up_role'') of None \<Rightarrow> ''user'' | Some s \<Rightarrow> s)\<rparr>)"

text \<open>C20: Who signs up can log in: after a sign-up that was answered with 201, the password grant
  with the same email and password, or the default password if none was given, answers with an
  access token whose claims name the new user as the subject, and the client and audience of the
  request (bcrypt accepts the hashes it makes, signing succeeds; only the rules and the configured
  claims can add to these claims).\<close>

theorem signup_then_login:
  assumes "xJsonSignup e (rqBody r) = Inr req" and "rsStatus (fst (handleSignup e r rs w)) = 201"
    and "jsDec (xCodec e) ''{}'' = Inr (Some [])"
    and "\<forall>n pw hash. bcGenerate (xBcrypt e) n pw = Inr hash \<longrightarrow> bcCompare (xBcrypt e) hash pw"
    and "\<And>t s a c n cl. \<exists>tok. Issue (xJwt e) t (hIssuer h) s a c n cl = Inr tok"
  shows "let w1 = snd (handleSignup e r rs w);
             password = (if sgPassword req = [] then ''password123'' else sgPassword req);
             rs2 = fst (handlePasswordGrant e h (sgEmail req) password cid scope aud rs' w1)
    in \<exists>resp tok u. rs2 = sendJSON 200 (GObj resp) rs' \<and> map_of resp ''access_token'' = Some (GStr tok)
         \<and> GetByEmail (xCodec e) (sgEmail req) (wDb w1) = Inr (Some u) \<and> uID u = ''auth0|'' @ xUuid e (wUuids w)
         \<and> access_token_for e h (uID u) u (if aud = [] then defaultAudience else aud) cid tok"
proof -
  define pw where "pw = (if sgPassword req = [] then ''password123'' else sgPassword req)"
  let ?u = "signup_user e req w" and ?w = "w\<lparr>wUuids := Suc (wUuids w)\<rparr>"
  have email: "sgEmail req \<noteq> []"
    using assms(1,2) by (auto simp: handleSignup_def)
  obtain err u' w' where c: "create_user e ?u pw ?w = (err, u', w')"
    by (cases "create_user e ?u pw ?w") simp
  have signup: "handleSignup e r rs w =
      (case err of
         Some err \<Rightarrow>
           (if already_exists err then (sendJSON 400 (code_description ''user_exists'' ''User already exists.'') rs, w')
            else (sendJSON 500 (code_description ''signup_failed'' err) rs, w'))
       | None \<Rightarrow> (sendJSON 201 (GObj [(''email'', GStr (sgEmail req)), (''_id'', GStr (uID u'))]) rs,
                  audit_signup e (uID u') (sgEmail req) [] (count_metric Signups w')))"
    using email c unfolding handleSignup_def assms(1) sum.case Let_def pw_def [symmetric] signup_user_def
    by (cases err) (simp_all add: split_beta)
  with assms(2) have none: "err = None" by (auto split: option.splits if_splits)
  have "survives_codec (xCodec e) None" by (simp add: survives_codec_def assms(3))
  with create_user_stores [of e ?u pw ?w u' w'] c obtain hash where
    h: "bcGenerate (xBcrypt e) (wHashes ?w) pw = Inr hash" "u' = ?u\<lparr>uPasswordHash := hash\<rparr>"
      "GetByEmail (xCodec e) (uEmail ?u) (wDb w') = Inr (Some (stored_user u'))"
    by (auto simp: none signup_user_def Let_def)
  let ?w1 = "snd (handleSignup e r rs w)"
  have "wDb ?w1 = wDb w'"
    by (simp add: signup none audit_signup_def Let_def split_beta count_metric_keeps)
  with h(3) have found: "GetByEmail (xCodec e) (sgEmail req) (wDb ?w1) = Inr (Some (stored_user u'))"
    by (simp add: signup_user_def Let_def)
  have "VerifyPassword (xBcrypt e) (uPasswordHash (stored_user u')) pw"
    using assms(4) h(1) by (simp add: VerifyPassword_def h(2))
  moreover have "pw \<noteq> []" by (simp add: pw_def)
  moreover have "uID (stored_user u') = ''auth0|'' @ xUuid e (wUuids w)"
    by (simp add: h(2) signup_user_def Let_def)
  ultimately show ?thesis
    using password_grant_ok [OF found _ email _ assms(5), of pw cid scope aud rs'] found
    by (auto simp: Let_def pw_def [symmetric])
qed

lemma signup_env_simps [simp]:
  "xBcrypt signup_env = sample_bcrypt" "xCodec signup_env = sample_codec" "xJwt signup_env = xJwt sample_env"
  "xUuid signup_env = xUuid sample_env" "xClock signup_env = xClock sample_env"
  by (simp_all add: signup_env_def sample_env_def)

lemma sample_world_db [simp]: "dbFault (wDb sample_world) = None"
  "dbUsers (wDb sample_world) = [created_row sample_codec 0 (sample_user\<lparr>uPasswordHash := ''$2a$pw''\<rparr>)]"
  by (simp_all add: sample_world_def opened_db_simps)

lemma sample_uuids [simp]: "wUuids sample_world = 0"
  by (simp add: sample_world_def)

lemma signup_env_creates:
  assumes "wDb w = wDb sample_world" and "uEmail u = ''b@x''" and "uID u \<noteq> ''auth0|1''"
  shows "fst (create_user signup_env u pw w) = None"
  using assms
  by (simp add: create_user_def Let_def split_beta CreateUser_def sample_bcrypt_def exec_def insert_strict_def
      user_conflict_def created_row_def sample_user_def)

theorem signup_then_login_witness:
  "\<exists>resp tok. fst (handlePasswordGrant signup_env sample_handlers ''b@x'' ''s3cret'' [] [] [] new_response
        (snd (handleSignup signup_env sample_request new_response sample_world))) = sendJSON 200 (GObj resp) new_response
     \<and> map_of resp ''access_token'' = Some (GStr tok)"
proof -
  let ?req = "\<lparr>sgEmail = ''b@x'', sgPassword = ''s3cret'', sgConnection = [], sgUserMetadata = None\<rparr>"
  have req: "xJsonSignup signup_env (rqBody sample_request) = Inr ?req" by (simp add: signup_env_def)
  have created: "rsStatus (fst (handleSignup signup_env sample_request new_response sample_world)) = 201"
    by (simp add: handleSignup_def req Let_def new_uuid_def split_beta signup_env_creates)
  have law: "\<forall>n pw hash. bcGenerate (xBcrypt signup_env) n pw = Inr hash \<longrightarrow> bcCompare (xBcrypt signup_env) hash pw"
    by (simp add: sample_bcrypt_def)
  have sign: "\<exists>tok. Issue (xJwt signup_env) t (hIssuer sample_handlers) s a c n cl = Inr tok" for t s a c n cl
    by simp
  have "jsDec (xCodec signup_env) ''{}'' = Inr (Some [])" by (simp add: sample_codec_def)
  from signup_then_login [OF req created this law sign, of "[]" "[]" "[]" new_response] show ?thesis
    by (simp add: Let_def) blast
qed

section \<open>Creating and reading users\<close>

lemma last_segment_user: "CHR ''/'' \<notin> set i \<Longrightarrow> last_segment (''/api/v2/users/'' @ i) = i"
  unfolding last_segment_def by (simp add: split_on_word)

text \<open>C21: A user created through the management API can be read through it: after the 201 the path
  of the new id (the one asked for if it names a provider, else a fresh one) is answered with the
  same user, nil metadata shown as empty objects.\<close>

theorem created_user_readable:
  assumes "xJsonCreateUser e (rqBody r) = Inr req" and "rsStatus (fst (handleCreateUserMgmt e r rs w)) = 201"
    and "survives_codec (xCodec e) (cuAppMetadata req)" and "survives_codec (xCodec e) (cuUserMetadata req)"
    and "CHR ''/'' \<notin> set (cuUserID req)" and "CHR ''/'' \<notin> set (xUuid e (wUuids w))"
  shows "\<exists>u. fst (handleCreateUserMgmt e r rs w) = sendJSON 201 (userToAuth0Response u) (setRateLimitHeaders rs)
    \<and> uID u = (if cuUserID req \<noteq> [] \<and> (has_prefix ''auth0|'' (cuUserID req) \<or> contains ''|'' (cuUserID req))
               then cuUserID req else ''auth0|'' @ xUuid e (wUuids w))
    \<and> uEmail u = cuEmail req \<and> uUserMetadata u = cuUserMetadata req \<and> uAppMetadata u = cuAppMetadata req
    \<and> fst (handleGetUser e (''/api/v2/users/'' @ uID u) rs' (snd (handleCreateUserMgmt e r rs w))) =
        sendJSON 200 (userToAuth0Response (u\<lparr>uAppMetadata := Some (dict_of (uAppMetadata u)),
          uUserMetadata := Some (dict_of (uUserMetadata u))\<rparr>)) (setRateLimitHeaders rs')"
proof -
  define u where "u = \<lparr>uID = (if cuUserID req \<noteq> [] \<and> (has_prefix ''auth0|'' (cuUserID req) \<or> contains ''|'' (cuUserID req))
        then cuUserID req else ''auth0|'' @ xUuid e (wUuids w)), uEmail = cuEmail req, uPasswordHash = [],
      uDisplayName = (if cuName req = [] then name_of_email (cuEmail req) else cuName req),
      uAppMetadata = cuAppMetadata req, uUserMetadata = cuUserMetadata req,
      uOrganizationID = 1, uEnterpriseID = 1, uRole = ''user''\<rparr>"
  define pw where "pw = (if cuPassword req = [] then ''password123'' else cuPassword req)"
  let ?w = "w\<lparr>wUuids := Suc (wUuids w)\<rparr>" and ?rs = "setRateLimitHeaders rs"
  have email: "cuEmail req \<noteq> []"
    using assms(1,2) by (auto simp: handleCreateUserMgmt_def Let_def)
  obtain err u' w' where c: "create_user e u pw ?w = (err, u', w')"
    by (cases "create_user e u pw ?w") simp
  have create: "handleCreateUserMgmt e r rs w =
      (case err of
         Some err \<Rightarrow>
           (if already_exists err then (sendJSON 409 (message ''Conflict'' ''The user already exists.'') ?rs, w')
            else (sendJSON 500 server_error ?rs, w'))
       | None \<Rightarrow> (sendJSON 201 (userToAuth0Response u') ?rs, w'))"
    using email c unfolding handleCreateUserMgmt_def assms(1) sum.case Let_def pw_def [symmetric] new_uuid_def prod.case
      u_def [symmetric]
    by simp
  with assms(2) have none: "err = None" by (auto split: option.splits if_splits)
  have surv: "survives_codec (xCodec e) (uAppMetadata u)" "survives_codec (xCodec e) (uUserMetadata u)"
    by (simp_all add: u_def assms(3,4))
  from create_user_stores [OF c [unfolded none] surv] obtain hash where
    h: "u' = u\<lparr>uPasswordHash := hash\<rparr>" "GetByID (xCodec e) (uID u) (wDb w') = Inr (Some (stored_user u'))"
    by blast
  have "CHR ''/'' \<notin> set (uID u)" using assms(5,6) by (simp add: u_def)
  then have "handleGetUser e (''/api/v2/users/'' @ uID u') rs' w' =
      (sendJSON 200 (userToAuth0Response (stored_user u')) (setRateLimitHeaders rs'), w')"
    using h(2) last_segment_user [of "uID u"] by (simp add: handleGetUser_def h(1) Let_def)
  then show ?thesis
    by (intro exI [of _ u']) (simp add: create none stored_user_def h(1), simp add: u_def)
qed

theorem created_user_readable_witness:
  "rsStatus (fst (handleGetUser signup_env ''/api/v2/users/auth0|7'' new_response
      (snd (handleCreateUserMgmt signup_env sample_request new_response sample_world)))) = 200"
proof -
  let ?req = "\<lparr>cuConnection = [], cuEmail = ''b@x'', cuPassword = ''s3cret'', cuName = [],
       cuUserID = ''auth0|7'', cuUserMetadata = None, cuAppMetadata = None\<rparr>"
  have req: "xJsonCreateUser signup_env (rqBody sample_request) = Inr ?req" by (simp add: signup_env_def)
  have created: "rsStatus (fst (handleCreateUserMgmt signup_env sample_request new_response sample_world)) = 201"
    by (simp add: handleCreateUserMgmt_def req Let_def new_uuid_def split_beta signup_env_creates has_prefix_def)
  have surv: "survives_codec (xCodec signup_env) None" by (simp add: survives_codec_def sample_codec_def)
  have uuid: "CHR ''/'' \<notin> set (xUuid signup_env (wUuids sample_world))" by (simp add: sample_env_def)
  have id: "(if cuUserID ?req \<noteq> [] \<and> (has_prefix ''auth0|'' (cuUserID ?req) \<or> contains ''|'' (cuUserID ?req))
      then cuUserID ?req else ''auth0|'' @ xUuid signup_env (wUuids sample_world)) = ''auth0|7''"
    by (simp add: has_prefix_def)
  from created_user_readable [OF req created _ _ _ uuid, of new_response] surv obtain u where
    "uID u = ''auth0|7''" and get: "fst (handleGetUser signup_env (''/api/v2/users/'' @ uID u) new_response
        (snd (handleCreateUserMgmt signup_env sample_request new_response sample_world))) =
      sendJSON 200 (userToAuth0Response (u\<lparr>uAppMetadata := Some (dict_of (uAppMetadata u)),
        uUserMetadata := Some (dict_of (uUserMetadata u))\<rparr>)) (setRateLimitHeaders new_response)"
    unfolding id by auto
  then show ?thesis by simp
qed

section \<open>Deleted users\<close>

lemma deleted_user_lookups:
  assumes "DeleteUser uid d = (None, d')"
  shows "GetByID js uid d' = Inr None" and "GetByEmail js em d' = Inr (Some u) \<Longrightarrow> uID u \<noteq> uid"
proof -
  note facts = DeleteUser_ok [OF assms]
  have none: "find (\<lambda>r. urID r = uid) (filter (\<lambda>r. urID r \<noteq> uid) rows) = None" for rows
    by (auto simp: find_None_iff)
  from facts show "GetByID js uid d' = Inr None" by (simp add: GetByID_def query_def none del: filter_filter)
  show "uID u \<noteq> uid" if "GetByEmail js em d' = Inr (Some u)"
    using that facts
    by (auto simp: GetByEmail_def query_def scan_user_def find_Some_iff dest!: nth_mem split: option.splits sum.splits)
qed

lemma delete_user_world:
  assumes "rsStatus (fst (handleDeleteUser e path rs w)) = 204"
  shows "DeleteUser (last_segment path) (wDb w) = (None, wDb (snd (handleDeleteUser e path rs w)))
    \<and> wGrants (snd (handleDeleteUser e path rs w)) = wGrants w"
  using assms
  by (auto simp: handleDeleteUser_def Let_def audit_change_def split_beta prod_eq_iff split: option.splits)

lemma session_user_exists:
  "fst (session_user e r w) = Some u \<Longrightarrow> GetByID (xCodec e) (uID u) (wDb w) = Inr (Some u)"
  by (auto simp: session_user_def Let_def time_now_def split_beta GetByID_id
      split: option.splits if_splits sum.splits)

lemma code_tokens_no_user:
  "GetByID (xCodec e) (acUserID ac) (wDb w) = Inr None \<Longrightarrow> rsStatus (fst (code_tokens e h code cid ac rs w)) = 500"
  by (simp add: code_tokens_def Let_def)

text \<open>C19: A deleted user is locked out: after a deletion that was answered with 204 no credentials
  prove to be that user, no session cookie stands for that user, and a code issued to that user
  before is not exchanged for tokens.\<close>

theorem deleted_user_locked_out:
  assumes "rsStatus (fst (handleDeleteUser e path rs w)) = 204" and "uid = last_segment path"
    and "w1 = snd (handleDeleteUser e path rs w)"
  shows "uid \<notin> authenticated e r (wDb w1) \<and> map_option uID (requester e r w1) \<noteq> Some uid
    \<and> (wGrants w1 = Some g \<longrightarrow> fst (ConsumeCode (xClock e (wTicks w1)) code g) = Some ac \<longrightarrow> acUserID ac = uid
        \<longrightarrow> rsStatus (fst (handleAuthorizationCode e h code ru cid cs cv rs' w1)) \<noteq> 200)"
proof -
  have del: "DeleteUser uid (wDb w) = (None, wDb w1)"
    using delete_user_world [OF assms(1)] by (simp add: assms(2,3))
  note gone = deleted_user_lookups [OF del]
  have "uid \<notin> authenticated e r (wDb w1)"
    using gone(2) by (auto simp: authenticated_def)
  moreover have "map_option uID (requester e r w1) \<noteq> Some uid"
  proof
    assume "map_option uID (requester e r w1) = Some uid"
    then obtain u where u: "requester e r w1 = Some u" "uID u = uid" by auto
    then consider "check_credentials e (query_get r ''username'') (query_get r ''password'') (wDb w1) = Some u"
      | "fst (session_user e r w1) = Some u"
      by (auto simp: requester_def split: if_splits)
    then show False
    proof cases
      case 1
      with gone(2) u(2) show False by (blast dest: check_credentials_ok)
    next
      case 2
      with gone(1) [of "xCodec e"] u(2) show False by (auto dest: session_user_exists)
    qed
  qed
  moreover have "rsStatus (fst (handleAuthorizationCode e h code ru cid cs cv rs' w1)) \<noteq> 200"
    if "wGrants w1 = Some g" "fst (ConsumeCode (xClock e (wTicks w1)) code g) = Some ac" "acUserID ac = uid"
  proof (cases "code = []")
    case True
    with that(1) show ?thesis by (simp add: handleAuthorizationCode_def)
  next
    case False
    from handleAuthorizationCode_redeemed [OF that(1) False that(2)] show ?thesis
      using gone(1) that(3) by (simp add: Let_def code_tokens_no_user split: option.split)
  qed
  ultimately show ?thesis by blast
qed

lemma sample_delete:
  assumes "dbFault (wDb w) = None"
  shows "rsStatus (fst (handleDeleteUser e path rs w)) = 204"
    and "wTicks (snd (handleDeleteUser e path rs w)) = Suc (wTicks w)"
  using assms by (simp_all add: handleDeleteUser_def Let_def DeleteUser_def exec_def audit_change_def WriteHeader_def
      time_now_def)

lemma last_segment_sample: "last_segment ''/api/v2/users/auth0|1'' = ''auth0|1''"
  by (simp add: last_segment_def)

theorem deleted_user_locked_out_witness:
  "rsStatus (fst (handleAuthorizationCode sample_env sample_handlers ''ac_1'' [] [] [] ''v'' new_response
      (snd (handleDeleteUser sample_env ''/api/v2/users/auth0|1'' new_response coded_world)))) \<noteq> 200"
proof -
  let ?r = "handleDeleteUser sample_env ''/api/v2/users/auth0|1'' new_response coded_world"
  have ok: "rsStatus (fst ?r) = 204"
    by (rule sample_delete) (simp add: coded_world_def)
  obtain g ac where g: "wGrants coded_world = Some g"
    "fst (ConsumeCode (xClock sample_env (wTicks (snd ?r))) ''ac_1'' g) = Some ac" "acUserID ac = ''auth0|1''"
    by (simp add: coded_world_def ConsumeCode_def NewStore_def time_after_def sample_env_def Let_def)
  have "wGrants (snd ?r) = Some g" using delete_user_world [OF ok] g(1) by simp
  with deleted_user_locked_out [OF ok refl refl, where g = g and code = "''ac_1''" and ac = ac] g(2,3) show ?thesis
    by (simp only: last_segment_sample) blast
qed

text \<open>C38: But the refresh tokens of a deleted user still work: the refresh grant does not ask whether
  the user exists, and answers with new tokens for the deleted user.\<close>

theorem deleted_user_still_refreshes:
  assumes "rsStatus (fst (handleDeleteUser e path rs w)) = 204" and "w1 = snd (handleDeleteUser e path rs w)"
    and "wGrants w1 = Some g" and "tok \<noteq> []" and "fst (ConsumeRefreshToken (xClock e (wTicks w1)) tok g) = Some rg"
    and "rgUserID rg = last_segment path" and "cid = [] \<or> rgClientID rg = cid"
    and "\<And>t s a c n cl. \<exists>tk. Issue (xJwt e) t (hIssuer h) s a c n cl = Inr tk"
  shows "GetByID (xCodec e) (last_segment path) (wDb w1) = Inr None
    \<and> rsStatus (fst (handleRefreshToken e h tok cid rs' w1)) = 200"
proof -
  have del: "DeleteUser (last_segment path) (wDb w) = (None, wDb w1)"
    using delete_user_world [OF assms(1)] by (simp add: assms(2))
  obtain sig where sig: "\<forall>t s a c n cl. Issue (xJwt e) t (hIssuer h) s a c n cl = Inr (sig t s a c n cl)"
    using assms(8) by metis
  have "(cid \<noteq> [] \<and> rgClientID rg \<noteq> cid) = False" using assms(7) by blast
  then have "rsStatus (fst (handleRefreshToken e h tok cid rs' w1)) = 200"
    using assms(3-5) by (simp add: handleRefreshToken_def Let_def split_beta time_now_def issue_access_def sig)
  with deleted_user_lookups(1) [OF del] show ?thesis by blast
qed

theorem deleted_user_still_refreshes_witness:
  "rsStatus (fst (handleRefreshToken sample_env sample_handlers ''rt_x'' [] new_response
      (snd (handleDeleteUser sample_env ''/api/v2/users/auth0|1'' new_response refresh_world)))) = 200"
proof -
  let ?r = "handleDeleteUser sample_env ''/api/v2/users/auth0|1'' new_response refresh_world"
  have ok: "rsStatus (fst ?r) = 204"
    by (rule sample_delete) (simp add: refresh_world_def)
  obtain g rg where g: "wGrants refresh_world = Some g"
    "fst (ConsumeRefreshToken (xClock sample_env (wTicks (snd ?r))) ''rt_x'' g) = Some rg" "rgUserID rg = ''auth0|1''"
    by (simp add: refresh_world_def ConsumeRefreshToken_def NewStore_def time_after_def sample_env_def Let_def)
  have kept: "wGrants (snd ?r) = Some g" using delete_user_world [OF ok] g(1) by simp
  have sign: "\<exists>tok. Issue (xJwt sample_env) t (hIssuer sample_handlers) s a c n cl = Inr tok" for t s a c n cl
    by simp
  from deleted_user_still_refreshes [OF ok refl kept _ g(2) _ _ sign, of "[]"] g(3) show ?thesis
    by (simp add: last_segment_sample)
qed

end
