(* ===== verification/Db_Updates.thy ===== *)
theory Db_Updates
  imports Sqlite_Props
begin

text \<open>
  What the \<^verbatim>\<open>UPDATE\<close> and the link statements of \<^verbatim>\<open>internal/store/sqlite.go\<close> do to what is read
  afterwards: users, clients, the roles of a user, blocks.
\<close>

section \<open>Updated rows\<close>

lemma find_map_at:
  assumes "\<And>s. key (f s) = key s"
  shows "find (\<lambda>s. key s = i) (map (\<lambda>s. if key s = j then f s else s) rows) =
    (if i = j then map_option f (find (\<lambda>s. key s = i) rows) else find (\<lambda>s. key s = i) rows)"
  using assms by (induction rows) auto

text \<open>The user a list of updates stands for: \<^verbatim>\<open>display_name\<close> goes before \<^verbatim>\<open>name\<close>, values of another
  type are passed over.\<close>

definition patched :: "dict \<Rightarrow> user \<Rightarrow> user" where
  "patched updates u =
     (let get = map_of updates
      in u\<lparr>uEmail := (case as_str (get ''email'') of Some v \<Rightarrow> v | None \<Rightarrow> uEmail u),
           uDisplayName := (case as_str (get ''display_name'') of Some v \<Rightarrow> v
             | None \<Rightarrow> (case as_str (get ''name'') of Some v \<Rightarrow> v | None \<Rightarrow> uDisplayName u)),
           uUserMetadata := (case as_obj (get ''user_metadata'') of Some m \<Rightarrow> Some m | None \<Rightarrow> uUserMetadata u),
           uAppMetadata := (case as_obj (get ''app_metadata'') of Some m \<Rightarrow> Some m | None \<Rightarrow> uAppMetadata u)\<rparr>)"

lemma patched_id [simp]: "uID (patched updates u) = uID u"
  by (simp add: patched_def Let_def)

text \<open>Metadata in the updates comes back from the JSON column as it went in.\<close>

definition updates_survive :: "json_codec \<Rightarrow> dict \<Rightarrow> bool" where
  "updates_survive js updates \<longleftrightarrow>
     (case as_obj (map_of updates ''user_metadata'') of None \<Rightarrow> True | Some m \<Rightarrow> survives_codec js (Some m))
     \<and> (case as_obj (map_of updates ''app_metadata'') of None \<Rightarrow> True | Some m \<Rightarrow> survives_codec js (Some m))"

text \<open>The columns after the assignments, one lemma for the three kinds of column.\<close>

lemma assigned_strings:
  "urEmail (fold (\<lambda>f r. f r) (user_assignments js updates) r) =
    (case as_str (map_of updates ''email'') of Some v \<Rightarrow> v | None \<Rightarrow> urEmail r)"
  "urDisplayName (fold (\<lambda>f r. f r) (user_assignments js updates) r) =
    (case as_str (map_of updates ''display_name'') of Some v \<Rightarrow> Some v
     | None \<Rightarrow> (case as_str (map_of updates ''name'') of Some v \<Rightarrow> Some v | None \<Rightarrow> urDisplayName r))"
  by (simp_all add: user_assignments_def split: option.split)

lemma assigned_metadata:
  "urUserMetadata (fold (\<lambda>f r. f r) (user_assignments js updates) r) =
    (case as_obj (map_of updates ''user_metadata'') of Some v \<Rightarrow> Some (jsonBytes js (Some v)) | None \<Rightarrow> urUserMetadata r)"
  "urAppMetadata (fold (\<lambda>f r. f r) (user_assignments js updates) r) =
    (case as_obj (map_of updates ''app_metadata'') of Some v \<Rightarrow> Some (jsonBytes js (Some v)) | None \<Rightarrow> urAppMetadata r)"
  by (simp_all add: user_assignments_def split: option.split)

lemma assigned_rest:
  "urID (fold (\<lambda>f r. f r) (user_assignments js updates) r) = urID r"
  "urPasswordHash (fold (\<lambda>f r. f r) (user_assignments js updates) r) = urPasswordHash r"
  "urOrganizationID (fold (\<lambda>f r. f r) (user_assignments js updates) r) = urOrganizationID r"
  "urEnterpriseID (fold (\<lambda>f r. f r) (user_assignments js updates) r) = urEnterpriseID r"
  "urRole (fold (\<lambda>f r. f r) (user_assignments js updates) r) = urRole r"
  by (simp_all add: user_assignments_def split: option.split)

lemma scan_assigned:
  assumes "scan_user js r = Inr u"
  shows "\<exists>u'. scan_user js (fold (\<lambda>f r. f r) (user_assignments js updates) r) = Inr u'
    \<and> (updates_survive js updates \<longrightarrow> u' = patched updates u)"
proof -
  let ?r = "fold (\<lambda>f r. f r) (user_assignments js updates) r"
  from assms obtain v where v: "urDisplayName r = Some v"
    by (cases "urDisplayName r") (simp_all add: scan_user_def scan_string_def)
  obtain v' where v': "urDisplayName ?r = Some v'"
    by (cases "as_str (map_of updates ''display_name'')"; cases "as_str (map_of updates ''name'')")
      (simp_all add: assigned_strings v)
  then obtain u' where u': "scan_user js ?r = Inr u'"
    by (simp add: scan_user_def scan_string_def)
  have "u' = patched updates u" if "updates_survive js updates"
  proof (rule user.equality)
    have fields: "u = \<lparr>uID = urID r, uEmail = urEmail r, uPasswordHash = urPasswordHash r, uDisplayName = v,
        uAppMetadata = parseJSONMap js (urAppMetadata r), uUserMetadata = parseJSONMap js (urUserMetadata r),
        uOrganizationID = urOrganizationID r, uEnterpriseID = urEnterpriseID r, uRole = null_string (urRole r)\<rparr>"
      "u' = \<lparr>uID = urID ?r, uEmail = urEmail ?r, uPasswordHash = urPasswordHash ?r, uDisplayName = v',
        uAppMetadata = parseJSONMap js (urAppMetadata ?r), uUserMetadata = parseJSONMap js (urUserMetadata ?r),
        uOrganizationID = urOrganizationID ?r, uEnterpriseID = urEnterpriseID ?r, uRole = null_string (urRole ?r)\<rparr>"
      using assms u' by (simp_all add: scan_user_def scan_string_def v v')
    show "uDisplayName u' = uDisplayName (patched updates u)"
      using v' by (simp add: fields patched_def Let_def assigned_strings v split: option.splits)
    show "uEmail u' = uEmail (patched updates u)"
      by (simp add: fields patched_def Let_def assigned_strings split: option.split)
    show "uUserMetadata u' = uUserMetadata (patched updates u)" "uAppMetadata u' = uAppMetadata (patched updates u)"
      using that
      by (simp_all add: fields patched_def Let_def assigned_metadata updates_survive_def codec_roundtrip split: option.splits)
  qed (use assms u' in \<open>auto simp: scan_user_def scan_string_def v v' patched_def Let_def assigned_rest\<close>)
  with u' show ?thesis by blast
qed

lemma UpdateUser_ok:
  assumes "UpdateUser js uid updates d = (None, d')"
  shows "dbFault d' = dbFault d
    \<and> (\<forall>i. find (\<lambda>r. urID r = i) (dbUsers d') = (if i = uid
         then map_option (fold (\<lambda>f r. f r) (user_assignments js updates)) (find (\<lambda>r. urID r = i) (dbUsers d))
         else find (\<lambda>r. urID r = i) (dbUsers d)))
    \<and> d' = d\<lparr>dbUsers := dbUsers d'\<rparr>"
proof (cases "user_assignments js updates = []")
  case True
  with assms show ?thesis by (simp add: UpdateUser_def option.map_id)
next
  case False
  with assms have upd: "update_users (fold (\<lambda>f r. f r) (user_assignments js updates)) uid d = Inr d'"
    by (auto simp: UpdateUser_def exec_def split: option.splits sum.splits)
  show ?thesis
  proof (cases "find (\<lambda>r. urID r = uid) (dbUsers d)")
    case None
    with upd show ?thesis by (simp add: update_users_def)
  next
    case (Some r)
    with upd have "d' = d\<lparr>dbUsers := map (\<lambda>s. if urID s = uid
        then fold (\<lambda>f r. f r) (user_assignments js updates) s else s) (dbUsers d)\<rparr>"
      by (auto simp: update_users_def split: if_splits)
    then show ?thesis by (simp add: find_map_at assigned_rest(1))
  qed
qed

lemma GetByID_updated:
  assumes "UpdateUser js uid updates d = (None, d')" and "GetByID js uid d = Inr (Some u)"
  shows "\<exists>u'. GetByID js uid d' = Inr (Some u') \<and> (updates_survive js updates \<longrightarrow> u' = patched updates u)"
proof -
  from assms(2) obtain r where r: "dbFault d = None" "find (\<lambda>r. urID r = uid) (dbUsers d) = Some r"
    "scan_user js r = Inr u"
    by (auto simp: GetByID_def query_def split: option.splits sum.splits)
  with UpdateUser_ok [OF assms(1)] scan_assigned [OF r(3), of updates] show ?thesis
    by (auto simp: GetByID_def query_def)
qed

lemma GetByID_other:
  assumes "UpdateUser js uid updates d = (None, d')" and "i \<noteq> uid"
  shows "GetByID js i d' = GetByID js i d"
proof -
  from UpdateUser_ok [OF assms(1)] assms(2)
  have "dbFault d' = dbFault d" "find (\<lambda>r. urID r = i) (dbUsers d') = find (\<lambda>r. urID r = i) (dbUsers d)"
    by simp_all
  then show ?thesis unfolding GetByID_def query_def by (simp cong: option.case_cong)
qed

lemma UpdateClient_found:
  assumes "UpdateClient i updates d = (None, d')" and "GetClientByID i d = Inr (Some c)"
  shows "\<exists>c'. GetClientByID i d' = Inr (Some c')"
proof (cases "client_assignments updates = []")
  case True
  with assms show ?thesis by (simp add: UpdateClient_def)
next
  case False
  from assms(2) obtain r where r: "dbFault d = None" "find (\<lambda>r. crID r = i) (dbClients d) = Some r"
    by (auto simp: GetClientByID_def query_def split: option.splits)
  have "crID (fold (\<lambda>f r. f r) (client_assignments updates) r) = crID r" for r
    by (rule fold_keeps) (rule client_assignments_id)
  with False r assms(1) show ?thesis
    by (auto simp: UpdateClient_def exec_def GetClientByID_def query_def find_map_at scan_client_def)
qed

end
