(* ===== verification/Management_Props.thy ===== *)
theory Management_Props
  imports Management_Flows Db_Updates
begin

text \<open>
  The management API on users that exist: a patch is what is read afterwards, the roles sent are the
  roles the user has, and what a block does.
\<close>

section \<open>Patching a user\<close>

text \<open>C22: A patch answered with 200 returns the user with exactly the fields of the body replaced (the
  email, \<^verbatim>\<open>display_name\<close> before \<^verbatim>\<open>name\<close>, the two kinds of metadata; never the id, the password hash or
  the role), this user is what is read afterwards, and every other user is read as before.\<close>

theorem patched_user_readable:
  assumes "xJsonMap e (rqBody r) = Inr updates" and "rsStatus (fst (handlePatchUser e r rs w)) = 200"
    and "updates_survive (xCodec e) updates" and "uid = last_segment (trim_suffix ''/'' (rqPath r))"
    and "w' = snd (handlePatchUser e r rs w)"
  shows "\<exists>u. GetByID (xCodec e) uid (wDb w) = Inr (Some u)
    \<and> fst (handlePatchUser e r rs w) = sendJSON 200 (userToAuth0Response (patched updates u)) (setRateLimitHeaders rs)
    \<and> GetByID (xCodec e) uid (wDb w') = Inr (Some (patched updates u))
    \<and> (i \<noteq> uid \<longrightarrow> GetByID (xCodec e) i (wDb w') = GetByID (xCodec e) i (wDb w))
    \<and> wDb w' = (wDb w)\<lparr>dbUsers := dbUsers (wDb w')\<rparr>"
proof -
  obtain u where u: "GetByID (xCodec e) uid (wDb w) = Inr (Some u)"
  proof (cases "case GetByID (xCodec e) uid (wDb w) of Inl err \<Rightarrow> None | Inr u \<Rightarrow> u")
    case None
    with assms(2) show ?thesis by (simp add: handlePatchUser_def Let_def assms(4))
  next
    case (Some u)
    then have "GetByID (xCodec e) uid (wDb w) = Inr (Some u)" by (simp split: sum.splits)
    then show ?thesis by (rule that)
  qed
  obtain err d where d: "UpdateUser (xCodec e) uid updates (wDb w) = (err, d)"
    by (cases "UpdateUser (xCodec e) uid updates (wDb w)")
  have err: "err = None"
    using assms(1,2) u d unfolding assms(4) by (cases err) (simp_all add: handlePatchUser_def Let_def)
  from GetByID_updated [OF d [unfolded err] u] assms(3)
  have new: "GetByID (xCodec e) uid d = Inr (Some (patched updates u))" by blast
  have "handlePatchUser e r rs w = (sendJSON 200 (userToAuth0Response (patched updates u)) (setRateLimitHeaders rs),
      audit_change e ''patch'' uid True [] (w\<lparr>wDb := d\<rparr>))"
    using assms(1) u d new unfolding assms(4) err by (simp add: handlePatchUser_def Let_def audit_change_def time_now_def)
  then show ?thesis
    using u new GetByID_other [OF d [unfolded err], of i] UpdateUser_ok [OF d [unfolded err]]
    by (simp add: assms(5) audit_change_def time_now_def)
qed

section \<open>Roles\<close>

text \<open>The role ids in the body, as strings or objects with an id.\<close>

definition named_roles :: "goval list \<Rightarrow> string set" where
  "named_roles vs = role_id_of ` set vs - {[]}"

lemma named_roles_Cons: "named_roles (v # vs) = (if role_id_of v = [] then {} else {role_id_of v}) \<union> named_roles vs"
  by (cases "role_id_of v = []") (simp_all add: named_roles_def insert_Diff_if)

lemma user_role_linked:
  assumes "dbFault d = None"
  shows "dbFault (snd (AssignRoleToUser uid i d)) = None
    \<and> set (dbUserRoles (snd (AssignRoleToUser uid i d))) = insert (uid, i) (set (dbUserRoles d))
    \<and> snd (AssignRoleToUser uid i d) = d\<lparr>dbUserRoles := dbUserRoles (snd (AssignRoleToUser uid i d))\<rparr>"
  using assms by (auto simp: AssignRoleToUser_def exec_def insert_ignore_def list_ex_iff)

lemma user_role_unlinked:
  assumes "dbFault d = None"
  shows "dbFault (snd (RemoveRoleFromUser uid i d)) = None
    \<and> set (dbUserRoles (snd (RemoveRoleFromUser uid i d))) = set (dbUserRoles d) - {(uid, i)}
    \<and> snd (RemoveRoleFromUser uid i d) = d\<lparr>dbUserRoles := dbUserRoles (snd (RemoveRoleFromUser uid i d))\<rparr>"
  using assms by (auto simp: RemoveRoleFromUser_def exec_def)

lemma user_roles_updated:
  "a = b\<lparr>dbUserRoles := x\<rparr> \<Longrightarrow> b = c\<lparr>dbUserRoles := y\<rparr> \<Longrightarrow> a = c\<lparr>dbUserRoles := x\<rparr>"
  by simp

lemma user_roles_only:
  "d' = d\<lparr>dbUserRoles := x\<rparr> \<Longrightarrow>
    dbRoles d' = dbRoles d \<and> dbPermissions d' = dbPermissions d \<and> dbRolePermissions d' = dbRolePermissions d"
  by simp

lemma world_updated: "w' = w\<lparr>wDb := d\<rparr> \<Longrightarrow> d = (wDb w)\<lparr>dbUserRoles := x\<rparr> \<Longrightarrow> w' = w\<lparr>wDb := (wDb w)\<lparr>dbUserRoles := x\<rparr>\<rparr>"
  by simp

text \<open>The loop of the handler, for either statement.\<close>

lemma role_loop:
  assumes "dbFault d = None"
    and "\<And>d i. dbFault d = None \<Longrightarrow> dbFault (g i d) = None \<and> set (dbUserRoles (g i d)) = h i (set (dbUserRoles d))
           \<and> g i d = d\<lparr>dbUserRoles := dbUserRoles (g i d)\<rparr>"
    and "\<And>R. k {} R = R" and "\<And>i I R. k I (h i R) = k (insert i I) R"
  shows "let d' = fold (\<lambda>v d. let i = role_id_of v in if i \<noteq> [] then g i d else d) vs d
    in set (dbUserRoles d') = k (named_roles vs) (set (dbUserRoles d)) \<and> d' = d\<lparr>dbUserRoles := dbUserRoles d'\<rparr>"
  using assms(1)
proof (induction vs arbitrary: d)
  case Nil
  then show ?case by (simp add: named_roles_def assms(3))
next
  case (Cons v vs)
  show ?case
  proof (cases "role_id_of v = []")
    case True
    with Cons.IH [OF Cons.prems] show ?thesis by (simp add: named_roles_Cons)
  next
    case False
    note step = assms(2) [OF Cons.prems, of "role_id_of v"]
    let ?d = "g (role_id_of v) d"
    let ?e = "fold (\<lambda>v d. let i = role_id_of v in if i \<noteq> [] then g i d else d) vs ?d"
    from Cons.IH [of ?d] step have *: "set (dbUserRoles ?e) = k (named_roles vs) (set (dbUserRoles ?d))"
      "?e = ?d\<lparr>dbUserRoles := dbUserRoles ?e\<rparr>"
      by (simp_all add: Let_def)
    have "?e = d\<lparr>dbUserRoles := dbUserRoles ?e\<rparr>"
      by (rule user_roles_updated [OF *(2)]) (use step in blast)
    moreover have "set (dbUserRoles ?e) = k (named_roles (v # vs)) (set (dbUserRoles d))"
      using *(1) step False by (simp add: assms(4) named_roles_Cons)
    ultimately show ?thesis using False by (simp add: Let_def)
  qed
qed

text \<open>The links of the database after a request with these roles.\<close>

definition requested_roles :: "bool \<Rightarrow> string \<Rightarrow> string set \<Rightarrow> (string \<times> string) set \<Rightarrow> (string \<times> string) set" where
  "requested_roles remove uid ids links = (if remove then links - {uid} \<times> ids else links \<union> {uid} \<times> ids)"

lemma requested_loop:
  assumes "dbFault d = None"
  shows "let d' = fold (\<lambda>v d. let i = role_id_of v in if i \<noteq> []
        then (if remove then snd (RemoveRoleFromUser uid i d) else snd (AssignRoleToUser uid i d)) else d) vs d
    in set (dbUserRoles d') = requested_roles remove uid (named_roles vs) (set (dbUserRoles d))
       \<and> d' = d\<lparr>dbUserRoles := dbUserRoles d'\<rparr>"
proof (cases remove)
  case True
  have "let d' = fold (\<lambda>v d. let i = role_id_of v in if i \<noteq> [] then snd (RemoveRoleFromUser uid i d) else d) vs d
    in set (dbUserRoles d') = set (dbUserRoles d) - {uid} \<times> named_roles vs \<and> d' = d\<lparr>dbUserRoles := dbUserRoles d'\<rparr>"
    by (rule role_loop [where h = "\<lambda>i R. R - {(uid, i)}" and k = "\<lambda>I R. R - {uid} \<times> I", OF assms])
      (rule user_role_unlinked, assumption, simp, blast)
  with True show ?thesis by (simp only: requested_roles_def if_True)
next
  case False
  have "let d' = fold (\<lambda>v d. let i = role_id_of v in if i \<noteq> [] then snd (AssignRoleToUser uid i d) else d) vs d
    in set (dbUserRoles d') = set (dbUserRoles d) \<union> {uid} \<times> named_roles vs \<and> d' = d\<lparr>dbUserRoles := dbUserRoles d'\<rparr>"
    by (rule role_loop [where h = "\<lambda>i R. insert (uid, i) R" and k = "\<lambda>I R. R \<union> {uid} \<times> I", OF assms])
      (rule user_role_linked, assumption, simp, blast)
  with False show ?thesis by (simp only: requested_roles_def if_False)
qed

lemma roles_of_user_iff:
  "ro \<in> set (roles_of_user i d) \<longleftrightarrow> ro \<in> set (dbRoles d) \<and> (i, rrID ro) \<in> set (dbUserRoles d)"
  by (auto simp: roles_of_user_def)

lemma perms_of_user_iff:
  "p \<in> set (perms_of_user i d) \<longleftrightarrow> p \<in> set (dbPermissions d)
     \<and> (\<exists>rid. (rid, prID p) \<in> set (dbRolePermissions d) \<and> (i, rid) \<in> set (dbUserRoles d))"
  by (auto simp: perms_of_user_def list_ex_iff)

text \<open>C23: The roles sent to the roles endpoint of a user, as strings or as objects with an id, are the
  roles that user has gained (lost, when the method is DELETE); the roles and permissions read
  afterwards follow, for that user and for all the others, and nothing else of the database changed.\<close>

theorem user_roles_follow:
  assumes "extractUserIDFromPath (rqPath r) ''/roles'' = Some uid" and "uid \<noteq> []"
    and "xJsonMap e (rqBody r) = Inr raw" and "as_arr (map_of raw ''roles'') = Some vs" and "dbFault (wDb w) = None"
    and "(rs', w') = handleUserRolesModify e r (rqPath r) rs w" and "ids = named_roles vs"
  shows "rs' = WriteHeader 204 (setRateLimitHeaders rs)
    \<and> set (dbUserRoles (wDb w')) = (if rqMethod r = ''DELETE'' then set (dbUserRoles (wDb w)) - {uid} \<times> ids
         else set (dbUserRoles (wDb w)) \<union> {uid} \<times> ids)
    \<and> w' = w\<lparr>wDb := (wDb w)\<lparr>dbUserRoles := dbUserRoles (wDb w')\<rparr>\<rparr>
    \<and> (ro \<in> set (roles_of_user i (wDb w')) \<longleftrightarrow>
         (if i = uid \<and> rrID ro \<in> ids then ro \<in> set (dbRoles (wDb w)) \<and> rqMethod r \<noteq> ''DELETE''
          else ro \<in> set (roles_of_user i (wDb w))))
    \<and> (p \<in> set (perms_of_user i (wDb w')) \<longleftrightarrow> p \<in> set (dbPermissions (wDb w))
         \<and> (\<exists>rid. (rid, prID p) \<in> set (dbRolePermissions (wDb w))
              \<and> (if i = uid \<and> rid \<in> ids then rqMethod r \<noteq> ''DELETE'' else (i, rid) \<in> set (dbUserRoles (wDb w)))))"
proof -
  let ?remove = "rqMethod r = ''DELETE''"
  let ?d = "fold (\<lambda>v d. let i = role_id_of v in if i \<noteq> []
        then (if ?remove then snd (RemoveRoleFromUser uid i d) else snd (AssignRoleToUser uid i d)) else d) vs (wDb w)"
  have new: "rs' = WriteHeader 204 (setRateLimitHeaders rs)" "w' = w\<lparr>wDb := ?d\<rparr>"
    using assms(6) by (simp_all add: handleUserRolesModify_def assms(1-4) Let_def)
  then have w': "wDb w' = ?d" by simp
  from requested_loop [OF assms(5), of ?remove uid vs] have d:
    "set (dbUserRoles (wDb w')) = requested_roles ?remove uid ids (set (dbUserRoles (wDb w)))"
    "wDb w' = (wDb w)\<lparr>dbUserRoles := dbUserRoles (wDb w')\<rparr>"
    by (simp_all add: new(2) assms(7) Let_def)
  then have kept: "dbRoles (wDb w') = dbRoles (wDb w)" "dbPermissions (wDb w') = dbPermissions (wDb w)"
    "dbRolePermissions (wDb w') = dbRolePermissions (wDb w)"
    using user_roles_only [OF d(2)] by blast+
  have linked: "(i, rid) \<in> set (dbUserRoles (wDb w')) \<longleftrightarrow>
      (if i = uid \<and> rid \<in> ids then \<not> ?remove else (i, rid) \<in> set (dbUserRoles (wDb w)))" for rid
    by (auto simp: d(1) requested_roles_def)
  show ?thesis
    unfolding roles_of_user_iff perms_of_user_iff linked kept
    using new(1) world_updated [OF new(2) [folded w'] d(2)] d(1) by (simp add: requested_roles_def)
qed

text \<open>A patch of the sample user's name, and the admin role taken away again.\<close>

definition patch_env :: env where
  "patch_env = sample_env\<lparr>xJsonMap := \<lambda>s. if s = ''p'' then Inr [(''name'', GStr ''Ann'')]
     else Inr [(''roles'', GArr [GStr ''rol_admin'', GObj [(''id'', GStr ''rol_x'')]])]\<rparr>"

definition patch_request :: request where
  "patch_request = sample_request\<lparr>rqMethod := ''PATCH'', rqPath := ''/api/v2/users/auth0|1'', rqBody := ''p''\<rparr>"

definition roles_request :: request where
  "roles_request = sample_request\<lparr>rqMethod := ''POST'', rqPath := ''/api/v2/users/auth0|1/roles''\<rparr>"

theorem patched_user_readable_witness:
  "\<exists>u. GetByID sample_codec ''auth0|1'' (wDb (snd (handlePatchUser patch_env patch_request new_response sample_world))) =
      Inr (Some u) \<and> uDisplayName u = ''Ann''"
proof -
  have body: "xJsonMap patch_env (rqBody patch_request) = Inr [(''name'', GStr ''Ann'')]"
    by (simp add: patch_env_def patch_request_def)
  have env: "xCodec patch_env = sample_codec" by (simp add: patch_env_def sample_env_def)
  have surv: "updates_survive (xCodec patch_env) [(''name'', GStr ''Ann'')]"
    by (simp add: updates_survive_def as_obj_def)
  have path: "last_segment (trim_suffix ''/'' (rqPath patch_request)) = ''auth0|1''"
    by (simp add: patch_request_def trim_suffix_def has_suffix_def has_prefix_def last_segment_sample)
  obtain u where u: "GetByID sample_codec ''auth0|1'' (wDb sample_world) = Inr (Some u)"
    by (simp add: GetByID_def query_def created_row_def sample_user_def scan_user_def scan_string_def)
  have ok: "rsStatus (fst (handlePatchUser patch_env patch_request new_response sample_world)) = 200"
  proof -
    obtain d where d: "UpdateUser (xCodec patch_env) ''auth0|1'' [(''name'', GStr ''Ann'')] (wDb sample_world) = (None, d)"
      by (simp add: UpdateUser_def user_assignments_def as_str_def as_obj_def exec_def update_users_def created_row_def
          sample_user_def)
    from GetByID_updated [OF d, of u] u obtain u' where "GetByID (xCodec patch_env) ''auth0|1'' d = Inr (Some u')"
      by (auto simp: env)
    with d u path body show ?thesis
      by (simp add: handlePatchUser_def Let_def env audit_change_def time_now_def)
  qed
  from patched_user_readable [OF body ok surv path [symmetric] refl] show ?thesis
    by (simp add: env patched_def as_str_def) fastforce
qed

theorem user_roles_follow_witness:
  "(''auth0|1'', ''rol_x'') \<in> set (dbUserRoles (wDb (snd
      (handleUserRolesModify patch_env roles_request (rqPath roles_request) new_response sample_world))))"
proof -
  obtain rs' w' where h: "(rs', w') = handleUserRolesModify patch_env roles_request (rqPath roles_request) new_response sample_world"
    by (metis surj_pair)
  have uid: "extractUserIDFromPath (rqPath roles_request) ''/roles'' = Some ''auth0|1''"
    by (simp add: roles_request_def extractUserIDFromPath_def trim_suffix_def has_suffix_def)
  have raw: "xJsonMap patch_env (rqBody roles_request) = Inr [(''roles'', GArr [GStr ''rol_admin'', GObj [(''id'', GStr ''rol_x'')]])]"
    by (simp add: patch_env_def roles_request_def sample_request_def)
  have vs: "as_arr (map_of [(''roles'', GArr [GStr ''rol_admin'', GObj [(''id'', GStr ''rol_x'')]])] ''roles'') =
      Some [GStr ''rol_admin'', GObj [(''id'', GStr ''rol_x'')]]"
    by (simp add: as_arr_def)
  have "rqMethod roles_request \<noteq> ''DELETE''" by (simp add: roles_request_def)
  with user_roles_follow [OF uid _ raw vs _ h refl] h [symmetric] show ?thesis
    by (simp add: named_roles_def role_id_of_def as_str_def str_or_empty_def)
qed

section \<open>Blocks\<close>

lemma block_answered:
  assumes "rqMethod r = ''POST''" and "rsStatus (fst (handleUserBlocksModify r path rs w)) = 204"
  shows "blocks_user path \<noteq> [] \<and> snd (handleUserBlocksModify r path rs w) = w\<lparr>wDb := (wDb w)\<lparr>dbUserBlocks :=
      filter (\<lambda>u. u \<noteq> blocks_user path) (dbUserBlocks (wDb w)) @ [blocks_user path]\<rparr>\<rparr> \<and> dbFault (wDb w) = None"
proof (cases "blocks_user path = []")
  case True
  with assms(2) show ?thesis by (simp add: handleUserBlocksModify_def)
next
  case False
  with assms show ?thesis
    by (cases "dbFault (wDb w)") (simp_all add: handleUserBlocksModify_def Let_def BlockUser_def exec_def)
qed

lemma lookups_ignore_blocks [simp]:
  "GetByEmail js em (d\<lparr>dbUserBlocks := b\<rparr>) = GetByEmail js em d"
  "GetByID js i (d\<lparr>dbUserBlocks := b\<rparr>) = GetByID js i d"
  by (simp_all add: GetByEmail_def GetByID_def query_def cong: option.case_cong)

lemma add_id_token_db:
  "add_id_token e h sub aud cid sc em nm opts resp (w\<lparr>wDb := d\<rparr>) =
    (let (resp, w) = add_id_token e h sub aud cid sc em nm opts resp w in (resp, w\<lparr>wDb := d\<rparr>))"
  by (simp add: add_id_token_def issue_id_def time_now_def Let_def split: sum.split)

lemma add_refresh_token_db:
  "fst (add_refresh_token e uid cid sc sid resp (w\<lparr>wDb := d\<rparr>)) = fst (add_refresh_token e uid cid sc sid resp w)"
  by (cases "wGrants w") (simp_all add: add_refresh_token_def new_uuid_def Let_def)

lemma password_grant_db:
  assumes "GetByEmail (xCodec e) un d = GetByEmail (xCodec e) un (wDb w)"
  shows "fst (handlePasswordGrant e h un pw cid sc aud rs (w\<lparr>wDb := d\<rparr>)) =
    fst (handlePasswordGrant e h un pw cid sc aud rs w)"
proof -
  have early: "issue_access e h sub a c l cl (w\<lparr>wDb := d\<rparr>) =
      (let (res, w) = issue_access e h sub a c l cl w in (res, w\<lparr>wDb := d\<rparr>))"
    "new_uuid e (w\<lparr>wDb := d\<rparr>) = (let (u, w) = new_uuid e w in (u, w\<lparr>wDb := d\<rparr>))"
    "audit_token e g u c s ds (w\<lparr>wDb := d\<rparr>) = (audit_token e g u c s ds w)\<lparr>wDb := d\<rparr>"
    "count_metric m (w\<lparr>wDb := d\<rparr>) = (count_metric m w)\<lparr>wDb := d\<rparr>" for w sub a c l cl g u s ds m
    by (simp_all add: issue_access_def new_uuid_def audit_token_def count_metric_def time_now_def)
  show ?thesis
  proof (cases "check_credentials e un pw (wDb w)")
    case None
    then show ?thesis
      by (auto simp: handlePasswordGrant_def check_credentials_def assms split: sum.splits option.splits if_splits)
  next
    case (Some u)
    then have u: "GetByEmail (xCodec e) un (wDb w) = Inr (Some u)" "VerifyPassword (xBcrypt e) (uPasswordHash u) pw"
      by (auto simp: check_credentials_def split: sum.splits option.splits if_splits)
    obtain uuid w1 where w1: "new_uuid e w = (uuid, w1)" by (cases "new_uuid e w")
    define a where "a = (if aud = [] then defaultAudience else aud)"
    define a2 where "a2 = (if a = [] \<and> cid \<noteq> [] then cid else a)"
    define ru where "ru = run_rules e h u cid"
    define cl where "cl = mergeClaims (ruAccessTokenClaims ru) (hExtraAccessTokenClaims h)"
    obtain res w2 where w2: "issue_access e h (uID u) a2 cid (accessTokenLifetime h) cl w1 = (res, w2)"
      by (cases "issue_access e h (uID u) a2 cid (accessTokenLifetime h) cl w1")
    have same: "GetByEmail (xCodec e) un (wDb (w\<lparr>wDb := d\<rparr>)) = Inr (Some u)"
      "new_uuid e (w\<lparr>wDb := d\<rparr>) = (uuid, w1\<lparr>wDb := d\<rparr>)"
      "issue_access e h (uID u) a2 cid (accessTokenLifetime h) cl (w1\<lparr>wDb := d\<rparr>) = (res, w2\<lparr>wDb := d\<rparr>)"
      using early(1) [of "uID u" a2 cid "accessTokenLifetime h" cl w1] early(2) [of w] w1 w2 u(1) assms
      by (simp_all only: Let_def prod.case) simp_all
    show ?thesis
      unfolding handlePasswordGrant_def Let_def ru_def [symmetric] a_def [symmetric] a2_def [symmetric]
        cl_def [symmetric] same u(1) w1 w2 prod.case sum.case option.case
      by (cases res) (simp_all add: u(2) early add_id_token_db add_refresh_token_db split_beta)
  qed
qed

text \<open>C39: A block has no effect but on the report of blocks: after a block that was answered with 204
  the user is reported as blocked, and yet the password grant answers any request as it did before,
  the same credentials prove the same users, and a session cookie stands for the same user.\<close>

theorem block_has_no_effect:
  assumes "rqMethod r = ''POST''" and "rsStatus (fst (handleUserBlocksModify r path rs w)) = 204"
    and "w' = snd (handleUserBlocksModify r path rs w)"
  shows "fst (handleGetUserBlocks path rs1 w') = sendJSON 200 (GArr
        [GObj [(''blocked_for'', GArr []), (''identifier'', GStr (blocks_user path))]]) (setRateLimitHeaders rs1)
    \<and> fst (handlePasswordGrant e h un pw cid sc aud rs2 w') = fst (handlePasswordGrant e h un pw cid sc aud rs2 w)
    \<and> authenticated e r2 (wDb w') = authenticated e r2 (wDb w) \<and> requester e r2 w' = requester e r2 w"
proof -
  note new = block_answered [OF assms(1,2), folded assms(3)]
  from new obtain b where w': "w' = w\<lparr>wDb := (wDb w)\<lparr>dbUserBlocks := b\<rparr>\<rparr>" by blast
  have "fst (handleGetUserBlocks path rs1 w') = sendJSON 200 (GArr
      [GObj [(''blocked_for'', GArr []), (''identifier'', GStr (blocks_user path))]]) (setRateLimitHeaders rs1)"
    using new by (simp add: handleGetUserBlocks_def IsUserBlocked_def query_def Let_def)
  moreover have "fst (session_user e r2 w') = fst (session_user e r2 w)"
    by (simp add: w' session_user_def time_now_def Let_def split_beta split: option.split sum.split)
  moreover have "check_credentials e un2 pw2 (wDb w') = check_credentials e un2 pw2 (wDb w)" for un2 pw2
    by (simp add: w' check_credentials_def)
  ultimately show ?thesis
    by (simp add: requester_def authenticated_def) (simp add: w' password_grant_db)
qed

theorem block_has_no_effect_witness:
  "let w1 = snd (handleUserBlocksModify (sample_request\<lparr>rqMethod := ''POST''\<rparr>) ''/api/v2/users/auth0|1/blocks''
        new_response sample_world)
   in fst (handlePasswordGrant sample_env sample_handlers ''a@x'' ''pw'' [] [] [] new_response w1) =
      fst (handlePasswordGrant sample_env sample_handlers ''a@x'' ''pw'' [] [] [] new_response sample_world)"
proof -
  let ?r = "sample_request\<lparr>rqMethod := ''POST''\<rparr>" and ?path = "''/api/v2/users/auth0|1/blocks''"
  have post: "rqMethod ?r = ''POST''" by simp
  have "blocks_user ?path = ''auth0|1''"
    by (simp add: blocks_user_def extractIDFromPath_def trim_suffix_def trim_prefix_def has_suffix_def has_prefix_def)
  then have ok: "rsStatus (fst (handleUserBlocksModify ?r ?path new_response sample_world)) = 204"
    by (simp add: handleUserBlocksModify_def Let_def BlockUser_def exec_def WriteHeader_def)
  from block_has_no_effect [OF post ok refl] show ?thesis by (simp add: Let_def)
qed

end
