(* ===== verification/Panics.thy ===== *)
theory Panics
  imports Server_Props Db_Updates
begin

text \<open>
  Where the server can panic at run time: the model has a branch \<open>panicked\<close> for every dereference of
  a pointer that may be nil and every index that may be out of range. Most of them cannot be reached.
\<close>

section \<open>Handlers that answer\<close>

definition calm :: "response \<times> world \<Rightarrow> bool" where
  "calm p \<longleftrightarrow> rsBody (fst p) \<noteq> Panicked"

named_theorems calm_rules \<open>the ways a handler is put together\<close>

lemma calm_final [calm_rules]:
  "calm (sendJSON n v rs, w)" "calm (http_error m n rs, w)" "calm (http_redirect u rs, w)"
  "calm (send_html p rs, w)" "calm (rs\<lparr>rsBody := JsonDoc v\<rparr>, w)" "calm (rs\<lparr>rsBody := MetricsPage ms\<rparr>, w)"
  by (simp_all add: calm_def sendJSON_def http_error_def http_redirect_def send_html_def Let_def)

lemma calm_let [calm_rules]: "calm (f v) \<Longrightarrow> calm (let x = v in f x)"
  by simp

lemma calm_if [calm_rules]: "(c \<Longrightarrow> calm p) \<Longrightarrow> (\<not> c \<Longrightarrow> calm q) \<Longrightarrow> calm (if c then p else q)"
  by simp

lemma calm_prod [calm_rules]: "(\<And>a b. p = (a, b) \<Longrightarrow> calm (f a b)) \<Longrightarrow> calm (case p of (a, b) \<Rightarrow> f a b)"
  by (cases p) simp

lemma calm_option [calm_rules]:
  "(x = None \<Longrightarrow> calm p) \<Longrightarrow> (\<And>a. x = Some a \<Longrightarrow> calm (f a)) \<Longrightarrow> calm (case x of None \<Rightarrow> p | Some a \<Rightarrow> f a)"
  by (cases x) simp_all

lemma calm_sum [calm_rules]:
  "(\<And>a. x = Inl a \<Longrightarrow> calm (f a)) \<Longrightarrow> (\<And>a. x = Inr a \<Longrightarrow> calm (g a)) \<Longrightarrow> calm (case x of Inl a \<Rightarrow> f a | Inr a \<Rightarrow> g a)"
  by (cases x) simp_all

text \<open>A reply without a body of its own is as calm as the response was before.\<close>

lemma calm_WriteHeader: "rsBody rs \<noteq> Panicked \<Longrightarrow> calm (WriteHeader n rs, w)"
  by (simp add: calm_def WriteHeader_def)

lemma rate_limit_body [simp]: "rsBody (setRateLimitHeaders rs) = rsBody rs"
  by (simp add: setRateLimitHeaders_def Let_def set_header_def)

lemma calm_WriteHeader_limit: "rsBody rs \<noteq> Panicked \<Longrightarrow> calm (WriteHeader n (setRateLimitHeaders rs), w)"
  by (simp add: calm_WriteHeader)

section \<open>The token endpoint\<close>

lemma calm_token_endpoint:
  "calm (handleClientCredentials e h cid rs w)"
  "calm (handlePasswordGrant e h un pw cid sc aud rs w)"
  "calm (handleRefreshToken e h tok cid rs w)"
  "calm (handleIntrospect e h r rs w)" "calm (handleDeviceCodeRequest e h r rs w)"
  "calm (handleDeviceAuthorize e r rs w)"
  unfolding handleClientCredentials_def handlePasswordGrant_def handleRefreshToken_def handleIntrospect_def
    handleDeviceCodeRequest_def handleDeviceAuthorize_def
  by (rule calm_rules)+

lemma calm_code_exchange: "calm (handleAuthorizationCode e h code ru cid cs cv rs w)"
  unfolding handleAuthorizationCode_def code_tokens_def replay_reply_def
  by (rule calm_rules)+

lemma calm_device_exchange: "calm (handleDeviceCodeToken e h dc rs w)"
  unfolding handleDeviceCodeToken_def device_tokens_def
  by (rule calm_rules)+

lemma calm_handleToken: "calm (handleToken e h r rs w)"
  unfolding handleToken_def
  by (rule calm_rules calm_token_endpoint calm_code_exchange calm_device_exchange)+

lemma calm_handleRevoke: "rsBody rs \<noteq> Panicked \<Longrightarrow> calm (handleRevoke e r rs w)"
  unfolding handleRevoke_def by (rule calm_rules calm_WriteHeader | assumption)+

section \<open>The pages\<close>

lemma calm_pages:
  "calm (handleAuthorize e h r rs w)" "calm (handleLoginCallback h r rs w)" "calm (handleLogout e r rs w)"
  unfolding handleAuthorize_def authorize_code_def handleImplicitAuthorize_def issue_code_def
    handleLoginCallback_def handleLogout_def
  by (rule calm_rules)+

text \<open>The login form is calm unless a user with the right password sends it with a redirect URI that
  does not parse.\<close>

definition fatal_login :: "env \<Rightarrow> request \<Rightarrow> world \<Rightarrow> bool" where
  "fatal_login e r w \<longleftrightarrow> rqMethod r = ''POST'' \<and> isl (xUrlParse e (getParam r ''redirect_uri''))
     \<and> check_credentials e (FormValue (login_form r) ''username'') (FormValue (login_form r) ''password'') (wDb w) \<noteq> None"

lemma calm_login_answers:
  "calm (login_code e uid ap (Some v) rs w)" "calm (login_implicit e h u ap t i (Some v) rs w)"
  unfolding login_code_def login_implicit_def option.case by (rule calm_rules)+

lemma calm_handleLogin:
  assumes "\<not> fatal_login e r w"
  shows "calm (handleLogin e h r rs w)"
proof (cases "\<exists>v. xUrlParse e (getParam r ''redirect_uri'') = Inr v")
  case True
  then obtain v where v: "xUrlParse e (getParam r ''redirect_uri'') = Inr v" by blast
  show ?thesis unfolding handleLogin_def Let_def v sum.case by (rule calm_rules calm_login_answers)+
next
  case False
  then have "isl (xUrlParse e (getParam r ''redirect_uri''))"
    by (cases "xUrlParse e (getParam r ''redirect_uri'')") simp_all
  with assms have none: "check_credentials e (FormValue (login_form r) ''username'') (FormValue (login_form r) ''password'') (wDb w) = None"
    if "rqMethod r = ''POST''"
    using that by (simp add: fatal_login_def)
  show ?thesis
  proof (cases "rqMethod r = ''POST''")
    case True
    show ?thesis unfolding handleLogin_def Let_def none [OF True] option.case by (rule calm_rules)+
  next
    case False
    then show ?thesis by (simp add: handleLogin_def Let_def calm_final)
  qed
qed

section \<open>The management API\<close>

lemma calm_users:
  "calm (handleListUsers e r rs w)" "calm (handleCreateUserMgmt e r rs w)" "calm (handleGetUser e path rs w)"
  "calm (handleSignup e r rs w)" "calm (handleGetUserBlocks path rs w)"
  unfolding handleListUsers_def handleCreateUserMgmt_def handleGetUser_def handleSignup_def handleGetUserBlocks_def
  by (rule calm_rules)+

lemma calm_without_body:
  assumes "rsBody rs \<noteq> Panicked"
  shows "calm (handleDeleteUser e path rs w)" "calm (handleUserBlocksModify r path rs w)"
    "calm (handleDeleteRole path rs w)"
  unfolding handleDeleteUser_def handleUserBlocksModify_def handleDeleteRole_def
  by (rule calm_rules calm_WriteHeader_limit [OF assms])+

lemma calm_rest:
  "calm (handleHealth rs w)" "calm (handleMetrics rs w)" "calm (handleJWKS h rs w)" "calm (handleUserinfo e h r rs w)"
  "calm (handleTokeninfo e h r rs w)" "calm (handleOpenIDConfig h rs w)"
  "calm (handleListRoles rs w)" "calm (handleCreateRole e r rs w)" "calm (handleGetRole path rs w)"
  "calm (handlePatchRole e r path rs w)" "calm (handleListClients rs w)" "calm (handleGetClient path rs w)"
  "calm (handleListConnections rs w)" "calm (handleGetConnection path rs w)" "calm (handleListLogs r rs w)"
  unfolding handleHealth_def handleMetrics_def handleJWKS_def handleUserinfo_def handleTokeninfo_def
    handleOpenIDConfig_def handleListRoles_def handleCreateRole_def handleGetRole_def handlePatchRole_def
    handleListClients_def handleGetClient_def handleListConnections_def handleGetConnection_def handleListLogs_def
  by (rule calm_rules)+

text \<open>After an update the row is read again, and it is there.\<close>

lemma audit_change_db [simp]: "wDb (audit_change e action uid ok details w) = wDb w"
  by (simp add: audit_change_def time_now_def)

lemma calm_handlePatchUser: "calm (handlePatchUser e r rs w)"
  unfolding handlePatchUser_def Let_def
  by (auto simp: calm_final split: option.split sum.split prod.split dest: GetByID_updated)

lemma calm_handlePatchClient: "calm (handlePatchClient e r path rs w)"
  unfolding handlePatchClient_def Let_def
  by (auto simp: calm_final split: option.split sum.split prod.split dest: UpdateClient_found)

text \<open>The path that names no user: four slashes, the last before \<^verbatim>\<open>roles\<close> or \<^verbatim>\<open>permissions\<close>.\<close>

definition no_user_path :: "string \<Rightarrow> string \<Rightarrow> bool" where
  "no_user_path suf path \<longleftrightarrow> (\<exists>p. CHR ''/'' \<notin> set p \<and> path = p @ ''/api/v2/users'' @ suf)"

lemma length_split_on: "length (split_on c s) = Suc (length (filter (\<lambda>x. x = c) s))"
  by (induction s) (auto split: list.split)

lemma no_slash: "length (filter (\<lambda>x. x = CHR ''/'') s) = 0 \<longleftrightarrow> CHR ''/'' \<notin> set s"
  by (auto simp: filter_empty_conv)

lemma extractUserIDFromPath_panics:
  assumes "contains ''/api/v2/users/'' path" and "path = base @ ''/'' @ word" and "CHR ''/'' \<notin> set word"
  shows "extractUserIDFromPath path (''/'' @ word) = None \<longleftrightarrow> no_user_path (''/'' @ word) path"
proof -
  let ?n = "\<lambda>s. length (filter (\<lambda>x. x = CHR ''/'') s)"
  from assms(1) obtain p q where pq: "path = p @ ''/api/v2/users/'' @ q"
    by (auto simp: contains_iff sublist_def)
  have "extractUserIDFromPath path (''/'' @ word) = None \<longleftrightarrow> length (split_on (CHR ''/'') base) = 4"
    using trim_suffix_append [of "''/'' @ word" base] by (auto simp: extractUserIDFromPath_def Let_def assms(2))
  also have "\<dots> \<longleftrightarrow> ?n path = 4" using assms(3) by (simp add: length_split_on assms(2) no_slash [symmetric])
  also have "\<dots> \<longleftrightarrow> ?n p = 0 \<and> ?n q = 0" by (simp add: pq)
  also have "\<dots> \<longleftrightarrow> no_user_path (''/'' @ word) path"
  proof
    assume "?n p = 0 \<and> ?n q = 0"
    then have slash: "CHR ''/'' \<notin> set p" "CHR ''/'' \<notin> set q" unfolding no_slash by blast+
    have "q = word"
      using arg_cong [OF pq, of "\<lambda>s. takeWhile (\<lambda>c. c \<noteq> CHR ''/'') (rev s)"] slash assms(3)
      by (auto simp: assms(2) takeWhile_append split: if_splits)
    with slash pq show "no_user_path (''/'' @ word) path" by (auto simp: no_user_path_def)
  next
    assume "no_user_path (''/'' @ word) path"
    then have "?n path = 4" using assms(3) by (auto simp: no_user_path_def no_slash [symmetric])
    then show "?n p = 0 \<and> ?n q = 0" by (simp add: pq)
  qed
  finally show ?thesis .
qed

lemma no_user_path_absolute:
  assumes "has_prefix ''/'' path" and "no_user_path suf (trim_suffix ''/'' path)"
  shows "trim_suffix ''/'' path = ''/api/v2/users'' @ suf"
proof -
  obtain p where p: "CHR ''/'' \<notin> set p" "trim_suffix ''/'' path = p @ ''/api/v2/users'' @ suf"
    using assms(2) by (auto simp: no_user_path_def)
  obtain s where s: "path = ''/'' @ s" using assms(1) by (auto simp: has_prefix_iff)
  have "p = []"
  proof (cases p)
    case (Cons c q)
    with p(2) have "take 1 path = [c]"
      by (auto simp: trim_suffix_def has_suffix_iff split: if_splits)
    with s p(1) Cons show ?thesis by simp
  qed
  with p(2) show ?thesis by simp
qed

lemma calm_user_roles:
  "extractUserIDFromPath path ''/roles'' \<noteq> None \<Longrightarrow> calm (handleGetUserRoles e path rs w)"
  "extractUserIDFromPath path ''/permissions'' \<noteq> None \<Longrightarrow> calm (handleGetUserPermissions e path rs w)"
  unfolding handleGetUserRoles_def handleGetUserPermissions_def
  by (rule calm_rules | erule notE, assumption)+

lemma calm_handleUserRolesModify:
  "extractUserIDFromPath path ''/roles'' \<noteq> None \<Longrightarrow> rsBody rs \<noteq> Panicked \<Longrightarrow> calm (handleUserRolesModify e r path rs w)"
  unfolding handleUserRolesModify_def
  by (rule calm_rules calm_WriteHeader_limit | assumption | erule notE, assumption)+

lemma cors_body: "rsBody (corsHeaders new_response) \<noteq> Panicked"
  by (simp add: corsHeaders_def Let_def set_header_def new_response_def)

section \<open>The server\<close>

definition login_route :: "request \<Rightarrow> bool" where
  "login_route r \<longleftrightarrow> trim_suffix ''/'' (rqPath r) \<in> {''/login'', ''/u/login'', ''/usernamepassword/login''}"

definition fatal_path :: "request \<Rightarrow> bool" where
  "fatal_path r \<longleftrightarrow>
     rqMethod r \<in> {''GET'', ''POST'', ''DELETE''} \<and> trim_suffix ''/'' (rqPath r) = ''/api/v2/users/roles''
     \<or> rqMethod r = ''GET'' \<and> trim_suffix ''/'' (rqPath r) = ''/api/v2/users/permissions''"

lemma roles_path_named:
  assumes "has_prefix ''/'' (rqPath r)" and "\<not> fatal_path r"
    and "contains ''/api/v2/users/'' (trim_suffix ''/'' (rqPath r))"
  shows "rqMethod r \<in> {''GET'', ''POST'', ''DELETE''} \<Longrightarrow> has_suffix ''/roles'' (trim_suffix ''/'' (rqPath r)) \<Longrightarrow>
      extractUserIDFromPath (trim_suffix ''/'' (rqPath r)) ''/roles'' \<noteq> None"
    and "rqMethod r = ''GET'' \<Longrightarrow> has_suffix ''/permissions'' (trim_suffix ''/'' (rqPath r)) \<Longrightarrow>
      extractUserIDFromPath (trim_suffix ''/'' (rqPath r)) ''/permissions'' \<noteq> None"
proof -
  let ?path = "trim_suffix ''/'' (rqPath r)"
  have named: "extractUserIDFromPath ?path (''/'' @ word) \<noteq> None"
    if "has_suffix (''/'' @ word) ?path" "CHR ''/'' \<notin> set word" "?path \<noteq> ''/api/v2/users/'' @ word" for word
  proof
    assume none: "extractUserIDFromPath ?path (''/'' @ word) = None"
    from that(1) obtain base where "?path = base @ ''/'' @ word" by (auto simp: has_suffix_iff)
    from extractUserIDFromPath_panics [OF assms(3) this that(2)] none
    have "no_user_path (''/'' @ word) ?path" by blast
    from no_user_path_absolute [OF assms(1) this] that(3) show False by simp
  qed
  show "extractUserIDFromPath ?path ''/roles'' \<noteq> None"
    if "rqMethod r \<in> {''GET'', ''POST'', ''DELETE''}" "has_suffix ''/roles'' ?path"
    using named [of "''roles''"] that assms(2) by (auto simp: fatal_path_def)
  show "extractUserIDFromPath ?path ''/permissions'' \<noteq> None"
    if "rqMethod r = ''GET''" "has_suffix ''/permissions'' ?path"
    using named [of "''permissions''"] that assms(2) by (auto simp: fatal_path_def)
qed

lemma user_path_contains: "user_path path \<Longrightarrow> contains ''/api/v2/users/'' path"
  by (auto simp: user_path_def contains_iff has_prefix_iff)

lemma calm_ServeHTTP:
  assumes abs: "has_prefix ''/'' (rqPath r)" and path: "\<not> fatal_path r" and login: "login_route r \<Longrightarrow> \<not> fatal_login e r w"
  shows "calm (ServeHTTP e h r w)"
proof -
  let ?path = "trim_suffix ''/'' (rqPath r)"
  have log: "calm (handleLogin e h r rs w)"
    if "m \<and> ?path = ''/login'' \<or> m \<and> (?path = ''/u/login'' \<or> ?path = ''/usernamepassword/login'')" for rs m
    using that login by (auto simp: login_route_def intro: calm_handleLogin)
  have not_found: "calm (rs\<lparr>rsStatus := 404, rsBody := NotFoundPage\<rparr>, w)" for rs by (simp add: calm_def)
  note named = roles_path_named [OF abs path]
  have modify: "calm (handleUserRolesModify e r ?path (corsHeaders new_response) w)"
    if "(rqMethod r = ''DELETE'' \<or> rqMethod r = ''POST'') \<and> contains ''/api/v2/users/'' ?path \<and> has_suffix ''/roles'' ?path"
    using that named(1) by (intro calm_handleUserRolesModify cors_body) auto
  have roles: "calm (handleGetUserRoles e ?path (corsHeaders new_response) w)"
    if "rqMethod r = ''GET'' \<and> user_path ?path \<and> has_suffix ''/roles'' ?path"
    using that named(1) by (intro calm_user_roles) (auto dest: user_path_contains)
  have perms: "calm (handleGetUserPermissions e ?path (corsHeaders new_response) w)"
    if "rqMethod r = ''GET'' \<and> user_path ?path \<and> has_suffix ''/permissions'' ?path"
    using that named(2) by (intro calm_user_roles) (auto dest: user_path_contains)
  show ?thesis
    unfolding ServeHTTP_def Let_def handleUniversalLogin_def
    by (rule calm_if calm_WriteHeader [OF cors_body] calm_rest calm_pages calm_handleToken calm_handleRevoke [OF cors_body]
        calm_token_endpoint calm_users calm_without_body [OF cors_body] calm_handlePatchUser calm_handlePatchClient
        not_found
      | rule modify roles perms, assumption | rule log, rule disjI1, assumption | rule log, rule disjI2, assumption)+
qed

text \<open>The other direction: on these paths the handlers read the fifth part of a path of four.\<close>

lemma fatal_path_panics:
  assumes "fatal_path r"
  shows "\<not> calm (ServeHTTP e h r w)"
proof -
  have none: "extractUserIDFromPath ''/api/v2/users/roles'' ''/roles'' = None"
    "extractUserIDFromPath ''/api/v2/users/permissions'' ''/permissions'' = None"
    by (simp_all add: extractUserIDFromPath_def trim_suffix_def has_suffix_def has_prefix_def)
  from assms consider (roles) "trim_suffix ''/'' (rqPath r) = ''/api/v2/users/roles''" "rqMethod r = ''GET''"
    | (modify) "trim_suffix ''/'' (rqPath r) = ''/api/v2/users/roles''" "rqMethod r = ''POST'' \<or> rqMethod r = ''DELETE''"
    | (permissions) "trim_suffix ''/'' (rqPath r) = ''/api/v2/users/permissions''" "rqMethod r = ''GET''"
    by (auto simp: fatal_path_def)
  then show ?thesis
  proof cases
    case roles
    then show ?thesis
      by (simp add: ServeHTTP_def Let_def user_path_def plain_user_path_def has_prefix_def has_suffix_def
          handleGetUserRoles_def none calm_def panicked_def)
  next
    case modify
    then show ?thesis
      by (auto simp: ServeHTTP_def Let_def user_path_def plain_user_path_def has_prefix_def has_suffix_def
          handleUserRolesModify_def none calm_def panicked_def)
  next
    case permissions
    then show ?thesis
      by (simp add: ServeHTTP_def Let_def user_path_def plain_user_path_def has_prefix_def has_suffix_def
          handleGetUserPermissions_def none calm_def panicked_def)
  qed
qed

text \<open>C15: Panics: apart from a login with the right password and a redirect URI that does not parse, a
  request panics exactly when it asks for the roles or the permissions of no user; no other request,
  in no state of the server, reaches a nil pointer or an index out of range.\<close>

theorem server_panics_only:
  assumes "has_prefix ''/'' (rqPath r)" and "login_route r \<longrightarrow> \<not> fatal_login e r w"
  shows "rsBody (fst (ServeHTTP e h r w)) = Panicked \<longleftrightarrow> fatal_path r"
  using calm_ServeHTTP [OF assms(1)] assms(2) fatal_path_panics by (auto simp: calm_def)

theorem server_panics_only_witness:
  "rsBody (fst (ServeHTTP sample_env sample_handlers
      (sample_request\<lparr>rqMethod := ''DELETE'', rqPath := ''/api/v2/users/roles/''\<rparr>) sample_world)) = Panicked
   \<and> rsBody (fst (ServeHTTP sample_env sample_handlers (sample_request\<lparr>rqPath := ''/api/v2/users/1/roles''\<rparr>) sample_world))
       \<noteq> Panicked"
proof -
  let ?bad = "sample_request\<lparr>rqMethod := ''DELETE'', rqPath := ''/api/v2/users/roles/''\<rparr>"
    and ?good = "sample_request\<lparr>rqPath := ''/api/v2/users/1/roles''\<rparr>"
  have bad: "has_prefix ''/'' (rqPath ?bad)" "login_route ?bad \<longrightarrow> \<not> fatal_login sample_env ?bad sample_world" "fatal_path ?bad"
    and good: "has_prefix ''/'' (rqPath ?good)" "login_route ?good \<longrightarrow> \<not> fatal_login sample_env ?good sample_world"
      "\<not> fatal_path ?good"
    by (simp_all add: login_route_def fatal_path_def trim_suffix_def has_suffix_def has_prefix_def)
  from server_panics_only [OF bad(1,2)] bad(3) server_panics_only [OF good(1,2)] good(3) show ?thesis by blast
qed

end
