(* ===== verification/Frames.thy ===== *)
theory Frames
  imports Device_Flow
begin

text \<open>
  Invariants of what the stores do not hold, the replay cache, the audit trail and the counters,
  through all the handlers: one contract, and one rule per construct of a handler.
\<close>

named_theorems frame_rules \<open>the ways a handler goes on\<close>
named_theorems frame_steps \<open>the calls that return a result and the next state\<close>

text \<open>
  \<open>I\<close> may speak of the replay cache, the trail and the counters: it does not care about anything else,
  it survives a logged event and a counted metric, and a reply remembered for a code, provided the
  reply is a token response with whatever further tokens were added (\<open>okV\<close>).
\<close>

locale request_invariant =
  fixes I :: "world \<Rightarrow> bool"
    and okV :: "dict \<Rightarrow> bool"
    and h :: handlers
  assumes stores: "I w \<Longrightarrow> I (w\<lparr>wGrants := g\<rparr>)" "I w \<Longrightarrow> I (w\<lparr>wSessions := s\<rparr>)" "I w \<Longrightarrow> I (w\<lparr>wDb := d\<rparr>)"
    and sources: "I w \<Longrightarrow> I (w\<lparr>wTicks := n\<rparr>)" "I w \<Longrightarrow> I (w\<lparr>wUuids := n\<rparr>)" "I w \<Longrightarrow> I (w\<lparr>wRands := n\<rparr>)"
      "I w \<Longrightarrow> I (w\<lparr>wSids := n\<rparr>)" "I w \<Longrightarrow> I (w\<lparr>wHashes := n\<rparr>)"
    and logged: "I w \<Longrightarrow> I (w\<lparr>wAudit := Log now ev (wAudit w)\<rparr>)"
    and counted: "I w \<Longrightarrow> I (count_metric m w)"
    and remembered: "I w \<Longrightarrow> okV resp \<Longrightarrow> I (w\<lparr>wReplay := sweep P (AList.update code (GObj resp, t) (wReplay w))\<rparr>)"
    and response: "okV (token_response tok (accessTokenLifetime h))"
    and with_id_token: "okV resp \<Longrightarrow> okV (AList.update ''id_token'' (GStr tok) resp)"
    and with_refresh_token: "okV resp \<Longrightarrow> okV (AList.update ''refresh_token'' (GStr tok) resp)"
begin

lemmas laws = stores sources counted

definition holds :: "'a \<times> world \<Rightarrow> bool" where
  "holds p \<longleftrightarrow> I (snd p)"

lemma holds_pair [frame_rules]: "I w \<Longrightarrow> holds (rs, w)"
  by (simp add: holds_def)

lemma holds_let [frame_rules]: "holds (f v) \<Longrightarrow> holds (let x = v in f x)"
  by simp

lemma holds_if [frame_rules]: "(c \<Longrightarrow> holds p) \<Longrightarrow> (\<not> c \<Longrightarrow> holds q) \<Longrightarrow> holds (if c then p else q)"
  by simp

lemma holds_prod [frame_rules]: "(\<And>a b. p = (a, b) \<Longrightarrow> holds (f a b)) \<Longrightarrow> holds (case p of (a, b) \<Rightarrow> f a b)"
  by (cases p) simp

lemma holds_option [frame_rules]:
  "(x = None \<Longrightarrow> holds p) \<Longrightarrow> (\<And>a. x = Some a \<Longrightarrow> holds (f a)) \<Longrightarrow>
   holds (case x of None \<Rightarrow> p | Some a \<Rightarrow> f a)"
  by (cases x) simp_all

lemma holds_sum [frame_rules]:
  "(\<And>a. x = Inl a \<Longrightarrow> holds (f a)) \<Longrightarrow> (\<And>a. x = Inr a \<Longrightarrow> holds (g a)) \<Longrightarrow>
   holds (case x of Inl a \<Rightarrow> f a | Inr a \<Rightarrow> g a)"
  by (cases x) simp_all

text \<open>The state after a call that has no result of its own.\<close>

lemma logged_at: "I w \<Longrightarrow> I (w\<lparr>wTicks := n, wAudit := Log now ev (wAudit w)\<rparr>)"
  using logged [of "w\<lparr>wTicks := n\<rparr>" now ev] by (simp add: laws)

lemma holds_updates [frame_rules]:
  assumes "I w"
  shows "I (w\<lparr>wDb := d\<rparr>)" and "I (w\<lparr>wSessions := s\<rparr>)" and "I (w\<lparr>wGrants := g\<rparr>)"
    and "I (count_metric m w)" and "I (audit_token e gr u c b ds w)" and "I (audit_login e u em c b ds w)"
    and "I (audit_signup e u em ds w)" and "I (audit_change e ac u b ds w)" and "I (save_code e code c2 w)"
    and "I (save_refresh e tok rg w)" and "I (save_device e dc uc d2 w)"
  using assms
  by (auto simp: audit_login_def audit_signup_def audit_change_def audit_token_def save_code_def save_device_def
      save_refresh_def LogLogin_def LogSignup_def LogToken_def LogUserChange_def time_now_def intro: laws logged_at
      split: option.split)

lemma holds_world [frame_rules]:
  "I w \<Longrightarrow> (\<And>a. x = Some a \<Longrightarrow> I (f a)) \<Longrightarrow>
   I (case x of None \<Rightarrow> w | Some a \<Rightarrow> f a)"
  "I w1 \<Longrightarrow> I w2 \<Longrightarrow> I (if c then w1 else w2)"
  "I (f2 v) \<Longrightarrow> I (let x = v in f2 x)"
  "(\<And>a b. p = (a, b) \<Longrightarrow> I (f3 a b)) \<Longrightarrow> I (case p of (a, b) \<Rightarrow> f3 a b)"
  by (simp_all split: option.split prod.split)

text \<open>The state a call returns next to its result.\<close>

lemma holds_calls [frame_steps]:
  "time_now e w = (t, w') \<Longrightarrow> I w \<Longrightarrow> I w'"
  "new_uuid e w = (u, w') \<Longrightarrow> I w \<Longrightarrow> I w'"
  "(if b then (let (uuid, w) = new_uuid e w in (f uuid, w)) else (sid, w)) = (x, w') \<Longrightarrow> I w \<Longrightarrow> I w'"
  "issue_access e h2 s a c n cl w = (res, w') \<Longrightarrow> I w \<Longrightarrow> I w'"
  "issue_id e h2 s a c n sc em nm op w = (res, w') \<Longrightarrow> I w \<Longrightarrow> I w'"
  "randomUserCode e w = (uc, w') \<Longrightarrow> I w \<Longrightarrow> I w'"
  by (auto simp: time_now_def new_uuid_def issue_access_def issue_id_def randomUserCode_def Let_def intro: laws
      split: if_splits)

lemma holds_token_calls [frame_steps]:
  "add_id_token e h2 s a c sc em nm op resp w = (resp', w') \<Longrightarrow> I w \<Longrightarrow> I w'"
  "add_refresh_token e u c sc sd resp w = (resp', w') \<Longrightarrow> I w \<Longrightarrow> I w'"
  by (auto simp: add_id_token_def add_refresh_token_def issue_id_def time_now_def new_uuid_def Let_def
      intro: laws holds_updates split: if_splits sum.splits)

lemma holds_session_calls [frame_steps]:
  "start_session e u rs w = (rs', w') \<Longrightarrow> I w \<Longrightarrow> I w'"
  "session_user e r w = (u2, w') \<Longrightarrow> I w \<Longrightarrow> I w'"
  "(if b then session_user e r w else (None, w)) = (u2, w') \<Longrightarrow> I w \<Longrightarrow> I w'"
  by (auto simp: start_session_def session_user_def time_now_def Let_def intro!: laws
      split: option.splits if_splits sum.splits prod.splits)

text \<open>A pair that carries the state on: the state it carries is typed as well.\<close>

lemma holds_bind:
  "holds p \<Longrightarrow> (\<And>a b. I b \<Longrightarrow> holds (f a b)) \<Longrightarrow> holds (case p of (a, b) \<Rightarrow> f a b)"
  by (cases p) (simp add: holds_def)

lemma holds_issue:
  "I w \<Longrightarrow> holds (issue_access e h2 s a c n cl w)"
  "I w \<Longrightarrow> holds (issue_id e h2 s a c n sc em nm op w)"
  by (simp_all add: holds_def issue_access_def issue_id_def time_now_def laws)

lemma holds_implicit_tokens [frame_steps]:
  assumes "implicit_tokens e h2 u ap wt wi w = (res, w')" and "I w"
  shows "I w'"
proof -
  have "holds (implicit_tokens e h2 u ap wt wi w)"
    unfolding implicit_tokens_def by (rule assms holds_bind holds_issue frame_rules | assumption)+
  with assms show ?thesis by (simp add: holds_def)
qed

lemma holds_create_user:
  "create_user e u pw w = (err, b) \<Longrightarrow> b = (u', w') \<Longrightarrow> I w \<Longrightarrow> I w'"
  by (auto simp: create_user_def Let_def time_now_def intro!: laws split: prod.splits)

lemma holds_handleLogout [frame_rules]: "I w \<Longrightarrow> holds (handleLogout e r rs w)"
  unfolding handleLogout_def by (rule holds_bind frame_rules | assumption)+

section \<open>The handlers\<close>

lemma holds_handlers [frame_rules]:
  assumes "I w"
  shows "holds (handleRevoke e r rs w)" and "holds (handleIntrospect e h r rs w)"
    and "holds (handleDeviceCodeRequest e h r rs w)" and "holds (handleDeviceAuthorize e r rs w)"
    and "holds (handleHealth rs w)" and "holds (handleMetrics rs w)"
    and "holds (handleUserinfo e h r rs w)" and "holds (handleTokeninfo e h r rs w)"
    and "holds (handleJWKS h rs w)" and "holds (handleOpenIDConfig h rs w)" and "holds (handleLoginCallback h r rs w)"
  unfolding handleRevoke_def handleIntrospect_def handleDeviceCodeRequest_def handleDeviceAuthorize_def
    handleHealth_def handleMetrics_def handleUserinfo_def handleTokeninfo_def handleJWKS_def handleOpenIDConfig_def
    handleLoginCallback_def
  by (rule assms frame_rules | erule frame_steps)+

lemma holds_pages [frame_rules]:
  assumes "I w"
  shows "holds (handleAuthorize e h r rs w)" and "holds (handleLogin e h r rs w)"
  unfolding handleAuthorize_def authorize_code_def handleImplicitAuthorize_def issue_code_def
    handleLogin_def login_code_def login_implicit_def
  by (rule assms frame_rules | erule frame_steps)+

lemma holds_management [frame_rules]:
  assumes "I w"
  shows "holds (handleSignup e r rs w)" and "holds (handleCreateUserMgmt e r rs w)"
    and "holds (handleListUsers e r rs w)" and "holds (handleGetUser e path rs w)"
    and "holds (handleDeleteUser e path rs w)" and "holds (handlePatchUser e r rs w)"
    and "holds (handleGetUserBlocks path rs w)" and "holds (handleUserBlocksModify r path rs w)"
    and "holds (handleGetUserRoles e path rs w)" and "holds (handleGetUserPermissions e path rs w)"
    and "holds (handleUserRolesModify e r path rs w)"
  unfolding handleSignup_def handleCreateUserMgmt_def handleListUsers_def handleGetUser_def handleDeleteUser_def
    handlePatchUser_def handleGetUserBlocks_def handleUserBlocksModify_def handleGetUserRoles_def
    handleGetUserPermissions_def handleUserRolesModify_def
  by (rule assms frame_rules | erule holds_create_user, assumption | erule frame_steps)+

lemma holds_rest [frame_rules]:
  assumes "I w"
  shows "holds (handleListRoles rs w)" and "holds (handleCreateRole e r rs w)" and "holds (handleGetRole path rs w)"
    and "holds (handlePatchRole e r path rs w)" and "holds (handleDeleteRole path rs w)"
    and "holds (handleListClients rs w)" and "holds (handleGetClient path rs w)"
    and "holds (handlePatchClient e r path rs w)" and "holds (handleListConnections rs w)"
    and "holds (handleGetConnection path rs w)" and "holds (handleListLogs r rs w)"
  unfolding handleListRoles_def handleCreateRole_def handleGetRole_def handlePatchRole_def handleDeleteRole_def
    handleListClients_def handleGetClient_def handlePatchClient_def handleListConnections_def handleGetConnection_def
    handleListLogs_def
  by (rule assms frame_rules | erule frame_steps)+

section \<open>The token endpoint\<close>

lemma okV_calls [frame_steps]:
  "add_id_token e h2 s a c sc em nm op resp w = (resp', w') \<Longrightarrow> okV resp \<Longrightarrow> okV resp'"
  "add_refresh_token e u c sc sid resp w = (resp', w') \<Longrightarrow> okV resp \<Longrightarrow> okV resp'"
  by (auto simp: add_id_token_def add_refresh_token_def issue_id_def time_now_def new_uuid_def Let_def
      intro: with_id_token with_refresh_token split: if_splits sum.splits)

lemmas plain_response [frame_rules] = response

lemma holds_remember [frame_rules]: "okV resp \<Longrightarrow> I w \<Longrightarrow> I (remember_reply e code (GObj resp) w)"
  using remembered [of "w\<lparr>wTicks := Suc (Suc (wTicks w))\<rparr>"]
  by (simp add: remember_reply_def time_now_def Let_def laws)

lemma holds_grants [frame_rules]:
  assumes "I w"
  shows "holds (handleClientCredentials e h cid rs w)" and "holds (handlePasswordGrant e h un pw cid sc aud rs w)"
    and "holds (handleRefreshToken e h tok cid rs w)" and "holds (handleDeviceCodeToken e h dc rs w)"
    and "holds (handleAuthorizationCode e h code ru cid cs cv rs w)"
  unfolding handleClientCredentials_def handlePasswordGrant_def handleRefreshToken_def handleDeviceCodeToken_def
    device_tokens_def handleAuthorizationCode_def code_tokens_def replay_reply_def
  by (rule assms frame_rules | erule frame_steps)+

lemma holds_handleToken [frame_rules]: "I w \<Longrightarrow> holds (handleToken e h r rs w)"
  unfolding handleToken_def by (rule frame_rules | assumption)+

section \<open>The server\<close>

lemma holds_ServeHTTP: "I w \<Longrightarrow> I (snd (ServeHTTP e h r w))"
proof -
  assume I: "I w"
  have "holds (ServeHTTP e h r w)"
    unfolding ServeHTTP_def handleUniversalLogin_def by (rule I frame_rules)+
  then show ?thesis by (simp add: holds_def)
qed

lemma holds_serve_all: "I w \<Longrightarrow> I (serve_all e h rqs w)"
  unfolding serve_all_def by (induction rqs arbitrary: w) (simp_all add: holds_ServeHTTP)

end

end
