(* ===== verification/Token_Reply.thy ===== *)
theory Token_Reply
  imports Frames
begin

text \<open>
  The type of what \<^verbatim>\<open>POST /oauth/token\<close> answers: a token response or an OAuth error, also when the
  answer comes from the replay cache, whose entries are token responses at any time.
\<close>

section \<open>The two kinds of document\<close>

definition token_reply :: "handlers \<Rightarrow> goval \<Rightarrow> bool" where
  "token_reply h v =
     (case v of
        GObj m \<Rightarrow>
          as_str (map_of m ''access_token'') \<noteq> None \<and> map_of m ''token_type'' = Some (GStr ''Bearer'')
          \<and> map_of m ''expires_in'' = Some (GInt (accessTokenLifetime h))
          \<and> list_all (\<lambda>k. map_of m k = None \<or> as_str (map_of m k) \<noteq> None) [''id_token'', ''refresh_token'']
      | _ \<Rightarrow> False)"

definition error_reply :: "goval \<Rightarrow> bool" where
  "error_reply v = (case v of GObj m \<Rightarrow> as_str (map_of m ''error'') \<noteq> None \<and> map_of m ''access_token'' = None | _ \<Rightarrow> False)"

definition reply_document :: "response \<Rightarrow> goval option" where
  "reply_document rs = (case rsBody rs of JsonLine v \<Rightarrow> Some v | JsonDoc v \<Rightarrow> Some v | _ \<Rightarrow> None)"

text \<open>The response: JSON, of the kind its status says.\<close>

definition reply_typed :: "handlers \<Rightarrow> response \<Rightarrow> bool" where
  "reply_typed h rs =
     (map_of (rsHeaders rs) ''Content-Type'' = Some ''application/json''
      \<and> (case reply_document rs of
           None \<Rightarrow> False
         | Some v \<Rightarrow>
             if rsStatus rs = 200 then token_reply h v
             else (rsStatus rs = 400 \<or> rsStatus rs = 500) \<and> error_reply v))"

definition cache_typed :: "handlers \<Rightarrow> world \<Rightarrow> bool" where
  "cache_typed h w = list_all (\<lambda>(k, (v, t)). token_reply h v) (wReplay w)"

definition typed :: "handlers \<Rightarrow> response \<times> world \<Rightarrow> bool" where
  "typed h p = (reply_typed h (fst p) \<and> cache_typed h (snd p))"

section \<open>The replay cache\<close>

lemma cache_typed_frame:
  "cache_typed h (w\<lparr>wGrants := g\<rparr>) = cache_typed h w" "cache_typed h (w\<lparr>wSessions := s\<rparr>) = cache_typed h w"
  "cache_typed h (w\<lparr>wDb := d\<rparr>) = cache_typed h w" "cache_typed h (w\<lparr>wTicks := n\<rparr>) = cache_typed h w"
  "cache_typed h (w\<lparr>wUuids := n\<rparr>) = cache_typed h w" "cache_typed h (w\<lparr>wRands := n\<rparr>) = cache_typed h w"
  "cache_typed h (w\<lparr>wSids := n\<rparr>) = cache_typed h w" "cache_typed h (w\<lparr>wHashes := n\<rparr>) = cache_typed h w"
  "cache_typed h (w\<lparr>wAudit := t\<rparr>) = cache_typed h w" "cache_typed h (count_metric m w) = cache_typed h w"
  by (simp_all add: cache_typed_def count_metric_def)

lemma token_reply_with:
  "token_reply h (GObj (token_response tok (accessTokenLifetime h)))"
  "token_reply h (GObj resp) \<Longrightarrow> token_reply h (GObj (AList.update ''id_token'' (GStr tok) resp))"
  "token_reply h (GObj resp) \<Longrightarrow> token_reply h (GObj (AList.update ''refresh_token'' (GStr tok) resp))"
  by (auto simp: token_reply_def token_response_def as_str_def update_conv')

lemma cache_typed_put:
  assumes "cache_typed h w" and "token_reply h v"
  shows "cache_typed h (w\<lparr>wReplay := sweep Q (AList.update code (v, t) (wReplay w))\<rparr>)"
proof -
  have "list_all P (sweep Q m)" if "list_all P m" for P and m :: "(string \<times> goval \<times> time) list"
    using that by (auto simp: sweep_def fold_delete_filter list_all_iff)
  moreover have "list_all P (AList.update code (v, t) m)" if "list_all P m" "P (code, v, t)"
    for P and m :: "(string \<times> goval \<times> time) list"
    using that by (induction m) auto
  ultimately show ?thesis using assms by (simp add: cache_typed_def)
qed

interpretation replay: request_invariant "cache_typed h" "\<lambda>resp. token_reply h (GObj resp)" h
  for h
  by unfold_locales (simp_all add: cache_typed_frame cache_typed_put token_reply_with)

section \<open>Rules\<close>

named_theorems typed_rules \<open>the ways a grant is answered\<close>

lemma typed_let [typed_rules]: "typed h (f v) \<Longrightarrow> typed h (let x = v in f x)"
  by simp

lemma typed_if [typed_rules]: "(c \<Longrightarrow> typed h p) \<Longrightarrow> (\<not> c \<Longrightarrow> typed h q) \<Longrightarrow> typed h (if c then p else q)"
  by simp

lemma typed_prod [typed_rules]: "(\<And>a b. p = (a, b) \<Longrightarrow> typed h (f a b)) \<Longrightarrow> typed h (case p of (a, b) \<Rightarrow> f a b)"
  by (cases p) simp

lemma typed_option [typed_rules]:
  "(x = None \<Longrightarrow> typed h p) \<Longrightarrow> (\<And>a. x = Some a \<Longrightarrow> typed h (f a)) \<Longrightarrow> typed h (case x of None \<Rightarrow> p | Some a \<Rightarrow> f a)"
  by (cases x) simp_all

lemma typed_sum [typed_rules]:
  "(\<And>a. x = Inl a \<Longrightarrow> typed h (f a)) \<Longrightarrow> (\<And>a. x = Inr a \<Longrightarrow> typed h (g a)) \<Longrightarrow> typed h (case x of Inl a \<Rightarrow> f a | Inr a \<Rightarrow> g a)"
  by (cases x) simp_all

lemma sent [simp]:
  "rsStatus (sendJSON n v rs) = n" "reply_document (sendJSON n v rs) = Some v"
  "map_of (rsHeaders (sendJSON n v rs)) ''Content-Type'' = Some ''application/json''"
  by (simp_all add: sendJSON_def Let_def WriteHeader_def set_header_def reply_document_def update_conv')

lemma typed_error [typed_rules]:
  "cache_typed h w \<Longrightarrow> typed h (sendJSON 400 (error_json c d) rs, w)"
  "cache_typed h w \<Longrightarrow> typed h (sendJSON 500 server_error rs, w)"
  "cache_typed h w \<Longrightarrow> typed h (sendJSON 400 wrong_password rs, w)"
  "cache_typed h w \<Longrightarrow> typed h (sendJSON 400 (GObj [(''error'', GStr c)]) rs, w)"
  by (simp_all add: typed_def reply_typed_def error_reply_def error_json_def server_error_def wrong_password_def as_str_def)

lemma typed_tokens [typed_rules]:
  "token_reply h (GObj m) \<Longrightarrow> cache_typed h w \<Longrightarrow> typed h (sendJSON 200 (GObj m) rs, w)"
  by (simp add: typed_def reply_typed_def)

lemma replay_typed [typed_rules]:
  assumes "cache_typed h w"
  shows "typed h (replay_reply e code rs w)"
proof -
  have hit: "typed h ((WriteHeader 200 (set_header ''Content-Type'' ''application/json'' rs))\<lparr>rsBody := JsonDoc v\<rparr>, w')"
    if "map_of (wReplay w) code = Some (v, t)" "cache_typed h w'" for v t w'
  proof -
    have "token_reply h v"
      using assms map_of_SomeD [OF that(1)] by (auto simp: cache_typed_def list_all_iff)
    with that(2) show ?thesis
      by (simp add: typed_def reply_typed_def WriteHeader_def set_header_def reply_document_def update_conv')
  qed
  show ?thesis
    unfolding replay_reply_def by (rule assms typed_rules frame_rules | erule hit frame_steps | rule hit, simp)+
qed

section \<open>The grants\<close>

lemma typed_grants [typed_rules]:
  assumes "cache_typed h w"
  shows "typed h (handleClientCredentials e h cid rs w)"
    and "typed h (handlePasswordGrant e h un pw cid sc aud rs w)"
    and "typed h (handleRefreshToken e h tok cid rs w)"
    and "typed h (handleDeviceCodeToken e h dc rs w)"
  unfolding handleClientCredentials_def handlePasswordGrant_def handleRefreshToken_def handleDeviceCodeToken_def device_tokens_def
  by (rule assms typed_rules frame_rules | erule frame_steps)+

lemma typed_code_exchange [typed_rules]:
  assumes "cache_typed h w"
  shows "typed h (code_tokens e h code cid ac rs w)"
    and "typed h (handleAuthorizationCode e h code ru cid cs cv rs w)"
proof -
  have tokens: "typed h (code_tokens e h code cid ac rs w)" if "cache_typed h w" for ac w
    unfolding code_tokens_def by (rule that typed_rules frame_rules | erule frame_steps)+
  show "typed h (code_tokens e h code cid ac rs w)" by (rule tokens) (rule assms)
  have "typed h (sendJSON 400 err rs, w)" if "code_checks e h ac ru cid cs cv = Some err" "cache_typed h w" for err ac w
  proof -
    have "\<exists>c d. err = error_json c d"
      using that(1) by (auto simp: code_checks_def split: if_splits option.splits sum.splits)
    with that(2) show ?thesis by (auto intro: typed_error)
  qed
  note refused = this
  show "typed h (handleAuthorizationCode e h code ru cid cs cv rs w)"
    unfolding handleAuthorizationCode_def
    by (rule assms tokens typed_rules frame_rules | erule frame_steps | erule refused)+
qed

lemma typed_handleToken: "cache_typed h w \<Longrightarrow> typed h (handleToken e h r rs w)"
  unfolding handleToken_def by (rule typed_rules frame_rules | assumption)+

section \<open>The server\<close>

text \<open>C14: The token endpoint is well typed: in any state the server reaches, a POST to \<^verbatim>\<open>/oauth/token\<close> is
  answered with JSON, with status 200 a token response (an access token, the type Bearer, the
  configured lifetime, any further token a string) and otherwise with status 400 or 500 an OAuth
  error without a token; and the replay cache, from which some answers come, holds token responses
  only.\<close>

theorem token_endpoint_typed:
  assumes "main st bc getenv = Inr (h, w0)" and "w = serve_all e h rqs w0"
    and "rqMethod r = ''POST''" and "trim_suffix ''/'' (rqPath r) = ''/oauth/token''"
  shows "reply_typed h (fst (ServeHTTP e h r w)) \<and> cache_typed h w \<and> cache_typed h (snd (ServeHTTP e h r w))"
proof -
  from assms(1) have "wReplay w0 = []" by (auto simp: main_def Let_def split: sum.splits)
  then have "cache_typed h w" unfolding assms(2) by (intro replay.holds_serve_all) (simp add: cache_typed_def)
  moreover have "fst (ServeHTTP e h r w) = fst (handleToken e h r (corsHeaders new_response) w)"
    using assms(3,4) by (simp add: ServeHTTP_def Let_def)
  ultimately show ?thesis
    using typed_handleToken [of h w e r "corsHeaders new_response"] replay.holds_ServeHTTP [of h w e r]
    by (simp add: typed_def)
qed

theorem token_endpoint_typed_witness:
  "\<exists>h w0. main sample_startup sample_bcrypt (\<lambda>_. []) = Inr (h, w0)
     \<and> reply_typed h (fst (ServeHTTP sample_env h (sample_request\<lparr>rqMethod := ''POST'', rqPath := ''/oauth/token/''\<rparr>)
         (serve_all sample_env h [sample_request] w0)))"
proof -
  obtain h w0 where m: "main sample_startup sample_bcrypt (\<lambda>_. []) = Inr (h, w0)"
    using sample_start by blast
  have "trim_suffix ''/'' (rqPath (sample_request\<lparr>rqMethod := ''POST'', rqPath := ''/oauth/token/''\<rparr>)) = ''/oauth/token''"
    by (simp add: trim_suffix_def has_suffix_def has_prefix_def)
  from token_endpoint_typed [OF m refl _ this] m show ?thesis by simp
qed

end
