(* ===== verification/Audit_Flows.thy ===== *)
theory Audit_Flows
  imports Frames Management_Flows
begin

text \<open>
  What the audit log and the counters record: nothing is ever taken back, every attempt at the login
  form is recorded with its outcome, and which of the grants record the tokens they issue.
\<close>

section \<open>Growth\<close>

text \<open>The trail \<open>T\<close> and the counters \<open>M\<close> of some earlier state are still there.\<close>

definition recorded :: "audit_trail \<Rightarrow> metrics \<Rightarrow> world \<Rightarrow> bool" where
  "recorded T M w \<longleftrightarrow> prefix T (wAudit w) \<and> (\<forall>m. metric_value M m \<le> metric_value (wMetrics w) m)"

interpretation recorded: request_invariant "recorded T M" "\<lambda>_. True" h
  for T M h
  by unfold_locales (auto simp: recorded_def count_metric_def Log_def prefix_def intro: le_SucI)

text \<open>Whatever the requests, what has been recorded stays recorded, in front of all that follows, and
  no counter goes down: no handler touches the log but through \<^verbatim>\<open>Log\<close>.\<close>

lemma audit_log_append_only:
  "prefix (wAudit w) (wAudit (serve_all e h rqs w))
   \<and> metric_value (wMetrics w) m \<le> metric_value (wMetrics (serve_all e h rqs w)) m"
  using recorded.holds_serve_all [of "wAudit w" "wMetrics w" w e h rqs] by (simp add: recorded_def)

section \<open>Logins\<close>

text \<open>The events as they are meant to be.\<close>

definition login_event :: "time \<Rightarrow> string \<Rightarrow> string \<Rightarrow> string \<Rightarrow> bool \<Rightarrow> dict \<Rightarrow> event" where
  "login_event t uid em cid success details =
     \<lparr>evTime = t, evType = ''login'', evUserID = uid, evEmail = em, evClientID = cid, evSuccess = success,
      evDetails = details, evIP = [], evUserAgent = []\<rparr>"

definition token_event :: "time \<Rightarrow> string \<Rightarrow> string \<Rightarrow> string \<Rightarrow> event" where
  "token_event t g uid cid =
     \<lparr>evTime = t, evType = ''token'', evUserID = uid, evEmail = [], evClientID = cid, evSuccess = True,
      evDetails = [(''grant_type'', GStr g)], evIP = [], evUserAgent = []\<rparr>"

lemma LogLogin_event: "LogLogin t uid em cid ok ds trail = trail @ [login_event t uid em cid ok ds]"
  by (simp add: LogLogin_def Log_def empty_event_def login_event_def)

lemma LogToken_event: "LogToken t g uid cid True [] trail = trail @ [token_event t g uid cid]"
  by (simp add: LogToken_def Log_def empty_event_def token_event_def mergeMap_def put_all_def)

text \<open>Calls that record nothing.\<close>

lemma silent [simp]:
  "wAudit (save_code e code ac w) = wAudit w" "wMetrics (save_code e code ac w) = wMetrics w"
  "wAudit (save_refresh e tok rg w) = wAudit w" "wMetrics (save_refresh e tok rg w) = wMetrics w"
  "wAudit (snd (start_session e u rs w)) = wAudit w" "wMetrics (snd (start_session e u rs w)) = wMetrics w"
  by (auto simp: save_code_def save_refresh_def start_session_def time_now_def Let_def split_beta
      split: option.split sum.split)

lemma silent_tokens [simp]:
  "wAudit (snd (add_id_token e h s a c sc em nm op resp w)) = wAudit w"
  "wMetrics (snd (add_id_token e h s a c sc em nm op resp w)) = wMetrics w"
  "wAudit (snd (add_refresh_token e u c sc sid resp w)) = wAudit w"
  "wMetrics (snd (add_refresh_token e u c sc sid resp w)) = wMetrics w"
  by (auto simp: add_id_token_def add_refresh_token_def issue_id_def time_now_def new_uuid_def Let_def
      split: sum.split)

lemma silent_implicit [simp]:
  "wAudit (snd (implicit_tokens e h u ap wt wi w)) = wAudit w"
  "wMetrics (snd (implicit_tokens e h u ap wt wi w)) = wMetrics w"
  unfolding implicit_tokens_def Let_def issue_access_def issue_id_def time_now_def prod.case
  by (cases wt; cases wi; simp split: sum.split)+

lemma silent_answers [simp]:
  "wAudit (snd (login_code e uid ap url rs w)) = wAudit w" "wMetrics (snd (login_code e uid ap url rs w)) = wMetrics w"
  "wAudit (snd (login_implicit e h u ap t i url rs w)) = wAudit w"
  "wMetrics (snd (login_implicit e h u ap t i url rs w)) = wMetrics w"
  by (auto simp: login_code_def login_implicit_def new_uuid_def Let_def split_beta split: option.split sum.split)

text \<open>C27: Every attempt at the login form is recorded once, with its outcome: a form with an email and a
  password adds one event and counts one attempt, a success for the user the credentials belong to,
  or else a failure under the email that was typed in; and a form without them records nothing.\<close>

theorem login_attempts_recorded:
  assumes "rqMethod r = ''POST''" and "getParam r ''redirect_uri'' \<noteq> []"
    and "un = FormValue (login_form r) ''username''" and "pw = FormValue (login_form r) ''password''"
    and "w' = snd (handleLogin e h r rs w)" and "now = xClock e (wTicks w)" and "cid = getParam r ''client_id''"
  shows "if un = [] \<or> pw = [] then w' = w
    else case check_credentials e un pw (wDb w) of
      None \<Rightarrow>
        wAudit w' = wAudit w @ [login_event now [] un cid False [(''reason'', GStr ''invalid_credentials'')]]
        \<and> wMetrics w' = Inc (LoginAttempts ''failed'') (wMetrics w)
    | Some u \<Rightarrow>
        wAudit w' = wAudit w @ [login_event now (uID u) (uEmail u) cid True []]
        \<and> wMetrics w' = Inc (LoginAttempts ''success'') (wMetrics w)"
proof (cases "un = [] \<or> pw = []")
  case True
  then show ?thesis using assms by (auto simp: handleLogin_def Let_def)
next
  case False
  note login = assms(5) [unfolded handleLogin_def Let_def assms(3,4) [symmetric]]
  show ?thesis
  proof (cases "check_credentials e un pw (wDb w)")
    case None
    with False login assms(1,2,6,7) show ?thesis
      by (simp add: audit_login_def count_metric_def time_now_def LogLogin_event)
  next
    case (Some u)
    obtain rs2 w2 where start: "start_session e u rs
        (audit_login e (uID u) (uEmail u) cid True [] (count_metric (LoginAttempts ''success'') w)) = (rs2, w2)"
      by (cases "start_session e u rs
        (audit_login e (uID u) (uEmail u) cid True [] (count_metric (LoginAttempts ''success'') w))")
    have "wAudit w2 = wAudit w @ [login_event now (uID u) (uEmail u) cid True []]"
      "wMetrics w2 = Inc (LoginAttempts ''success'') (wMetrics w)"
      using start silent(5,6) [of e u rs "audit_login e (uID u) (uEmail u) cid True []
          (count_metric (LoginAttempts ''success'') w)"]
      by (simp_all add: audit_login_def count_metric_def time_now_def assms(6) LogLogin_event)
    moreover have "wAudit w' = wAudit w2" "wMetrics w' = wMetrics w2"
      using False assms(1,2) unfolding login [unfolded Some option.case assms(7) [symmetric] start prod.case]
      by simp_all
    ultimately show ?thesis using False Some by simp
  qed
qed

theorem login_attempts_recorded_witness:
  "\<exists>u :: user. wAudit (snd (handleLogin sample_env sample_handlers bad_login new_response sample_world)) =
      [login_event 0 (uID u) (uEmail u) [] True []]"
proof -
  have post: "rqMethod bad_login = ''POST''" and url: "getParam bad_login ''redirect_uri'' \<noteq> []"
    by (simp_all add: bad_login_params)
  have cid: "getParam bad_login ''client_id'' = []" by code_simp
  obtain u where "check_credentials sample_env ''a@x'' ''pw'' (wDb sample_world) = Some u"
    using sample_get_user(2) by (auto simp: check_credentials_def VerifyPassword_def sample_bcrypt_def)
  with login_attempts_recorded [OF post url refl refl refl refl refl, of sample_env sample_handlers new_response sample_world]
  have recorded: "wAudit (snd (handleLogin sample_env sample_handlers bad_login new_response sample_world)) =
      wAudit sample_world @ [login_event 0 (uID u) (uEmail u) [] True []]"
    by (simp add: bad_login_params cid)
  have none: "wAudit sample_world = []" by (simp add: sample_world_def)
  from recorded show ?thesis unfolding none append.simps by (rule exI)
qed

section \<open>Tokens\<close>

lemma sent_status [simp]: "rsStatus (sendJSON n v rs) = n"
  by (simp add: sendJSON_def Let_def WriteHeader_def)

lemma silent_calls [simp]:
  "wAudit (snd (issue_access e h s a c n cl w)) = wAudit w" "wAudit (snd (new_uuid e w)) = wAudit w"
  "wAudit (count_metric m w) = wAudit w" "wAudit (remember_reply e code v w) = wAudit w"
  "wAudit (audit_token e g u c True [] w) = wAudit w @ [token_event (xClock e (wTicks w)) g u c]"
  by (simp_all add: LogToken_event issue_access_def new_uuid_def count_metric_def remember_reply_def audit_token_def time_now_def Let_def)

text \<open>\<open>records w x ev\<close>: an exchange answered with 200 adds an event of \<open>ev\<close>, any other nothing.\<close>

definition records :: "world \<Rightarrow> response \<times> world \<Rightarrow> (time \<Rightarrow> event \<Rightarrow> bool) \<Rightarrow> bool" where
  "records w x ev \<longleftrightarrow>
     (if rsStatus (fst x) = 200 then \<exists>t ev'. ev t ev' \<and> wAudit (snd x) = wAudit w @ [ev']
      else wAudit (snd x) = wAudit w)"

lemma records_error: "n \<noteq> 200 \<Longrightarrow> wAudit w' = wAudit w \<Longrightarrow> records w (sendJSON n v rs, w') ev"
  by (simp add: records_def)

lemma records_ok: "ev t ev' \<Longrightarrow> wAudit w' = wAudit w @ [ev'] \<Longrightarrow> records w (sendJSON 200 v rs, w') ev"
  by (auto simp: records_def)

lemma password_recorded:
  "records w (handlePasswordGrant e h un pw cid sc aud rs w)
     (\<lambda>t ev. \<exists>u. GetByEmail (xCodec e) un (wDb w) = Inr (Some u) \<and> ev = token_event t ''password'' (uID u) cid)"
proof (cases "rsStatus (fst (handlePasswordGrant e h un pw cid sc aud rs w)) = 400")
  case True
  then have "handlePasswordGrant e h un pw cid sc aud rs w = (sendJSON 400 wrong_password rs, w)"
    by (auto simp: handlePasswordGrant_def Let_def split_beta split: option.splits sum.splits if_splits)
  then show ?thesis by (simp add: records_error)
next
  case False
  then obtain u where u: "GetByEmail (xCodec e) un (wDb w) = Inr (Some u)" "VerifyPassword (xBcrypt e) (uPasswordHash u) pw"
    "un \<noteq> []" "pw \<noteq> []"
    by (auto simp: handlePasswordGrant_def split: if_splits sum.splits option.splits)
  obtain uuid w1 where w1: "new_uuid e w = (uuid, w1)" by (cases "new_uuid e w")
  define a where "a = (if aud = [] then defaultAudience else aud)"
  define a2 where "a2 = (if a = [] \<and> cid \<noteq> [] then cid else a)"
  define ru where "ru = run_rules e h u cid"
  define cl where "cl = mergeClaims (ruAccessTokenClaims ru) (hExtraAccessTokenClaims h)"
  obtain res w2 where w2: "issue_access e h (uID u) a2 cid (accessTokenLifetime h) cl w1 = (res, w2)"
    by (cases "issue_access e h (uID u) a2 cid (accessTokenLifetime h) cl w1")
  have same: "wAudit w2 = wAudit w"
    using w1 w2 silent_calls(1) [of e h "uID u" a2 cid "accessTokenLifetime h" cl w1] silent_calls(2) [of e w] by simp
  from u(2-4) same show ?thesis
    unfolding handlePasswordGrant_def Let_def ru_def [symmetric] a_def [symmetric] a2_def [symmetric] cl_def [symmetric]
      u(1) w1 w2 prod.case sum.case option.case
    by (cases res) (auto simp: split_beta records_def)
qed

lemma device_unrecorded: "wAudit (snd (handleDeviceCodeToken e h dc rs w)) = wAudit w"
  unfolding handleDeviceCodeToken_def device_tokens_def Let_def time_now_def prod.case
  by (auto simp: split_beta split: option.split sum.split)

lemma client_unrecorded: "wAudit (snd (handleClientCredentials e h cid rs w)) = wAudit w"
  by (simp add: handleClientCredentials_def issue_access_def time_now_def count_metric_def Let_def split: sum.split)

text \<open>The session id of a token comes with the grant or is drawn.\<close>

lemma silent_session_id:
  "(if sid = [] then (let (uuid, w) = new_uuid e w in (f uuid, w)) else (sid, w)) = (x, w1) \<Longrightarrow> wAudit w1 = wAudit w"
  by (auto simp: new_uuid_def split: if_splits)

lemma code_recorded:
  "records w (code_tokens e h code cid ac rs w)
     (\<lambda>t ev. ev = token_event t ''authorization_code'' (acUserID ac) (if cid \<noteq> [] then cid else acClientID ac))"
proof (cases "\<exists>u. GetByID (xCodec e) (acUserID ac) (wDb w) = Inr (Some u)")
  case False
  then have "\<exists>v. code_tokens e h code cid ac rs w = (sendJSON 500 v rs, w)"
    by (auto simp: code_tokens_def Let_def split: sum.split option.split)
  then show ?thesis by (auto simp: records_error)
next
  case True
  then obtain u where u: "GetByID (xCodec e) (acUserID ac) (wDb w) = Inr (Some u)" by blast
  have id: "uID u = acUserID ac" using GetByID_id [OF u] .
  define c where "c = (if cid \<noteq> [] then cid else acClientID ac)"
  define a where "a = (if acAudience ac = [] then defaultAudience else acAudience ac)"
  define a2 where "a2 = (if a = [] \<and> c \<noteq> [] then c else a)"
  define ru where "ru = run_rules e h u c"
  define cl where "cl = mergeClaims (ruAccessTokenClaims ru) (hExtraAccessTokenClaims h)"
  obtain sid w1 where w1: "(if acSessionID ac = [] then (let (uuid, w) = new_uuid e w in (''sid_'' @ uuid, w))
      else (acSessionID ac, w)) = (sid, w1)"
    by fastforce
  obtain res w2 where w2: "issue_access e h (uID u) a2 c (accessTokenLifetime h) cl w1 = (res, w2)"
    by (cases "issue_access e h (uID u) a2 c (accessTokenLifetime h) cl w1")
  have same: "wAudit w2 = wAudit w"
    using silent_session_id [OF w1] w2 silent_calls(1) [of e h "uID u" a2 c "accessTokenLifetime h" cl w1] by simp
  have "code_tokens e h code cid ac rs w = (case res of
      Inl err \<Rightarrow> (sendJSON 500 server_error rs, w2)
    | Inr tok \<Rightarrow>
        (let (resp, w) = add_id_token e h (uID u) a2 c (acScope ac) (ruEmail ru) (rule_display_name ru)
               (no_options\<lparr>optNonce := acNonce ac, optAMR := [''pwd''], optAccessToken := tok, optAuthCode := code,
                  optSessionID := sid, optCustomClaims := dict_of (ruIDTokenClaims ru)\<rparr>)
               (token_response tok (accessTokenLifetime h)) w2;
             (resp, w) = add_refresh_token e (uID u) c (acScope ac) sid resp w;
             w = count_metric (TokenRequests ''authorization_code'' ''success'') w;
             w = audit_token e ''authorization_code'' (uID u) c True [] w;
             w = remember_reply e code (GObj resp) w
         in (sendJSON 200 (GObj resp) rs, w)))"
    unfolding code_tokens_def u Let_def c_def [symmetric] a_def [symmetric] a2_def [symmetric] sum.case option.case
      ru_def [symmetric] cl_def [symmetric] w1 [unfolded Let_def] w2 prod.case ..
  with same id show ?thesis
    unfolding c_def [symmetric] by (cases res) (auto simp: Let_def split_beta records_def)
qed

lemma exchange_recorded:
  fixes e h code ru cid cs cv rs w
  defines "x \<equiv> handleAuthorizationCode e h code ru cid cs cv rs w"
  shows "rsStatus (fst x) \<noteq> 200 \<and> wAudit (snd x) = wAudit w
    \<or> rsStatus (fst x) = 200 \<and> (\<exists>g. wGrants w = Some g
        \<and> (case fst (ConsumeCode (xClock e (wTicks w)) code g) of
             None \<Rightarrow> wAudit (snd x) = wAudit w
           | Some ac \<Rightarrow> \<exists>t. wAudit (snd x) =
               wAudit w @ [token_event t ''authorization_code'' (acUserID ac) (if cid = [] then acClientID ac else cid)]))"
proof (cases "\<exists>g. wGrants w = Some g \<and> code \<noteq> []")
  case False
  then have "\<exists>v. x = (sendJSON 400 v rs, w)" by (auto simp: x_def handleAuthorizationCode_def split: option.split)
  then show ?thesis by auto
next
  case True
  then obtain g where g: "wGrants w = Some g" "code \<noteq> []" by blast
  let ?w = "w\<lparr>wTicks := Suc (wTicks w), wGrants := Some (snd (ConsumeCode (xClock e (wTicks w)) code g))\<rparr>"
  show ?thesis
  proof (cases "fst (ConsumeCode (xClock e (wTicks w)) code g)")
    case None
    with g have x: "x = replay_reply e code rs ?w"
      by (simp add: x_def handleAuthorizationCode_def Let_def split_beta)
    have "wAudit (snd x) = wAudit w"
      by (auto simp: x replay_reply_def Let_def split_beta split: option.split)
    with None g show ?thesis by (cases "rsStatus (fst x) = 200") simp_all
  next
    case (Some ac)
    note x = handleAuthorizationCode_redeemed [OF g Some, of h ru cid cs cv rs, folded x_def, unfolded Let_def]
    show ?thesis
    proof (cases "code_checks e h ac ru cid cs cv")
      case None
      with x have "x = code_tokens e h code cid ac rs ?w" by simp
      with code_recorded [of ?w e h code cid ac rs] have "records ?w x (\<lambda>t ev. ev =
          token_event t ''authorization_code'' (acUserID ac) (if cid = [] then acClientID ac else cid))"
        by (cases "cid = []") simp_all
      with g Some show ?thesis by (cases "rsStatus (fst x) = 200") (auto simp: records_def)
    next
      case (Some err)
      with x show ?thesis by simp
    qed
  qed
qed

lemma refresh_recorded:
  "records w (handleRefreshToken e h tok cid rs w)
     (\<lambda>t ev. \<exists>g rg. wGrants w = Some g \<and> fst (ConsumeRefreshToken (xClock e (wTicks w)) tok g) = Some rg
        \<and> ev = token_event t ''refresh_token'' (rgUserID rg) (rgClientID rg))"
proof (cases "\<exists>g rg. wGrants w = Some g \<and> tok \<noteq> [] \<and> fst (ConsumeRefreshToken (xClock e (wTicks w)) tok g) = Some rg
    \<and> \<not> (cid \<noteq> [] \<and> rgClientID rg \<noteq> cid)")
  case False
  show ?thesis
  proof (cases "wGrants w")
    case None
    then show ?thesis by (simp add: handleRefreshToken_def records_error)
  next
    case (Some g)
    obtain r g' where r: "ConsumeRefreshToken (xClock e (wTicks w)) tok g = (r, g')"
      by (cases "ConsumeRefreshToken (xClock e (wTicks w)) tok g")
    show ?thesis
    proof (cases "tok = [] \<or> r = None")
      case True
      with Some r show ?thesis by (auto simp: handleRefreshToken_def time_now_def records_error)
    next
      case found: False
      then obtain rg where rg: "r = Some rg" by blast
      with False Some r found have c: "(cid \<noteq> [] \<and> rgClientID rg \<noteq> cid) = True" by auto
      from found have tok: "(tok = []) = False" by simp
      show ?thesis
        unfolding handleRefreshToken_def Some Let_def option.case tok if_False time_now_def prod.case r rg c if_True
        by (simp add: records_error)
    qed
  qed
next
  case True
  then obtain g rg0 where g: "wGrants w = Some g" "tok \<noteq> []"
    and live: "fst (ConsumeRefreshToken (xClock e (wTicks w)) tok g) = Some rg0" "\<not> (cid \<noteq> [] \<and> rgClientID rg0 \<noteq> cid)"
    by blast
  obtain r g' where r: "ConsumeRefreshToken (xClock e (wTicks w)) tok g = (r, g')"
    by (cases "ConsumeRefreshToken (xClock e (wTicks w)) tok g")
  with live obtain rg where rg: "r = Some rg" "\<not> (cid \<noteq> [] \<and> rgClientID rg \<noteq> cid)" and same_grant: "rg0 = rg" by auto
  let ?w = "w\<lparr>wTicks := Suc (wTicks w), wGrants := Some g'\<rparr>"
  define a where "a = (if rgClientID rg \<noteq> [] then rgClientID rg else defaultAudience)"
  define cl where "cl = mergeClaims None (hExtraAccessTokenClaims h)"
  obtain sid w1 where w1: "(if rgSessionID rg = [] then (let (uuid, w) = new_uuid e ?w in (''sid_'' @ uuid, w))
      else (rgSessionID rg, ?w)) = (sid, w1)"
    by fastforce
  obtain res w2 where w2: "issue_access e h (rgUserID rg) a (rgClientID rg) (accessTokenLifetime h) cl w1 = (res, w2)"
    by (cases "issue_access e h (rgUserID rg) a (rgClientID rg) (accessTokenLifetime h) cl w1")
  have same: "wAudit w2 = wAudit w"
    using silent_session_id [OF w1] w2 silent_calls(1) [of e h "rgUserID rg" a "rgClientID rg" "accessTokenLifetime h" cl w1]
    by simp
  have "records w (handleRefreshToken e h tok cid rs w) (\<lambda>t ev. ev = token_event t ''refresh_token'' (rgUserID rg) (rgClientID rg))"
    using same g(2) rg(2)
    unfolding handleRefreshToken_def g(1) Let_def time_now_def prod.case option.case r rg(1) a_def [symmetric]
      cl_def [symmetric] w1 [unfolded Let_def] w2
    by (cases res) (auto simp: split_beta records_def)
  with g(1) live(1) show ?thesis by (auto simp: records_def same_grant)
qed

text \<open>C28: Token issue is recorded by some grants only. At \<^verbatim>\<open>POST /oauth/token\<close> a password, code or
  refresh exchange that succeeds adds one event for the user and the client of the tokens, and so
  does nothing else: an exchange that fails, the answer to a code that comes again, and the tokens of
  a device code and of client credentials leave no trace in the audit log, although it is meant to
  hold every token issue.\<close>

theorem token_issue_recorded:
  "let x = handleToken e h r rs w; p = param (parseTokenParams e r);
       ok = (\<lambda>grants. rsStatus (fst x) = 200 \<and> p ''grant_type'' \<in> grants);
       adds = (\<lambda>event. \<exists>t. wAudit (snd x) = wAudit w @ [event t])
   in if ok {''password'', ''http://auth0.com/oauth/grant-type/password-realm''} then
        (\<exists>u. GetByEmail (xCodec e) (p ''username'') (wDb w) = Inr (Some u)
          \<and> adds (\<lambda>t. token_event t ''password'' (uID u) (if p ''client_id'' = [] then ''e2e-test'' else p ''client_id'')))
      else if ok {''authorization_code''} then
        (\<exists>g. wGrants w = Some g
          \<and> (case fst (ConsumeCode (xClock e (wTicks w)) (p ''code'') g) of
               None \<Rightarrow> wAudit (snd x) = wAudit w
             | Some ac \<Rightarrow> adds (\<lambda>t. token_event t ''authorization_code'' (acUserID ac)
                                 (if p ''client_id'' = [] then acClientID ac else p ''client_id''))))
      else if ok {''refresh_token''} then
        (\<exists>g rg. wGrants w = Some g \<and> fst (ConsumeRefreshToken (xClock e (wTicks w)) (p ''refresh_token'') g) = Some rg
          \<and> adds (\<lambda>t. token_event t ''refresh_token'' (rgUserID rg) (rgClientID rg)))
      else wAudit (snd x) = wAudit w"
proof -
  define p where "p = param (parseTokenParams e r)"
  note facts = password_recorded [of w e h "p ''username''" "p ''password''"
      "if p ''client_id'' = [] then ''e2e-test'' else p ''client_id''" "p ''scope''" "p ''audience''" rs]
    exchange_recorded [of e h "p ''code''" "p ''redirect_uri''" "p ''client_id''" "p ''client_secret''" "p ''code_verifier''" rs w]
    refresh_recorded [of w e h "p ''refresh_token''" "p ''client_id''" rs]
  have grants: "handleToken e h r rs w =
     (if p ''grant_type'' = ''client_credentials''
      then handleClientCredentials e h (if p ''client_id'' = [] then ''e2e-test'' else p ''client_id'') rs w
      else if p ''grant_type'' \<in> {''password'', ''http://auth0.com/oauth/grant-type/password-realm''}
      then handlePasswordGrant e h (p ''username'') (p ''password'')
        (if p ''client_id'' = [] then ''e2e-test'' else p ''client_id'') (p ''scope'') (p ''audience'') rs w
      else if p ''grant_type'' = ''authorization_code''
      then handleAuthorizationCode e h (p ''code'') (p ''redirect_uri'') (p ''client_id'') (p ''client_secret'') (p ''code_verifier'') rs w
      else if p ''grant_type'' = ''refresh_token'' then handleRefreshToken e h (p ''refresh_token'') (p ''client_id'') rs w
      else if p ''grant_type'' = ''urn:ietf:params:oauth:grant-type:device_code''
      then handleDeviceCodeToken e h (p ''device_code'') rs w
      else (sendJSON 400 (GObj [(''error'', GStr ''unsupported_grant_type'')]) rs, w))"
    unfolding handleToken_def Let_def p_def [symmetric] by (simp only: insert_iff empty_iff simp_thms disj_commute)
  define x where "x = handleToken e h r rs w"
  consider "p ''grant_type'' \<in> {''password'', ''http://auth0.com/oauth/grant-type/password-realm''}"
    | "p ''grant_type'' = ''authorization_code''" | "p ''grant_type'' = ''refresh_token''"
    | "p ''grant_type'' \<notin> {''password'', ''http://auth0.com/oauth/grant-type/password-realm'', ''authorization_code'', ''refresh_token''}"
    by blast
  then show ?thesis
  proof cases
    case 1
    then have "x = handlePasswordGrant e h (p ''username'') (p ''password'')
        (if p ''client_id'' = [] then ''e2e-test'' else p ''client_id'') (p ''scope'') (p ''audience'') rs w"
      unfolding x_def grants by fastforce
    note recorded = facts(1) [folded this, unfolded records_def]
    with 1 show ?thesis unfolding Let_def p_def [symmetric] x_def [symmetric]
      by (cases "rsStatus (fst x) = 200") auto
  next
    case 2
    then have "x = handleAuthorizationCode e h (p ''code'') (p ''redirect_uri'') (p ''client_id'') (p ''client_secret'')
        (p ''code_verifier'') rs w"
      unfolding x_def grants by simp
    note recorded = facts(2) [folded this]
    with 2 show ?thesis unfolding Let_def p_def [symmetric] x_def [symmetric]
      by (cases "rsStatus (fst x) = 200") simp_all
  next
    case 3
    then have "x = handleRefreshToken e h (p ''refresh_token'') (p ''client_id'') rs w"
      unfolding x_def grants by simp
    note recorded = facts(3) [folded this, unfolded records_def]
    with 3 show ?thesis unfolding Let_def p_def [symmetric] x_def [symmetric]
      by (cases "rsStatus (fst x) = 200") auto
  next
    case 4
    then have "wAudit (snd x) = wAudit w"
      unfolding x_def grants using client_unrecorded device_unrecorded by auto
    with 4 show ?thesis unfolding Let_def p_def [symmetric] x_def [symmetric] by simp
  qed
qed

text \<open>A password exchange at the token endpoint.\<close>

definition password_request :: request where
  "password_request = sample_request\<lparr>rqMethod := ''POST'', rqPath := ''/oauth/token'',
     rqPostForm := [(''grant_type'', [''password'']), (''username'', [''a@x'']), (''password'', [''pw'']), (''client_id'', [''spa''])]\<rparr>"

lemma password_request_params:
  "param (parseTokenParams sample_env password_request) ''grant_type'' = ''password''"
  "param (parseTokenParams sample_env password_request) ''username'' = ''a@x''"
  "param (parseTokenParams sample_env password_request) ''password'' = ''pw''"
  "param (parseTokenParams sample_env password_request) ''client_id'' = ''spa''"
  "param (parseTokenParams sample_env password_request) ''scope'' = []"
  "param (parseTokenParams sample_env password_request) ''audience'' = []"
  by (code_simp+)

theorem token_issue_recorded_witness:
  "\<exists>t u. wAudit (snd (handleToken sample_env sample_handlers password_request new_response sample_world)) =
      [token_event t ''password'' u ''spa'']"
proof -
  obtain u where u: "GetByEmail (xCodec sample_env) ''a@x'' (wDb sample_world) = Inr (Some u)"
    "VerifyPassword (xBcrypt sample_env) (uPasswordHash u) ''pw''"
    using sample_get_user(2) by (auto simp: VerifyPassword_def sample_bcrypt_def)
  have "rsStatus (fst (handleToken sample_env sample_handlers password_request new_response sample_world)) = 200"
    using password_grant_ok [OF u, of sample_handlers "''spa''" "[]" "[]" new_response]
    by (auto simp: handleToken_def password_request_params Let_def)
  moreover have "wAudit sample_world = []" by (simp add: sample_world_def)
  ultimately show ?thesis
    using token_issue_recorded [of sample_env sample_handlers password_request new_response sample_world]
    by (auto simp: Let_def password_request_params)
qed

end
