(* ===== verification/Refinement.thy ===== *)
theory Refinement
  imports Go_Base
begin

text \<open>
  Refinement of a store by a specification under a clock: a call reads the clock a number of times,
  the readings of a sequence of calls do not go back, and the relation between specification and
  store holds at the last reading. What the two agree on is the entries that are still live then.
\<close>

section \<open>Answers to a sequence of calls\<close>

fun answers :: "('op \<Rightarrow> 's \<Rightarrow> 'ans) \<Rightarrow> ('op \<Rightarrow> 's \<Rightarrow> 's) \<Rightarrow> 'op list \<Rightarrow> 's \<Rightarrow> 'ans list" where
  "answers answer step [] s = []"
| "answers answer step (op # ops) s = answer op s # answers answer step ops (step op s)"

text \<open>Every call is permitted in the state of the specification it meets.\<close>

fun permitted :: "('op \<Rightarrow> 's \<Rightarrow> bool) \<Rightarrow> ('op \<Rightarrow> 's \<Rightarrow> 's) \<Rightarrow> 'op list \<Rightarrow> 's \<Rightarrow> bool" where
  "permitted allowed step [] s = True"
| "permitted allowed step (op # ops) s = (allowed op s \<and> permitted allowed step ops (step op s))"

lemma permitted_True: "permitted (\<lambda>_ _. True) step ops s"
  by (induction ops arbitrary: s) simp_all

lemma sorted_readings:
  assumes "sorted (t # xs @ ys)"
  shows "sorted (t # xs)" and "sorted (last (t # xs) # ys)"
proof -
  from assms have *: "sorted ((t # xs) @ ys)" by simp
  then show "sorted (t # xs)" unfolding sorted_append by blast
  from * have "sorted ys" and "\<forall>x\<in>set (t # xs). \<forall>y\<in>set ys. x \<le> y"
    unfolding sorted_append by blast+
  then show "sorted (last (t # xs) # ys)"
    using last_in_set [of "t # xs"] by (simp only: sorted_simps list.distinct) blast
qed

lemma sorted_first: "sorted xs \<Longrightarrow> \<exists>t. sorted (t # (xs :: time list))"
proof (cases xs)
  case Nil
  then show ?thesis by simp
next
  case (Cons x ys)
  assume "sorted xs"
  with Cons have "sorted (x # xs)" by auto
  then show ?thesis by blast
qed

section \<open>The contract\<close>

locale timed_refinement =
  fixes cstep :: "'op \<Rightarrow> 'c \<Rightarrow> 'c" and canswer :: "'op \<Rightarrow> 'c \<Rightarrow> 'ans"
    and astep :: "'op \<Rightarrow> 'a \<Rightarrow> 'a" and aanswer :: "'op \<Rightarrow> 'a \<Rightarrow> 'ans"
    and readings :: "'op \<Rightarrow> time list"
    and allowed :: "'op \<Rightarrow> 'a \<Rightarrow> bool"
    and agree :: "time \<Rightarrow> 'a \<Rightarrow> 'c \<Rightarrow> bool"
  assumes agree_later: "agree t p s \<Longrightarrow> t \<le> t' \<Longrightarrow> agree t' p s"
    and agree_step:
      "agree t p s \<Longrightarrow> sorted (t # readings op) \<Longrightarrow> allowed op p \<Longrightarrow>
       agree (last (t # readings op)) (astep op p) (cstep op s)"
    and agree_answer:
      "agree t p s \<Longrightarrow> sorted (t # readings op) \<Longrightarrow> allowed op p \<Longrightarrow> canswer op s = aanswer op p"
begin

lemma same_answers:
  assumes "agree t p s" and "sorted (t # concat (map readings ops))" and "permitted allowed astep ops p"
  shows "answers canswer cstep ops s = answers aanswer astep ops p"
  using assms
proof (induction ops arbitrary: t p s)
  case Nil
  then show ?case by simp
next
  case (Cons op ops)
  from Cons.prems(2) have "sorted (t # readings op @ concat (map readings ops))" by simp
  note now = sorted_readings [OF this]
  from Cons.prems(3) have ok: "allowed op p" and rest: "permitted allowed astep ops (astep op p)" by simp_all
  from Cons.IH [OF agree_step [OF Cons.prems(1) now(1) ok] now(2) rest]
    agree_answer [OF Cons.prems(1) now(1) ok]
  show ?case by simp
qed

text \<open>From states that agree at every time.\<close>

lemma refines:
  assumes "\<And>t. agree t p s" and "sorted (concat (map readings ops))" and "permitted allowed astep ops p"
  shows "answers canswer cstep ops s = answers aanswer astep ops p"
  using sorted_first [OF assms(2)] same_answers [OF assms(1) _ assms(3)] by blast

end

section \<open>Tables and maps\<close>

text \<open>\<open>same_live t e m f\<close>: the table \<open>m\<close> and the map \<open>f\<close> hold the same entries among those whose expiry,
  read by \<open>e\<close>, is not before \<open>t\<close>. Every access of the tables keeps this.\<close>

definition same_live :: "time \<Rightarrow> ('a \<Rightarrow> time) \<Rightarrow> 'a gomap \<Rightarrow> (string \<Rightarrow> 'a option) \<Rightarrow> bool" where
  "same_live t e m f \<longleftrightarrow> (\<forall>k x. t \<le> e x \<longrightarrow> (map_of m k = Some x) = (f k = Some x))"

lemma same_liveD: "same_live t e m f \<Longrightarrow> t \<le> e x \<Longrightarrow> (map_of m k = Some x) = (f k = Some x)"
  by (simp add: same_live_def)

lemma same_live_Nil: "same_live t e [] (\<lambda>_. None)"
  by (simp add: same_live_def)

lemma same_live_later: "same_live t e m f \<Longrightarrow> t \<le> t' \<Longrightarrow> same_live t' e m f"
  by (auto simp: same_live_def)

lemma same_live_update: "same_live t e m f \<Longrightarrow> same_live t e (AList.update k x m) (f(k \<mapsto> x))"
  by (auto simp: same_live_def)

lemma same_live_delete: "same_live t e m f \<Longrightarrow> same_live t e (AList.delete k m) (f(k := None))"
  by (auto simp: same_live_def)

lemma absent_delete: "map_of m k = None \<Longrightarrow> AList.delete k m = m"
  by (simp add: delete_id map_of_eq_None_iff)

lemma same_live_absent: "same_live t e m f \<Longrightarrow> map_of m k = None \<Longrightarrow> same_live t e m (f(k := None))"
  using same_live_delete [of t e m f k] by (simp add: absent_delete)

lemma same_live_sweep:
  assumes "same_live t e m f" and "wf_map m"
  shows "same_live t e (sweep (\<lambda>x. time_after t (e x)) m) f"
proof -
  have "(map_of (sweep (\<lambda>x. time_after t (e x)) m) k = Some x) = (map_of m k = Some x)" if "t \<le> e x" for k x
    using that assms(2) by (auto simp: map_of_sweep time_after_def split: option.split)
  with assms(1) show ?thesis by (simp add: same_live_def)
qed

lemma same_live_look:
  assumes "same_live t e m f"
  shows "(case map_of m k of None \<Rightarrow> None | Some x \<Rightarrow> if t \<le> e x then Some x else None) =
    (case f k of None \<Rightarrow> None | Some x \<Rightarrow> if t \<le> e x then Some x else None)"
proof -
  have same: "t \<le> e x \<Longrightarrow> (map_of m k = Some x) = (f k = Some x)" for x
    using assms by (simp add: same_live_def)
  show ?thesis
    by (cases "map_of m k"; cases "f k") (use same in fastforce)+
qed

lemmas same_live_rules = same_live_update same_live_delete same_live_absent same_live_sweep

end
