(* ===== verification/Grant_Refinement.thy ===== *)
theory Grant_Refinement
  imports Grants_Props Refinement
begin

text \<open>
  What the store of codes and refresh tokens promises, without the tables' housekeeping: a partial
  map per kind of grant that nothing ever sweeps. The store of \<^verbatim>\<open>internal/grants/store.go\<close> refines it:
  under a clock that does not run backwards it gives the same answers to every sequence of calls.
\<close>

section \<open>The specification\<close>

record promises =
  pCodes :: "string \<Rightarrow> auth_code option"
  pRefresh :: "string \<Rightarrow> refresh_grant option"

datatype answer =
    NoAnswer
  | CodeAnswer "auth_code option"
  | RefreshAnswer "refresh_grant option"

definition no_promises :: promises where
  "no_promises = \<lparr>pCodes = \<lambda>_. None, pRefresh = \<lambda>_. None\<rparr>"

text \<open>\<open>ct\<close> and \<open>rt\<close> are the lifetimes of codes and of refresh tokens.\<close>

fun promise_step :: "duration \<Rightarrow> duration \<Rightarrow> grant_op \<Rightarrow> promises \<Rightarrow> promises" where
  "promise_step ct rt (OpSaveCode t0 t1 c ac) p = p\<lparr>pCodes := (pCodes p)(c \<mapsto> ac\<lparr>acExpiresAt := t0 + ct\<rparr>)\<rparr>"
| "promise_step ct rt (OpConsumeCode t c) p = p\<lparr>pCodes := (pCodes p)(c := None)\<rparr>"
| "promise_step ct rt (OpSaveRefresh t0 t1 k rg) p = p\<lparr>pRefresh := (pRefresh p)(k \<mapsto> rg\<lparr>rgExpiresAt := t0 + rt\<rparr>)\<rparr>"
| "promise_step ct rt (OpConsumeRefresh t k) p = p\<lparr>pRefresh := (pRefresh p)(k := None)\<rparr>"
| "promise_step ct rt (OpRevokeRefresh k) p = p\<lparr>pRefresh := (pRefresh p)(k := None)\<rparr>"
| "promise_step ct rt _ p = p"

fun promised_answer :: "grant_op \<Rightarrow> promises \<Rightarrow> answer" where
  "promised_answer (OpConsumeCode t c) p =
     CodeAnswer (case pCodes p c of None \<Rightarrow> None | Some ac \<Rightarrow> if t \<le> acExpiresAt ac then Some ac else None)"
| "promised_answer (OpConsumeRefresh t k) p =
     RefreshAnswer (case pRefresh p k of None \<Rightarrow> None | Some rg \<Rightarrow> if t \<le> rgExpiresAt rg then Some rg else None)"
| "promised_answer _ p = NoAnswer"

fun promised_answers :: "duration \<Rightarrow> duration \<Rightarrow> grant_op list \<Rightarrow> promises \<Rightarrow> answer list" where
  "promised_answers ct rt [] p = []"
| "promised_answers ct rt (op # ops) p = promised_answer op p # promised_answers ct rt ops (promise_step ct rt op p)"

section \<open>The store\<close>

text \<open>What the methods answer, where a client sees it.\<close>

fun grant_answer :: "grant_op \<Rightarrow> grant_store \<Rightarrow> answer" where
  "grant_answer (OpConsumeCode t c) s = CodeAnswer (fst (ConsumeCode t c s))"
| "grant_answer (OpConsumeRefresh t k) s = RefreshAnswer (fst (ConsumeRefreshToken t k s))"
| "grant_answer _ s = NoAnswer"

fun grant_answers :: "(string \<Rightarrow> string) \<Rightarrow> grant_op list \<Rightarrow> grant_store \<Rightarrow> answer list" where
  "grant_answers up [] s = []"
| "grant_answers up (op # ops) s = grant_answer op s # grant_answers up ops (grant_step up op s)"

section \<open>Simulation\<close>

definition agrees :: "duration \<Rightarrow> duration \<Rightarrow> time \<Rightarrow> promises \<Rightarrow> grant_store \<Rightarrow> bool" where
  "agrees ct rt t p s \<longleftrightarrow> wf_grants s \<and> codeTTL s = ct \<and> refreshTTL s = rt
     \<and> same_live t acExpiresAt (codes s) (pCodes p) \<and> same_live t rgExpiresAt (refresh s) (pRefresh p)"

lemma agrees_later: "agrees ct rt t p s \<Longrightarrow> t \<le> t' \<Longrightarrow> agrees ct rt t' p s"
  by (auto simp: agrees_def intro: same_live_later)

lemma grant_step_ttl: "codeTTL (grant_step up op s) = codeTTL s" "refreshTTL (grant_step up op s) = refreshTTL s"
  by (cases op; simp add: grant_defs clean_devices_eq Let_def split: option.split)+

text \<open>A call keeps the agreement at its last reading of the clock.\<close>

lemma agrees_step:
  assumes "agrees ct rt t p s" and "sorted (t # clock_readings op)"
  shows "agrees ct rt (last (t # clock_readings op)) (promise_step ct rt op p) (grant_step up op s)"
proof -
  let ?t = "last (t # clock_readings op)"
  from assms(2) have "t \<le> ?t" by (cases op) simp_all
  with assms(1) have agree: "agrees ct rt ?t p s" by (rule agrees_later)
  then have wf: "wf_map (codes s)" "wf_map (refresh s)" by (simp_all add: agrees_def wf_grants_def)
  from agree have "wf_grants (grant_step up op s)" by (simp add: agrees_def wf_grant_step)
  moreover have "same_live ?t acExpiresAt (codes (grant_step up op s)) (pCodes (promise_step ct rt op p))"
    using agree wf by (cases op) (auto simp: agrees_def grant_defs clean_devices_eq Let_def
        intro: same_live_rules split: option.split)
  moreover have "same_live ?t rgExpiresAt (refresh (grant_step up op s)) (pRefresh (promise_step ct rt op p))"
    using agree wf by (cases op) (auto simp: agrees_def grant_defs clean_devices_eq Let_def
        intro: same_live_rules split: option.split)
  ultimately show ?thesis using agree by (simp add: agrees_def grant_step_ttl)
qed

lemma agrees_answer:
  assumes "agrees ct rt t p s" and "sorted (t # clock_readings op)"
  shows "grant_answer op s = promised_answer op p"
proof (cases op)
  case (OpConsumeCode t' c)
  with assms have "agrees ct rt t' p s" by (auto intro: agrees_later)
  with OpConsumeCode same_live_look [of t' acExpiresAt "codes s" "pCodes p" c] show ?thesis
    by (simp add: agrees_def code_grant.redeem_result)
next
  case (OpConsumeRefresh t' k)
  with assms have "agrees ct rt t' p s" by (auto intro: agrees_later)
  with OpConsumeRefresh same_live_look [of t' rgExpiresAt "refresh s" "pRefresh p" k] show ?thesis
    by (simp add: agrees_def refresh_token.redeem_result)
qed simp_all

text \<open>The contract of \<open>Refinement\<close>; the calls on devices are without effect on the specification.\<close>

interpretation grants: timed_refinement "grant_step up" grant_answer "promise_step ct rt" promised_answer
  clock_readings "\<lambda>_ _. True" "agrees ct rt"
  for up :: "string \<Rightarrow> string" and ct rt :: duration
  by unfold_locales (rule agrees_later agrees_step agrees_answer, assumption+)+

lemma grant_answers_eq: "grant_answers up ops s = answers grant_answer (grant_step up) ops s"
  by (induction ops arbitrary: s) simp_all

lemma promised_answers_eq: "promised_answers ct rt ops p = answers promised_answer (promise_step ct rt) ops p"
  by (induction ops arbitrary: p) simp_all

lemma agrees_new:
  "agrees (codeTTL (NewStore ct rt dts)) (refreshTTL (NewStore ct rt dts)) t no_promises (NewStore ct rt dts)"
  by (simp add: agrees_def wf_NewStore) (simp add: same_live_def no_promises_def NewStore_def Let_def)

text \<open>C11: The store of codes and refresh tokens refines its specification: to every sequence of calls
  under a clock that does not run backwards it answers as a map does that keeps every grant until
  it is redeemed or revoked and refuses it after its expiry; when and how often expired entries
  are swept cannot be seen.\<close>

theorem grant_store_refines_promises:
  assumes "sorted (concat (map clock_readings ops))"
  shows "grant_answers up ops (NewStore ct rt dts) =
    promised_answers (codeTTL (NewStore ct rt dts)) (refreshTTL (NewStore ct rt dts)) ops no_promises"
  unfolding grant_answers_eq promised_answers_eq
  by (rule grants.refines [OF agrees_new assms permitted_True])

theorem grant_store_refines_promises_witness:
  "grant_answers id [OpSaveCode 0 0 ''a'' sample_code, OpSaveCode 3 4 ''b'' sample_code, OpConsumeCode 8 ''b'',
     OpConsumeCode 8 ''b'', OpConsumeCode 8 ''a''] (NewStore 5 5 []) =
   [NoAnswer, NoAnswer, CodeAnswer (Some (sample_code\<lparr>acExpiresAt := 8\<rparr>)), CodeAnswer None, CodeAnswer None]"
  by (subst grant_store_refines_promises) (simp_all add: no_promises_def, simp_all add: NewStore_def)

end
