(* ===== verification/Session_Refinement.thy ===== *)
theory Session_Refinement
  imports Sessions Refinement
begin

text \<open>
  What the session store of \<^verbatim>\<open>internal/sessions/sessions.go\<close> promises: a map from session IDs to
  sessions in which an access before the expiry moves the expiry of this session, an access after it
  or a revocation removes the session, and nothing else happens. The store sweeps expired sessions
  in every \<^verbatim>\<open>Create\<close> and \<^verbatim>\<open>Get\<close>; no sequence of calls can tell.
\<close>

section \<open>Calls\<close>

datatype session_op =
    OpCreate "string + nat list" time time string string
  | OpGet time time time string
  | OpRevoke string

datatype session_answer =
    Created "string + string"
  | Found "session option"
  | Done

fun session_readings :: "session_op \<Rightarrow> time list" where
  "session_readings (OpCreate rnd t0 t1 uid em) = [t0, t1]"
| "session_readings (OpGet t0 t1 t2 sid) = [t0, t1, t2]"
| "session_readings (OpRevoke sid) = []"

fun session_step :: "session_op \<Rightarrow> session_store \<Rightarrow> session_store" where
  "session_step (OpCreate rnd t0 t1 uid em) s = snd (Create rnd t0 t1 uid em s)"
| "session_step (OpGet t0 t1 t2 sid) s = snd (GetSession t0 t1 t2 sid s)"
| "session_step (OpRevoke sid) s = Revoke sid s"

fun session_reply :: "session_op \<Rightarrow> session_store \<Rightarrow> session_answer" where
  "session_reply (OpCreate rnd t0 t1 uid em) s = Created (fst (Create rnd t0 t1 uid em s))"
| "session_reply (OpGet t0 t1 t2 sid) s = Found (fst (GetSession t0 t1 t2 sid s))"
| "session_reply (OpRevoke sid) s = Done"

section \<open>The specification\<close>

text \<open>\<open>d\<close> is the lifetime.\<close>

definition promised_session :: "(string \<Rightarrow> session option) \<Rightarrow> time \<Rightarrow> string \<Rightarrow> session option" where
  "promised_session f t sid =
     (case f sid of None \<Rightarrow> None | Some v \<Rightarrow> if t \<le> ExpiresAt v then Some v else None)"

fun promised_step ::
  "duration \<Rightarrow> session_op \<Rightarrow> (string \<Rightarrow> session option) \<Rightarrow> (string \<Rightarrow> session option)" where
  "promised_step d (OpCreate rnd t0 t1 uid em) f =
     (case rnd of
        Inl err \<Rightarrow> f
      | Inr b \<Rightarrow> f(''sid_'' @ hex_encode b \<mapsto>
          \<lparr>SessionID = ''sid_'' @ hex_encode b, sUserID = uid, sEmail = em, ExpiresAt = t0 + d\<rparr>))"
| "promised_step d (OpGet t0 t1 t2 sid) f =
     f(sid := map_option (\<lambda>v. v\<lparr>ExpiresAt := t2 + d\<rparr>) (promised_session f t1 sid))"
| "promised_step d (OpRevoke sid) f = f(sid := None)"

fun promised_reply :: "duration \<Rightarrow> session_op \<Rightarrow> (string \<Rightarrow> session option) \<Rightarrow> session_answer" where
  "promised_reply d (OpCreate rnd t0 t1 uid em) f =
     Created (case rnd of Inl err \<Rightarrow> Inl err | Inr b \<Rightarrow> Inr (''sid_'' @ hex_encode b))"
| "promised_reply d (OpGet t0 t1 t2 sid) f =
     Found (map_option (\<lambda>v. v\<lparr>ExpiresAt := t2 + d\<rparr>) (promised_session f t1 sid))"
| "promised_reply d (OpRevoke sid) f = Done"

section \<open>Simulation\<close>

definition holds_sessions :: "duration \<Rightarrow> time \<Rightarrow> (string \<Rightarrow> session option) \<Rightarrow> session_store \<Rightarrow> bool" where
  "holds_sessions d t f s \<longleftrightarrow> wf_map (sessions s) \<and> ttl s = d \<and> same_live t ExpiresAt (sessions s) f"

lemma holds_sessions_later: "holds_sessions d t f s \<Longrightarrow> t \<le> t' \<Longrightarrow> holds_sessions d t' f s"
  by (auto simp: holds_sessions_def intro: same_live_later)

lemma holds_sessions_swept: "holds_sessions d t f s \<Longrightarrow> holds_sessions d t f (cleanExpiredLocked t s)"
  by (simp add: holds_sessions_def cleanExpiredLocked_def same_live_sweep)

lemma holds_sessions_put:
  "holds_sessions d t f s \<Longrightarrow> holds_sessions d t (f(k \<mapsto> v)) (s\<lparr>sessions := AList.update k v (sessions s)\<rparr>)"
  by (simp add: holds_sessions_def same_live_update)

lemma holds_sessions_drop:
  "holds_sessions d t f s \<Longrightarrow> holds_sessions d t (f(k := None)) (s\<lparr>sessions := AList.delete k (sessions s)\<rparr>)"
  by (simp add: holds_sessions_def same_live_delete)

lemma holds_sessions_absent:
  "holds_sessions d t f s \<Longrightarrow> map_of (sessions s) k = None \<Longrightarrow> holds_sessions d t (f(k := None)) s"
  by (simp add: holds_sessions_def same_live_absent)

text \<open>An access, after the sweep.\<close>

lemma holds_sessions_look:
  assumes "holds_sessions d t f s"
  shows "(case map_of (sessions s) k of None \<Rightarrow> None | Some v \<Rightarrow> if t \<le> ExpiresAt v then Some v else None) =
    promised_session f t k"
  using assms by (simp add: holds_sessions_def promised_session_def same_live_look)

lemma GetSession_refines:
  assumes "holds_sessions d t f s" and "t \<le> t0" and "t0 \<le> t1" and "t1 \<le> t2"
  shows "fst (GetSession t0 t1 t2 k s) = map_option (\<lambda>v. v\<lparr>ExpiresAt := t2 + d\<rparr>) (promised_session f t1 k)"
    and "holds_sessions d t2 (promised_step d (OpGet t0 t1 t2 k) f) (snd (GetSession t0 t1 t2 k s))"
proof -
  let ?s = "cleanExpiredLocked t0 s"
  have swept: "holds_sessions d t0 f ?s"
    using assms(1,2) by (blast intro: holds_sessions_swept holds_sessions_later)
  then have t1: "holds_sessions d t1 f ?s" using assms(3) by (rule holds_sessions_later)
  then have ttl: "ttl ?s = d" by (simp add: holds_sessions_def)
  note look = holds_sessions_look [OF t1, of k, symmetric]
  show "fst (GetSession t0 t1 t2 k s) = map_option (\<lambda>v. v\<lparr>ExpiresAt := t2 + d\<rparr>) (promised_session f t1 k)"
    by (simp add: GetSession_def Let_def look ttl time_after_def split: option.split)
  have "holds_sessions d t1 (promised_step d (OpGet t0 t1 t2 k) f) (snd (GetSession t0 t1 t2 k s))"
    using holds_sessions_put [OF t1] holds_sessions_drop [OF t1] holds_sessions_absent [OF t1]
    by (simp add: GetSession_def Let_def look ttl time_after_def split: option.split)
  then show "holds_sessions d t2 (promised_step d (OpGet t0 t1 t2 k) f) (snd (GetSession t0 t1 t2 k s))"
    using assms(4) by (rule holds_sessions_later)
qed

lemma Create_refines:
  assumes "holds_sessions d t f s" and "t \<le> t1"
  shows "fst (Create rnd t0 t1 uid em s) = (case rnd of Inl err \<Rightarrow> Inl err | Inr b \<Rightarrow> Inr (''sid_'' @ hex_encode b))"
    and "holds_sessions d t1 (promised_step d (OpCreate rnd t0 t1 uid em) f) (snd (Create rnd t0 t1 uid em s))"
proof -
  show "fst (Create rnd t0 t1 uid em s) =
      (case rnd of Inl err \<Rightarrow> Inl err | Inr b \<Rightarrow> Inr (''sid_'' @ hex_encode b))"
    by (simp add: Create_def Let_def split: sum.split)
  have t1: "holds_sessions d t1 f s" using assms by (rule holds_sessions_later)
  then have "ttl s = d" by (simp add: holds_sessions_def)
  then show "holds_sessions d t1 (promised_step d (OpCreate rnd t0 t1 uid em) f) (snd (Create rnd t0 t1 uid em s))"
    using t1 holds_sessions_put [OF holds_sessions_swept [OF t1]]
    by (simp add: Create_def Let_def split: sum.split)
qed

lemma Revoke_refines: "holds_sessions d t f s \<Longrightarrow> holds_sessions d t (f(k := None)) (Revoke k s)"
  unfolding Revoke_def by (rule holds_sessions_drop)

interpretation sess_spec: timed_refinement session_step session_reply "promised_step d" "promised_reply d"
  session_readings "\<lambda>_ _. True" "holds_sessions d"
  for d :: duration
proof unfold_locales
  fix t t' f s
  assume "holds_sessions d t f s" "t \<le> t'"
  then show "holds_sessions d t' f s" by (rule holds_sessions_later)
next
  fix t f s op
  assume h: "holds_sessions d t f s" and sorted: "sorted (t # session_readings op)"
  show "holds_sessions d (last (t # session_readings op)) (promised_step d op f) (session_step op s)"
    using sorted GetSession_refines(2) [OF h] Create_refines(2) [OF h] Revoke_refines [OF h]
    by (cases op) (simp_all del: promised_step.simps(1,2))
  show "session_reply op s = promised_reply d op f"
    using sorted GetSession_refines(1) [OF h] Create_refines(1) [OF h] by (cases op) simp_all
qed

section \<open>Properties\<close>

text \<open>C12: The session store refines its specification: to every sequence of calls under a clock that
  does not run backwards it answers as a map does in which a session lives until its expiry, each
  access moves the expiry, and only a revocation or an access after the expiry removes a session.\<close>

theorem session_store_refines_promises:
  assumes "sorted (concat (map session_readings ops))"
  shows "answers session_reply session_step ops (NewSessionStore d) =
    answers (promised_reply (ttl (NewSessionStore d))) (promised_step (ttl (NewSessionStore d))) ops (\<lambda>_. None)"
proof (rule sess_spec.refines [OF _ assms permitted_True])
  show "holds_sessions (ttl (NewSessionStore d)) t (\<lambda>_. None) (NewSessionStore d)" for t
    by (simp add: holds_sessions_def NewSessionStore_def Let_def same_live_Nil)
qed

theorem session_store_refines_promises_witness:
  "answers session_reply session_step
     [OpCreate (Inr [10]) 0 0 ''auth0|1'' ''a@x'', OpGet 4 4 4 ''sid_0a'', OpGet 9 9 9 ''sid_0a'', OpGet 15 15 15 ''sid_0a'']
     (NewSessionStore 5) =
   [Created (Inr ''sid_0a''),
    Found (Some \<lparr>SessionID = ''sid_0a'', sUserID = ''auth0|1'', sEmail = ''a@x'', ExpiresAt = 9\<rparr>),
    Found (Some \<lparr>SessionID = ''sid_0a'', sUserID = ''auth0|1'', sEmail = ''a@x'', ExpiresAt = 14\<rparr>), Found None]"
  by (subst session_store_refines_promises)
    (simp_all add: NewSessionStore_def hex_encode_def hex_digit_def promised_session_def)

end
