(* ===== verification/Device_Refinement.thy ===== *)
theory Device_Refinement
  imports Grants_Props Refinement
begin

text \<open>
  What the device codes of \<^verbatim>\<open>internal/grants/store.go\<close> promise: a map from device codes to pending
  devices. A user code, in any spelling, is authorized or denied on the device that shows it; only a
  redemption takes a device away. The store keeps a second table, from user codes to device codes,
  and sweeps both; when device codes and user codes are fresh, no sequence of calls can tell.
\<close>

section \<open>The specification\<close>

type_synonym pending = "string \<Rightarrow> device_code option"

definition shows_code :: "(string \<Rightarrow> string) \<Rightarrow> string \<Rightarrow> device_code \<Rightarrow> bool" where
  "shows_code up u dc \<longleftrightarrow> normalize_code up (dcUserCode dc) = normalize_code up u"

fun device_promise_step :: "(string \<Rightarrow> string) \<Rightarrow> duration \<Rightarrow> grant_op \<Rightarrow> pending \<Rightarrow> pending" where
  "device_promise_step up dt (OpSaveDevice t0 t1 d u dc) f =
     f(d \<mapsto> dc\<lparr>dcExpiresAt := t0 + dt, dcInterval := 5\<rparr>)"
| "device_promise_step up dt (OpAuthorizeDevice t u i) f =
     (\<lambda>d. map_option (\<lambda>dc. if shows_code up u dc \<and> t \<le> dcExpiresAt dc
        then dc\<lparr>dcUserAuthorized := True, dcUserID := i\<rparr> else dc) (f d))"
| "device_promise_step up dt (OpDenyDevice u) f =
     (\<lambda>d. map_option (\<lambda>dc. if shows_code up u dc then dc\<lparr>dcAccessDenied := True\<rparr> else dc) (f d))"
| "device_promise_step up dt (OpConsumeDevice t d) f =
     (case f d of
        None \<Rightarrow> f
      | Some dc \<Rightarrow> if dcUserAuthorized dc \<and> t \<le> dcExpiresAt dc then f(d := None) else f)"
| "device_promise_step up dt _ f = f"

datatype device_answer = NoDeviceAnswer | Device "device_code option"

fun device_promised :: "grant_op \<Rightarrow> pending \<Rightarrow> device_answer" where
  "device_promised (OpGetDevice t0 t1 d) f =
     Device (case f d of None \<Rightarrow> None | Some dc \<Rightarrow> if t1 \<le> dcExpiresAt dc then Some dc else None)"
| "device_promised (OpConsumeDevice t d) f =
     Device (case f d of None \<Rightarrow> None
       | Some dc \<Rightarrow> if dcUserAuthorized dc \<and> t \<le> dcExpiresAt dc then Some dc else None)"
| "device_promised _ f = NoDeviceAnswer"

text \<open>What the callers guarantee: a new device is pending, and its codes are not in use.\<close>

fun new_codes :: "(string \<Rightarrow> string) \<Rightarrow> grant_op \<Rightarrow> pending \<Rightarrow> bool" where
  "new_codes up (OpSaveDevice t0 t1 d u dc) f \<longleftrightarrow>
     dcUserCode dc = u \<and> \<not> dcUserAuthorized dc \<and> \<not> dcExpired dc \<and> f d = None
     \<and> (\<forall>d' dc'. f d' = Some dc' \<longrightarrow> \<not> shows_code up u dc')"
| "new_codes up _ f \<longleftrightarrow> True"

section \<open>The store\<close>

fun device_reply :: "(string \<Rightarrow> string) \<Rightarrow> grant_op \<Rightarrow> grant_store \<Rightarrow> device_answer" where
  "device_reply up (OpGetDevice t0 t1 d) s = Device (fst (GetDeviceCode up t0 t1 d s))"
| "device_reply up (OpConsumeDevice t d) s = Device (fst (ConsumeDeviceCode up t d s))"
| "device_reply up _ s = NoDeviceAnswer"

section \<open>Simulation\<close>

text \<open>Devices of the store that the specification knows under the same user code, possibly expired.\<close>

definition known :: "device_code gomap \<Rightarrow> pending \<Rightarrow> bool" where
  "known m f \<longleftrightarrow> (\<forall>d dc. map_of m d = Some dc \<longrightarrow>
     \<not> dcExpired dc \<and> (\<exists>dc'. f d = Some dc' \<and> dcUserCode dc' = dcUserCode dc \<and> dcExpiresAt dc' = dcExpiresAt dc))"

definition holds_devices :: "(string \<Rightarrow> string) \<Rightarrow> duration \<Rightarrow> time \<Rightarrow> pending \<Rightarrow> grant_store \<Rightarrow> bool" where
  "holds_devices up dt t f s \<longleftrightarrow> wf_grants s \<and> linked up s \<and> deviceTTL s = dt
     \<and> same_live t dcExpiresAt (devices s) f \<and> known (devices s) f"

lemma holds_devices_later: "holds_devices up dt t f s \<Longrightarrow> t \<le> t' \<Longrightarrow> holds_devices up dt t' f s"
  by (auto simp: holds_devices_def intro: same_live_later)

lemma knownD: "known m f \<Longrightarrow> map_of m d = Some dc \<Longrightarrow> \<not> dcExpired dc"
  by (simp add: known_def)

lemma known_there:
  "known m f \<Longrightarrow> map_of m d = Some dc \<Longrightarrow> \<exists>dc'. f d = Some dc' \<and> dcUserCode dc' = dcUserCode dc"
  by (fastforce simp: known_def)

lemma known_sweep: "known m f \<Longrightarrow> wf_map m \<Longrightarrow> known (sweep P m) f"
  by (fastforce simp: known_def dest: map_of_sweep_SomeD)

lemma same_live_sweep_devices:
  assumes "same_live t dcExpiresAt m f" and "wf_map m" and "known m f"
  shows "same_live t dcExpiresAt (sweep (dead_device t) m) f"
proof -
  have "map_of (sweep (dead_device t) m) d = Some dc \<longleftrightarrow> map_of m d = Some dc" if "t \<le> dcExpiresAt dc" for d dc
    using that assms(2,3) by (auto simp: map_of_sweep dead_device_def time_after_def known_def split: option.split)
  with assms(1) show ?thesis by (simp add: same_live_def)
qed

lemma holds_devices_swept:
  "holds_devices up dt t f s \<Longrightarrow> holds_devices up dt t f (cleanExpiredDevicesLocked up t s)"
  by (simp add: holds_devices_def linked_clean clean_devices_eq known_sweep same_live_sweep_devices wf_grantsD)

lemma holds_devices_fresh:
  assumes "holds_devices up dt t f s" and "new_codes up (OpSaveDevice t0 t1 d u dc) f"
  shows "fresh_op up s (OpSaveDevice t0 t1 d u dc)"
proof -
  from assms have k: "known (devices s) f" and lk: "linked up s" by (simp_all add: holds_devices_def)
  have "map_of (devices s) d = None"
    using known_there [OF k, of d] assms(2) by (cases "map_of (devices s) d") auto
  moreover have "map_of (userCodes s) (normalize_code up u) \<noteq> Some d'" for d'
    using k assms(2) linkedD [OF lk, of "normalize_code up u" d']
    by (fastforce simp: known_def index_of_def shows_code_def)
  ultimately show ?thesis using assms(2) by auto
qed

lemma SaveDeviceCode_refines:
  assumes "holds_devices up dt t f s" and "t \<le> t1" and "new_codes up (OpSaveDevice t0 t1 d u dc) f"
  shows "holds_devices up dt t1 (device_promise_step up dt (OpSaveDevice t0 t1 d u dc) f)
    (SaveDeviceCode up t0 t1 d u dc s)"
proof -
  let ?s = "cleanExpiredDevicesLocked up t1 s"
  have t1: "holds_devices up dt t1 f s" using assms(1,2) by (rule holds_devices_later)
  then have "linked up (SaveDeviceCode up t0 t1 d u dc s)"
    by (auto simp: holds_devices_def intro: linked_SaveDeviceCode [OF _ _ holds_devices_fresh [OF t1 assms(3)]])
  with holds_devices_swept [OF t1] t1 assms(3) show ?thesis
    by (auto simp: holds_devices_def SaveDeviceCode_def Let_def wf_grants_def known_def same_live_update)
qed

lemma GetDeviceCode_refines:
  assumes "holds_devices up dt t f s" and "t \<le> t0" and "t0 \<le> t1"
  shows "device_reply up (OpGetDevice t0 t1 d) s = device_promised (OpGetDevice t0 t1 d) f"
    and "holds_devices up dt t1 f (snd (GetDeviceCode up t0 t1 d s))"
proof -
  let ?s = "cleanExpiredDevicesLocked up t0 s"
  have t0: "holds_devices up dt t0 f ?s"
    using assms(1,2) by (blast intro: holds_devices_swept holds_devices_later)
  then show "holds_devices up dt t1 f (snd (GetDeviceCode up t0 t1 d s))"
    unfolding GetDeviceCode_state using assms(3) by (rule holds_devices_later)
  then have live: "same_live t1 dcExpiresAt (devices ?s) f" and k: "known (devices ?s) f"
    by (simp_all add: holds_devices_def GetDeviceCode_state)
  show "device_reply up (OpGetDevice t0 t1 d) s = device_promised (OpGetDevice t0 t1 d) f"
    using knownD [OF k, of d] unfolding device_promised.simps same_live_look [OF live, symmetric]
    by (simp add: GetDeviceCode_def Let_def time_after_def split: option.split)
qed

text \<open>Editing devices on both sides.\<close>

lemma same_live_edit:
  assumes "same_live t e m f" and "\<And>x. e (g x) = e x" and "\<And>k. map_of m' k = map_option g (map_of m k)"
  shows "same_live t e m' (\<lambda>k. map_option g (f k))"
proof -
  have "(map_option g (map_of m k) = Some y) = (map_option g (f k) = Some y)" if "t \<le> e y" for k y
  proof -
    have "(map_of m k = Some x) = (f k = Some x)" if "y = g x" for x
      using same_liveD [OF assms(1), of x k] \<open>t \<le> e y\<close> that by (simp add: assms(2))
    then show ?thesis unfolding map_option_eq_Some by blast
  qed
  then show ?thesis by (simp add: same_live_def assms(3))
qed

text \<open>The device a user code points to is the only one that shows it.\<close>

lemma shown_by_index:
  assumes "linked up s" and "map_of (devices s) d = Some dc" and "shows_code up u dc"
  shows "map_of (userCodes s) (normalize_code up u) = Some d"
  using linkedD [OF assms(1)] assms(2,3) by (simp add: index_of_def shows_code_def)

lemma index_shows:
  assumes "linked up s" and "map_of (userCodes s) (normalize_code up u) = Some d"
  shows "\<exists>dc. map_of (devices s) d = Some dc \<and> shows_code up u dc"
  using linkedD [OF assms(1), of "normalize_code up u" d] assms(2) by (auto simp: index_of_def shows_code_def)

lemma known_edit:
  assumes "known m f" and "\<And>x. dcUserCode (g x) = dcUserCode x" and "\<And>x. dcExpiresAt (g x) = dcExpiresAt x"
  shows "known m (\<lambda>k. map_option g (f k))"
  using assms by (fastforce simp: known_def)

lemma known_update:
  assumes "known m f" and "map_of m d = Some x" and "dcUserCode y = dcUserCode x"
    and "dcExpiresAt y = dcExpiresAt x" and "dcExpired y = dcExpired x"
  shows "known (AList.update d y m) f"
  using assms by (auto simp: known_def)

lemma AuthorizeDeviceCode_refines:
  assumes "holds_devices up dt t f s"
  shows "holds_devices up dt t (device_promise_step up dt (OpAuthorizeDevice t u i) f)
    (snd (AuthorizeDeviceCode up t u i s))"
proof -
  let ?g = "\<lambda>dc. if shows_code up u dc \<and> t \<le> dcExpiresAt dc
      then dc\<lparr>dcUserAuthorized := True, dcUserID := i\<rparr> else dc"
  let ?s = "snd (AuthorizeDeviceCode up t u i s)"
  from assms have lk: "linked up s" and live: "same_live t dcExpiresAt (devices s) f"
    and k: "known (devices s) f" and wf: "wf_grants s" and ttl: "deviceTTL s = dt"
    by (simp_all add: holds_devices_def)
  have "linked up ?s" using linked_grant_step [OF wf lk, of "OpAuthorizeDevice t u i"] by simp
  moreover have "wf_grants ?s" "deviceTTL ?s = dt"
    using wf ttl by (simp_all) (simp add: AuthorizeDeviceCode_def split: option.split)
  moreover have "same_live t dcExpiresAt (devices ?s) (\<lambda>d. map_option ?g (f d))
      \<and> known (devices ?s) (\<lambda>d. map_option ?g (f d))"
  proof (cases "map_of (userCodes s) (normalize_code up u)")
    case None
    then have "map_of (devices ?s) d = map_option ?g (map_of (devices s) d)" for d
      using shown_by_index [OF lk, of d] by (cases "map_of (devices s) d") (auto simp: AuthorizeDeviceCode_def)
    with None show ?thesis
      by (auto simp: AuthorizeDeviceCode_def intro!: same_live_edit [OF live] known_edit [OF k])
  next
    case (Some d)
    from index_shows [OF lk Some] obtain dc where dc: "map_of (devices s) d = Some dc" "shows_code up u dc"
      by blast
    have other: "\<not> shows_code up u x" if "map_of (devices s) d' = Some x" "d' \<noteq> d" for d' x
      using shown_by_index [OF lk that(1)] that(2) Some by auto
    have ds: "devices ?s = (if t \<le> dcExpiresAt dc then AList.update d (?g dc) (devices s) else devices s)"
      using dc knownD [OF k dc(1)] by (simp add: AuthorizeDeviceCode_def Some time_after_def)
    have "map_of (devices ?s) d' = map_option ?g (map_of (devices s) d')" for d'
      using dc other [of d'] by (cases "map_of (devices s) d'") (auto simp: ds)
    then have "same_live t dcExpiresAt (devices ?s) (\<lambda>d. map_option ?g (f d))"
      by (intro same_live_edit [OF live]) simp_all
    moreover have "known (devices ?s) (\<lambda>d. map_option ?g (f d))"
      using known_update [OF k dc(1), of "?g dc"] k by (auto simp: ds intro!: known_edit)
    ultimately show ?thesis by blast
  qed
  ultimately show ?thesis by (simp add: holds_devices_def)
qed

lemma DenyDeviceCode_refines:
  assumes "holds_devices up dt t f s"
  shows "holds_devices up dt t (device_promise_step up dt (OpDenyDevice u) f) (snd (DenyDeviceCode up u s))"
proof -
  let ?g = "\<lambda>dc. if shows_code up u dc then dc\<lparr>dcAccessDenied := True\<rparr> else dc"
  let ?s = "snd (DenyDeviceCode up u s)"
  from assms have lk: "linked up s" and live: "same_live t dcExpiresAt (devices s) f"
    and k: "known (devices s) f" and wf: "wf_grants s" and ttl: "deviceTTL s = dt"
    by (simp_all add: holds_devices_def)
  have "linked up ?s" using linked_grant_step [OF wf lk, of "OpDenyDevice u"] by simp
  moreover have "wf_grants ?s" "deviceTTL ?s = dt"
    using wf ttl by (simp_all) (simp add: DenyDeviceCode_def split: option.split)
  moreover have "map_of (devices ?s) d = map_option ?g (map_of (devices s) d)" for d
  proof (cases "map_of (userCodes s) (normalize_code up u)")
    case None
    then show ?thesis
      using shown_by_index [OF lk, of d] by (cases "map_of (devices s) d") (auto simp: DenyDeviceCode_def)
  next
    case (Some d')
    from index_shows [OF lk Some] obtain dc where dc: "map_of (devices s) d' = Some dc" "shows_code up u dc"
      by blast
    have "d = d'" if "map_of (devices s) d = Some x" "shows_code up u x" for x
      using shown_by_index [OF lk that] Some by simp
    with dc Some show ?thesis by (cases "map_of (devices s) d") (auto simp: DenyDeviceCode_def)
  qed
  then have "same_live t dcExpiresAt (devices ?s) (\<lambda>d. map_option ?g (f d))"
    by (intro same_live_edit [OF live]) simp_all
  moreover have "known (devices ?s) (\<lambda>d. map_option ?g (f d))"
    using k by (auto simp: DenyDeviceCode_def intro!: known_edit known_update split: option.split)
  ultimately show ?thesis by (simp add: holds_devices_def)
qed

lemma ConsumeDeviceCode_refines:
  assumes "holds_devices up dt t f s"
  shows "device_reply up (OpConsumeDevice t d) s = device_promised (OpConsumeDevice t d) f"
    and "holds_devices up dt t (device_promise_step up dt (OpConsumeDevice t d) f) (snd (ConsumeDeviceCode up t d s))"
proof -
  let ?s = "snd (ConsumeDeviceCode up t d s)"
  from assms have lk: "linked up s" and live: "same_live t dcExpiresAt (devices s) f"
    and k: "known (devices s) f" and wf: "wf_grants s" and ttl: "deviceTTL s = dt"
    by (simp_all add: holds_devices_def)
  have redeem: "map_of (devices s) d = Some dc \<and> redeemable t dc \<longleftrightarrow>
      f d = Some dc \<and> dcUserAuthorized dc \<and> t \<le> dcExpiresAt dc" for dc
    using same_liveD [OF live, of dc d] knownD [OF k, of d dc] by (auto simp: redeemable_def)
  show "device_reply up (OpConsumeDevice t d) s = device_promised (OpConsumeDevice t d) f"
  proof (cases "\<exists>dc. map_of (devices s) d = Some dc \<and> redeemable t dc")
    case True
    then obtain dc where "map_of (devices s) d = Some dc" "redeemable t dc" by blast
    with redeem [of dc] show ?thesis by (simp add: device_grant.redeem_result)
  next
    case False
    with redeem show ?thesis by (auto simp: device_grant.redeem_result split: option.split)
  qed
  have "linked up ?s" using linked_grant_step [OF wf lk, of "OpConsumeDevice t d"] by simp
  moreover have "wf_grants ?s" "deviceTTL ?s = dt"
    using wf ttl by (simp_all) (simp add: ConsumeDeviceCode_def split: option.split)
  moreover have "same_live t dcExpiresAt (devices ?s) (device_promise_step up dt (OpConsumeDevice t d) f)
      \<and> known (devices ?s) (device_promise_step up dt (OpConsumeDevice t d) f)"
  proof (cases "\<exists>dc. map_of (devices s) d = Some dc \<and> redeemable t dc")
    case True
    then obtain dc where dc: "map_of (devices s) d = Some dc" "redeemable t dc" by blast
    with redeem [of dc] have f: "device_promise_step up dt (OpConsumeDevice t d) f = f(d := None)" by simp
    from dc have "devices ?s = AList.delete d (devices s)"
      by (simp add: ConsumeDeviceCode_def redeemable_def time_after_def)
    with f k live show ?thesis by (simp add: same_live_delete known_def)
  next
    case False
    then have "devices ?s = devices s"
      by (auto simp: ConsumeDeviceCode_def redeemable_def time_after_def split: option.split)
    moreover from False redeem have "device_promise_step up dt (OpConsumeDevice t d) f = f"
      by (auto split: option.split)
    ultimately show ?thesis using live k by simp
  qed
  ultimately show "holds_devices up dt t (device_promise_step up dt (OpConsumeDevice t d) f) ?s"
    by (simp only: holds_devices_def)
qed

text \<open>The calls on codes and refresh tokens do not touch the devices.\<close>

lemma other_calls_refine:
  assumes "devices s' = devices s" and "userCodes s' = userCodes s" and "deviceTTL s' = deviceTTL s"
    and "wf_grants s'" and "holds_devices up dt t f s"
  shows "holds_devices up dt t f s'"
  using assms linked_cong [OF assms(1,2)] by (simp add: holds_devices_def)

lemma code_calls_devices:
  "devices (SaveCode t0 t1 c ac s) = devices s" "userCodes (SaveCode t0 t1 c ac s) = userCodes s"
  "deviceTTL (SaveCode t0 t1 c ac s) = deviceTTL s"
  "devices (snd (ConsumeCode t c s)) = devices s" "userCodes (snd (ConsumeCode t c s)) = userCodes s"
  "deviceTTL (snd (ConsumeCode t c s)) = deviceTTL s"
  "devices (SaveRefreshToken t0 t1 c rg s) = devices s" "userCodes (SaveRefreshToken t0 t1 c rg s) = userCodes s"
  "deviceTTL (SaveRefreshToken t0 t1 c rg s) = deviceTTL s"
  "devices (snd (ConsumeRefreshToken t c s)) = devices s" "userCodes (snd (ConsumeRefreshToken t c s)) = userCodes s"
  "deviceTTL (snd (ConsumeRefreshToken t c s)) = deviceTTL s"
  "devices (snd (RevokeRefreshToken c s)) = devices s" "userCodes (snd (RevokeRefreshToken c s)) = userCodes s"
  "deviceTTL (snd (RevokeRefreshToken c s)) = deviceTTL s"
  by (simp_all add: grant_defs Let_def split: option.split)

lemma holds_devices_step:
  assumes "holds_devices up dt t f s" and "sorted (t # clock_readings op)" and "new_codes up op f"
  shows "holds_devices up dt (last (t # clock_readings op)) (device_promise_step up dt op f) (grant_step up op s)"
proof -
  from assms(1) have "wf_grants s" by (simp add: holds_devices_def)
  then have wf: "wf_grants (grant_step up op s)" by (rule wf_grant_step)
  from assms(2) have "t \<le> last (t # clock_readings op)" by (cases op) simp_all
  note now = holds_devices_later [OF assms(1) this]
  show ?thesis
  proof (cases op)
    case (OpSaveDevice t0 t1 d u dc)
    with assms SaveDeviceCode_refines [OF assms(1), of t1 t0 d u dc] show ?thesis by auto
  next
    case (OpGetDevice t0 t1 d)
    with assms(2) GetDeviceCode_refines(2) [OF assms(1), of t0 t1 d] show ?thesis by simp
  next
    case (OpAuthorizeDevice t' u i)
    with now AuthorizeDeviceCode_refines show ?thesis by simp
  next
    case (OpDenyDevice u)
    with now DenyDeviceCode_refines show ?thesis by simp
  next
    case (OpConsumeDevice t' d)
    with now ConsumeDeviceCode_refines(2) show ?thesis by simp
  qed (use now wf in \<open>auto intro: other_calls_refine [rotated -1] simp: code_calls_devices\<close>)
qed

lemma holds_devices_reply:
  assumes "holds_devices up dt t f s" and "sorted (t # clock_readings op)"
  shows "device_reply up op s = device_promised op f"
proof (cases op)
  case (OpGetDevice t0 t1 d)
  with assms(2) GetDeviceCode_refines(1) [OF assms(1), of t0 t1 d] show ?thesis by simp
next
  case (OpConsumeDevice t' d)
  with assms ConsumeDeviceCode_refines(1) [OF holds_devices_later [OF assms(1), of t']] show ?thesis by simp
qed simp_all

interpretation device_spec: timed_refinement "grant_step up" "device_reply up" "device_promise_step up dt"
  device_promised clock_readings "new_codes up" "holds_devices up dt"
  for up :: "string \<Rightarrow> string" and dt :: duration
  by unfold_locales (rule holds_devices_later holds_devices_step holds_devices_reply, assumption+)+

section \<open>Properties\<close>

text \<open>C13: The device codes refine their specification: when every new device code and user code is fresh
  and the clock does not run backwards, the store answers every sequence of calls, those on codes
  and refresh tokens in between included, as a map of pending devices does from which only a
  redemption removes and in which a user code names the one device that shows it.\<close>

theorem device_store_refines_promises:
  assumes "sorted (concat (map clock_readings ops))"
    and "permitted (new_codes up) (device_promise_step up (deviceTTL (NewStore ct rt dts))) ops (\<lambda>_. None)"
  shows "answers (device_reply up) (grant_step up) ops (NewStore ct rt dts) =
    answers device_promised (device_promise_step up (deviceTTL (NewStore ct rt dts))) ops (\<lambda>_. None)"
proof (rule device_spec.refines [OF _ assms])
  have "devices (NewStore ct rt dts) = []" "userCodes (NewStore ct rt dts) = []"
    by (simp_all add: NewStore_def Let_def)
  then show "holds_devices up (deviceTTL (NewStore ct rt dts)) t (\<lambda>_. None) (NewStore ct rt dts)" for t
    by (simp add: holds_devices_def wf_NewStore linked_def index_of_def known_def same_live_def)
qed

theorem device_store_refines_promises_witness:
  "answers (device_reply id) (grant_step id)
     [OpSaveDevice 0 0 ''dc_1'' ''2345-6789'' (sample_device\<lparr>dcUserCode := ''2345-6789''\<rparr>), OpConsumeDevice 1 ''dc_1'',
      OpAuthorizeDevice 2 ''23456789'' ''auth0|1'', OpConsumeDevice 3 ''dc_1'', OpGetDevice 4 4 ''dc_1'']
     (NewStore 1 1 [10]) =
   [NoDeviceAnswer, Device None, NoDeviceAnswer,
    Device (Some (sample_device\<lparr>dcUserCode := ''2345-6789'', dcExpiresAt := 10, dcInterval := 5, dcUserAuthorized := True, dcUserID := ''auth0|1''\<rparr>)),
    Device None]"
  by (subst device_store_refines_promises)
    (simp_all add: sample_device_def NewStore_def shows_code_def code_text_simps)

end
