(* ===== verification/Spec2Isabelle.thy ===== *)
theory Spec2Isabelle
  imports Management_Props Panics Token_Reply Audit_Flows Grant_Refinement Session_Refinement Device_Refinement
begin

text \<open>
  This is a model of fake-auth, a stand-in for the Auth0 service written in Go: a server that issues
  OAuth 2.0 and OpenID Connect tokens to test programs and keeps users, roles and clients in SQLite.
  All paths are relative to \<^verbatim>\<open>src/\<close>.

  \<^bold>\<open>The program.\<close> \<^verbatim>\<open>main.go\<close> opens the database, creates the issuer, the grant store, the session
  store, the rules runner and the client registry, and hands them to the struct \<^verbatim>\<open>Handlers\<close> of
  \<^verbatim>\<open>internal/handlers/handlers.go\<close>, whose \<^verbatim>\<open>ServeHTTP\<close> routes every request to one of its handlers.
  The handlers do all the work; they meet only in the stores. A browser logs in at \<^verbatim>\<open>/authorize\<close> or
  \<^verbatim>\<open>/login\<close>, gets a session cookie and an authorization code; a client turns the code, a password, a
  refresh token or a device code into tokens at \<^verbatim>\<open>/oauth/token\<close>; the management API under \<^verbatim>\<open>/api/v2\<close>
  edits the database.

  \<^bold>\<open>How a request is modelled.\<close> A handler is a function from a request, a response under
  construction and the state of the server to a response and a state. The state is the record
  \<open>world\<close> (theory Http): the grant store, the session store, the database, the replay cache, the
  counters, the audit trail, and counters of how often the clock, the UUID generator and the other
  sources of randomness have been asked. What lies outside the repository is a parameter, the
  record \<open>env\<close>: the readings of the clock in the order they are taken, UUIDs, random numbers, the JWT
  library, the JavaScript engine, bcrypt, the JSON and URL parsers, the SQL engine's \<^verbatim>\<open>LIKE\<close>. A
  request is one step; \<open>serve_all\<close> (Server) and the inductive relation \<open>run\<close> (Provenance) are
  sequences of them. Errors are values: \<open>Inl\<close> for a Go error, None for a nil pointer, the response
  body \<open>Panicked\<close> for a run-time panic.

  \<^bold>\<open>The theories.\<close>
  \<^item> Go_Base: strings, Go maps as association lists with distinct keys (\<open>wf_map\<close>), the sweep of expired
    entries, times, JSON values, and the collections of simplification rules the rest uses. Go_Int: 64-bit
    \<^verbatim>\<open>int\<close> with wrap-around. Url: \<^verbatim>\<open>net/url\<close>. Merging: merged maps.
  \<^item> Sha256, Base64, Pkce (\<^verbatim>\<open>internal/pkce/pkce.go\<close>): the hash over 32-bit words, its encoding, and the
    verification of PKCE challenges.
  \<^item> Clients (\<^verbatim>\<open>internal/clients/config.go\<close>), Audit_Events (\<^verbatim>\<open>internal/audit\<close>, \<^verbatim>\<open>internal/metrics\<close>), Rules
    (\<^verbatim>\<open>internal/rules/runner.go\<close>), Sessions (\<^verbatim>\<open>internal/sessions/sessions.go\<close>).
  \<^item> Grants (\<^verbatim>\<open>internal/grants/store.go\<close>) with Grants_Facts and Grants_Props: codes, refresh tokens and
    device codes; each method holds the mutex for its whole body and is one step, \<open>grant_step\<close>.
  \<^item> Token and Token_Props (\<^verbatim>\<open>internal/token/jwt.go\<close>): claims, validation, key set.
  \<^item> Sqlite, Unique_Rows, Sqlite_Props (\<^verbatim>\<open>internal/store\<close>): the tables as lists of rows, every SQL
    statement as a function on them, every method of the store with its error paths.
  \<^item> Http, Token_Endpoint, Authorize_Endpoint, Management, Server: the handlers, the routing, \<^verbatim>\<open>main\<close>.
  \<^item> Refinement with Grant_Refinement, Session_Refinement and Device_Refinement: each store against the
    map of what was promised to its clients. Db_Updates: rows read after an \<^verbatim>\<open>UPDATE\<close>.
  \<^item> Effects: what a request can do to the state. Server_Props, Token_Flows, Device_Flow,
    Authorize_Flows, Provenance, Login_Pages, Management_Flows, Management_Props: the properties of
    handlers, flows and runs. Frames: the handlers against invariants of the replay cache, the audit
    log and the counters; Token_Reply: the type of what the token endpoint answers; Audit_Flows: what
    is recorded. Panics: which requests reach a run-time panic. They go through all handlers with one
    rule per construct (\<open>frame_rules\<close>, \<open>typed_rules\<close>, \<open>calm_rules\<close>).

  \<^bold>\<open>The contracts.\<close>
  \<^item> \<open>one_time\<close> and \<open>one_time_ttl\<close> (One_Time): a grant that is redeemed once and within its lifetime;
    interpreted by codes, refresh tokens and device codes in Grants_Facts.
  \<^item> \<open>session_contract\<close> (Sessions): owner and expiry of a session under accesses and revocation;
    interpreted by the session store.
  \<^item> \<open>timed_refinement\<close> (Refinement): a store whose steps, at times that do not go back, answer as
    the steps of an abstract map; interpreted by codes with refresh tokens, by sessions and by
    device codes, each in its own theory.
  \<^item> \<open>unique_rows\<close> (Unique_Rows): a table with a conflict relation; interpreted by users, roles,
    permissions, clients, connections and links.
  \<^item> \<open>right_biased_merge\<close> (Merging): a merge of maps in which the second wins; interpreted by the merge
    of audit details.
  \<^item> \<open>store_effects\<close> and \<open>server_effects\<close> (Effects): an invariant of the stores that their operations keep
    is kept by every handler and by \<^verbatim>\<open>ServeHTTP\<close>. It is interpreted three times: by well-formedness of
    all stores, by equality of the database for requests that read, and in Provenance by the
    ownership of everything in the stores by users that have shown a password.
  \<^item> \<open>request_invariant\<close> (Frames): what the handlers do to everything but the stores; interpreted by
    the type of the cached replies (Token_Reply) and by the growth of log and counters (Audit_Flows).

  \<^bold>\<open>What is proved.\<close> Properties of single operations (redemption once and within the lifetime, sliding
  sessions, pages of a listing, seeding twice, rules in order up to the first that fails, PKCE against
  RFC 7636, claims and their range); three refinements: the store of codes and refresh tokens, the
  store of sessions and the two tables of the device flow answer as maps that are never swept;
  invariants of the running server (keys that stay unique in every table, so that emails and ids name
  the same users; no right without a password that a request of the run has shown); the type of every
  answer of the token endpoint; what each login and each token exchange adds to the audit log; the
  requests that panic, exactly; safety of the endpoints (no redirect to a URI that the client named by
  the request has not registered, no code without a user, checks of the code exchange, rotation of
  refresh tokens, device codes only when authorized, pages without injected markup, no way in for
  deleted users); and that the flows complete: code flow with PKCE, device flow, single sign-on,
  logout, sign-up followed by a login, creating a user and reading it back, patching a user, giving
  and taking roles. Where a flow ends in an access token, \<open>access_token_for\<close> (Token_Flows) says what
  is in it: the standard claims with the right user as the subject, the client and the audience, under
  nothing but what the rules and the configuration add.
  Some properties state what the code does where it is not what one would expect: the replay of a code
  exchange without checks, the redirect of a request that names no client, the overflow of the
  lifetime, the panic of the login form, the refresh tokens that survive their user, the block that
  blocks nothing, the tokens that are not logged.

  \<^bold>\<open>Hypotheses.\<close> Where a property needs the clock not to run backwards or to stay within a lifetime,
  signing to succeed, bcrypt to accept the hashes it makes, UUIDs not to repeat, or the JWT library to
  parse what it has signed (\<open>parses_signed\<close>), it says so; each such property is applied to a sample
  world in the theorem that follows it. Two assumptions are built into the parameters: the system's
  source of randomness does not fail under \<^verbatim>\<open>randomUserCode\<close>, which ignores that error, and \<^verbatim>\<open>ORDER BY\<close>
  leaves rows with the same \<^verbatim>\<open>created_at\<close> in an order that depends on the rows found only. No loop needs
  fuel: every loop of the program runs over a list or a table.

  \<^bold>\<open>Not modelled.\<close> The loop behind the listening socket and the log lines of \<^verbatim>\<open>main.go\<close>; the JSON line and prefix that the
  audit log writes (the trail of events is modelled) and its \<^verbatim>\<open>SetOutput\<close>, which only tests call; the
  interleaving of two requests inside one handler (each store operation is atomic under its mutex, a
  request is one step here); the interface \<^verbatim>\<open>UserStore\<close>, which nothing uses; tests and build files.
\<close>

end
